(* ===== verification/Base.thy ===== *)
theory Base
  imports Main "HOL-Library.Word" "HOL-Library.Char_ord" "HOL-Library.List_Lexorder"
    "HOL-Library.Code_Target_Numeral"
begin

text \<open>
  The prelude. A Rust byte slice, and the UTF-8 bytes of a Rust \<open>str\<close>, are a HOL
  \<open>string\<close>: its characters are bytes. The functions of the standard library the program
  uses on them are written out here over bytes (\<open>trim\<close> and \<open>is_whitespace\<close> with the
  Unicode white space encoded in UTF-8, \<open>from_utf8\<close> with the well-formed byte sequences of the
  Unicode standard, \<open>parse\<close> with the optional leading plus it accepts). Errors are the
  constructors of \<open>CoreError\<close> in crates/core/src/error.rs, and a fallible function returns
  \<open>core_error + 'a\<close>.
\<close>

named_theorems byte_defs \<open>definitions of the byte classes\<close>
named_theorems str_defs \<open>definitions of the string operations\<close>

section \<open>Errors\<close>

datatype core_error =
    WrongPassword
  | VaultExists string
  | VaultNotFound string
  | VaultLocked
  | ProjectLocked string
  | SessionMissing
  | SessionExpired
  | SessionInvalid
  | NotFound (nf_kind: string) (nf_ident: string)
  | Ambiguous (am_kind: string) (am_ident: string)
  | AlreadyExists (ae_kind: string) (ae_ident: string)
  | HasLinkedReferences nat
  | InvalidLink string
  | InvalidInput string
  | Crypto (cr_context: string)
  | Busy
  | StateConflict (sc_kind: string) (sc_ident: string)
  | BackupInvalid string
  | VaultCorrupted string
  | SchemaTooNew (tn_found: int) (tn_supported: int)
  | SchemaNotCurrent (nc_found: int) (nc_supported: int)
  | Unsupported (un_provider: string) (un_capability: string) (un_hint: string)
  | ProviderErr string
  | ProviderAuth (pa_provider: string) (pa_detail: string)
  | ProviderRateLimited (rl_provider: string) (rl_retry_after_secs: "nat option")
  | NetworkErr string
  | Kdf
  | DbErr string
  | IoErr string
  | SerdeErr string

type_synonym 'a res = "core_error + 'a"

fun error_code :: "core_error \<Rightarrow> string" where
  "error_code WrongPassword = ''wrong_password''"
| "error_code (VaultExists _) = ''vault_exists''"
| "error_code (VaultNotFound _) = ''vault_not_found''"
| "error_code VaultLocked = ''vault_locked''"
| "error_code (ProjectLocked _) = ''project_locked''"
| "error_code SessionMissing = ''session_missing''"
| "error_code SessionExpired = ''session_expired''"
| "error_code SessionInvalid = ''session_invalid''"
| "error_code (NotFound _ _) = ''not_found''"
| "error_code (Ambiguous _ _) = ''ambiguous''"
| "error_code (AlreadyExists _ _) = ''already_exists''"
| "error_code (HasLinkedReferences _) = ''has_linked_references''"
| "error_code (InvalidLink _) = ''invalid_link''"
| "error_code (InvalidInput _) = ''invalid_input''"
| "error_code (Crypto _) = ''crypto_error''"
| "error_code Busy = ''vault_busy''"
| "error_code (StateConflict _ _) = ''state_conflict''"
| "error_code (BackupInvalid _) = ''backup_invalid''"
| "error_code (VaultCorrupted _) = ''vault_corrupted''"
| "error_code (SchemaTooNew _ _) = ''schema_too_new''"
| "error_code (SchemaNotCurrent _ _) = ''schema_not_current''"
| "error_code (Unsupported _ _ _) = ''unsupported''"
| "error_code (ProviderErr _) = ''provider_error''"
| "error_code (ProviderAuth _ _) = ''provider_auth_error''"
| "error_code (ProviderRateLimited _ _) = ''provider_rate_limited''"
| "error_code (NetworkErr _) = ''network_error''"
| "error_code Kdf = ''kdf_error''"
| "error_code (DbErr _) = ''db_error''"
| "error_code (IoErr _) = ''io_error''"
| "error_code (SerdeErr _) = ''serde_error''"

section \<open>Bytes\<close>

definition byte :: "char \<Rightarrow> nat" where
  [byte_defs]: "byte c = of_char c"

definition is_ascii_digit :: "char \<Rightarrow> bool" where
  [byte_defs]: "is_ascii_digit c \<longleftrightarrow> 48 \<le> byte c \<and> byte c \<le> 57"

definition is_ascii_lowercase :: "char \<Rightarrow> bool" where
  [byte_defs]: "is_ascii_lowercase c \<longleftrightarrow> 97 \<le> byte c \<and> byte c \<le> 122"

definition is_ascii_uppercase :: "char \<Rightarrow> bool" where
  [byte_defs]: "is_ascii_uppercase c \<longleftrightarrow> 65 \<le> byte c \<and> byte c \<le> 90"

definition is_ascii_alphabetic :: "char \<Rightarrow> bool" where
  [byte_defs]: "is_ascii_alphabetic c \<longleftrightarrow> is_ascii_lowercase c \<or> is_ascii_uppercase c"

definition is_ascii_alphanumeric :: "char \<Rightarrow> bool" where
  [byte_defs]: "is_ascii_alphanumeric c \<longleftrightarrow> is_ascii_alphabetic c \<or> is_ascii_digit c"

definition is_ascii_hexdigit :: "char \<Rightarrow> bool" where
  [byte_defs]: "is_ascii_hexdigit c \<longleftrightarrow>
     is_ascii_digit c \<or> (97 \<le> byte c \<and> byte c \<le> 102) \<or> (65 \<le> byte c \<and> byte c \<le> 70)"

text \<open>\<open>u8::is_ascii_whitespace\<close>: space, tab, line feed, form feed, carriage return.\<close>

definition is_ascii_whitespace :: "char \<Rightarrow> bool" where
  [byte_defs]: "is_ascii_whitespace c \<longleftrightarrow> byte c \<in> {9, 10, 12, 13, 32}"

definition to_ascii_lower_char :: "char \<Rightarrow> char" where
  [byte_defs]: "to_ascii_lower_char c =
     (if is_ascii_uppercase c then char_of (byte c + 32) else c)"

definition to_ascii_lowercase :: "string \<Rightarrow> string" where
  [str_defs]: "to_ascii_lowercase s = map to_ascii_lower_char s"

definition eq_ignore_ascii_case :: "string \<Rightarrow> string \<Rightarrow> bool" where
  [str_defs]: "eq_ignore_ascii_case a b \<longleftrightarrow> to_ascii_lowercase a = to_ascii_lowercase b"

text \<open>The control and separator bytes that are awkward to write in a literal.\<close>

abbreviation (input) chr_tab :: char where "chr_tab \<equiv> CHR 0x09"
abbreviation (input) chr_lf :: char where "chr_lf \<equiv> CHR 0x0A"
abbreviation (input) chr_cr :: char where "chr_cr \<equiv> CHR 0x0D"
abbreviation (input) chr_quote :: char where "chr_quote \<equiv> CHR 0x22"
abbreviation (input) chr_apos :: char where "chr_apos \<equiv> CHR 0x27"
abbreviation (input) chr_backslash :: char where "chr_backslash \<equiv> CHR 0x5C"
abbreviation (input) crlf :: string where "crlf \<equiv> [CHR 0x0D, CHR 0x0A]"

section \<open>Searching and splitting\<close>

definition starts_with :: "string \<Rightarrow> string \<Rightarrow> bool" where
  [str_defs]: "starts_with p s \<longleftrightarrow> take (length p) s = p"

definition ends_with :: "string \<Rightarrow> string \<Rightarrow> bool" where
  [str_defs]: "ends_with p s \<longleftrightarrow> length p \<le> length s \<and> drop (length s - length p) s = p"

definition strip_prefix :: "string \<Rightarrow> string \<Rightarrow> string option" where
  [str_defs]: "strip_prefix p s = (if starts_with p s then Some (drop (length p) s) else None)"

definition strip_suffix :: "string \<Rightarrow> string \<Rightarrow> string option" where
  [str_defs]: "strip_suffix p s =
     (if ends_with p s then Some (take (length s - length p) s) else None)"

fun find_byte :: "(char \<Rightarrow> bool) \<Rightarrow> string \<Rightarrow> nat option" where
  "find_byte P [] = None"
| "find_byte P (c # s) = (if P c then Some 0 else map_option Suc (find_byte P s))"

fun contains_str :: "string \<Rightarrow> string \<Rightarrow> bool" where
  "contains_str needle [] = (needle = [])"
| "contains_str needle (c # s) = (starts_with needle (c # s) \<or> contains_str needle s)"

text \<open>\<open>str::split\<close> at every byte that satisfies the predicate: never empty.\<close>

fun split_by :: "(char \<Rightarrow> bool) \<Rightarrow> string \<Rightarrow> string list" where
  "split_by P [] = [[]]"
| "split_by P (c # s) =
     (if P c then [] # split_by P s
      else (case split_by P s of [] \<Rightarrow> [[c]] | w # ws \<Rightarrow> (c # w) # ws))"

abbreviation split_on :: "char \<Rightarrow> string \<Rightarrow> string list" where
  "split_on d \<equiv> split_by (\<lambda>c. c = d)"

fun split_once :: "char \<Rightarrow> string \<Rightarrow> (string \<times> string) option" where
  "split_once d [] = None"
| "split_once d (c # s) =
     (if c = d then Some ([], s)
      else (case split_once d s of None \<Rightarrow> None | Some (a, b) \<Rightarrow> Some (c # a, b)))"

fun rsplit_once :: "char \<Rightarrow> string \<Rightarrow> (string \<times> string) option" where
  "rsplit_once d [] = None"
| "rsplit_once d (c # s) =
     (case rsplit_once d s of
        Some (a, b) \<Rightarrow> Some (c # a, b)
      | None \<Rightarrow> if c = d then Some ([], s) else None)"

fun join :: "string \<Rightarrow> string list \<Rightarrow> string" where
  "join sep [] = []"
| "join sep [w] = w"
| "join sep (w # v # ws) = w @ sep @ join sep (v # ws)"

text \<open>A format argument between apostrophes.\<close>

abbreviation (input) quoted :: "string \<Rightarrow> string" where
  "quoted s \<equiv> [CHR 0x27] @ s @ [CHR 0x27]"

text \<open>A hash map as an association list with at most one entry for a key.\<close>

definition put_assoc :: "'k \<Rightarrow> 'v \<Rightarrow> ('k \<times> 'v) list \<Rightarrow> ('k \<times> 'v) list" where
  "put_assoc k v m = (k, v) # filter (\<lambda>p. fst p \<noteq> k) m"

lemma map_of_filter_other: "k' \<noteq> k \<Longrightarrow> map_of (filter (\<lambda>p. fst p \<noteq> k) m) k' = map_of m k'"
  by (induction m) auto

lemma map_of_put_assoc [simp]: "map_of (put_assoc k v m) = (map_of m)(k \<mapsto> v)"
  by (auto simp: put_assoc_def map_of_filter_other fun_eq_iff)

section \<open>Unicode white space and UTF-8\<close>

text \<open>
  The length of the white-space character a byte string starts with, 0 if it starts with
  none. \<open>char::is_whitespace\<close> holds for U+0009..U+000D, U+0020, U+0085, U+00A0, U+1680,
  U+2000..U+200A, U+2028, U+2029, U+202F, U+205F and U+3000.
\<close>

definition ws2 :: "nat \<Rightarrow> nat \<Rightarrow> bool" where
  [byte_defs]: "ws2 a b \<longleftrightarrow> a = 0xC2 \<and> (b = 0x85 \<or> b = 0xA0)"

definition ws3 :: "nat \<Rightarrow> nat \<Rightarrow> nat \<Rightarrow> bool" where
  [byte_defs]: "ws3 a b c \<longleftrightarrow>
     (a = 0xE1 \<and> b = 0x9A \<and> c = 0x80)
   \<or> (a = 0xE2 \<and> b = 0x80 \<and> ((0x80 \<le> c \<and> c \<le> 0x8A) \<or> c = 0xA8 \<or> c = 0xA9 \<or> c = 0xAF))
   \<or> (a = 0xE2 \<and> b = 0x81 \<and> c = 0x9F)
   \<or> (a = 0xE3 \<and> b = 0x80 \<and> c = 0x80)"

definition ws1 :: "nat \<Rightarrow> bool" where
  [byte_defs]: "ws1 a \<longleftrightarrow> (9 \<le> a \<and> a \<le> 13) \<or> a = 32"

fun ws_len :: "string \<Rightarrow> nat" where
  "ws_len [] = 0"
| "ws_len (a # s) =
     (if ws1 (byte a) then 1
      else (case s of
          [] \<Rightarrow> 0
        | b # t \<Rightarrow> if ws2 (byte a) (byte b) then 2
            else (case t of [] \<Rightarrow> 0
               | c # _ \<Rightarrow> if ws3 (byte a) (byte b) (byte c) then 3 else 0)))"

text \<open>The same at the end of the string, on the reversed bytes.\<close>

fun ws_len_rev :: "string \<Rightarrow> nat" where
  "ws_len_rev [] = 0"
| "ws_len_rev (a # s) =
     (if ws1 (byte a) then 1
      else (case s of
          [] \<Rightarrow> 0
        | b # t \<Rightarrow> if ws2 (byte b) (byte a) then 2
            else (case t of [] \<Rightarrow> 0
               | c # _ \<Rightarrow> if ws3 (byte c) (byte b) (byte a) then 3 else 0)))"

lemma ws_len_bound: "ws_len s \<le> length s"
  by (cases s) (auto split: list.splits)

lemma ws_len_rev_bound: "ws_len_rev s \<le> length s"
  by (cases s) (auto split: list.splits)

function trim_start :: "string \<Rightarrow> string" where
  "trim_start s = (if ws_len s = 0 then s else trim_start (drop (ws_len s) s))"
  by pat_completeness auto
termination
proof (relation "measure length")
  fix s :: string
  assume "ws_len s \<noteq> 0"
  with ws_len_bound [of s] show "(drop (ws_len s) s, s) \<in> measure length" by simp
qed simp

function trim_rev :: "string \<Rightarrow> string" where
  "trim_rev s = (if ws_len_rev s = 0 then s else trim_rev (drop (ws_len_rev s) s))"
  by pat_completeness auto
termination
proof (relation "measure length")
  fix s :: string
  assume "ws_len_rev s \<noteq> 0"
  with ws_len_rev_bound [of s] show "(drop (ws_len_rev s) s, s) \<in> measure length" by simp
qed simp

declare trim_start.simps [simp del] trim_rev.simps [simp del]

definition trim_end :: "string \<Rightarrow> string" where
  [str_defs]: "trim_end s = rev (trim_rev (rev s))"

definition trim :: "string \<Rightarrow> string" where
  [str_defs]: "trim s = trim_end (trim_start s)"

definition cont_byte :: "nat \<Rightarrow> bool" where
  [byte_defs]: "cont_byte b \<longleftrightarrow> 0x80 \<le> b \<and> b \<le> 0xBF"

text \<open>\<open>std::str::from_utf8\<close> succeeds exactly on well-formed UTF-8.\<close>

fun valid_utf8 :: "string \<Rightarrow> bool" where
  "valid_utf8 [] = True"
| "valid_utf8 (a # s) =
     (if byte a < 0x80 then valid_utf8 s
      else if 0xC2 \<le> byte a \<and> byte a \<le> 0xDF then
        (case s of b # t \<Rightarrow> cont_byte (byte b) \<and> valid_utf8 t | [] \<Rightarrow> False)
      else if 0xE0 \<le> byte a \<and> byte a \<le> 0xEF then
        (case s of b # c # t \<Rightarrow>
            cont_byte (byte b) \<and> cont_byte (byte c)
          \<and> (byte a = 0xE0 \<longrightarrow> 0xA0 \<le> byte b) \<and> (byte a = 0xED \<longrightarrow> byte b \<le> 0x9F)
          \<and> valid_utf8 t
         | _ \<Rightarrow> False)
      else if 0xF0 \<le> byte a \<and> byte a \<le> 0xF4 then
        (case s of b # c # d # t \<Rightarrow>
            cont_byte (byte b) \<and> cont_byte (byte c) \<and> cont_byte (byte d)
          \<and> (byte a = 0xF0 \<longrightarrow> 0x90 \<le> byte b) \<and> (byte a = 0xF4 \<longrightarrow> byte b \<le> 0x8F)
          \<and> valid_utf8 t
         | _ \<Rightarrow> False)
      else False)"

definition from_utf8 :: "string \<Rightarrow> string option" where
  [str_defs]: "from_utf8 s = (if valid_utf8 s then Some s else None)"

section \<open>Numbers as text\<close>

definition digit_char :: "nat \<Rightarrow> char" where
  [byte_defs]: "digit_char d = char_of (48 + d)"

fun dec_of_nat :: "nat \<Rightarrow> string" where
  "dec_of_nat n = (if n < 10 then [digit_char n] else dec_of_nat (n div 10) @ [digit_char (n mod 10)])"

declare dec_of_nat.simps [simp del]

definition dec_of_int :: "int \<Rightarrow> string" where
  [str_defs]: "dec_of_int i = (if i < 0 then CHR ''-'' # dec_of_nat (nat (- i)) else dec_of_nat (nat i))"

text \<open>The value of one digit in a radix up to 16 (\<open>char::to_digit\<close>).\<close>

definition digit_value :: "char \<Rightarrow> nat option" where
  [byte_defs]: "digit_value c =
     (if is_ascii_digit c then Some (byte c - 48)
      else if 97 \<le> byte c \<and> byte c \<le> 102 then Some (byte c - 87)
      else if 65 \<le> byte c \<and> byte c \<le> 70 then Some (byte c - 55)
      else None)"

definition to_digit :: "nat \<Rightarrow> char \<Rightarrow> nat option" where
  [byte_defs]: "to_digit radix c =
     (case digit_value c of None \<Rightarrow> None | Some d \<Rightarrow> if d < radix then Some d else None)"

fun digits_value :: "nat \<Rightarrow> nat \<Rightarrow> string \<Rightarrow> nat option" where
  "digits_value radix acc [] = Some acc"
| "digits_value radix acc (c # s) =
     (case to_digit radix c of None \<Rightarrow> None | Some d \<Rightarrow> digits_value radix (acc * radix + d) s)"

text \<open>
  \<open>from_str_radix\<close> and \<open>parse\<close> of an unsigned type of the given width: an optional
  leading plus, at least one digit, only digits of the radix, and no overflow.
\<close>

definition parse_unsigned :: "nat \<Rightarrow> nat \<Rightarrow> string \<Rightarrow> nat option" where
  [str_defs]: "parse_unsigned width radix s =
     (let ds = (case s of c # t \<Rightarrow> if c = CHR ''+'' then t else s | [] \<Rightarrow> []) in
      if ds = [] then None
      else (case digits_value radix 0 ds of
              None \<Rightarrow> None
            | Some v \<Rightarrow> if v < 2 ^ width then Some v else None))"

text \<open>The display text of an error; the em dash of the source is its three UTF-8 bytes.\<close>

abbreviation (input) em_dash :: string where "em_dash \<equiv> [CHR 0xE2, CHR 0x80, CHR 0x94]"

fun display_error :: "core_error \<Rightarrow> string" where
  "display_error WrongPassword = ''incorrect password''"
| "display_error (VaultExists p) = ''a vault already exists at '' @ p"
| "display_error (VaultNotFound p) = ''no vault found at '' @ p @
     '' (create one with `tethra init` or the desktop app)''"
| "display_error VaultLocked = ''the vault is locked; unlock it first''"
| "display_error (ProjectLocked p) = ''project '' @ quoted p @ '' is password-locked; unlock it first''"
| "display_error SessionMissing = ''no active session; run `tethra unlock` first''"
| "display_error SessionExpired = ''the session has expired (auto-lock); run `tethra unlock` again''"
| "display_error SessionInvalid = ''the session token is not valid for the current session''"
| "display_error (NotFound k i) = k @ '' '' @ quoted i @ '' was not found''"
| "display_error (Ambiguous k i) = k @ '' '' @ quoted i @ '' is ambiguous; use its full id''"
| "display_error (AlreadyExists k i) = k @ '' named '' @ quoted i @ '' already exists''"
| "display_error (HasLinkedReferences n) = ''credential is referenced by '' @ dec_of_nat n @
     '' linked credential(s); remove the references first''"
| "display_error (InvalidLink m) = ''cannot create reference: '' @ m"
| "display_error (InvalidInput m) = ''invalid input: '' @ m"
| "display_error (Crypto c) = ''decryption failed for '' @ c @
     '': wrong key/password, corrupted data, or tampering''"
| "display_error Busy = ''another Tethra process is writing to the vault; try again''"
| "display_error (StateConflict k i) = k @ '' '' @ quoted i @
     '' changed while this operation was deciding what to write; nothing was overwritten '' @ em_dash @
     '' re-read it and try again''"
| "display_error (BackupInvalid m) = ''backup file is not valid: '' @ m"
| "display_error (VaultCorrupted m) = ''the vault database is damaged: '' @ m"
| "display_error (SchemaTooNew f s) = ''this vault uses database schema v'' @ dec_of_int f @
     '', but this build supports up to v'' @ dec_of_int s @ '' '' @ em_dash @
     '' it was created or upgraded by a newer version of Tethra; upgrade this installation instead of opening the vault with an older build''"
| "display_error (SchemaNotCurrent f s) = ''the vault database is at schema v'' @ dec_of_int f @
     '', but this component requires v'' @ dec_of_int s @
     ''; unlock the vault with the app or CLI once to apply pending migrations''"
| "display_error (Unsupported p c h) = p @ '' does not support '' @ quoted c @ '' this way: '' @ h"
| "display_error (ProviderErr m) = ''provider request failed: '' @ m"
| "display_error (ProviderAuth p d) = p @ '' rejected the credential ('' @ d @
     ''); reconnect with a valid admin key''"
| "display_error (ProviderRateLimited p _) = p @ '' is rate limiting requests; try again later''"
| "display_error (NetworkErr m) = ''network unavailable: '' @ m"
| "display_error Kdf = ''key derivation failed (unsupported KDF parameters)''"
| "display_error (DbErr m) = ''database error: '' @ m"
| "display_error (IoErr m) = ''i/o error: '' @ m"
| "display_error (SerdeErr m) = ''serialization error: '' @ m"

section \<open>Facts the components share\<close>

lemma split_once_first: "d \<notin> set a \<Longrightarrow> split_once d (a @ d # b) = Some (a, b)"
  by (induction a) auto

lemma strip_prefix_Some: "strip_prefix p s = Some r \<longleftrightarrow> s = p @ r"
proof
  assume "strip_prefix p s = Some r"
  then have "take (length p) s = p" "r = drop (length p) s"
    by (auto simp: strip_prefix_def starts_with_def split: if_splits)
  then show "s = p @ r" by (metis append_take_drop_id)
qed (simp add: strip_prefix_def starts_with_def)

lemma strip_prefix_append [simp]: "strip_prefix p (p @ r) = Some r"
  by (simp add: strip_prefix_Some)

lemma starts_with_first: "starts_with [c] s \<Longrightarrow> c \<in> set s"
  by (cases s) (auto simp: starts_with_def)

lemma rsplit_once_free: "d \<notin> set s \<Longrightarrow> rsplit_once d s = None"
  by (induction s) auto

lemma byte_less_256 [simp]: "byte c < 256"
  by (simp add: byte_def nat_of_char_less_256)

lemma byte_char_of [simp]: "n < 256 \<Longrightarrow> byte (char_of n) = n"
  by (simp add: byte_def)

lemma char_of_byte [simp]: "char_of (byte c) = c"
  by (simp add: byte_def)

lemma byte_inject [simp]: "byte a = byte b \<longleftrightarrow> a = b"
  by (metis char_of_byte)

lemma lower_char_idem [simp]: "to_ascii_lower_char (to_ascii_lower_char c) = to_ascii_lower_char c"
  by (auto simp: to_ascii_lower_char_def is_ascii_uppercase_def)

lemma lower_idem [simp]: "to_ascii_lowercase (to_ascii_lowercase s) = to_ascii_lowercase s"
  by (simp add: to_ascii_lowercase_def)

lemma lower_length [simp]: "length (to_ascii_lowercase s) = length s"
  by (simp add: to_ascii_lowercase_def)

lemma lower_append [simp]:
  "to_ascii_lowercase (a @ b) = to_ascii_lowercase a @ to_ascii_lowercase b"
  by (simp add: to_ascii_lowercase_def)

lemma trim_start_stop [simp]: "ws_len s = 0 \<Longrightarrow> trim_start s = s"
  by (simp add: trim_start.simps [of s])

lemma trim_start_step: "ws_len s = Suc n \<Longrightarrow> trim_start s = trim_start (drop (Suc n) s)"
  by (simp add: trim_start.simps [of s])

lemma trim_rev_stop [simp]: "ws_len_rev s = 0 \<Longrightarrow> trim_rev s = s"
  by (simp add: trim_rev.simps [of s])

lemma trim_rev_step: "ws_len_rev s = Suc n \<Longrightarrow> trim_rev s = trim_rev (drop (Suc n) s)"
  by (simp add: trim_rev.simps [of s])

lemma trim_Nil [simp]: "trim [] = []"
  by (simp add: trim_def trim_end_def)

text \<open>An ASCII byte that is no white space stops both trims.\<close>

definition solid :: "char \<Rightarrow> bool" where
  [byte_defs]: "solid c \<longleftrightarrow> byte c < 0x80 \<and> \<not> ws1 (byte c)"

lemma ws_len_solid [simp]: "solid c \<Longrightarrow> ws_len (c # s) = 0"
  by (auto simp: solid_def ws2_def ws3_def split: list.splits)

lemma ws_len_rev_solid [simp]: "solid c \<Longrightarrow> ws_len_rev (c # s) = 0"
  by (auto simp: solid_def ws2_def ws3_def split: list.splits)

lemma ws_len_blank [simp]: "ws1 (byte c) \<Longrightarrow> ws_len (c # s) = Suc 0"
  by simp

lemma ws_len_rev_blank [simp]: "ws1 (byte c) \<Longrightarrow> ws_len_rev (c # s) = Suc 0"
  by simp

declare ws_len.simps(2) [simp del] ws_len_rev.simps(2) [simp del]

definition blank :: "string \<Rightarrow> bool" where
  [str_defs]: "blank w \<longleftrightarrow> list_all (\<lambda>c. ws1 (byte c)) w"

lemma trim_start_blank: "blank w \<Longrightarrow> trim_start (w @ s) = trim_start s"
  by (induction w) (simp_all add: blank_def trim_start_step)

lemma trim_rev_blank: "blank w \<Longrightarrow> trim_rev (w @ s) = trim_rev s"
  by (induction w) (simp_all add: blank_def trim_rev_step)

lemma trim_solid:
  assumes "s \<noteq> []" and "solid (hd s)" and "solid (last s)"
  shows "trim s = s"
proof -
  have "ws_len s = 0" using assms(1,2) by (cases s) auto
  moreover have "ws_len_rev (rev s) = 0" using assms(1,3) by (cases s rule: rev_cases) auto
  ultimately show ?thesis by (simp add: trim_def trim_end_def)
qed

lemma trim_blank_solid:
  assumes "blank w" and "blank w'" and "s \<noteq> []" and "solid (hd s)" and "solid (last s)"
  shows "trim (w @ s @ w') = s"
proof -
  have "ws_len (s @ w') = 0" using assms(3,4) by (cases s) auto
  then have "trim_start (w @ s @ w') = s @ w'" by (simp add: trim_start_blank assms(1))
  moreover have "ws_len_rev (rev s) = 0" using assms(3,5) by (cases s rule: rev_cases) auto
  moreover have "blank (rev w')" using assms(2) by (auto simp: blank_def list_all_iff)
  ultimately show ?thesis by (simp add: trim_def trim_end_def trim_rev_blank)
qed

lemma trim_all_solid: "list_all solid s \<Longrightarrow> trim s = s"
  by (cases "s = []") (auto intro!: trim_solid simp: list_all_iff)

lemma digit_char_digit: "d < 10 \<Longrightarrow> is_ascii_digit (digit_char d)"
  by (simp add: digit_char_def is_ascii_digit_def)

lemma digit_value_digit_char: "d < 10 \<Longrightarrow> digit_value (digit_char d) = Some d"
  by (simp add: digit_value_def digit_char_digit) (simp add: digit_char_def)

lemma digit_solid: "is_ascii_digit c \<Longrightarrow> solid c"
  by (simp add: is_ascii_digit_def solid_def ws1_def)

lemma dec_of_nat_not_Nil [simp]: "dec_of_nat n \<noteq> []"
  by (subst dec_of_nat.simps) simp

lemma dec_of_nat_digits: "list_all is_ascii_digit (dec_of_nat n)"
proof (induction n rule: dec_of_nat.induct)
  case (1 n)
  then show ?case
    by (cases "n < 10") (simp_all add: dec_of_nat.simps [of n] digit_char_digit)
qed

lemma digits_value_append:
  "digits_value r acc (s @ t) =
     (case digits_value r acc s of None \<Rightarrow> None | Some v \<Rightarrow> digits_value r v t)"
  by (induction r acc s rule: digits_value.induct) (auto split: option.splits)

lemma digits_value_dec: "digits_value 10 0 (dec_of_nat n) = Some n"
proof (induction n rule: dec_of_nat.induct)
  case (1 n)
  show ?case
  proof (cases "n < 10")
    case True
    then show ?thesis
      by (simp add: dec_of_nat.simps [of n] to_digit_def digit_value_digit_char)
  next
    case False
    with 1 show ?thesis
      by (simp add: dec_of_nat.simps [of n] digits_value_append to_digit_def digit_value_digit_char)
  qed
qed

lemma dec_of_nat_Cons: "dec_of_nat n = c # s \<Longrightarrow> is_ascii_digit c"
  using dec_of_nat_digits [of n] by simp

lemma digit_not_plus: "is_ascii_digit c \<Longrightarrow> c \<noteq> CHR ''+''"
  by (auto simp: is_ascii_digit_def byte_def)

lemma parse_unsigned_dec: "n < 2 ^ w \<Longrightarrow> parse_unsigned w 10 (dec_of_nat n) = Some n"
  using digits_value_dec [of n] dec_of_nat_Cons [of n]
  by (auto simp: parse_unsigned_def Let_def split: list.splits dest!: digit_not_plus)

lemma trim_dec_of_nat [simp]: "trim (dec_of_nat n) = dec_of_nat n"
  using dec_of_nat_digits [of n] by (intro trim_all_solid) (auto simp: list_all_iff digit_solid)

lemma parse_unsigned_bound: "parse_unsigned w r s = Some n \<Longrightarrow> n < 2 ^ w"
  by (auto simp: parse_unsigned_def Let_def split: if_splits option.splits list.splits)

lemma ascii_valid_utf8: "list_all (\<lambda>c. byte c < 0x80) s \<Longrightarrow> valid_utf8 s"
  by (induction s) auto

end
