(* ===== verification/Stream_Model.thy ===== *)
theory Stream_Model
  imports Base
begin

text \<open>
  The environment of the I/O loops: \<open>R: Read\<close> of the head readers and the body relays.
  A source is the finite list of what its successive reads meet (bytes, a timed-out read, a
  failure) followed by end of file; a read of at most \<open>want\<close> bytes takes from the first
  event and leaves the rest for the next read, so one list stands for every way the transport
  may cut the same bytes into reads.
\<close>

datatype io_event = Data string | WouldBlock | Failed string

type_synonym source = "io_event list"

datatype read_result = ReadOk string | ReadBlock | ReadErr string

fun src_read :: "nat \<Rightarrow> source \<Rightarrow> read_result \<times> source" where
  "src_read want [] = (ReadOk [], [])"
| "src_read want (Data d # src) =
     (ReadOk (take want d), if length d \<le> want then src else Data (drop want d) # src)"
| "src_read want (WouldBlock # src) = (ReadBlock, src)"
| "src_read want (Failed e # src) = (ReadErr e, src)"

text \<open>What is left to read, in bytes and events: the measure of every read loop.\<close>

fun src_size :: "source \<Rightarrow> nat" where
  "src_size [] = 0"
| "src_size (Data d # src) = Suc (length d) + src_size src"
| "src_size (_ # src) = Suc (src_size src)"

text \<open>The bytes a source still delivers before its first failure or end of file.\<close>

fun src_bytes :: "source \<Rightarrow> string" where
  "src_bytes [] = []"
| "src_bytes (Data d # src) = (if d = [] then [] else d @ src_bytes src)"
| "src_bytes (WouldBlock # src) = []"
| "src_bytes (Failed e # src) = []"

text \<open>The same through timed-out reads, which a caller with a deadline retries.\<close>

fun src_stream :: "source \<Rightarrow> string" where
  "src_stream [] = []"
| "src_stream (Data d # src) = (if d = [] then [] else d @ src_stream src)"
| "src_stream (WouldBlock # src) = src_stream src"
| "src_stream (Failed e # src) = []"

text \<open>A source that never blocks or fails and never reports end of file early.\<close>

fun src_clean :: "source \<Rightarrow> bool" where
  "src_clean [] = True"
| "src_clean (Data d # src) = (d \<noteq> [] \<and> src_clean src)"
| "src_clean (_ # src) = False"

lemma src_read_length:
  "src_read want src = (ReadOk bs, src') \<Longrightarrow> length bs \<le> want"
  by (cases src rule: src_size.cases) auto

lemma src_read_size:
  "src_read want src = (ReadOk bs, src') \<Longrightarrow> bs \<noteq> [] \<Longrightarrow> src_size src' < src_size src"
  by (cases src rule: src_size.cases) (auto split: if_splits)

lemma src_read_block_size:
  "src_read want src = (ReadBlock, src') \<Longrightarrow> src_size src' < src_size src"
  by (cases src rule: src_size.cases) auto

lemma src_read_bytes:
  "src_read want src = (ReadOk bs, src') \<Longrightarrow> bs \<noteq> [] \<Longrightarrow> src_bytes src = bs @ src_bytes src'"
  by (cases src rule: src_size.cases) (auto split: if_splits)

lemma src_read_stream:
  "src_read want src = (ReadOk bs, src') \<Longrightarrow> bs \<noteq> [] \<Longrightarrow> src_stream src = bs @ src_stream src'"
  by (cases src rule: src_size.cases) (auto split: if_splits)

lemma src_read_block_stream:
  "src_read want src = (ReadBlock, src') \<Longrightarrow> src_stream src = src_stream src'"
  by (cases src rule: src_size.cases) auto

lemma src_read_clean:
  "src_clean src \<Longrightarrow> 0 < want \<Longrightarrow>
     \<exists>bs src'. src_read want src = (ReadOk bs, src') \<and> src_clean src'
       \<and> src_bytes src = bs @ src_bytes src' \<and> (bs = [] \<longleftrightarrow> src = [])"
  by (cases src rule: src_size.cases) auto

lemma src_clean_bytes_Nil: "src_clean src \<Longrightarrow> src_bytes src = [] \<longleftrightarrow> src = []"
  by (cases src rule: src_size.cases) auto

lemma src_read_empty_end:
  "src_read want src = (ReadOk [], src') \<Longrightarrow> 0 < want \<Longrightarrow> src_bytes src = []"
  by (cases src rule: src_size.cases) auto

end
