(* ===== verification/HttpHead.thy ===== *)
theory HttpHead
  imports Stream_Model
begin

text \<open>
  The gateway's message heads (crates/gateway/src/head.rs): the bounded read loop, the strict
  validation of raw bytes, tokens, targets and framing fields, and the regeneration of the
  upstream and client heads from the parsed fields. The third-party parser httparse is a
  parameter of the two readers, a function from the bytes read so far to its status.
\<close>

section \<open>Data\<close>

definition MAX_HEAD :: nat where "MAX_HEAD = 32 * 1024"
definition MAX_HEADERS :: nat where "MAX_HEADERS = 100"
definition MAX_TARGET :: nat where "MAX_TARGET = 8 * 1024"

datatype http_version = Http10 | Http11

datatype framing = FNone | FContentLength nat | FChunked | FUntilClose

record header_field =
  hf_name :: string
  hf_lower :: string
  hf_value :: string

definition value_str :: "header_field \<Rightarrow> string option" where
  "value_str h = from_utf8 (hf_value h)"

record request_head =
  rq_method :: string
  rq_target :: string
  rq_version :: http_version
  rq_headers :: "header_field list"
  rq_framing :: framing
  rq_client_wants_close :: bool
  rq_expects_continue :: bool
  rq_had_authorization :: bool

record response_head =
  rs_status :: nat
  rs_reason :: string
  rs_version :: http_version
  rs_headers :: "header_field list"
  rs_content_length :: "nat option"
  rs_chunked :: bool
  rs_upstream_wants_close :: bool

definition header :: "request_head \<Rightarrow> string \<Rightarrow> header_field option" where
  "header h lower_name = find (\<lambda>f. hf_lower f = lower_name) (rq_headers h)"

definition header_str :: "request_head \<Rightarrow> string \<Rightarrow> string option" where
  "header_str h lower_name = Option.bind (header h lower_name) value_str"

definition has_header :: "request_head \<Rightarrow> string \<Rightarrow> bool" where
  "has_header h lower_name \<longleftrightarrow> (\<exists>f \<in> set (rq_headers h). hf_lower f = lower_name)"

definition path_only :: "request_head \<Rightarrow> string" where
  "path_only h = hd (split_by (\<lambda>c. c = CHR ''?'' \<or> c = CHR ''#'') (rq_target h))"

definition query :: "request_head \<Rightarrow> string option" where
  "query h = map_option snd (split_once CHR ''?'' (rq_target h))"

definition response_header_str :: "response_head \<Rightarrow> string \<Rightarrow> string option" where
  "response_header_str h lower_name =
     Option.bind (find (\<lambda>f. hf_lower f = lower_name) (rs_headers h)) value_str"

text \<open>Response framing per RFC 9112 section 6.3, from validated fields.\<close>

definition response_framing :: "response_head \<Rightarrow> string \<Rightarrow> framing" where
  "response_framing h request_method =
     (if eq_ignore_ascii_case request_method ''HEAD''
         \<or> (100 \<le> rs_status h \<and> rs_status h < 200) \<or> rs_status h = 204 \<or> rs_status h = 304
      then FNone
      else if rs_chunked h then FChunked
      else (case rs_content_length h of Some n \<Rightarrow> FContentLength n | None \<Rightarrow> FUntilClose))"

section \<open>Validation\<close>

text \<open>Strict line endings: the first offence the scan over the raw bytes meets.\<close>

fun scan_line_endings :: "char option \<Rightarrow> string \<Rightarrow> string option" where
  "scan_line_endings prev [] = None"
| "scan_line_endings prev (b # s) =
     (if b = chr_lf \<and> prev \<noteq> Some chr_cr then Some ''bare LF''
      else if b = chr_cr \<and> (case s of [] \<Rightarrow> True | c # _ \<Rightarrow> c \<noteq> chr_lf) then Some ''bare CR''
      else if b = CHR 0x00 then Some ''NUL byte''
      else scan_line_endings (Some b) s)"

text \<open>Obsolete folding: a line that continues with a space or a tab.\<close>

fun has_folding :: "string \<Rightarrow> bool" where
  "has_folding (a # b # s) =
     (if a = chr_cr \<and> b = chr_lf then
        (case s of [] \<Rightarrow> False | c # _ \<Rightarrow> c = CHR '' '' \<or> c = chr_tab \<or> has_folding s)
      else has_folding (b # s))"
| "has_folding _ = False"

definition validate_raw_head :: "string \<Rightarrow> unit res" where
  "validate_raw_head raw =
     (case scan_line_endings None raw of
        Some what \<Rightarrow> Inl (InvalidInput (''malformed head: '' @ what))
      | None \<Rightarrow>
          if has_folding raw then Inl (InvalidInput ''malformed head: obsolete line folding'')
          else Inr ())"

definition SEPARATORS :: string where
  "SEPARATORS = ''()<>@,;:'' @ [chr_backslash, chr_quote] @ ''/[]?={} '' @ [chr_tab]"

definition token_byte :: "char \<Rightarrow> bool" where
  "token_byte b \<longleftrightarrow> 0x21 \<le> byte b \<and> byte b < 0x7F \<and> b \<notin> set SEPARATORS"

definition validate_token :: "string \<Rightarrow> string \<Rightarrow> unit res" where
  "validate_token s what =
     (if s = [] \<or> 256 < length s then Inl (InvalidInput (''invalid '' @ what))
      else if \<not> list_all token_byte s then Inl (InvalidInput (''invalid '' @ what))
      else Inr ())"

definition visible_ascii :: "char \<Rightarrow> bool" where
  "visible_ascii b \<longleftrightarrow> 0x21 \<le> byte b \<and> byte b < 0x7F"

definition validate_target_charset :: "string \<Rightarrow> unit res" where
  "validate_target_charset target =
     (if target = [] then Inl (InvalidInput ''empty request target'')
      else if \<not> list_all visible_ascii target
        then Inl (InvalidInput ''request target contains an invalid character'')
      else Inr ())"

definition injects_line :: "char \<Rightarrow> bool" where
  "injects_line b \<longleftrightarrow> b = chr_cr \<or> b = chr_lf \<or> b = CHR 0x00"

fun collect_loop :: "(string \<times> string) list \<Rightarrow> header_field list res" where
  "collect_loop [] = Inr []"
| "collect_loop ((name, value) # hs) =
     (if name = [] then collect_loop hs
      else case validate_token name ''header name'' of
        Inl e \<Rightarrow> Inl e
      | Inr _ \<Rightarrow>
          if list_ex injects_line value
          then Inl (InvalidInput ''header value contains a control character'')
          else (case collect_loop hs of
                  Inl e \<Rightarrow> Inl e
                | Inr out \<Rightarrow>
                    Inr (\<lparr>hf_name = name, hf_lower = to_ascii_lowercase name, hf_value = value\<rparr>
                           # out)))"

definition collect_headers :: "(string \<times> string) list \<Rightarrow> header_field list res" where
  "collect_headers hs =
     (case collect_loop hs of
        Inl e \<Rightarrow> Inl e
      | Inr out \<Rightarrow> if MAX_HEADERS < length out then Inl (InvalidInput ''too many header fields'')
                    else Inr out)"

text \<open>
  The framing loop carries the Rust locals: the length found, whether a length field was
  seen, whether a transfer coding was seen.
\<close>

fun framing_loop ::
    "nat option \<Rightarrow> bool \<Rightarrow> bool \<Rightarrow> header_field list \<Rightarrow> (nat option \<times> unit option) res" where
  "framing_loop cl seen_cl chunked [] = Inr (cl, if chunked then Some () else None)"
| "framing_loop cl seen_cl chunked (f # fs) =
     (if hf_lower f = ''content-length'' then
        (if seen_cl then Inl (InvalidInput ''duplicate Content-Length'')
         else case value_str f of
           None \<Rightarrow> Inl (InvalidInput ''non-utf8 Content-Length'')
         | Some v0 \<Rightarrow>
             let v = trim v0 in
             if v = [] \<or> \<not> list_all is_ascii_digit v
             then Inl (InvalidInput ''invalid Content-Length'')
             else (case parse_unsigned 64 10 v of
                     None \<Rightarrow> Inl (InvalidInput ''invalid Content-Length'')
                   | Some n \<Rightarrow> framing_loop (Some n) True chunked fs))
      else if hf_lower f = ''transfer-encoding'' then
        (if chunked then Inl (InvalidInput ''multiple Transfer-Encoding fields'')
         else case value_str f of
           None \<Rightarrow> Inl (InvalidInput ''non-utf8 Transfer-Encoding'')
         | Some v \<Rightarrow>
             if \<not> eq_ignore_ascii_case (trim v) ''chunked''
             then Inl (InvalidInput ''unsupported Transfer-Encoding'')
             else framing_loop cl seen_cl True fs)
      else framing_loop cl seen_cl chunked fs)"

definition framing_headers :: "header_field list \<Rightarrow> (nat option \<times> unit option) res" where
  "framing_headers fs = framing_loop None False False fs"

definition validate_request_framing :: "header_field list \<Rightarrow> framing res" where
  "validate_request_framing fs =
     (case framing_headers fs of
        Inl e \<Rightarrow> Inl e
      | Inr (Some _, Some _) \<Rightarrow>
          Inl (InvalidInput ''both Content-Length and Transfer-Encoding present'')
      | Inr (Some n, None) \<Rightarrow> Inr (FContentLength n)
      | Inr (None, Some _) \<Rightarrow> Inr FChunked
      | Inr (None, None) \<Rightarrow> Inr FNone)"

definition validate_response_framing :: "header_field list \<Rightarrow> (nat option \<times> bool) res" where
  "validate_response_framing fs =
     (case framing_headers fs of
        Inl e \<Rightarrow> Inl e
      | Inr (cl, te) \<Rightarrow>
          if cl \<noteq> None \<and> te \<noteq> None
          then Inl (InvalidInput ''response has both Content-Length and Transfer-Encoding'')
          else Inr (cl, te \<noteq> None))"

fun wants_close :: "header_field list \<Rightarrow> http_version \<Rightarrow> bool" where
  "wants_close [] version = (version = Http10)"
| "wants_close (f # fs) version =
     (if hf_lower f = ''connection'' then
        (case value_str f of
           None \<Rightarrow> wants_close fs version
         | Some v0 \<Rightarrow>
             let toks = map trim (split_on CHR '','' (to_ascii_lowercase v0)) in
             if ''close'' \<in> set toks then True
             else if ''keep-alive'' \<in> set toks then False
             else wants_close fs version)
      else wants_close fs version)"

section \<open>Reading heads\<close>

text \<open>
  What httparse reports on the bytes read so far: a complete head with its length and parsed
  parts, a prefix of a head, or an error.
\<close>

datatype 'a hp_status = HpComplete nat 'a | HpPartial | HpError

record raw_request =
  rr_method :: "string option"
  rr_path :: "string option"
  rr_version :: "nat option"
  rr_headers :: "(string \<times> string) list"

record raw_response =
  rp_code :: "nat option"
  rp_reason :: "string option"
  rp_version :: "nat option"
  rp_headers :: "(string \<times> string) list"

definition version_of :: "nat option \<Rightarrow> http_version" where
  "version_of v = (if v = Some 0 then Http10 else Http11)"

definition is_expect_continue :: "header_field \<Rightarrow> bool" where
  "is_expect_continue h \<longleftrightarrow> hf_lower h = ''expect''
     \<and> (case value_str h of None \<Rightarrow> False | Some v \<Rightarrow> eq_ignore_ascii_case (trim v) ''100-continue'')"

definition AUTH_HEADERS :: "string list" where
  "AUTH_HEADERS = [''authorization'', ''x-api-key'', ''x-goog-api-key'', ''api-key'']"

definition unwrap_str :: "string option \<Rightarrow> string" where
  "unwrap_str x = (case x of None \<Rightarrow> [] | Some s \<Rightarrow> s)"

text \<open>The complete arm of \<open>read_request_head\<close>: validation in the code's order.\<close>

definition complete_request :: "nat \<Rightarrow> raw_request \<Rightarrow> string \<Rightarrow> (request_head \<times> string) res" where
  "complete_request n req buf =
     (case validate_raw_head (take n buf) of Inl e \<Rightarrow> Inl e | Inr _ \<Rightarrow>
      (let method = unwrap_str (rr_method req); target = unwrap_str (rr_path req) in
       if MAX_TARGET < length target then Inl (InvalidInput ''request target too long'')
       else case validate_token method ''method'' of Inl e \<Rightarrow> Inl e | Inr _ \<Rightarrow>
       (case validate_target_charset target of Inl e \<Rightarrow> Inl e | Inr _ \<Rightarrow>
       (case collect_headers (rr_headers req) of Inl e \<Rightarrow> Inl e | Inr hs \<Rightarrow>
       (case validate_request_framing hs of Inl e \<Rightarrow> Inl e | Inr fr \<Rightarrow>
          Inr (\<lparr>rq_method = method, rq_target = target, rq_version = version_of (rr_version req),
                rq_headers = hs, rq_framing = fr,
                rq_client_wants_close = wants_close hs (version_of (rr_version req)),
                rq_expects_continue = list_ex is_expect_continue hs,
                rq_had_authorization = list_ex (\<lambda>h. hf_lower h \<in> set AUTH_HEADERS) hs\<rparr>,
               drop n buf))))))"

definition past_deadline :: "(nat \<Rightarrow> nat) \<Rightarrow> nat option \<Rightarrow> nat \<Rightarrow> bool" where
  "past_deadline clk deadline i = (case deadline of None \<Rightarrow> False | Some d \<Rightarrow> d \<le> clk i)"

text \<open>
  \<open>clk i\<close> is what \<open>Instant::now\<close> returns in round \<open>i\<close> of the loop.
\<close>

function read_request_loop ::
    "(string \<Rightarrow> raw_request hp_status) \<Rightarrow> (nat \<Rightarrow> nat) \<Rightarrow> nat option \<Rightarrow> nat \<Rightarrow> string \<Rightarrow> source
       \<Rightarrow> (request_head \<times> string) option res \<times> source" where
  "read_request_loop hp clk deadline i buf src =
     (case hp buf of
        HpComplete n req \<Rightarrow> (map_sum id Some (complete_request n req buf), src)
      | HpError \<Rightarrow> (Inl (InvalidInput ''malformed request head''), src)
      | HpPartial \<Rightarrow>
          if MAX_HEAD \<le> length buf then (Inl (InvalidInput ''request head exceeds limit''), src)
          else if past_deadline clk deadline i then
            (if buf = [] then Inr None
             else Inl (InvalidInput ''request head not completed before deadline''), src)
          else (case src_read (min 4096 (MAX_HEAD - length buf)) src of
              (ReadOk bs, src') \<Rightarrow>
                if bs = [] then
                  (if buf = [] then Inr None
                   else Inl (InvalidInput ''connection closed before request head completed''), src')
                else read_request_loop hp clk deadline (Suc i) (buf @ bs) src'
            | (ReadBlock, src') \<Rightarrow>
                if deadline \<noteq> None then read_request_loop hp clk deadline (Suc i) buf src'
                else (Inl (IoErr ''would block''), src')
            | (ReadErr e, src') \<Rightarrow> (Inl (IoErr e), src')))"
  by pat_completeness auto
termination
  by (relation "measure (\<lambda>(hp, clk, deadline, i, buf, src). src_size src)")
    (simp_all, metis src_read_size, metis src_read_block_size)

declare read_request_loop.simps [simp del]

definition read_request_head ::
    "(string \<Rightarrow> raw_request hp_status) \<Rightarrow> (nat \<Rightarrow> nat) \<Rightarrow> source \<Rightarrow> string \<Rightarrow> nat option
       \<Rightarrow> (request_head \<times> string) option res \<times> source" where
  "read_request_head hp clk r initial deadline = read_request_loop hp clk deadline 0 initial r"

datatype head_read = HeadComplete response_head string | HeadTimedOut string

definition usable_reason :: "string \<Rightarrow> bool" where
  "usable_reason r \<longleftrightarrow> length r \<le> 128
     \<and> list_all (\<lambda>b. b = chr_tab \<or> (0x20 \<le> byte b \<and> byte b < 0x7F)) r"

definition complete_response :: "nat \<Rightarrow> raw_response \<Rightarrow> string \<Rightarrow> head_read res" where
  "complete_response n resp buf =
     (case validate_raw_head (take n buf) of Inl e \<Rightarrow> Inl e | Inr _ \<Rightarrow>
      (let status = (case rp_code resp of None \<Rightarrow> 0 | Some c \<Rightarrow> c) in
       if \<not> (100 \<le> status \<and> status \<le> 599) then Inl (InvalidInput ''invalid response status'')
       else let reason = (case rp_reason resp of None \<Rightarrow> []
                          | Some r \<Rightarrow> if usable_reason r then r else []) in
       (case collect_headers (rp_headers resp) of Inl e \<Rightarrow> Inl e | Inr hs \<Rightarrow>
       (case validate_response_framing hs of Inl e \<Rightarrow> Inl e | Inr (cl, chunked) \<Rightarrow>
          Inr (HeadComplete
            \<lparr>rs_status = status, rs_reason = reason, rs_version = version_of (rp_version resp),
             rs_headers = hs, rs_content_length = cl, rs_chunked = chunked,
             rs_upstream_wants_close = wants_close hs (version_of (rp_version resp))\<rparr>
            (drop n buf))))))"

function read_response_loop ::
    "(string \<Rightarrow> raw_response hp_status) \<Rightarrow> (nat \<Rightarrow> nat) \<Rightarrow> nat option \<Rightarrow> nat \<Rightarrow> string \<Rightarrow> source
       \<Rightarrow> head_read res \<times> source" where
  "read_response_loop hp clk deadline i buf src =
     (case hp buf of
        HpComplete n resp \<Rightarrow> (complete_response n resp buf, src)
      | HpError \<Rightarrow> (Inl (InvalidInput ''malformed response head''), src)
      | HpPartial \<Rightarrow>
          if MAX_HEAD \<le> length buf then (Inl (InvalidInput ''response head exceeds limit''), src)
          else if past_deadline clk deadline i then (Inr (HeadTimedOut buf), src)
          else (case src_read (min 4096 (MAX_HEAD - length buf)) src of
              (ReadOk bs, src') \<Rightarrow>
                if bs = [] then
                  (Inl (if buf = [] then InvalidInput ''no response''
                        else InvalidInput ''connection closed before response head completed''), src')
                else read_response_loop hp clk deadline (Suc i) (buf @ bs) src'
            | (ReadBlock, src') \<Rightarrow>
                if deadline \<noteq> None then read_response_loop hp clk deadline (Suc i) buf src'
                else (Inl (IoErr ''would block''), src')
            | (ReadErr e, src') \<Rightarrow> (Inl (IoErr e), src')))"
  by pat_completeness auto
termination
  by (relation "measure (\<lambda>(hp, clk, deadline, i, buf, src). src_size src)")
    (simp_all, metis src_read_size, metis src_read_block_size)

declare read_response_loop.simps [simp del]

definition read_response_head_deadline ::
    "(string \<Rightarrow> raw_response hp_status) \<Rightarrow> (nat \<Rightarrow> nat) \<Rightarrow> source \<Rightarrow> string \<Rightarrow> nat option
       \<Rightarrow> head_read res \<times> source" where
  "read_response_head_deadline hp clk r initial deadline =
     read_response_loop hp clk deadline 0 initial r"

text \<open>The outer option of \<open>read_response_head\<close> is its \<open>unreachable!\<close>: None is the panic.\<close>

definition read_response_head ::
    "(string \<Rightarrow> raw_response hp_status) \<Rightarrow> (nat \<Rightarrow> nat) \<Rightarrow> source \<Rightarrow> string
       \<Rightarrow> (response_head \<times> string) res option \<times> source" where
  "read_response_head hp clk r initial =
     (case read_response_head_deadline hp clk r initial None of
        (Inl e, src) \<Rightarrow> (Some (Inl e), src)
      | (Inr (HeadComplete h carry), src) \<Rightarrow> (Some (Inr (h, carry)), src)
      | (Inr (HeadTimedOut _), src) \<Rightarrow> (None, src))"

section \<open>Regenerating heads\<close>

definition HOP_BY_HOP :: "string list" where
  "HOP_BY_HOP = [''connection'', ''keep-alive'', ''proxy-authenticate'', ''proxy-authorization'',
     ''proxy-connection'', ''te'', ''trailer'', ''transfer-encoding'', ''upgrade'']"

fun connection_named :: "header_field list \<Rightarrow> string list" where
  "connection_named [] = []"
| "connection_named (f # fs) =
     (if hf_lower f = ''connection'' then
        (case value_str f of
           None \<Rightarrow> []
         | Some v \<Rightarrow> filter (\<lambda>t. t \<noteq> []) (map (\<lambda>t. to_ascii_lowercase (trim t)) (split_on CHR '','' v)))
      else []) @ connection_named fs"

definition render_field :: "header_field \<Rightarrow> string" where
  "render_field f = hf_name f @ '': '' @ hf_value f @ crlf"

definition forwards_upstream :: "string list \<Rightarrow> bool \<Rightarrow> header_field \<Rightarrow> bool" where
  "forwards_upstream named force_identity f \<longleftrightarrow>
     \<not> (hf_lower f = ''host'' \<or> hf_lower f = ''cookie'' \<or> hf_lower f = ''content-length''
        \<or> hf_lower f \<in> set HOP_BY_HOP \<or> hf_lower f \<in> set named)
   \<and> \<not> (force_identity \<and> hf_lower f = ''accept-encoding'')"

definition content_length_line :: "nat \<Rightarrow> string" where
  "content_length_line n = ''Content-Length: '' @ dec_of_nat n @ crlf"

definition chunked_line :: string where
  "chunked_line = ''Transfer-Encoding: chunked'' @ crlf"

definition connection_line :: "bool \<Rightarrow> string" where
  "connection_line keep_alive =
     (if keep_alive then ''Connection: keep-alive'' @ crlf else ''Connection: close'' @ crlf)"

definition build_upstream_head :: "request_head \<Rightarrow> string \<Rightarrow> string \<Rightarrow> bool \<Rightarrow> bool \<Rightarrow> string" where
  "build_upstream_head head upstream_target upstream_host keep_alive force_identity =
     rq_method head @ '' '' @ upstream_target @ '' HTTP/1.1'' @ crlf
     @ ''Host: '' @ upstream_host @ crlf
     @ concat (map render_field
         (filter (forwards_upstream (connection_named (rq_headers head)) force_identity)
            (rq_headers head)))
     @ (if force_identity then ''Accept-Encoding: identity'' @ crlf else [])
     @ (case rq_framing head of
          FContentLength n \<Rightarrow> content_length_line n
        | FChunked \<Rightarrow> chunked_line
        | FNone \<Rightarrow> []
        | FUntilClose \<Rightarrow> [])
     @ connection_line keep_alive @ crlf"

definition strip_from_response :: "string \<Rightarrow> string list \<Rightarrow> bool" where
  "strip_from_response lower named \<longleftrightarrow>
     lower = ''set-cookie'' \<or> starts_with ''access-control-'' lower \<or> lower = ''content-length''
   \<or> lower \<in> set HOP_BY_HOP \<or> starts_with ''proxy-'' lower \<or> lower \<in> set named"

definition status_line :: "response_head \<Rightarrow> string" where
  "status_line head =
     ''HTTP/1.1 '' @ dec_of_nat (rs_status head)
     @ (if rs_reason head = [] then [] else '' '' @ rs_reason head) @ crlf"

definition response_fields :: "response_head \<Rightarrow> header_field list" where
  "response_fields head =
     filter (\<lambda>f. \<not> strip_from_response (hf_lower f) (connection_named (rs_headers head)))
       (rs_headers head)"

definition build_client_response_head :: "response_head \<Rightarrow> framing \<Rightarrow> bool \<Rightarrow> string" where
  "build_client_response_head head fr keep_alive =
     status_line head
     @ concat (map render_field (response_fields head))
     @ (case fr of
          FContentLength n \<Rightarrow> content_length_line n
        | FChunked \<Rightarrow> chunked_line
        | FUntilClose \<Rightarrow> []
        | FNone \<Rightarrow>
            if \<not> (100 \<le> rs_status head \<and> rs_status head < 200) \<and> rs_status head \<noteq> 204 then
              (case rs_content_length head of
                 Some n \<Rightarrow> content_length_line n
               | None \<Rightarrow> if rs_chunked head then chunked_line else [])
            else [])
     @ connection_line keep_alive @ crlf"

definition build_client_interim_head :: "response_head \<Rightarrow> string" where
  "build_client_interim_head head =
     status_line head @ concat (map render_field (response_fields head)) @ crlf"

end
