(* ===== verification/HeadProps.thy ===== *)
theory HeadProps
  imports HttpHead
begin

text \<open>
  What the head model guarantees: a strict recipient of a regenerated head, written here as an
  independent reader of request lines, status lines and fields, agrees with the gateway on the
  message it stands for; the framing decision equals its declarative reading; the bounded read
  loops are a function of the bytes alone and lose none of them.
\<close>

section \<open>A recipient of the regenerated head\<close>

text \<open>
  The specification side: a strict HTTP/1.1 recipient reads a request line and then field
  lines up to an empty line, and delimits the body by RFC 9112 section 6.
\<close>

fun take_line :: "string \<Rightarrow> (string \<times> string) option" where
  "take_line [] = None"
| "take_line (a # s) =
     (if a = chr_cr \<and> (case s of [] \<Rightarrow> False | b # _ \<Rightarrow> b = chr_lf) then Some ([], tl s)
      else (case take_line s of None \<Rightarrow> None | Some (l, r) \<Rightarrow> Some (a # l, r)))"

definition ows :: "char \<Rightarrow> bool" where
  "ows c \<longleftrightarrow> c = CHR '' '' \<or> c = chr_tab"

definition ows_trim :: "string \<Rightarrow> string" where
  "ows_trim s = rev (dropWhile ows (rev (dropWhile ows s)))"

definition field_of_line :: "string \<Rightarrow> (string \<times> string) option" where
  "field_of_line l = (case split_once CHR '':'' l of None \<Rightarrow> None | Some (n, v) \<Rightarrow> Some (n, ows_trim v))"

lemma take_line_shorter: "take_line s = Some (l, r) \<Longrightarrow> length r < length s"
proof (induction s arbitrary: l r)
  case (Cons a s)
  show ?case
  proof (cases "a = chr_cr \<and> (case s of [] \<Rightarrow> False | b # _ \<Rightarrow> b = chr_lf)")
    case True
    with Cons.prems show ?thesis by (cases s) auto
  next
    case False
    with Cons.prems obtain l' where "take_line s = Some (l', r)"
      by (auto split: option.splits)
    from Cons.IH [OF this] show ?thesis by simp
  qed
qed simp

function recipient_fields :: "string \<Rightarrow> ((string \<times> string) list \<times> string) option" where
  "recipient_fields s =
     (case take_line s of
        None \<Rightarrow> None
      | Some (l, r) \<Rightarrow>
          if l = [] then Some ([], r)
          else (case field_of_line l of
              None \<Rightarrow> None
            | Some f \<Rightarrow> (case recipient_fields r of
                  None \<Rightarrow> None
                | Some (fs, body) \<Rightarrow> Some (f # fs, body))))"
  by pat_completeness auto
termination
  by (relation "measure length") (auto dest: take_line_shorter)

declare recipient_fields.simps [simp del]

definition recipient_request ::
    "string \<Rightarrow> (string list \<times> (string \<times> string) list \<times> string) option" where
  "recipient_request s =
     (case take_line s of
        None \<Rightarrow> None
      | Some (l, r) \<Rightarrow> (case recipient_fields r of
            None \<Rightarrow> None
          | Some (fs, body) \<Rightarrow> Some (split_on CHR '' '' l, fs, body)))"

definition values_of :: "string \<Rightarrow> (string \<times> string) list \<Rightarrow> string list" where
  "values_of lower fs = map snd (filter (\<lambda>f. to_ascii_lowercase (fst f) = lower) fs)"

text \<open>None is a recipient that refuses the message.\<close>

definition recipient_framing :: "(string \<times> string) list \<Rightarrow> framing option" where
  "recipient_framing fs =
     (case (values_of ''content-length'' fs, values_of ''transfer-encoding'' fs) of
        ([], []) \<Rightarrow> Some FNone
      | ([v], []) \<Rightarrow> map_option FContentLength (parse_unsigned 64 10 v)
      | ([], [v]) \<Rightarrow> if to_ascii_lowercase v = ''chunked'' then Some FChunked else None
      | _ \<Rightarrow> None)"

text \<open>The fields the regenerated upstream head carries, in order.\<close>

definition kept_fields :: "request_head \<Rightarrow> bool \<Rightarrow> header_field list" where
  "kept_fields head force_identity =
     filter (forwards_upstream (connection_named (rq_headers head)) force_identity) (rq_headers head)"

definition framing_pairs :: "framing \<Rightarrow> (string \<times> string) list" where
  "framing_pairs fr = (case fr of
     FContentLength n \<Rightarrow> [(''Content-Length'', dec_of_nat n)]
   | FChunked \<Rightarrow> [(''Transfer-Encoding'', ''chunked'')]
   | _ \<Rightarrow> [])"

definition upstream_pairs :: "request_head \<Rightarrow> string \<Rightarrow> bool \<Rightarrow> bool \<Rightarrow> (string \<times> string) list" where
  "upstream_pairs head host keep_alive force_identity =
     (''Host'', host)
     # map (\<lambda>f. (hf_name f, hf_value f)) (kept_fields head force_identity)
     @ (if force_identity then [(''Accept-Encoding'', ''identity'')] else [])
     @ framing_pairs (rq_framing head)
     @ [(''Connection'', if keep_alive then ''keep-alive'' else ''close'')]"

definition render_pair :: "string \<times> string \<Rightarrow> string" where
  "render_pair p = fst p @ '': '' @ snd p @ crlf"

lemma build_upstream_head_pairs:
  "build_upstream_head head t host ka fi =
     rq_method head @ '' '' @ t @ '' HTTP/1.1'' @ crlf
     @ concat (map render_pair (upstream_pairs head host ka fi)) @ crlf"
  by (simp add: build_upstream_head_def upstream_pairs_def kept_fields_def framing_pairs_def
      render_pair_def render_field_def [abs_def] content_length_line_def chunked_line_def connection_line_def
      comp_def split: framing.splits)

text \<open>What validation guarantees of the fields it lets through.\<close>

definition wf_field :: "header_field \<Rightarrow> bool" where
  "wf_field f \<longleftrightarrow> hf_lower f = to_ascii_lowercase (hf_name f) \<and> hf_name f \<noteq> []
     \<and> list_all token_byte (hf_name f) \<and> \<not> list_ex injects_line (hf_value f)"

definition wf_request :: "request_head \<Rightarrow> bool" where
  "wf_request h \<longleftrightarrow> list_all wf_field (rq_headers h)
     \<and> rq_method h \<noteq> [] \<and> list_all token_byte (rq_method h)
     \<and> rq_target h \<noteq> [] \<and> list_all visible_ascii (rq_target h)
     \<and> length (rq_target h) \<le> MAX_TARGET \<and> length (rq_headers h) \<le> MAX_HEADERS
     \<and> validate_request_framing (rq_headers h) = Inr (rq_framing h)"

lemma validate_token_ok:
  "validate_token s what = Inr u \<Longrightarrow> s \<noteq> [] \<and> length s \<le> 256 \<and> list_all token_byte s"
  by (auto simp: validate_token_def split: if_splits)

lemma validate_target_ok:
  "validate_target_charset t = Inr u \<Longrightarrow> t \<noteq> [] \<and> list_all visible_ascii t"
  by (auto simp: validate_target_charset_def split: if_splits)

lemma collect_loop_wf: "collect_loop hs = Inr out \<Longrightarrow> list_all wf_field out"
  by (induction hs arbitrary: out rule: collect_loop.induct)
    (auto simp: wf_field_def split: if_splits sum.splits dest!: validate_token_ok)

lemma collect_headers_wf:
  "collect_headers hs = Inr out \<Longrightarrow> list_all wf_field out \<and> length out \<le> MAX_HEADERS"
  by (auto simp: collect_headers_def split: sum.splits if_splits dest: collect_loop_wf)

lemma complete_request_wf:
  "complete_request n req buf = Inr (h, carry) \<Longrightarrow> wf_request h \<and> carry = drop n buf"
  by (auto simp: complete_request_def wf_request_def Let_def split: sum.splits if_splits
      dest!: validate_token_ok validate_target_ok collect_headers_wf)

lemma map_sum_InrE: "map_sum id Some x = Inr y \<Longrightarrow> (\<And>z. x = Inr z \<Longrightarrow> y = Some z \<Longrightarrow> P) \<Longrightarrow> P"
  by (cases x) auto

lemma read_request_loop_wf:
  "read_request_loop hp clk dl i buf src = (Inr (Some (h, carry)), src') \<Longrightarrow> wf_request h"
proof (induction hp clk dl i buf src rule: read_request_loop.induct)
  case (1 hp clk dl i buf src)
  show ?case
    using "1.prems" "1.IH"
    by (subst (asm) read_request_loop.simps)
      (auto split: hp_status.splits if_splits prod.splits read_result.splits
        elim!: map_sum_InrE dest: complete_request_wf)
qed

lemma read_request_head_wf:
  "read_request_head hp clk src initial dl = (Inr (Some (h, carry)), src') \<Longrightarrow> wf_request h"
  by (auto simp: read_request_head_def dest: read_request_loop_wf)


section \<open>The recipient agrees\<close>

lemma take_line_crlf: "chr_cr \<notin> set l \<Longrightarrow> take_line (l @ crlf @ r) = Some (l, r)"
  by (induction l) auto

lemma ows_trim_space: "ows_trim (CHR '' '' # s) = ows_trim s"
  by (simp add: ows_trim_def ows_def)

definition clean_pair :: "string \<times> string \<Rightarrow> bool" where
  "clean_pair p \<longleftrightarrow> CHR '':'' \<notin> set (fst p) \<and> chr_cr \<notin> set (fst p) \<and> chr_cr \<notin> set (snd p)"

lemma recipient_fields_pairs:
  assumes "list_all clean_pair ps"
  shows "recipient_fields (concat (map render_pair ps) @ crlf @ body)
           = Some (map (\<lambda>p. (fst p, ows_trim (snd p))) ps, body)"
  using assms
proof (induction ps)
  case Nil
  show ?case using take_line_crlf [of "[]" body]
    by (subst recipient_fields.simps) simp
next
  case (Cons p ps)
  obtain n v where p: "p = (n, v)" by fastforce
  let ?rest = "concat (map render_pair ps) @ crlf @ body"
  from Cons.prems p have cl: "CHR '':'' \<notin> set n" "chr_cr \<notin> set n" "chr_cr \<notin> set v"
    by (auto simp: clean_pair_def)
  then have "take_line ((n @ '': '' @ v) @ crlf @ ?rest) = Some (n @ '': '' @ v, ?rest)"
    by (intro take_line_crlf) auto
  moreover have "field_of_line (n @ '': '' @ v) = Some (n, ows_trim v)"
    using split_once_first [OF cl(1), of "'' '' @ v"]
    by (simp add: field_of_line_def ows_trim_space)
  ultimately show ?case using Cons p
    by (subst recipient_fields.simps) (simp add: render_pair_def [of "(n, v)"])
qed

lemma token_byte_clean: "token_byte c \<Longrightarrow> c \<noteq> CHR '':'' \<and> c \<noteq> chr_cr \<and> c \<noteq> CHR '' ''"
proof -
  have "\<not> token_byte CHR '':''" "\<not> token_byte chr_cr" "\<not> token_byte CHR '' ''" by code_simp+
  then show "token_byte c \<Longrightarrow> ?thesis" by metis
qed

lemma token_clean:
  "list_all token_byte s \<Longrightarrow> CHR '':'' \<notin> set s \<and> chr_cr \<notin> set s \<and> CHR '' '' \<notin> set s"
  using token_byte_clean by (fastforce simp: list_all_iff)

lemma visible_clean: "list_all visible_ascii s \<Longrightarrow> chr_cr \<notin> set s \<and> CHR '' '' \<notin> set s"
proof -
  have "\<not> visible_ascii chr_cr" "\<not> visible_ascii CHR '' ''" by code_simp+
  then show "list_all visible_ascii s \<Longrightarrow> ?thesis" by (metis list_all_iff)
qed

lemma wf_field_clean: "wf_field f \<Longrightarrow> clean_pair (hf_name f, hf_value f)"
  using token_clean [of "hf_name f"]
  by (simp add: wf_field_def clean_pair_def list_ex_iff injects_line_def) blast

lemma dec_of_nat_clean: "chr_cr \<notin> set (dec_of_nat n)"
proof -
  have "\<not> is_ascii_digit chr_cr" by code_simp
  then show ?thesis using dec_of_nat_digits [of n] by (metis list_all_iff)
qed

lemma framing_pairs_clean: "list_all clean_pair (framing_pairs fr)"
  by (simp add: framing_pairs_def clean_pair_def dec_of_nat_clean split: framing.splits)

lemma upstream_pairs_clean:
  assumes "wf_request head" and "list_all visible_ascii host"
  shows "list_all clean_pair (upstream_pairs head host ka fi)"
proof -
  have "list_all clean_pair (map (\<lambda>f. (hf_name f, hf_value f)) (kept_fields head fi))"
    using assms(1) by (auto simp: wf_request_def kept_fields_def list_all_iff intro: wf_field_clean)
  then show ?thesis using assms(2) framing_pairs_clean
    by (simp add: upstream_pairs_def clean_pair_def [of "(_, _)"] visible_clean)
qed

lemma split_on_free: "d \<notin> set a \<Longrightarrow> split_on d a = [a]"
  by (induction a) auto

lemma split_on_append: "d \<notin> set a \<Longrightarrow> split_on d (a @ d # b) = a # split_on d b"
  by (induction a) auto

lemma split_request_line:
  assumes "CHR '' '' \<notin> set m" and "CHR '' '' \<notin> set t"
  shows "split_on CHR '' '' (m @ '' '' @ t @ '' HTTP/1.1'') = [m, t, ''HTTP/1.1'']"
  using split_on_append [OF assms(1), of "t @ '' HTTP/1.1''"]
    split_on_append [OF assms(2), of "''HTTP/1.1''"] by simp

lemma upstream_head_read:
  assumes wf: "wf_request head" and t: "list_all visible_ascii t" and h: "list_all visible_ascii host"
  shows "recipient_request (build_upstream_head head t host ka fi @ body)
           = Some ([rq_method head, t, ''HTTP/1.1''],
                   map (\<lambda>p. (fst p, ows_trim (snd p))) (upstream_pairs head host ka fi), body)"
proof -
  let ?line = "rq_method head @ '' '' @ t @ '' HTTP/1.1''"
  let ?rest = "concat (map render_pair (upstream_pairs head host ka fi)) @ crlf @ body"
  have m: "chr_cr \<notin> set (rq_method head)" "CHR '' '' \<notin> set (rq_method head)"
    using wf token_clean by (auto simp: wf_request_def)
  have "take_line (?line @ crlf @ ?rest) = Some (?line, ?rest)"
    using m visible_clean [OF t] by (intro take_line_crlf) auto
  moreover have "build_upstream_head head t host ka fi @ body = ?line @ crlf @ ?rest"
    by (simp add: build_upstream_head_pairs)
  ultimately show ?thesis
    using recipient_fields_pairs [OF upstream_pairs_clean [OF wf h], of ka fi body]
      split_request_line [OF m(2), of t] visible_clean [OF t]
    by (simp add: recipient_request_def)
qed

text \<open>Fields that decide the framing never come from the client's list.\<close>

lemma kept_no_framing:
  assumes "wf_request head" and "f \<in> set (kept_fields head fi)"
  shows "to_ascii_lowercase (hf_name f) \<noteq> ''content-length''"
    and "to_ascii_lowercase (hf_name f) \<noteq> ''transfer-encoding''"
  using assms
  by (auto simp: wf_request_def kept_fields_def forwards_upstream_def HOP_BY_HOP_def
      list_all_iff wf_field_def)

lemma values_of_append [simp]: "values_of l (a @ b) = values_of l a @ values_of l b"
  by (simp add: values_of_def)

lemma values_of_kept:
  assumes "wf_request head" and "l = ''content-length'' \<or> l = ''transfer-encoding''"
  shows "values_of l (map (\<lambda>f. (hf_name f, ows_trim (hf_value f))) (kept_fields head fi)) = []"
  using kept_no_framing [OF assms(1)] assms(2) by (auto simp: values_of_def filter_empty_conv)


lemma lower_names [simp]:
  "to_ascii_lowercase ''Host'' = ''host''"
  "to_ascii_lowercase ''Accept-Encoding'' = ''accept-encoding''"
  "to_ascii_lowercase ''Content-Length'' = ''content-length''"
  "to_ascii_lowercase ''Transfer-Encoding'' = ''transfer-encoding''"
  "to_ascii_lowercase ''Connection'' = ''connection''"
  "to_ascii_lowercase ''chunked'' = ''chunked''"
  by code_simp+

lemma values_of_simps [simp]:
  "values_of l [] = []"
  "values_of l (p # ps) =
     (if to_ascii_lowercase (fst p) = l then snd p # values_of l ps else values_of l ps)"
  by (simp_all add: values_of_def)

lemma ows_trim_digits: "ows_trim (dec_of_nat n) = dec_of_nat n"
proof -
  have "\<not> ows c" if "is_ascii_digit c" for c
    using that by (auto simp: ows_def is_ascii_digit_def byte_def)
  then have "\<forall>c \<in> set (dec_of_nat n). \<not> ows c"
    using dec_of_nat_digits [of n] by (auto simp: list_all_iff)
  then show ?thesis
    by (metis ows_trim_def dropWhile_eq_self_iff hd_in_set rev_is_Nil_conv rev_rev_ident set_rev)
qed

lemma ows_trim_chunked: "ows_trim ''chunked'' = ''chunked''"
  by code_simp

lemma framing_loop_bound:
  "framing_loop cl s c fs = Inr (r, te) \<Longrightarrow> (case cl of None \<Rightarrow> True | Some m \<Rightarrow> m < 2 ^ 64)
     \<Longrightarrow> (case r of None \<Rightarrow> True | Some m \<Rightarrow> m < 2 ^ 64)"
proof (induction cl s c fs rule: framing_loop.induct)
  case (2 cl s c f fs)
  from "2.prems"(1) show ?case
    by (simp add: Let_def del: power_Suc split: if_splits option.splits)
      (use "2.IH" "2.prems"(2) parse_unsigned_bound in \<open>fastforce split: option.splits\<close>)+
qed auto

lemma request_framing_bound:
  "validate_request_framing fs = Inr fr \<Longrightarrow> fr \<noteq> FUntilClose \<and> (\<forall>n. fr = FContentLength n \<longrightarrow> n < 2 ^ 64)"
  using framing_loop_bound [of None False False fs]
  by (auto simp: validate_request_framing_def framing_headers_def split: sum.splits option.splits)

definition trimmed :: "(string \<times> string) list \<Rightarrow> (string \<times> string) list" where
  "trimmed ps = map (\<lambda>p. (fst p, ows_trim (snd p))) ps"

lemma trimmed_simps [simp]:
  "trimmed [] = []" "trimmed (p # ps) = (fst p, ows_trim (snd p)) # trimmed ps"
  "trimmed (a @ b) = trimmed a @ trimmed b"
  by (simp_all add: trimmed_def)

lemma trimmed_kept:
  "trimmed (map (\<lambda>f. (hf_name f, hf_value f)) hs) = map (\<lambda>f. (hf_name f, ows_trim (hf_value f))) hs"
  by (simp add: trimmed_def)

lemma upstream_pairs_framing:
  assumes "wf_request head"
  shows "recipient_framing (trimmed (upstream_pairs head host ka fi)) = Some (rq_framing head)"
proof -
  have b: "rq_framing head \<noteq> FUntilClose" "\<And>n. rq_framing head = FContentLength n \<Longrightarrow> n < 2 ^ 64"
    using assms request_framing_bound by (auto simp: wf_request_def)
  show ?thesis
  proof (cases "rq_framing head")
    case (FContentLength n)
    with b(2) have "parse_unsigned 64 10 (dec_of_nat n) = Some n" by (intro parse_unsigned_dec)
    with FContentLength show ?thesis
      by (simp add: recipient_framing_def upstream_pairs_def trimmed_kept values_of_kept [OF assms]
          framing_pairs_def ows_trim_digits)
  qed (use b in \<open>simp_all add: recipient_framing_def upstream_pairs_def trimmed_kept
      values_of_kept [OF assms] framing_pairs_def ows_trim_chunked\<close>)
qed

text \<open>
  C1. No request smuggling: whatever the parser and the transport did, if the gateway accepted
  a request head then a strict recipient of the head it regenerates reads the same method, the
  gateway's target, and the same body framing, and finds the body exactly where the head ends. The
  target and the host the gateway writes are visible ASCII.
\<close>

theorem upstream_framing_agrees:
  assumes "read_request_head hp clk src initial dl = (Inr (Some (head, carry)), src')"
    and "list_all visible_ascii t" and "list_all visible_ascii host"
  shows "\<exists>fs. recipient_request (build_upstream_head head t host ka fi @ body)
                = Some ([rq_method head, t, ''HTTP/1.1''], fs, body)
             \<and> recipient_framing fs = Some (rq_framing head)"
  using upstream_head_read [OF read_request_head_wf [OF assms(1)] assms(2,3)]
    upstream_pairs_framing [OF read_request_head_wf [OF assms(1)]]
  by (simp add: trimmed_def)

definition demo_raw :: string where
  "demo_raw = ''POST /v1/x HTTP/1.1'' @ crlf @ ''Host: h'' @ crlf @ ''Cookie: a=b'' @ crlf
     @ ''Content-Length: 5'' @ crlf @ crlf"

definition demo_parser :: "string \<Rightarrow> raw_request hp_status" where
  "demo_parser buf =
     (if length demo_raw \<le> length buf
      then HpComplete (length demo_raw)
        \<lparr>rr_method = Some ''POST'', rr_path = Some ''/v1/x'', rr_version = Some 1,
         rr_headers = [(''Host'', ''h''), (''Cookie'', ''a=b''), (''Content-Length'', ''5'')]\<rparr>
      else HpPartial)"

definition demo_head :: request_head where
  "demo_head = \<lparr>rq_method = ''POST'', rq_target = ''/v1/x'', rq_version = Http11,
     rq_headers = [\<lparr>hf_name = ''Host'', hf_lower = ''host'', hf_value = ''h''\<rparr>,
       \<lparr>hf_name = ''Cookie'', hf_lower = ''cookie'', hf_value = ''a=b''\<rparr>,
       \<lparr>hf_name = ''Content-Length'', hf_lower = ''content-length'', hf_value = ''5''\<rparr>],
     rq_framing = FContentLength 5, rq_client_wants_close = False,
     rq_expects_continue = False, rq_had_authorization = False\<rparr>"

lemma demo_read:
  "read_request_head demo_parser (\<lambda>i. i) [Data (demo_raw @ ''hello'')] [] None
     = (Inr (Some (demo_head, ''hello'')), [])"
  by code_simp

lemma upstream_framing_agrees_witness:
  "\<exists>fs. recipient_request (build_upstream_head demo_head ''/x'' ''api.example.com'' True False @ ''hello'')
          = Some ([''POST'', ''/x'', ''HTTP/1.1''], fs, ''hello'')
        \<and> recipient_framing fs = Some (FContentLength 5)"
proof -
  have "list_all visible_ascii ''/x''" "list_all visible_ascii ''api.example.com''" by code_simp+
  from upstream_framing_agrees [OF demo_read this] show ?thesis by (simp add: demo_head_def)
qed

section \<open>What is stripped\<close>

lemma lower_hop [simp]: "to_ascii_lowercase ''keep-alive'' = ''keep-alive''"
  "to_ascii_lowercase ''HEAD'' = ''head''"
  by code_simp+








section \<open>The framing decision\<close>

definition fields_named :: "string \<Rightarrow> header_field list \<Rightarrow> header_field list" where
  "fields_named l fs = filter (\<lambda>f. hf_lower f = l) fs"

definition length_of_field :: "header_field \<Rightarrow> nat option" where
  "length_of_field f = (case value_str f of
     None \<Rightarrow> None
   | Some v \<Rightarrow> if trim v \<noteq> [] \<and> list_all is_ascii_digit (trim v) then parse_unsigned 64 10 (trim v)
               else None)"

definition chunked_field :: "header_field \<Rightarrow> bool" where
  "chunked_field f \<longleftrightarrow> (case value_str f of None \<Rightarrow> False
     | Some v \<Rightarrow> to_ascii_lowercase (trim v) = ''chunked'')"

text \<open>
  RFC 9112 section 6 read strictly: at most one length, at most one transfer coding, never both.
\<close>

definition framing_spec :: "header_field list \<Rightarrow> framing option" where
  "framing_spec fs =
     (case (fields_named ''content-length'' fs, fields_named ''transfer-encoding'' fs) of
        ([], []) \<Rightarrow> Some FNone
      | ([f], []) \<Rightarrow> map_option FContentLength (length_of_field f)
      | ([], [f]) \<Rightarrow> if chunked_field f then Some FChunked else None
      | _ \<Rightarrow> None)"

lemma fields_named_simps [simp]:
  "fields_named l [] = []"
  "fields_named l (f # fs) = (if hf_lower f = l then f # fields_named l fs else fields_named l fs)"
  by (simp_all add: fields_named_def)

definition length_part :: "nat option \<Rightarrow> bool \<Rightarrow> header_field list \<Rightarrow> nat option \<Rightarrow> bool" where
  "length_part cl s fs r \<longleftrightarrow> (case fields_named ''content-length'' fs of
     [] \<Rightarrow> r = cl | [f] \<Rightarrow> \<not> s \<and> r \<noteq> None \<and> r = length_of_field f | _ \<Rightarrow> False)"

definition coding_part :: "bool \<Rightarrow> header_field list \<Rightarrow> unit option \<Rightarrow> bool" where
  "coding_part c fs te \<longleftrightarrow> (case fields_named ''transfer-encoding'' fs of
     [] \<Rightarrow> te = (if c then Some () else None)
   | [f] \<Rightarrow> \<not> c \<and> chunked_field f \<and> te = Some () | _ \<Rightarrow> False)"

lemma parts_other:
  "hf_lower f \<noteq> ''content-length'' \<Longrightarrow> length_part cl s (f # fs) r = length_part cl s fs r"
  "hf_lower f \<noteq> ''transfer-encoding'' \<Longrightarrow> coding_part c (f # fs) te = coding_part c fs te"
  by (simp_all add: length_part_def coding_part_def)

lemma length_part_seen: "length_part cl True fs r \<longleftrightarrow> fields_named ''content-length'' fs = [] \<and> r = cl"
  by (auto simp: length_part_def split: list.splits)

lemma coding_part_seen: "coding_part True fs te \<longleftrightarrow> fields_named ''transfer-encoding'' fs = [] \<and> te = Some ()"
  by (auto simp: coding_part_def split: list.splits)

lemma length_part_found:
  "hf_lower f = ''content-length'' \<Longrightarrow> length_part cl s (f # fs) r \<longleftrightarrow>
     \<not> s \<and> r \<noteq> None \<and> r = length_of_field f \<and> fields_named ''content-length'' fs = []"
  by (auto simp: length_part_def split: list.splits)

lemma coding_part_found:
  "hf_lower f = ''transfer-encoding'' \<Longrightarrow> coding_part c (f # fs) te \<longleftrightarrow>
     \<not> c \<and> chunked_field f \<and> te = Some () \<and> fields_named ''transfer-encoding'' fs = []"
  by (auto simp: coding_part_def split: list.splits)

lemma framing_loop_length:
  "hf_lower f = ''content-length'' \<Longrightarrow> framing_loop cl s c (f # fs) = Inr z \<longleftrightarrow>
     \<not> s \<and> (\<exists>n. length_of_field f = Some n \<and> framing_loop (Some n) True c fs = Inr z)"
  by (auto simp: length_of_field_def Let_def split: option.splits)

lemma framing_loop_coding:
  "hf_lower f = ''transfer-encoding'' \<Longrightarrow> framing_loop cl s c (f # fs) = Inr z \<longleftrightarrow>
     \<not> c \<and> chunked_field f \<and> framing_loop cl s True fs = Inr z"
  by (auto simp: chunked_field_def eq_ignore_ascii_case_def split: option.splits)

lemma framing_loop_spec:
  "framing_loop cl s c fs = Inr (r, te) \<longleftrightarrow> length_part cl s fs r \<and> coding_part c fs te"
proof (induction fs arbitrary: cl s c)
  case Nil
  then show ?case by (auto simp: length_part_def coding_part_def)
next
  case (Cons f fs)
  consider "hf_lower f = ''content-length''" | "hf_lower f = ''transfer-encoding''"
    | "hf_lower f \<noteq> ''content-length''" "hf_lower f \<noteq> ''transfer-encoding''" by blast
  then show ?case
  proof cases
    case 1
    then show ?thesis
      by (simp only: framing_loop_length [OF 1] length_part_found [OF 1] Cons.IH length_part_seen)
        (cases "length_of_field f"; auto simp: parts_other)
  next
    case 2
    then show ?thesis
      using framing_loop_coding [OF 2] coding_part_found [OF 2] parts_other(1) [of f] Cons.IH
      by (auto simp: coding_part_seen)
  next
    case 3
    then show ?thesis using Cons.IH parts_other [of f] by simp
  qed
qed

definition framing_of_parts :: "nat option \<Rightarrow> unit option \<Rightarrow> framing option" where
  "framing_of_parts r te = (case (r, te) of
     (Some _, Some _) \<Rightarrow> None | (Some n, None) \<Rightarrow> Some (FContentLength n)
   | (None, Some _) \<Rightarrow> Some FChunked | (None, None) \<Rightarrow> Some FNone)"

lemma framing_spec_parts:
  "framing_spec fs = Some F \<longleftrightarrow>
     (\<exists>r te. length_part None False fs r \<and> coding_part False fs te \<and> framing_of_parts r te = Some F)"
  unfolding framing_spec_def length_part_def coding_part_def framing_of_parts_def
  by (cases "fields_named ''content-length'' fs" rule: remdups_adj.cases;
      cases "fields_named ''transfer-encoding'' fs" rule: remdups_adj.cases)
    (auto split: option.splits)

lemma request_framing_parts:
  "validate_request_framing fs = Inr F \<longleftrightarrow>
     (\<exists>r te. framing_headers fs = Inr (r, te) \<and> framing_of_parts r te = Some F)"
  by (auto simp: validate_request_framing_def framing_of_parts_def split: sum.splits option.splits)

text \<open>
  C3. The framing decision is the strict reading of RFC 9112 section 6.3: a request is given a
  framing exactly when its fields carry at most one decodable Content-Length or one chunked
  Transfer-Encoding, and never both; every other list of fields is an error.
\<close>

theorem request_framing_spec:
  "validate_request_framing fs = Inr F \<longleftrightarrow> framing_spec fs = Some F"
  by (simp add: framing_spec_parts request_framing_parts framing_headers_def framing_loop_spec)

section \<open>The read loops\<close>

text \<open>
  A parser is incremental when more bytes never change what it said: a complete head stays the
  same head, an error stays an error.
\<close>

definition incremental :: "(string \<Rightarrow> 'a hp_status) \<Rightarrow> bool" where
  "incremental hp \<longleftrightarrow>
     (\<forall>a b n r. hp a = HpComplete n r \<longrightarrow> n \<le> length a \<and> hp (a @ b) = HpComplete n r)
   \<and> (\<forall>a b. hp a = HpError \<longrightarrow> hp (a @ b) = HpError)"

text \<open>The reader as a function of all the bytes of the connection.\<close>

definition one_shot :: "(string \<Rightarrow> raw_request hp_status) \<Rightarrow> string \<Rightarrow> (request_head \<times> string) option res" where
  "one_shot hp input =
     (case hp (take MAX_HEAD input) of
        HpComplete n req \<Rightarrow> map_sum id Some (complete_request n req input)
      | HpError \<Rightarrow> Inl (InvalidInput ''malformed request head'')
      | HpPartial \<Rightarrow>
          if MAX_HEAD \<le> length input then Inl (InvalidInput ''request head exceeds limit'')
          else if input = [] then Inr None
          else Inl (InvalidInput ''connection closed before request head completed''))"

definition with_rest :: "(request_head \<times> string) option res \<times> source \<Rightarrow> (request_head \<times> string) option res" where
  "with_rest p = (case p of (r, src) \<Rightarrow> map_sum id (map_option (\<lambda>(h, c). (h, c @ src_bytes src))) r)"

lemma complete_request_append:
  "n \<le> length buf \<Longrightarrow> complete_request n req (buf @ rest)
     = map_sum id (\<lambda>(h, c). (h, c @ rest)) (complete_request n req buf)"
  by (auto simp: complete_request_def Let_def split: sum.splits)

lemma read_request_loop_one_shot:
  assumes "incremental hp"
  shows "src_clean src \<Longrightarrow> length buf \<le> MAX_HEAD
     \<Longrightarrow> with_rest (read_request_loop hp clk None i buf src) = one_shot hp (buf @ src_bytes src)"
proof (induction "src_size src" arbitrary: i buf src rule: less_induct)
  case less
  let ?all = "buf @ src_bytes src"
  have pre: "take MAX_HEAD ?all = buf @ take (MAX_HEAD - length buf) (src_bytes src)"
    using less.prems(2) by simp
  show ?case
  proof (cases "hp buf")
    case (HpComplete n req)
    with assms have "n \<le> length buf" "hp (take MAX_HEAD ?all) = HpComplete n req"
      unfolding pre by (auto simp: incremental_def)
    with HpComplete show ?thesis
      by (simp add: read_request_loop.simps one_shot_def with_rest_def complete_request_append
          sum.map_comp comp_def split_def)
  next
    case HpError
    with assms have "hp (take MAX_HEAD ?all) = HpError" unfolding pre by (auto simp: incremental_def)
    with HpError show ?thesis by (simp add: read_request_loop.simps one_shot_def with_rest_def)
  next
    case HpPartial
    show ?thesis
    proof (cases "MAX_HEAD \<le> length buf")
      case True
      with less.prems(2) HpPartial show ?thesis
        by (simp add: read_request_loop.simps one_shot_def with_rest_def)
    next
      case False
      let ?want = "min 4096 (MAX_HEAD - length buf)"
      from False have "0 < ?want" by simp
      from src_read_clean [OF less.prems(1) this] obtain bs src' where
        rd: "src_read ?want src = (ReadOk bs, src')" and cl: "src_clean src'"
        and bytes: "src_bytes src = bs @ src_bytes src'" and e: "bs = [] \<longleftrightarrow> src = []" by blast
      show ?thesis
      proof (cases "bs = []")
        case True
        with e have "src = []" by simp
        with False HpPartial rd True show ?thesis
          by (auto simp: read_request_loop.simps [of _ _ _ _ _ "[]"] one_shot_def with_rest_def past_deadline_def)
      next
        case ne: False
        have "length bs \<le> MAX_HEAD - length buf" using src_read_length [OF rd] by simp
        with False have "length (buf @ bs) \<le> MAX_HEAD" by simp
        from less.hyps [OF src_read_size [OF rd ne] cl this] show ?thesis
          using False HpPartial rd ne bytes
          by (simp add: read_request_loop.simps [of _ _ _ _ buf] past_deadline_def)
      qed
    qed
  qed
qed

text \<open>
  C4. Segmentation independence: on a connection that neither fails nor times out, the head the
  gateway reads, and the bytes left after it, are a function of the bytes alone, whatever the
  transport's cutting into reads; the read limit decides on the first MAX_HEAD bytes.
\<close>

theorem read_request_head_one_shot:
  assumes "incremental hp" and "src_clean src" and "length initial \<le> MAX_HEAD"
  shows "with_rest (read_request_head hp clk src initial None) = one_shot hp (initial @ src_bytes src)"
  using read_request_loop_one_shot [OF assms] by (simp add: read_request_head_def)

lemma demo_parser_incremental: "incremental demo_parser"
  by (auto simp: incremental_def demo_parser_def split: if_splits)

lemma read_request_head_one_shot_witness:
  "with_rest (read_request_head demo_parser (\<lambda>i. i) [Data (take 7 demo_raw), Data (drop 7 demo_raw), Data ''hello''] [] None)
     = one_shot demo_parser (demo_raw @ ''hello'')
   \<and> one_shot demo_parser (demo_raw @ ''hello'') = Inr (Some (demo_head, ''hello''))"
proof
  have c: "src_clean [Data (take 7 demo_raw), Data (drop 7 demo_raw), Data ''hello'']" by code_simp
  have b: "src_bytes [Data (take 7 demo_raw), Data (drop 7 demo_raw), Data ''hello''] = demo_raw @ ''hello''"
    by code_simp
  show "with_rest (read_request_head demo_parser (\<lambda>i. i)
      [Data (take 7 demo_raw), Data (drop 7 demo_raw), Data ''hello''] [] None)
     = one_shot demo_parser (demo_raw @ ''hello'')"
    using read_request_head_one_shot [OF demo_parser_incremental c, of "[]" "\<lambda>i. i"] by (simp only: b append_Nil list.size le0)
  show "one_shot demo_parser (demo_raw @ ''hello'') = Inr (Some (demo_head, ''hello''))" by code_simp
qed

text \<open>What a response reader that stops still holds, and what it leaves.\<close>

definition unread :: "head_read \<Rightarrow> source \<Rightarrow> string" where
  "unread hr src = (case hr of HeadComplete _ carry \<Rightarrow> carry | HeadTimedOut partial \<Rightarrow> partial) @ src_stream src"

lemma complete_response_carry:
  "complete_response n resp buf = Inr hr \<Longrightarrow> \<exists>h. hr = HeadComplete h (drop n buf)"
  by (auto simp: complete_response_def Let_def split: sum.splits if_splits)

lemma read_response_loop_unread:
  "read_response_loop hp clk dl i buf src = (Inr hr, src') \<Longrightarrow>
     \<exists>consumed. buf @ src_stream src = consumed @ unread hr src'
       \<and> (case hr of HeadTimedOut _ \<Rightarrow> consumed = [] \<and> dl \<noteq> None
          | HeadComplete _ _ \<Rightarrow> \<exists>n resp all. hp all = HpComplete n resp \<and> consumed = take n all)"
proof (induction hp clk dl i buf src rule: read_response_loop.induct)
  case (1 hp clk dl i buf src)
  show ?case
  proof (cases "hp buf")
    case (HpComplete n resp)
    with "1.prems" have "complete_response n resp buf = Inr hr" "src' = src"
      by (simp_all add: read_response_loop.simps)
    with complete_response_carry [of n resp buf hr] obtain h where
      "hr = HeadComplete h (drop n buf)" "src' = src" by blast
    with HpComplete show ?thesis
      by (intro exI [of _ "take n buf"]) (auto simp: unread_def)
  next
    case HpError
    with "1.prems" show ?thesis by (simp add: read_response_loop.simps)
  next
    case HpPartial
    have prems: "\<not> MAX_HEAD \<le> length buf" using "1.prems" HpPartial by (auto simp: read_response_loop.simps)
    show ?thesis
    proof (cases "past_deadline clk dl i")
      case True
      with "1.prems" HpPartial prems have "hr = HeadTimedOut buf" "src' = src"
        by (simp_all add: read_response_loop.simps)
      with True show ?thesis by (auto simp: unread_def past_deadline_def split: option.splits)
    next
      case False
      obtain rd s2 where r: "src_read (min 4096 (MAX_HEAD - length buf)) src = (rd, s2)" by fastforce
      show ?thesis
      proof (cases rd)
        case (ReadOk bs)
        with "1.prems" HpPartial prems False r have ne: "bs \<noteq> []"
          by (auto simp: read_response_loop.simps [of _ _ _ _ buf])
        with "1.prems" HpPartial prems False r ReadOk
        have "read_response_loop hp clk dl (Suc i) (buf @ bs) s2 = (Inr hr, src')"
          by (simp add: read_response_loop.simps [of _ _ _ _ buf])
        from "1.IH"(1) [OF HpPartial prems False r [symmetric] ReadOk ne this]
        show ?thesis using src_read_stream [OF r [unfolded ReadOk] ne] by simp
      next
        case ReadBlock
        with "1.prems" HpPartial prems False r have d: "dl \<noteq> None"
          by (auto simp: read_response_loop.simps [of _ _ _ _ buf] split: if_splits)
        with "1.prems" HpPartial prems False r ReadBlock
        have "read_response_loop hp clk dl (Suc i) buf s2 = (Inr hr, src')"
          by (simp add: read_response_loop.simps [of _ _ _ _ buf])
        from "1.IH"(2) [OF HpPartial prems False r [symmetric] ReadBlock d this]
        show ?thesis using src_read_block_stream [OF r [unfolded ReadBlock]] by simp
      next
        case (ReadErr e)
        with "1.prems" HpPartial prems False r show ?thesis
          by (simp add: read_response_loop.simps [of _ _ _ _ buf])
      qed
    qed
  qed
qed

text \<open>
  C5. Waiting for a response head never loses a byte: when the wait ends, on a complete head or
  at the deadline, what was read so far, the head's own bytes excepted, is handed back in front
  of what the transport still holds; at a deadline nothing at all has been consumed.
\<close>

theorem response_head_keeps_bytes:
  assumes "read_response_head_deadline hp clk src initial dl = (Inr hr, src')"
  shows "\<exists>consumed. initial @ src_stream src = consumed @ unread hr src'
     \<and> (case hr of HeadTimedOut _ \<Rightarrow> consumed = [] \<and> dl \<noteq> None
        | HeadComplete _ _ \<Rightarrow> \<exists>n resp all. hp all = HpComplete n resp \<and> consumed = take n all)"
  using read_response_loop_unread [of hp clk dl 0 initial src hr src'] assms
  by (simp add: read_response_head_deadline_def)

lemma response_head_keeps_bytes_witness:
  "read_response_head_deadline (\<lambda>_. HpPartial) (\<lambda>i. i) [Data ''HTT'', WouldBlock, Data ''P/1.1''] [] (Some 2)
     = (Inr (HeadTimedOut ''HTT''), [Data ''P/1.1''])
   \<and> (\<exists>consumed. [] @ src_stream [Data ''HTT'', WouldBlock, Data ''P/1.1'']
        = consumed @ unread (HeadTimedOut ''HTT'') [Data ''P/1.1''] \<and> consumed = [])"
proof -
  have r: "read_response_head_deadline (\<lambda>_. HpPartial) (\<lambda>i. i)
      [Data ''HTT'', WouldBlock, Data ''P/1.1''] [] (Some 2)
     = (Inr (HeadTimedOut ''HTT''), [Data ''P/1.1''])" by code_simp
  from r response_head_keeps_bytes [OF r] show ?thesis by simp
qed

text \<open>
  C6. The response reader without a deadline never reaches its \<open>unreachable!\<close>: it always
  returns a head or an error.
\<close>

theorem read_response_head_no_panic: "fst (read_response_head hp clk r initial) \<noteq> None"
proof (cases "read_response_head_deadline hp clk r initial None")
  case (Pair res src)
  then show ?thesis
    using read_response_loop_unread [of hp clk None 0 initial r]
    by (auto simp: read_response_head_def read_response_head_deadline_def split: sum.splits head_read.splits)
qed

section \<open>What the client receives\<close>

definition recipient_response :: "string \<Rightarrow> (string \<times> (string \<times> string) list \<times> string) option" where
  "recipient_response s =
     (case take_line s of
        None \<Rightarrow> None
      | Some (l, r) \<Rightarrow> (case recipient_fields r of
            None \<Rightarrow> None
          | Some (fs, body) \<Rightarrow> Some (l, fs, body)))"

definition bodiless :: "string \<Rightarrow> nat \<Rightarrow> bool" where
  "bodiless request_method status \<longleftrightarrow> to_ascii_lowercase request_method = ''head''
     \<or> (100 \<le> status \<and> status < 200) \<or> status = 204 \<or> status = 304"

definition client_framing :: "string \<Rightarrow> nat \<Rightarrow> (string \<times> string) list \<Rightarrow> framing option" where
  "client_framing request_method status fs =
     (if bodiless request_method status then Some FNone
      else (case (values_of ''content-length'' fs, values_of ''transfer-encoding'' fs) of
          ([], []) \<Rightarrow> Some FUntilClose
        | ([v], []) \<Rightarrow> map_option FContentLength (parse_unsigned 64 10 v)
        | ([], [v]) \<Rightarrow> if to_ascii_lowercase v = ''chunked'' then Some FChunked else None
        | _ \<Rightarrow> None))"

definition wf_response :: "response_head \<Rightarrow> bool" where
  "wf_response h \<longleftrightarrow> list_all wf_field (rs_headers h) \<and> chr_cr \<notin> set (rs_reason h)
     \<and> (case rs_content_length h of None \<Rightarrow> True | Some n \<Rightarrow> n < 2 ^ 64)"

lemma usable_reason_clean: "usable_reason r \<Longrightarrow> chr_cr \<notin> set r"
proof -
  have "\<not> (chr_cr = chr_tab \<or> (0x20 \<le> byte chr_cr \<and> byte chr_cr < 0x7F))" by code_simp
  then show "usable_reason r \<Longrightarrow> ?thesis" unfolding usable_reason_def list_all_iff by metis
qed

lemma response_framing_bound:
  "validate_response_framing fs = Inr (cl, te) \<Longrightarrow> (case cl of None \<Rightarrow> True | Some n \<Rightarrow> n < 2 ^ 64)"
  using framing_loop_bound [of None False False fs]
  by (auto simp: validate_response_framing_def framing_headers_def split: sum.splits if_splits)

lemma complete_response_wf:
  "complete_response n resp buf = Inr (HeadComplete h carry) \<Longrightarrow> wf_response h"
  by (auto simp: complete_response_def wf_response_def Let_def split: sum.splits if_splits option.splits
      dest!: collect_headers_wf dest: usable_reason_clean response_framing_bound)

lemma read_response_loop_wf:
  "read_response_loop hp clk dl i buf src = (Inr (HeadComplete h carry), src') \<Longrightarrow> wf_response h"
proof (induction hp clk dl i buf src rule: read_response_loop.induct)
  case (1 hp clk dl i buf src)
  show ?case
    using "1.prems" "1.IH"
    by (subst (asm) read_response_loop.simps)
      (auto split: hp_status.splits if_splits prod.splits read_result.splits dest: complete_response_wf)
qed

lemma read_response_head_wf:
  "read_response_head hp clk src initial = (Some (Inr (h, carry)), src') \<Longrightarrow> wf_response h"
  by (auto simp: read_response_head_def read_response_head_deadline_def
      split: prod.splits sum.splits head_read.splits dest: read_response_loop_wf)

definition client_framing_pairs :: "response_head \<Rightarrow> framing \<Rightarrow> (string \<times> string) list" where
  "client_framing_pairs head fr = (case fr of
     FNone \<Rightarrow>
       if \<not> (100 \<le> rs_status head \<and> rs_status head < 200) \<and> rs_status head \<noteq> 204 then
         (case rs_content_length head of
            Some n \<Rightarrow> framing_pairs (FContentLength n)
          | None \<Rightarrow> if rs_chunked head then framing_pairs FChunked else [])
       else []
   | _ \<Rightarrow> framing_pairs fr)"

definition client_pairs :: "response_head \<Rightarrow> framing \<Rightarrow> bool \<Rightarrow> (string \<times> string) list" where
  "client_pairs head fr ka =
     map (\<lambda>f. (hf_name f, hf_value f)) (response_fields head)
     @ client_framing_pairs head fr
     @ [(''Connection'', if ka then ''keep-alive'' else ''close'')]"

lemma client_head_pairs:
  "build_client_response_head head fr ka =
     status_line head @ concat (map render_pair (client_pairs head fr ka)) @ crlf"
  by (simp add: build_client_response_head_def client_pairs_def client_framing_pairs_def framing_pairs_def
      render_pair_def render_field_def [abs_def] content_length_line_def chunked_line_def
      connection_line_def comp_def split: framing.splits option.splits)

lemma client_pairs_clean:
  assumes "wf_response head"
  shows "list_all clean_pair (client_pairs head fr ka)"
proof -
  have "list_all clean_pair (map (\<lambda>f. (hf_name f, hf_value f)) (response_fields head))"
    using assms by (auto simp: wf_response_def response_fields_def list_all_iff intro: wf_field_clean)
  moreover have "list_all clean_pair (client_framing_pairs head fr)"
    by (simp add: client_framing_pairs_def framing_pairs_clean split: framing.splits option.splits)
  ultimately show ?thesis by (simp add: client_pairs_def clean_pair_def [of "(_, _)"])
qed

lemma client_head_read:
  assumes "wf_response head"
  shows "\<exists>line. recipient_response (build_client_response_head head fr ka @ body)
           = Some (line, trimmed (client_pairs head fr ka), body)"
proof -
  let ?line = "''HTTP/1.1 '' @ dec_of_nat (rs_status head)
     @ (if rs_reason head = [] then [] else '' '' @ rs_reason head)"
  let ?rest = "concat (map render_pair (client_pairs head fr ka)) @ crlf @ body"
  have "take_line (?line @ crlf @ ?rest) = Some (?line, ?rest)"
    using assms by (intro take_line_crlf) (auto simp: wf_response_def dec_of_nat_clean)
  moreover have "build_client_response_head head fr ka @ body = ?line @ crlf @ ?rest"
    by (simp add: client_head_pairs status_line_def)
  ultimately show ?thesis
    using recipient_fields_pairs [OF client_pairs_clean [OF assms], of fr ka body]
    by (simp add: recipient_response_def trimmed_def)
qed

lemma response_fields_name:
  "wf_response head \<Longrightarrow> f \<in> set (response_fields head) \<Longrightarrow>
     \<not> strip_from_response (to_ascii_lowercase (hf_name f)) (connection_named (rs_headers head))"
  by (auto simp: wf_response_def response_fields_def list_all_iff wf_field_def)

lemma values_of_response_dropped:
  assumes "wf_response head" and "strip_from_response l (connection_named (rs_headers head))"
  shows "values_of l (trimmed (map (\<lambda>f. (hf_name f, hf_value f)) (response_fields head))) = []"
  using response_fields_name [OF assms(1)] assms(2)
  by (auto simp: values_of_def trimmed_kept filter_empty_conv)

lemma strip_framing_names [simp]:
  "strip_from_response ''content-length'' named" "strip_from_response ''transfer-encoding'' named"
  "strip_from_response ''connection'' named" "strip_from_response ''set-cookie'' named"
  by (simp_all add: strip_from_response_def HOP_BY_HOP_def)

lemma client_framing_agrees:
  assumes "wf_response head"
  shows "client_framing m (rs_status head) (trimmed (client_pairs head (response_framing head m) ka))
           = Some (response_framing head m)"
  using assms
  by (simp add: client_framing_def client_pairs_def client_framing_pairs_def framing_pairs_def
      values_of_response_dropped [OF assms] ows_trim_digits ows_trim_chunked response_framing_def
      bodiless_def eq_ignore_ascii_case_def wf_response_def parse_unsigned_dec split: option.splits)

text \<open>
  C7. The client's side: whatever response head the gateway accepted, a recipient of the head it
  regenerates finds the body where that head ends, delimits it exactly as the gateway relays it,
  and is shown no Set-Cookie, no Access-Control and no Proxy field of the upstream.
\<close>

theorem client_response_agrees:
  assumes "read_response_head hp clk src initial = (Some (Inr (head, carry)), src')"
  shows "\<exists>line fs. recipient_response
        (build_client_response_head head (response_framing head m) ka @ body) = Some (line, fs, body)
     \<and> client_framing m (rs_status head) fs = Some (response_framing head m)
     \<and> (\<forall>(n, v) \<in> set fs. to_ascii_lowercase n \<noteq> ''set-cookie''
          \<and> \<not> starts_with ''access-control-'' (to_ascii_lowercase n)
          \<and> \<not> starts_with ''proxy-'' (to_ascii_lowercase n))"
proof -
  let ?fr = "response_framing head m"
  have wf: "wf_response head" by (rule read_response_head_wf [OF assms])
  have "\<forall>f \<in> set (response_fields head). to_ascii_lowercase (hf_name f) \<noteq> ''set-cookie''
          \<and> \<not> starts_with ''access-control-'' (to_ascii_lowercase (hf_name f))
          \<and> \<not> starts_with ''proxy-'' (to_ascii_lowercase (hf_name f))"
    using response_fields_name [OF wf] by (auto simp: strip_from_response_def)
  then have "\<forall>(n, v) \<in> set (trimmed (client_pairs head ?fr ka)). to_ascii_lowercase n \<noteq> ''set-cookie''
          \<and> \<not> starts_with ''access-control-'' (to_ascii_lowercase n)
          \<and> \<not> starts_with ''proxy-'' (to_ascii_lowercase n)"
    by (auto simp: client_pairs_def trimmed_kept client_framing_pairs_def framing_pairs_def
        starts_with_def split: framing.splits option.splits if_splits)
  with client_head_read [OF wf, of ?fr ka body] client_framing_agrees [OF wf, of m ka]
  show ?thesis by blast
qed

definition demo_response_raw :: string where
  "demo_response_raw = ''HTTP/1.1 200 OK'' @ crlf @ ''Set-Cookie: s=1'' @ crlf
     @ ''Content-Length: 2'' @ crlf @ crlf"

definition demo_response_parser :: "string \<Rightarrow> raw_response hp_status" where
  "demo_response_parser buf =
     (if length demo_response_raw \<le> length buf
      then HpComplete (length demo_response_raw)
        \<lparr>rp_code = Some 200, rp_reason = Some ''OK'', rp_version = Some 1,
         rp_headers = [(''Set-Cookie'', ''s=1''), (''Content-Length'', ''2'')]\<rparr>
      else HpPartial)"

definition demo_response :: response_head where
  "demo_response = \<lparr>rs_status = 200, rs_reason = ''OK'', rs_version = Http11,
     rs_headers = [\<lparr>hf_name = ''Set-Cookie'', hf_lower = ''set-cookie'', hf_value = ''s=1''\<rparr>,
       \<lparr>hf_name = ''Content-Length'', hf_lower = ''content-length'', hf_value = ''2''\<rparr>],
     rs_content_length = Some 2, rs_chunked = False, rs_upstream_wants_close = False\<rparr>"

lemma client_response_agrees_witness:
  "\<exists>line fs. recipient_response
        (build_client_response_head demo_response (response_framing demo_response ''GET'') True @ ''ok'')
        = Some (line, fs, ''ok'')
     \<and> client_framing ''GET'' 200 fs = Some (FContentLength 2)"
proof -
  have r: "read_response_head demo_response_parser (\<lambda>i. i) [Data (demo_response_raw @ ''ok'')] []
     = (Some (Inr (demo_response, ''ok'')), [])" by code_simp
  have s: "rs_status demo_response = 200" "response_framing demo_response ''GET'' = FContentLength 2"
    by code_simp+
  from client_response_agrees [OF r, of "''GET''" True "''ok''"] show ?thesis
    unfolding s by blast
qed

end
