(* ===== verification/ChunkRelay.thy ===== *)
theory ChunkRelay
  imports HttpHead
begin

text \<open>
  The gateway's body relays (crates/gateway/src/stream.rs): the strict chunked relay, which
  echoes the framing, feeds the decoded data to a tap and filters the trailer, the plain relay,
  and the deadline reader. A reader is the source of Stream_Model, a writer is a sink that may
  fail after some number of bytes, a tap is the list of pieces it was fed. Byte counters are
  \<open>nat\<close>.
\<close>

section \<open>Readers, writers and taps\<close>

definition BUF :: nat where "BUF = 16 * 1024"
definition MAX_CHUNK_LINE :: nat where "MAX_CHUNK_LINE = 1024"
definition MAX_TRAILER :: nat where "MAX_TRAILER = 8 * 1024"

text \<open>\<open>sk_room\<close> is None for a writer that never fails, otherwise the bytes it still accepts.\<close>

record sink =
  sk_out :: string
  sk_room :: "nat option"

definition write_all :: "string \<Rightarrow> sink \<Rightarrow> unit res \<times> sink" where
  "write_all bs k =
     (case sk_room k of
        None \<Rightarrow> (Inr (), k\<lparr>sk_out := sk_out k @ bs\<rparr>)
      | Some n \<Rightarrow>
          if length bs \<le> n then (Inr (), k\<lparr>sk_out := sk_out k @ bs, sk_room := Some (n - length bs)\<rparr>)
          else (Inl (IoErr ''write failed''), k\<lparr>sk_out := sk_out k @ take n bs, sk_room := Some 0\<rparr>))"

text \<open>
  The state of a relay: the reader, the bytes read but not consumed (\<open>buf[pos..]\<close>), the
  writer, the tap, and the count of bytes relayed.
\<close>

record relay =
  rl_src :: source
  rl_buf :: string
  rl_dst :: sink
  rl_tap :: "string list option"
  rl_count :: nat

definition feed :: "string \<Rightarrow> string list option \<Rightarrow> string list option" where
  "feed piece tap = map_option (\<lambda>ps. ps @ [piece]) tap"

definition fill :: "relay \<Rightarrow> bool res \<times> relay" where
  "fill st =
     (case src_read BUF (rl_src st) of
        (ReadOk bs, src) \<Rightarrow>
          if bs = [] then (Inr False, st\<lparr>rl_src := src\<rparr>)
          else (Inr True, st\<lparr>rl_src := src, rl_buf := rl_buf st @ bs\<rparr>)
      | (ReadBlock, src) \<Rightarrow> (Inl (IoErr ''would block''), st\<lparr>rl_src := src\<rparr>)
      | (ReadErr e, src) \<Rightarrow> (Inl (IoErr e), st\<lparr>rl_src := src\<rparr>))"

text \<open>
  \<open>peek\<close> and \<open>take\<close> loop while the buffer is empty; a \<open>fill\<close> that returns true
  leaves it non-empty, so one call of it is the whole loop.
\<close>

definition peek :: "relay \<Rightarrow> char option res \<times> relay" where
  "peek st =
     (case rl_buf st of
        b # _ \<Rightarrow> (Inr (Some b), st)
      | [] \<Rightarrow> (case fill st of
            (Inl e, st') \<Rightarrow> (Inl e, st')
          | (Inr False, st') \<Rightarrow> (Inr None, st')
          | (Inr True, st') \<Rightarrow> (Inr (Some (hd (rl_buf st'))), st')))"

definition next_byte :: "relay \<Rightarrow> char option res \<times> relay" where
  "next_byte st =
     (case peek st of
        (Inr (Some b), st') \<Rightarrow> (Inr (Some b), st'\<lparr>rl_buf := tl (rl_buf st')\<rparr>)
      | r \<Rightarrow> r)"

definition take_bytes :: "nat \<Rightarrow> relay \<Rightarrow> string res \<times> relay" where
  "take_bytes want st =
     (case rl_buf st of
        _ # _ \<Rightarrow> (Inr (take want (rl_buf st)), st\<lparr>rl_buf := drop want (rl_buf st)\<rparr>)
      | [] \<Rightarrow> (case fill st of
            (Inl e, st') \<Rightarrow> (Inl e, st')
          | (Inr False, st') \<Rightarrow> (Inr [], st')
          | (Inr True, st') \<Rightarrow>
              (Inr (take want (rl_buf st')), st'\<lparr>rl_buf := drop want (rl_buf st')\<rparr>)))"

definition put :: "string \<Rightarrow> relay \<Rightarrow> unit res \<times> relay" where
  "put bs st = (case write_all bs (rl_dst st) of (r, k) \<Rightarrow> (r, st\<lparr>rl_dst := k\<rparr>))"

definition counted :: "nat \<Rightarrow> relay \<Rightarrow> relay" where
  "counted n st = st\<lparr>rl_count := rl_count st + n\<rparr>"

definition pending :: "relay \<Rightarrow> nat" where
  "pending st = length (rl_buf st) + src_size (rl_src st)"

lemma src_read_pending:
  "src_read want src = (rd, src') \<Longrightarrow>
     (case rd of ReadOk bs \<Rightarrow> length bs | _ \<Rightarrow> 0) + src_size src' \<le> src_size src"
  by (cases src rule: src_size.cases) auto

lemma fill_pending: "fill st = (r, st') \<Longrightarrow> pending st' \<le> pending st"
  by (auto simp: fill_def pending_def split: prod.splits read_result.splits if_splits
      dest!: src_read_pending)

lemma fill_True: "fill st = (Inr True, st') \<Longrightarrow> rl_buf st' \<noteq> []"
  by (auto simp: fill_def split: prod.splits read_result.splits if_splits)

lemma next_byte_pending: "next_byte st = (Inr (Some b), st') \<Longrightarrow> pending st' < pending st"
proof (cases "rl_buf st")
  case (Cons c s)
  assume "next_byte st = (Inr (Some b), st')"
  with Cons show ?thesis by (auto simp: next_byte_def peek_def pending_def)
next
  case Nil
  assume "next_byte st = (Inr (Some b), st')"
  with Nil obtain st1 where f: "fill st = (Inr True, st1)" and s: "st' = st1\<lparr>rl_buf := tl (rl_buf st1)\<rparr>"
    by (auto simp: next_byte_def peek_def split: prod.splits sum.splits bool.splits)
  with fill_True [OF f] have "pending st' < pending st1" by (auto simp: pending_def neq_Nil_conv)
  with fill_pending [OF f] show ?thesis by simp
qed

lemma take_bytes_pending:
  "take_bytes want st = (Inr bs, st') \<Longrightarrow> pending st' \<le> pending st"
  by (auto simp: take_bytes_def split: list.splits prod.splits sum.splits bool.splits dest!: fill_pending)
    (auto simp: pending_def)

lemma put_pending [simp]: "put bs st = (r, st') \<Longrightarrow> pending st' = pending st"
  by (auto simp: put_def pending_def split: prod.splits)

lemma counted_pending [simp]: "pending (counted n st) = pending st"
  by (simp add: counted_def pending_def)

section \<open>The strict chunked relay\<close>

definition HOP_STRIPPED :: "string \<Rightarrow> bool" where
  "HOP_STRIPPED lower \<longleftrightarrow> lower = ''set-cookie'' \<or> starts_with ''access-control-'' lower
     \<or> lower = ''content-length'' \<or> lower = ''transfer-encoding'' \<or> lower = ''trailer''
     \<or> starts_with ''proxy-'' lower \<or> lower \<in> set HOP_BY_HOP"

definition trailer_is_relayable :: "string \<Rightarrow> bool" where
  "trailer_is_relayable line =
     (case find_byte (\<lambda>b. b = CHR '':'') line of
        None \<Rightarrow> False
      | Some colon \<Rightarrow>
          (case from_utf8 (take colon line) of
             None \<Rightarrow> False
           | Some name \<Rightarrow>
               let lower = to_ascii_lowercase (trim name) in
               lower \<noteq> [] \<and> \<not> HOP_STRIPPED lower))"

function read_line_loop :: "nat \<Rightarrow> bool \<Rightarrow> string \<Rightarrow> relay \<Rightarrow> string res \<times> relay" where
  "read_line_loop limit echo line st =
     (case next_byte st of
        (Inl e, st1) \<Rightarrow> (Inl e, st1)
      | (Inr None, st1) \<Rightarrow> (Inl (InvalidInput ''eof in chunk framing''), st1)
      | (Inr (Some b), st1) \<Rightarrow>
          if b = chr_cr then
            (case next_byte (counted 1 st1) of
               (Inl e, st2) \<Rightarrow> (Inl e, st2)
             | (Inr None, st2) \<Rightarrow> (Inl (InvalidInput ''eof after CR in chunk framing''), st2)
             | (Inr (Some c), st2) \<Rightarrow>
                 if c \<noteq> chr_lf
                 then (Inl (InvalidInput ''bare CR in chunk framing (strict CRLF required)''), counted 1 st2)
                 else if echo then
                   (case put line (counted 1 st2) of
                      (Inl e, st3) \<Rightarrow> (Inl e, st3)
                    | (Inr _, st3) \<Rightarrow> (case put crlf st3 of
                          (Inl e, st4) \<Rightarrow> (Inl e, st4)
                        | (Inr _, st4) \<Rightarrow> (Inr line, st4)))
                 else (Inr line, counted 1 st2))
          else if b = chr_lf
          then (Inl (InvalidInput ''bare LF in chunk framing (strict CRLF required)''), counted 1 st1)
          else if limit \<le> length line then (Inl (InvalidInput ''chunk line too long''), counted 1 st1)
          else read_line_loop limit echo (line @ [b]) (counted 1 st1))"
  by pat_completeness auto
termination
  by (relation "measure (\<lambda>(limit, echo, line, st). pending st)") (auto dest: next_byte_pending [OF sym])

declare read_line_loop.simps [simp del]

definition read_line_strict :: "nat \<Rightarrow> bool \<Rightarrow> relay \<Rightarrow> string res \<times> relay" where
  "read_line_strict limit echo st = read_line_loop limit echo [] st"

definition parse_chunk_size :: "string \<Rightarrow> nat res" where
  "parse_chunk_size line =
     (if line = [] \<or> 16 < length line then Inl (InvalidInput ''malformed chunk size'')
      else case from_utf8 line of
        None \<Rightarrow> Inl (InvalidInput ''non-utf8 chunk size'')
      | Some s \<Rightarrow>
          if \<not> list_all is_ascii_hexdigit s
          then Inl (InvalidInput ''chunk size must be plain hex with no extension'')
          else (case parse_unsigned 64 16 s of
                  None \<Rightarrow> Inl (InvalidInput ''bad chunk size'')
                | Some n \<Rightarrow> Inr n))"

lemma read_line_pending:
  "read_line_loop limit echo line st = (Inr l, st') \<Longrightarrow> pending st' < pending st"
proof (induction limit echo line st rule: read_line_loop.induct)
  case (1 limit echo line st)
  obtain b st1 where n: "next_byte st = (Inr (Some b), st1)"
    using "1.prems" by (auto simp: read_line_loop.simps [of limit echo line st] split: prod.splits sum.splits option.splits)
  then have lt: "pending st1 < pending st" by (rule next_byte_pending)
  show ?case
  proof (cases "b = chr_cr")
    case True
    with "1.prems" n obtain st2 where "next_byte (counted 1 st1) = (Inr (Some chr_lf), st2)"
      and e: "pending st' = pending st2"
      by (auto simp: read_line_loop.simps [of limit echo line st] split: prod.splits sum.splits option.splits if_splits)
    from next_byte_pending [OF this(1)] e lt show ?thesis by simp
  next
    case False
    with "1.prems" n have "b \<noteq> chr_lf" "\<not> limit \<le> length line"
      "read_line_loop limit echo (line @ [b]) (counted 1 st1) = (Inr l, st')"
      by (auto simp: read_line_loop.simps [of limit echo line st] split: if_splits)
    from "1.IH" [OF n [symmetric] refl refl False this] lt show ?thesis by simp
  qed
qed

text \<open>The trailer section: read without echo, filtered, then the blank line.\<close>

function relay_trailer :: "nat \<Rightarrow> relay \<Rightarrow> unit res \<times> relay" where
  "relay_trailer trailer_bytes st =
     (case read_line_strict MAX_CHUNK_LINE False st of
        (Inl e, st1) \<Rightarrow> (Inl e, st1)
      | (Inr trailer, st1) \<Rightarrow>
          if trailer = [] then put crlf st1
          else if MAX_TRAILER < trailer_bytes + length trailer
          then (Inl (InvalidInput ''chunk trailer too large''), st1)
          else if \<not> trailer_is_relayable trailer
          then relay_trailer (trailer_bytes + length trailer) st1
          else (case put trailer st1 of
                  (Inl e, st2) \<Rightarrow> (Inl e, st2)
                | (Inr _, st2) \<Rightarrow> (case put crlf st2 of
                      (Inl e, st3) \<Rightarrow> (Inl e, st3)
                    | (Inr _, st3) \<Rightarrow> relay_trailer (trailer_bytes + length trailer) st3)))"
  by pat_completeness auto
termination
  by (relation "measure (\<lambda>(n, st). pending st)")
    (auto simp: read_line_strict_def dest!: read_line_pending [OF sym] put_pending [OF sym])

text \<open>Chunk data, streamed in bounded pieces.\<close>

function relay_data :: "nat \<Rightarrow> relay \<Rightarrow> unit res \<times> relay" where
  "relay_data remaining st =
     (if remaining = 0 then (Inr (), st)
      else case take_bytes (min BUF remaining) st of
        (Inl e, st1) \<Rightarrow> (Inl e, st1)
      | (Inr piece, st1) \<Rightarrow>
          if piece = [] then (Inl (InvalidInput ''eof mid chunk''), st1)
          else (case put piece st1 of
                  (Inl e, st2) \<Rightarrow> (Inl e, st2)
                | (Inr _, st2) \<Rightarrow>
                    relay_data (remaining - length piece)
                      (counted (length piece) (st2\<lparr>rl_tap := feed piece (rl_tap st2)\<rparr>))))"
  by pat_completeness auto
termination
  by (relation "measure (\<lambda>(n, st). n)") (auto simp: neq_Nil_conv)

declare relay_trailer.simps [simp del] relay_data.simps [simp del]

lemma relay_data_pending: "relay_data n st = (Inr u, st') \<Longrightarrow> pending st' \<le> pending st"
proof (induction n st rule: relay_data.induct)
  case (1 n st)
  show ?case
  proof (cases "n = 0")
    case True
    with "1.prems" show ?thesis by (simp add: relay_data.simps)
  next
    case False
    with "1.prems" obtain piece st1 st2 where t: "take_bytes (min BUF n) st = (Inr piece, st1)"
      and p: "piece \<noteq> []" and w: "put piece st1 = (Inr (), st2)"
      and r: "relay_data (n - length piece)
        (counted (length piece) (st2\<lparr>rl_tap := feed piece (rl_tap st2)\<rparr>)) = (Inr u, st')"
      by (auto simp: relay_data.simps [of n st] split: prod.splits sum.splits if_splits)
    have "pending (st2\<lparr>rl_tap := feed piece (rl_tap st2)\<rparr>) = pending st2" by (simp add: pending_def)
    with "1.IH" [OF False t [symmetric] refl p w [symmetric] refl r] take_bytes_pending [OF t]
      put_pending [OF w] show ?thesis by simp
  qed
qed

function relay_chunks :: "relay \<Rightarrow> unit res \<times> relay" where
  "relay_chunks st =
     (case read_line_strict MAX_CHUNK_LINE True st of
        (Inl e, st1) \<Rightarrow> (Inl e, st1)
      | (Inr line, st1) \<Rightarrow>
        (case parse_chunk_size line of
           Inl e \<Rightarrow> (Inl e, st1)
         | Inr n \<Rightarrow>
             if n = 0 then relay_trailer 0 st1
             else (case relay_data n st1 of
                 (Inl e, st2) \<Rightarrow> (Inl e, st2)
               | (Inr _, st2) \<Rightarrow>
                 (case read_line_strict 1 True st2 of
                    (Inl e, st3) \<Rightarrow> (Inl e, st3)
                  | (Inr after, st3) \<Rightarrow>
                      if after \<noteq> [] then (Inl (InvalidInput ''malformed chunk terminator''), st3)
                      else relay_chunks st3))))"
  by pat_completeness auto
termination
  by (relation "measure pending")
    (auto simp: read_line_strict_def dest!: read_line_pending [OF sym] relay_data_pending [OF sym])

declare relay_chunks.simps [simp del]

definition relay_chunked_strict ::
    "source \<Rightarrow> sink \<Rightarrow> string \<Rightarrow> string list option \<Rightarrow> (nat \<times> string) res \<times> relay" where
  "relay_chunked_strict src dst initial tap =
     (case relay_chunks \<lparr>rl_src = src, rl_buf = initial, rl_dst = dst, rl_tap = tap, rl_count = 0\<rparr> of
        (Inl e, st) \<Rightarrow> (Inl e, st)
      | (Inr _, st) \<Rightarrow> (Inr (rl_count st, rl_buf st), st))"

section \<open>The plain relay\<close>

function relay_plain_loop :: "nat option \<Rightarrow> relay \<Rightarrow> unit res \<times> relay" where
  "relay_plain_loop limit st =
     (if (case limit of None \<Rightarrow> False | Some n \<Rightarrow> n \<le> rl_count st) then (Inr (), st)
      else let want = (case limit of None \<Rightarrow> BUF | Some n \<Rightarrow> min BUF (n - rl_count st)) in
        (case src_read want (rl_src st) of
           (ReadOk bs, src) \<Rightarrow>
             if bs = [] then (Inr (), st\<lparr>rl_src := src\<rparr>)
             else (case put bs (st\<lparr>rl_src := src\<rparr>) of
                     (Inl e, st1) \<Rightarrow> (Inl e, st1)
                   | (Inr _, st1) \<Rightarrow>
                       relay_plain_loop limit
                         (counted (length bs) (st1\<lparr>rl_tap := feed bs (rl_tap st1)\<rparr>)))
         | (ReadBlock, src) \<Rightarrow> (Inl (IoErr ''would block''), st\<lparr>rl_src := src\<rparr>)
         | (ReadErr e, src) \<Rightarrow> (Inl (IoErr e), st\<lparr>rl_src := src\<rparr>)))"
  by pat_completeness auto
termination
  by (relation "measure (\<lambda>(limit, st). src_size (rl_src st))")
    (auto simp: counted_def put_def split: prod.splits dest: src_read_size [OF sym])

declare relay_plain_loop.simps [simp del]

definition relay_plain ::
    "source \<Rightarrow> sink \<Rightarrow> nat option \<Rightarrow> string \<Rightarrow> string list option \<Rightarrow> (nat \<times> string) res \<times> relay" where
  "relay_plain src dst limit initial tap =
     (let st = \<lparr>rl_src = src, rl_buf = [], rl_dst = dst, rl_tap = tap, rl_count = 0\<rparr>;
          n = (case limit of Some n \<Rightarrow> min (length initial) n | None \<Rightarrow> length initial);
          start = (if initial = [] then (Inr (), st)
                   else case put (take n initial) st of
                     (Inl e, st1) \<Rightarrow> (Inl e, st1)
                   | (Inr _, st1) \<Rightarrow>
                       (Inr (), (counted n (st1\<lparr>rl_tap := feed (take n initial) (rl_tap st1)\<rparr>))
                                  \<lparr>rl_buf := drop n initial\<rparr>))
      in case start of
        (Inl e, st1) \<Rightarrow> (Inl e, st1)
      | (Inr _, st1) \<Rightarrow> (case relay_plain_loop limit st1 of
            (Inl e, st2) \<Rightarrow> (Inl e, st2)
          | (Inr _, st2) \<Rightarrow> (Inr (rl_count st2, rl_buf st2), st2)))"

section \<open>The deadline reader\<close>

datatype reader_stop = StopNone | DeadlineExceeded | IdleTimeout | StopFailed

record deadline_reader =
  dr_inner :: source
  dr_deadline :: nat
  dr_stop :: reader_stop

definition deadline_new :: "source \<Rightarrow> nat \<Rightarrow> deadline_reader" where
  "deadline_new inner deadline = \<lparr>dr_inner = inner, dr_deadline = deadline, dr_stop = StopNone\<rparr>"

text \<open>\<open>now\<close> is the \<open>Instant::now\<close> of the call; WouldBlock stands for both timed-out kinds.\<close>

definition deadline_read :: "nat \<Rightarrow> nat \<Rightarrow> deadline_reader \<Rightarrow> read_result \<times> deadline_reader" where
  "deadline_read now want r =
     (if dr_deadline r \<le> now
      then (ReadBlock, r\<lparr>dr_stop := DeadlineExceeded\<rparr>)
      else (case src_read want (dr_inner r) of
          (ReadOk bs, src) \<Rightarrow> (ReadOk bs, r\<lparr>dr_inner := src\<rparr>)
        | (ReadBlock, src) \<Rightarrow> (ReadBlock, r\<lparr>dr_inner := src, dr_stop := IdleTimeout\<rparr>)
        | (ReadErr e, src) \<Rightarrow> (ReadErr e, r\<lparr>dr_inner := src, dr_stop := StopFailed\<rparr>)))"

end
