(* ===== verification/ChunkProps.thy ===== *)
theory ChunkProps
  imports ChunkRelay
begin

text \<open>
  The body relays against the bytes of the connection. A chunked message is written here as a
  grammar (chunks, last chunk, trailer lines); on a transport that delivers its bytes, the relay
  accepts exactly the messages of the grammar, whatever the segmentation, and its output, its
  tap, its count and what it leaves unread are functions of the message.
\<close>

section \<open>The relay's state read as bytes\<close>

definition holds :: "relay \<Rightarrow> string \<Rightarrow> string \<Rightarrow> string option \<Rightarrow> nat \<Rightarrow> bool" where
  "holds st s out tap n \<longleftrightarrow> src_clean (rl_src st) \<and> sk_room (rl_dst st) = None
     \<and> rl_buf st @ src_bytes (rl_src st) = s \<and> sk_out (rl_dst st) = out
     \<and> map_option concat (rl_tap st) = tap \<and> rl_count st = n"

lemma BUF_pos [simp]: "0 < BUF"
  by (simp add: BUF_def)

lemma fill_holds:
  assumes "holds st s out tap n" and "rl_buf st = []"
  shows "if s = [] then fill st = (Inr False, st)
         else \<exists>st'. fill st = (Inr True, st') \<and> holds st' s out tap n \<and> rl_buf st' \<noteq> []"
proof -
  have c: "src_clean (rl_src st)" and s: "src_bytes (rl_src st) = s"
    using assms by (auto simp: holds_def)
  from src_read_clean [OF c BUF_pos] obtain bs src' where
    rd: "src_read BUF (rl_src st) = (ReadOk bs, src')" and c': "src_clean src'"
    and b: "src_bytes (rl_src st) = bs @ src_bytes src'" and e: "bs = [] \<longleftrightarrow> rl_src st = []" by blast
  have "s = [] \<longleftrightarrow> bs = []" using src_clean_bytes_Nil [OF c] s e by simp
  then show ?thesis
    using rd c' b s assms by (cases "bs = []") (auto simp: fill_def holds_def e)
qed

lemma next_byte_holds:
  "holds st [] out tap n \<Longrightarrow> \<exists>st'. next_byte st = (Inr None, st') \<and> holds st' [] out tap n"
  "holds st (b # s) out tap n \<Longrightarrow> \<exists>st'. next_byte st = (Inr (Some b), st') \<and> holds st' s out tap n"
proof -
  assume h: "holds st [] out tap n"
  then have "rl_buf st = []" by (simp add: holds_def)
  with fill_holds [OF h] h show "\<exists>st'. next_byte st = (Inr None, st') \<and> holds st' [] out tap n"
    by (simp add: next_byte_def peek_def)
next
  assume h: "holds st (b # s) out tap n"
  show "\<exists>st'. next_byte st = (Inr (Some b), st') \<and> holds st' s out tap n"
  proof (cases "rl_buf st")
    case Nil
    from fill_holds [OF h this] obtain st' where
      "fill st = (Inr True, st')" "holds st' (b # s) out tap n" "rl_buf st' \<noteq> []" by auto
    with Nil show ?thesis by (auto simp: next_byte_def peek_def holds_def neq_Nil_conv)
  next
    case (Cons c u)
    with h show ?thesis by (auto simp: next_byte_def peek_def holds_def)
  qed
qed

lemma take_bytes_holds:
  assumes "holds st s out tap n" and "0 < want"
  shows "\<exists>st' piece r. take_bytes want st = (Inr piece, st') \<and> holds st' r out tap n
           \<and> s = piece @ r \<and> length piece \<le> want \<and> (piece = [] \<longleftrightarrow> s = [])"
proof (cases "rl_buf st")
  case (Cons c u)
  then have t: "take_bytes want st = (Inr (take want (rl_buf st)), st\<lparr>rl_buf := drop want (rl_buf st)\<rparr>)"
    by (simp add: take_bytes_def)
  show ?thesis
    by (rule exI [of _ "st\<lparr>rl_buf := drop want (rl_buf st)\<rparr>"], rule exI [of _ "take want (rl_buf st)"],
        rule exI [of _ "drop want (rl_buf st) @ src_bytes (rl_src st)"])
      (use assms Cons t in \<open>auto simp: holds_def simp flip: append_assoc\<close>)
next
  case Nil
  show ?thesis
  proof (cases "s = []")
    case True
    with fill_holds [OF assms(1) Nil] assms(1) Nil show ?thesis
      by (auto simp: take_bytes_def)
  next
    case False
    with fill_holds [OF assms(1) Nil] obtain st' where
      f: "fill st = (Inr True, st')" "holds st' s out tap n" "rl_buf st' \<noteq> []" by auto
    then have t: "take_bytes want st = (Inr (take want (rl_buf st')), st'\<lparr>rl_buf := drop want (rl_buf st')\<rparr>)"
      using Nil by (simp add: take_bytes_def)
    show ?thesis
      by (rule exI [of _ "st'\<lparr>rl_buf := drop want (rl_buf st')\<rparr>"], rule exI [of _ "take want (rl_buf st')"],
          rule exI [of _ "drop want (rl_buf st') @ src_bytes (rl_src st')"])
        (use assms(2) f t False in \<open>auto simp: holds_def simp flip: append_assoc\<close>)
  qed
qed

lemma put_holds:
  "holds st s out tap n \<Longrightarrow> \<exists>st'. put bs st = (Inr (), st') \<and> holds st' s (out @ bs) tap n"
  by (auto simp: put_def write_all_def holds_def)

lemma counted_holds: "holds st s out tap n \<Longrightarrow> holds (counted k st) s out tap (n + k)"
  by (simp add: holds_def counted_def)

lemma feed_holds:
  "holds st s out tap n \<Longrightarrow>
     holds (st\<lparr>rl_tap := feed piece (rl_tap st)\<rparr>) s out (map_option (\<lambda>t. t @ piece) tap) n"
  by (auto simp: holds_def feed_def option.map_comp comp_def)

section \<open>The relay as a function of the bytes\<close>

fun line_spec :: "nat \<Rightarrow> string \<Rightarrow> string \<Rightarrow> (string \<times> string) res" where
  "line_spec limit line [] = Inl (InvalidInput ''eof in chunk framing'')"
| "line_spec limit line (b # s) =
     (if b = chr_cr then
        (case s of
           [] \<Rightarrow> Inl (InvalidInput ''eof after CR in chunk framing'')
         | c # r \<Rightarrow> if c \<noteq> chr_lf then Inl (InvalidInput ''bare CR in chunk framing (strict CRLF required)'')
                    else Inr (line, r))
      else if b = chr_lf then Inl (InvalidInput ''bare LF in chunk framing (strict CRLF required)'')
      else if limit \<le> length line then Inl (InvalidInput ''chunk line too long'')
      else line_spec limit (line @ [b]) s)"

lemma line_spec_shorter: "line_spec limit line s = Inr (l, r) \<Longrightarrow> length r < length s"
  by (induction limit line s rule: line_spec.induct) (auto split: if_splits list.splits)

lemma line_spec_diff:
  "line_spec limit line s = Inr (l, r) \<Longrightarrow> Suc (length s) - length r = Suc (length s - length r)"
  using line_spec_shorter [of limit line s l r] by simp

lemma read_line_holds:
  "holds st s out tap n \<Longrightarrow>
     (case line_spec limit line s of
        Inl e \<Rightarrow> \<exists>st'. read_line_loop limit echo line st = (Inl e, st')
      | Inr (l, r) \<Rightarrow> \<exists>st'. read_line_loop limit echo line st = (Inr l, st')
          \<and> holds st' r (out @ (if echo then l @ crlf else [])) tap (n + (length s - length r)))"
proof (induction limit line s arbitrary: st n rule: line_spec.induct)
  case (1 limit line)
  from next_byte_holds(1) [OF "1.prems"] show ?case
    by (auto simp: read_line_loop.simps [of limit echo line st])
next
  case (2 limit line b s)
  from next_byte_holds(2) [OF "2.prems"] obtain st1 where
    n1: "next_byte st = (Inr (Some b), st1)" and h1: "holds st1 s out tap n" by blast
  have h2: "holds (counted 1 st1) s out tap (n + 1)" by (rule counted_holds [OF h1])
  note unf = read_line_loop.simps [of limit echo line st] n1
  show ?case
  proof (cases "b = chr_cr")
    case cr: True
    show ?thesis
    proof (cases s)
      case Nil
      from next_byte_holds(1) [OF h2 [unfolded Nil]] show ?thesis
        using cr Nil by (auto simp: unf)
    next
      case (Cons c r)
      from next_byte_holds(2) [OF h2 [unfolded Cons]] obtain st2 where
        n2: "next_byte (counted 1 st1) = (Inr (Some c), st2)" and h3: "holds st2 r out tap (n + 1)" by blast
      have h4: "holds (counted 1 st2) r out tap (n + 2)" using counted_holds [OF h3, of 1] by simp
      from put_holds [OF h4, of line] obtain st3 where
        p1: "put line (counted 1 st2) = (Inr (), st3)" and h5: "holds st3 r (out @ line) tap (n + 2)" by blast
      from put_holds [OF h5, of crlf] obtain st4 where
        p2: "put crlf st3 = (Inr (), st4)" and h6: "holds st4 r ((out @ line) @ crlf) tap (n + 2)" by blast
      show ?thesis using cr Cons n2 h4 p1 p2 h6 by (auto simp: unf)
    qed
  next
    case ncr: False
    show ?thesis
    proof (cases "b = chr_lf \<or> limit \<le> length line")
      case True
      with ncr show ?thesis by (auto simp: unf)
    next
      case False
      with "2.IH" [OF ncr _ _ h2] ncr show ?thesis
        by (auto simp: unf line_spec_diff split: sum.splits)
    qed
  qed
qed

lemmas read_line_strict_holds = read_line_holds [where line = "[]", folded read_line_strict_def]

lemma relay_data_holds:
  "holds st s out tap n \<Longrightarrow>
     (if k \<le> length s
      then \<exists>st'. relay_data k st = (Inr (), st')
             \<and> holds st' (drop k s) (out @ take k s) (map_option (\<lambda>t. t @ take k s) tap) (n + k)
      else \<exists>st'. relay_data k st = (Inl (InvalidInput ''eof mid chunk''), st'))"
proof (induction k arbitrary: st s out tap n rule: less_induct)
  case (less k)
  show ?case
  proof (cases "k = 0")
    case True
    with less.prems show ?thesis by (simp add: relay_data.simps option.map_id0 [unfolded id_def])
  next
    case False
    then have "0 < min BUF k" by simp
    from take_bytes_holds [OF less.prems this] obtain st1 piece r where
      t: "take_bytes (min BUF k) st = (Inr piece, st1)" and h1: "holds st1 r out tap n"
      and s: "s = piece @ r" and l: "length piece \<le> min BUF k" and e: "piece = [] \<longleftrightarrow> s = []" by blast
    show ?thesis
    proof (cases "piece = []")
      case True
      with e t False show ?thesis by (simp add: relay_data.simps [of k st])
    next
      case ne: False
      from put_holds [OF h1, of piece] obtain st2 where
        p: "put piece st1 = (Inr (), st2)" and h2: "holds st2 r (out @ piece) tap n" by blast
      have h3: "holds (counted (length piece) (st2\<lparr>rl_tap := feed piece (rl_tap st2)\<rparr>)) r
          (out @ piece) (map_option (\<lambda>t. t @ piece) tap) (n + length piece)"
        by (rule counted_holds [OF feed_holds [OF h2]])
      have lt: "k - length piece < k" using ne False by (simp add: neq_Nil_conv)
      have "relay_data k st = relay_data (k - length piece)
          (counted (length piece) (st2\<lparr>rl_tap := feed piece (rl_tap st2)\<rparr>))"
        using False t ne p by (simp add: relay_data.simps [of k st])
      with less.IH [OF lt h3] l show ?thesis
        by (auto simp: s option.map_comp comp_def split: if_splits)
    qed
  qed
qed

function trailer_spec :: "nat \<Rightarrow> string \<Rightarrow> (string \<times> string) res" where
  "trailer_spec used s =
     (case line_spec MAX_CHUNK_LINE [] s of
        Inl e \<Rightarrow> Inl e
      | Inr (l, r) \<Rightarrow>
          if l = [] then Inr (crlf, r)
          else if MAX_TRAILER < used + length l then Inl (InvalidInput ''chunk trailer too large'')
          else (case trailer_spec (used + length l) r of
              Inl e \<Rightarrow> Inl e
            | Inr (out, rest) \<Rightarrow> Inr ((if trailer_is_relayable l then l @ crlf else []) @ out, rest)))"
  by pat_completeness auto
termination
  by (relation "measure (\<lambda>(n, s). length s)") (auto dest: line_spec_shorter)

declare trailer_spec.simps [simp del]

lemma trailer_spec_cases:
  assumes "trailer_spec used s = Inr (out, rest)"
  obtains (last) "line_spec MAX_CHUNK_LINE [] s = Inr ([], rest)" and "out = crlf"
  | (field) l r o' where "line_spec MAX_CHUNK_LINE [] s = Inr (l, r)" and "l \<noteq> []"
      and "used + length l \<le> MAX_TRAILER" and "trailer_spec (used + length l) r = Inr (o', rest)"
      and "out = (if trailer_is_relayable l then l @ crlf else []) @ o'"
  using assms unfolding trailer_spec.simps [of used s]
  by (auto split: sum.splits if_splits)

lemma trailer_spec_shorter: "trailer_spec used s = Inr (out, rest) \<Longrightarrow> length rest < length s"
proof (induction used s arbitrary: out rule: trailer_spec.induct)
  case (1 used s)
  from "1.prems" show ?case
  proof (cases rule: trailer_spec_cases)
    case last
    then show ?thesis by (simp add: line_spec_shorter)
  next
    case (field l r o')
    with "1.IH" [OF field(1) refl field(2) _ field(4)] line_spec_shorter [OF field(1)]
    show ?thesis by simp
  qed
qed

lemma relay_trailer_holds:
  "holds st s out tap n \<Longrightarrow>
     (case trailer_spec used s of
        Inl e \<Rightarrow> \<exists>st'. relay_trailer used st = (Inl e, st')
      | Inr (o', r) \<Rightarrow> \<exists>st'. relay_trailer used st = (Inr (), st')
          \<and> holds st' r (out @ o') tap (n + (length s - length r)))"
proof (induction used s arbitrary: st out n rule: trailer_spec.induct)
  case (1 used s)
  note rd = read_line_strict_holds [OF "1.prems", of MAX_CHUNK_LINE False]
  show ?case
  proof (cases "line_spec MAX_CHUNK_LINE [] s")
    case (Inl e)
    with rd show ?thesis by (auto simp: trailer_spec.simps [of used s] relay_trailer.simps [of used st])
  next
    case (Inr p)
    then obtain l r where ls: "line_spec MAX_CHUNK_LINE [] s = Inr (l, r)" by (cases p) simp
    with rd obtain st1 where r1: "read_line_strict MAX_CHUNK_LINE False st = (Inr l, st1)"
      and h1: "holds st1 r out tap (n + (length s - length r))" by auto
    have lt: "length r < length s" by (rule line_spec_shorter [OF ls])
    show ?thesis
    proof (cases "l = [] \<or> MAX_TRAILER < used + length l")
      case True
      with put_holds [OF h1, of crlf] ls r1 show ?thesis
        by (auto simp: trailer_spec.simps [of used s] relay_trailer.simps [of used st])
    next
      case False
      show ?thesis
      proof (cases "trailer_is_relayable l")
        case relay: True
        from put_holds [OF h1, of l] obtain st2 where p2: "put l st1 = (Inr (), st2)"
          and h2: "holds st2 r (out @ l) tap (n + (length s - length r))" by blast
        from put_holds [OF h2, of crlf] obtain st3 where p3: "put crlf st2 = (Inr (), st3)"
          and h3: "holds st3 r ((out @ l) @ crlf) tap (n + (length s - length r))" by blast
        have "relay_trailer used st = relay_trailer (used + length l) st3"
          using False relay r1 p2 p3 by (simp add: relay_trailer.simps [of used st])
        with "1.IH" [OF ls refl _ _ h3] False relay ls lt show ?thesis
          by (auto simp: trailer_spec.simps [of used s] split: sum.splits dest: trailer_spec_shorter)
      next
        case drop: False
        have "relay_trailer used st = relay_trailer (used + length l) st1"
          using False drop r1 by (simp add: relay_trailer.simps [of used st])
        with "1.IH" [OF ls refl _ _ h1] False drop ls lt show ?thesis
          by (auto simp: trailer_spec.simps [of used s] split: sum.splits dest: trailer_spec_shorter)
      qed
    qed
  qed
qed

text \<open>Output, decoded data and rest of a chunked body.\<close>

function chunk_spec :: "string \<Rightarrow> (string \<times> string \<times> string) res" where
  "chunk_spec s =
     (case line_spec MAX_CHUNK_LINE [] s of
        Inl e \<Rightarrow> Inl e
      | Inr (l, r) \<Rightarrow>
        (case parse_chunk_size l of
           Inl e \<Rightarrow> Inl e
         | Inr n \<Rightarrow>
             if n = 0 then
               (case trailer_spec 0 r of
                  Inl e \<Rightarrow> Inl e | Inr (out, rest) \<Rightarrow> Inr (l @ crlf @ out, [], rest))
             else if length r < n then Inl (InvalidInput ''eof mid chunk'')
             else (case line_spec 1 [] (drop n r) of
                 Inl e \<Rightarrow> Inl e
               | Inr (after, r2) \<Rightarrow>
                   if after \<noteq> [] then Inl (InvalidInput ''malformed chunk terminator'')
                   else (case chunk_spec r2 of
                       Inl e \<Rightarrow> Inl e
                     | Inr (out, data, rest) \<Rightarrow>
                         Inr (l @ crlf @ take n r @ crlf @ out, take n r @ data, rest)))))"
  by pat_completeness auto
termination
proof (relation "measure length")
  fix s p l r n q after r2
  assume "line_spec MAX_CHUNK_LINE [] s = Inr p" "(l, r) = p"
    "line_spec 1 [] (drop n r) = Inr q" "(after, r2) = q"
  then have "length r < length s" "length r2 < length (drop n r)"
    by (auto dest: line_spec_shorter)
  then show "(r2, s) \<in> measure length" by simp
qed simp

declare chunk_spec.simps [simp del]

lemma chunk_spec_cases:
  assumes "chunk_spec s = Inr (out, data, rest)"
  obtains (last) l r o' where "line_spec MAX_CHUNK_LINE [] s = Inr (l, r)"
      and "parse_chunk_size l = Inr 0" and "trailer_spec 0 r = Inr (o', rest)"
      and "out = l @ crlf @ o'" and "data = []"
  | (chunk) l r n r2 o' d' where "line_spec MAX_CHUNK_LINE [] s = Inr (l, r)"
      and "parse_chunk_size l = Inr n" and "0 < n" and "n \<le> length r"
      and "line_spec 1 [] (drop n r) = Inr ([], r2)" and "chunk_spec r2 = Inr (o', d', rest)"
      and "out = l @ crlf @ take n r @ crlf @ o'" and "data = take n r @ d'"
  using assms unfolding chunk_spec.simps [of s]
  by (auto split: sum.splits if_splits)

lemma chunk_spec_shorter: "chunk_spec s = Inr (out, data, rest) \<Longrightarrow> length rest < length s"
proof (induction s arbitrary: out data rule: chunk_spec.induct)
  case (1 s)
  from "1.prems" show ?case
  proof (cases rule: chunk_spec_cases)
    case (last l r o')
    then show ?thesis by (auto dest!: line_spec_shorter trailer_spec_shorter)
  next
    case (chunk l r n r2 o' d')
    have "length rest < length r2"
      using "1.IH" [OF chunk(1) refl chunk(2) _ _ chunk(5) refl _ chunk(6)] chunk(3,4) by simp
    with line_spec_shorter [OF chunk(1)] line_spec_shorter [OF chunk(5)] show ?thesis by simp
  qed
qed

lemma relay_chunks_holds:
  "holds st s out tap n \<Longrightarrow>
     (case chunk_spec s of
        Inl e \<Rightarrow> \<exists>st'. relay_chunks st = (Inl e, st')
      | Inr (o', d, r) \<Rightarrow> \<exists>st'. relay_chunks st = (Inr (), st')
          \<and> holds st' r (out @ o') (map_option (\<lambda>t. t @ d) tap) (n + (length s - length r)))"
proof (induction s arbitrary: st out tap n rule: chunk_spec.induct)
  case (1 s)
  note rd = read_line_strict_holds [OF "1.prems", of MAX_CHUNK_LINE True]
  note unf = chunk_spec.simps [of s] relay_chunks.simps [of st]
  show ?case
  proof (cases "line_spec MAX_CHUNK_LINE [] s")
    case (Inl e)
    with rd show ?thesis by (auto simp: unf)
  next
    case (Inr p)
    then obtain l r where ls: "line_spec MAX_CHUNK_LINE [] s = Inr (l, r)" by (cases p) simp
    with rd obtain st1 where r1: "read_line_strict MAX_CHUNK_LINE True st = (Inr l, st1)"
      and h1: "holds st1 r (out @ l @ crlf) tap (n + (length s - length r))" by auto
    have lt: "length r < length s" by (rule line_spec_shorter [OF ls])
    show ?thesis
    proof (cases "parse_chunk_size l")
      case (Inl e)
      with ls r1 show ?thesis by (auto simp: unf)
    next
      case pc: (Inr k)
      consider "k = 0" | "0 < k" "length r < k" | "0 < k" "k \<le> length r" by linarith
      then show ?thesis
      proof cases
        case 1
        with relay_trailer_holds [OF h1, of 0] ls r1 pc lt show ?thesis
          by (auto simp: unf option.map_id0 [unfolded id_def] split: sum.splits
              dest!: trailer_spec_shorter)
      next
        case 2
        with relay_data_holds [OF h1, of k] ls r1 pc show ?thesis by (auto simp: unf)
      next
        case 3
        with relay_data_holds [OF h1, of k] obtain st2 where rdat: "relay_data k st1 = (Inr (), st2)"
          and h2: "holds st2 (drop k r) ((out @ l @ crlf) @ take k r) (map_option (\<lambda>t. t @ take k r) tap)
              (n + (length s - length r) + k)" by auto
        note rd2 = read_line_strict_holds [OF h2, of 1 True]
        show ?thesis
        proof (cases "line_spec 1 [] (drop k r)")
          case (Inl e)
          with rd2 ls r1 pc rdat 3 show ?thesis by (auto simp: unf)
        next
          case (Inr q)
          then obtain a r2 where ls2: "line_spec 1 [] (drop k r) = Inr (a, r2)" by (cases q) simp
          with rd2 obtain st3 where r2: "read_line_strict 1 True st2 = (Inr a, st3)"
            and h3: "holds st3 r2 (((out @ l @ crlf) @ take k r) @ a @ crlf) (map_option (\<lambda>t. t @ take k r) tap)
              (n + (length s - length r) + k + (length (drop k r) - length r2))" by auto
          have lt2: "length r2 < length r - k" using line_spec_shorter [OF ls2] by simp
          show ?thesis
          proof (cases "a = []")
            case False
            with r2 ls ls2 r1 pc rdat 3 show ?thesis by (auto simp: unf)
          next
            case True
            have e: "relay_chunks st = relay_chunks st3"
              using True r1 pc rdat 3 r2 by (simp add: relay_chunks.simps [of st])
            show ?thesis
            proof (cases "chunk_spec r2")
              case (Inl e')
              with "1.IH" [OF ls refl pc _ _ ls2 refl _ h3] True 3 e ls ls2 pc show ?thesis
                by (simp add: chunk_spec.simps [of s])
            next
              case (Inr w)
              then obtain o' d rest where cs: "chunk_spec r2 = Inr (o', d, rest)" by (cases w) auto
              have "n + (length s - length r) + k + (length (drop k r) - length r2) + (length r2 - length rest)
                  = n + (length s - length rest)"
                using lt lt2 3 chunk_spec_shorter [OF cs] by simp
              with "1.IH" [OF ls refl pc _ _ ls2 refl _ h3] True 3 e ls ls2 pc cs show ?thesis
                by (simp add: chunk_spec.simps [of s] option.map_comp comp_def)
            qed
          qed
        qed
      qed
    qed
  qed
qed

section \<open>The grammar\<close>

definition plain_line :: "string \<Rightarrow> bool" where
  "plain_line l \<longleftrightarrow> chr_cr \<notin> set l \<and> chr_lf \<notin> set l"


lemma line_spec_complete:
  "plain_line m \<Longrightarrow> length acc + length m \<le> limit \<Longrightarrow> line_spec limit acc (m @ crlf @ r) = Inr (acc @ m, r)"
  by (induction m arbitrary: acc) (auto simp: plain_line_def)

lemma hex_plain: "list_all is_ascii_hexdigit l \<Longrightarrow> plain_line l"
proof -
  have "\<not> is_ascii_hexdigit chr_cr" "\<not> is_ascii_hexdigit chr_lf" by code_simp+
  then show "list_all is_ascii_hexdigit l \<Longrightarrow> ?thesis" unfolding plain_line_def list_all_iff by metis
qed

lemma chunk_size_plain: "parse_chunk_size l = Inr n \<Longrightarrow> plain_line l \<and> length l \<le> MAX_CHUNK_LINE"
  by (auto simp: parse_chunk_size_def MAX_CHUNK_LINE_def from_utf8_def intro: hex_plain
      split: if_splits option.splits)

definition field_lines :: "string list \<Rightarrow> string" where
  "field_lines ls = concat (map (\<lambda>l. l @ crlf) ls)"

definition trailer_ok :: "string list \<Rightarrow> bool" where
  "trailer_ok ls \<longleftrightarrow> list_all (\<lambda>l. l \<noteq> [] \<and> plain_line l \<and> length l \<le> MAX_CHUNK_LINE) ls
     \<and> sum_list (map length ls) \<le> MAX_TRAILER"

definition chunk_ok :: "string \<times> string \<Rightarrow> bool" where
  "chunk_ok c \<longleftrightarrow> snd c \<noteq> [] \<and> parse_chunk_size (fst c) = Inr (length (snd c))"

text \<open>A chunked message: size lines with their data, the last size line, the trailer lines.\<close>

definition chunked_message :: "(string \<times> string) list \<Rightarrow> string \<Rightarrow> string list \<Rightarrow> string" where
  "chunked_message cs z ls =
     concat (map (\<lambda>(l, d). l @ crlf @ d @ crlf) cs) @ z @ crlf @ field_lines ls @ crlf"

definition message_ok :: "(string \<times> string) list \<Rightarrow> string \<Rightarrow> string list \<Rightarrow> bool" where
  "message_ok cs z ls \<longleftrightarrow> list_all chunk_ok cs \<and> parse_chunk_size z = Inr 0 \<and> trailer_ok ls"

lemma trailer_spec_complete:
  "list_all (\<lambda>l. l \<noteq> [] \<and> plain_line l \<and> length l \<le> MAX_CHUNK_LINE) ls
     \<Longrightarrow> used + sum_list (map length ls) \<le> MAX_TRAILER
     \<Longrightarrow> trailer_spec used (field_lines ls @ crlf @ rest)
           = Inr (field_lines (filter trailer_is_relayable ls) @ crlf, rest)"
proof (induction ls arbitrary: used)
  case Nil
  have "line_spec MAX_CHUNK_LINE [] ([] @ crlf @ rest) = Inr ([] @ [], rest)"
    by (rule line_spec_complete) (simp_all add: plain_line_def)
  then show ?case by (simp add: field_lines_def trailer_spec.simps)
next
  case (Cons l ls)
  have "line_spec MAX_CHUNK_LINE [] (l @ crlf @ field_lines ls @ crlf @ rest)
      = Inr ([] @ l, field_lines ls @ crlf @ rest)"
    using Cons.prems by (intro line_spec_complete) auto
  with Cons show ?case
    by (subst trailer_spec.simps) (auto simp: field_lines_def)
qed


lemma chunk_spec_complete:
  "list_all chunk_ok cs \<Longrightarrow> parse_chunk_size z = Inr 0 \<Longrightarrow> trailer_ok ls \<Longrightarrow>
     chunk_spec (chunked_message cs z ls @ rest)
       = Inr (chunked_message cs z (filter trailer_is_relayable ls), concat (map snd cs), rest)"
proof (induction cs)
  case Nil
  have "line_spec MAX_CHUNK_LINE [] (z @ crlf @ field_lines ls @ crlf @ rest)
      = Inr ([] @ z, field_lines ls @ crlf @ rest)"
    using chunk_size_plain [OF Nil(2)] by (intro line_spec_complete) auto
  moreover have "trailer_spec 0 (field_lines ls @ crlf @ rest)
      = Inr (field_lines (filter trailer_is_relayable ls) @ crlf, rest)"
    using Nil(3) by (intro trailer_spec_complete) (auto simp: trailer_ok_def)
  ultimately show ?case using Nil(2)
    by (simp add: chunked_message_def chunk_spec.simps)
next
  case (Cons c cs)
  obtain l d where c: "c = (l, d)" by fastforce
  with Cons.prems have p: "parse_chunk_size l = Inr (length d)" "d \<noteq> []" by (auto simp: chunk_ok_def)
  let ?r = "chunked_message cs z ls @ rest"
  have "line_spec MAX_CHUNK_LINE [] (l @ crlf @ d @ crlf @ ?r) = Inr ([] @ l, d @ crlf @ ?r)"
    using chunk_size_plain [OF p(1)] by (intro line_spec_complete) auto
  moreover have "line_spec 1 [] ([] @ crlf @ ?r) = Inr ([] @ [], ?r)"
    by (rule line_spec_complete) (simp_all add: plain_line_def)
  moreover have "chunked_message (c # cs) z ls @ rest = l @ crlf @ d @ crlf @ ?r"
    by (simp add: chunked_message_def c)
  ultimately show ?case using Cons p
    by (subst chunk_spec.simps) (simp add: c, simp add: chunked_message_def)
qed


section \<open>The relays\<close>

lemma relay_chunked_holds:
  assumes "src_clean src" and "sk_room dst = None"
  shows "(case chunk_spec (initial @ src_bytes src) of
      Inl e \<Rightarrow> \<exists>st. relay_chunked_strict src dst initial tap = (Inl e, st)
    | Inr (o', d, r) \<Rightarrow> \<exists>st. relay_chunked_strict src dst initial tap = (Inr (rl_count st, rl_buf st), st)
        \<and> holds st r (sk_out dst @ o') (map_option (\<lambda>t. concat t @ d) tap)
            (length (initial @ src_bytes src) - length r))"
proof -
  have "holds \<lparr>rl_src = src, rl_buf = initial, rl_dst = dst, rl_tap = tap, rl_count = 0\<rparr>
      (initial @ src_bytes src) (sk_out dst) (map_option concat tap) 0"
    using assms by (simp add: holds_def)
  from relay_chunks_holds [OF this] show ?thesis
    by (fastforce simp: relay_chunked_strict_def option.map_comp comp_def split: sum.splits)
qed

text \<open>
  C8. Relaying a chunked body. Whatever the segmentation of the connection, a well-formed
  chunked message is relayed to its end: the writer receives it byte for byte with the trailer
  fields that may not pass removed, the tap receives exactly the decoded data, the count is the
  message's length, and the bytes after the message are left for the next one.
\<close>

theorem relay_chunked_message:
  assumes "src_clean src" and "sk_room dst = None" and "message_ok cs z ls"
    and "initial @ src_bytes src = chunked_message cs z ls @ rest"
  shows "\<exists>carry st. relay_chunked_strict src dst initial tap
            = (Inr (length (chunked_message cs z ls), carry), st)
         \<and> carry @ src_bytes (rl_src st) = rest
         \<and> sk_out (rl_dst st) = sk_out dst @ chunked_message cs z (filter trailer_is_relayable ls)
         \<and> map_option concat (rl_tap st) = map_option (\<lambda>t. concat t @ concat (map snd cs)) tap"
  using relay_chunked_holds [OF assms(1,2), of initial tap] assms(3)
    chunk_spec_complete [of cs z ls rest]
  by (auto simp: assms(4) message_ok_def holds_def)

definition demo_chunks :: "(string \<times> string) list" where
  "demo_chunks = [(''5'', ''hello''), (''03'', ''abc'')]"

definition demo_trailer :: "string list" where
  "demo_trailer = [''X-Sum: 1'', ''Set-Cookie: s=1'']"

lemma relay_chunked_message_witness:
  "\<exists>carry st. relay_chunked_strict
       [Data (take 4 (chunked_message demo_chunks ''0'' demo_trailer)),
        Data (drop 4 (chunked_message demo_chunks ''0'' demo_trailer)), Data ''GET'']
       \<lparr>sk_out = [], sk_room = None\<rparr> [] (Some [])
     = (Inr (length (chunked_message demo_chunks ''0'' demo_trailer), carry), st)
   \<and> carry @ src_bytes (rl_src st) = ''GET''
   \<and> sk_out (rl_dst st) = chunked_message demo_chunks ''0'' [''X-Sum: 1'']
   \<and> map_option concat (rl_tap st) = Some ''helloabc''"
proof -
  let ?src = "[Data (take 4 (chunked_message demo_chunks ''0'' demo_trailer)),
        Data (drop 4 (chunked_message demo_chunks ''0'' demo_trailer)), Data ''GET'']"
  have c: "src_clean ?src" by code_simp
  have m: "message_ok demo_chunks ''0'' demo_trailer" by code_simp
  have b: "[] @ src_bytes ?src = chunked_message demo_chunks ''0'' demo_trailer @ ''GET''" by code_simp
  have f: "filter trailer_is_relayable demo_trailer = [''X-Sum: 1'']" by code_simp
  have d: "concat (map snd demo_chunks) = ''helloabc''" by code_simp
  from relay_chunked_message [OF c _ m b, of "\<lparr>sk_out = [], sk_room = None\<rparr>" "Some []"]
  show ?thesis by (simp only: f d) simp
qed



definition upto :: "nat option \<Rightarrow> nat \<Rightarrow> string \<Rightarrow> string" where
  "upto limit c s = (case limit of None \<Rightarrow> s | Some n \<Rightarrow> take (n - c) s)"

definition beyond :: "nat option \<Rightarrow> nat \<Rightarrow> string \<Rightarrow> string" where
  "beyond limit c s = (case limit of None \<Rightarrow> [] | Some n \<Rightarrow> drop (n - c) s)"

lemma upto_append:
  "length a \<le> (case limit of None \<Rightarrow> length a | Some n \<Rightarrow> n - c) \<Longrightarrow>
     upto limit c (a @ s) = a @ upto limit (c + length a) s
   \<and> beyond limit c (a @ s) = beyond limit (c + length a) s"
  by (auto simp: upto_def beyond_def split: option.splits)

lemma relay_plain_loop_holds:
  "src_clean (rl_src st) \<Longrightarrow> sk_room (rl_dst st) = None \<Longrightarrow>
     \<exists>st'. relay_plain_loop limit st = (Inr (), st') \<and> src_clean (rl_src st')
       \<and> src_bytes (rl_src st') = beyond limit (rl_count st) (src_bytes (rl_src st))
       \<and> sk_out (rl_dst st') = sk_out (rl_dst st) @ upto limit (rl_count st) (src_bytes (rl_src st))
       \<and> rl_buf st' = rl_buf st
       \<and> rl_count st' = rl_count st + length (upto limit (rl_count st) (src_bytes (rl_src st)))
       \<and> map_option concat (rl_tap st')
           = map_option (\<lambda>t. concat t @ upto limit (rl_count st) (src_bytes (rl_src st))) (rl_tap st)"
proof (induction limit st rule: relay_plain_loop.induct)
  case (1 limit st)
  note unf = relay_plain_loop.simps [of limit st]
  let ?done = "case limit of None \<Rightarrow> False | Some n \<Rightarrow> n \<le> rl_count st"
  let ?want = "case limit of None \<Rightarrow> BUF | Some n \<Rightarrow> min BUF (n - rl_count st)"
  show ?case
  proof (cases ?done)
    case True
    with "1.prems" show ?thesis by (auto simp: unf upto_def beyond_def split: option.splits)
  next
    case False
    then have "0 < ?want" by (auto split: option.splits)
    from src_read_clean [OF "1.prems"(1) this] obtain bs src' where
      rd: "src_read ?want (rl_src st) = (ReadOk bs, src')" and c: "src_clean src'"
      and b: "src_bytes (rl_src st) = bs @ src_bytes src'" and e: "bs = [] \<longleftrightarrow> rl_src st = []" by blast
    have l: "length bs \<le> ?want" by (rule src_read_length [OF rd])
    show ?thesis
    proof (cases "bs = []")
      case True
      with e have "rl_src st = []" by simp
      with True rd False "1.prems" b c show ?thesis
        by (auto simp: unf Let_def upto_def beyond_def split: option.splits)
    next
      case ne: False
      let ?st1 = "st\<lparr>rl_src := src', rl_dst := (rl_dst st)\<lparr>sk_out := sk_out (rl_dst st) @ bs\<rparr>\<rparr>"
      have w: "put bs (st\<lparr>rl_src := src'\<rparr>) = (Inr (), ?st1)"
        using "1.prems"(2) by (simp add: put_def write_all_def)
      let ?st2 = "counted (length bs) (?st1\<lparr>rl_tap := feed bs (rl_tap ?st1)\<rparr>)"
      have step: "relay_plain_loop limit st = relay_plain_loop limit ?st2"
        using False rd ne w by (simp add: unf Let_def)
      have "src_clean (rl_src ?st2)" "sk_room (rl_dst ?st2) = None"
        using c "1.prems"(2) by (simp_all add: counted_def)
      note ih = "1.IH" [OF False refl rd [symmetric] refl ne w [symmetric] refl this]
      have "length bs \<le> (case limit of None \<Rightarrow> length bs | Some n \<Rightarrow> n - rl_count st)"
        using l by (auto split: option.splits)
      note up = upto_append [OF this, of "src_bytes src'", folded b]
      from ih show ?thesis
        unfolding step by (simp add: up counted_def feed_def option.map_comp comp_def add.assoc)
    qed
  qed
qed

text \<open>
  The plain relay copies exactly the first \<open>limit\<close> bytes of the connection (all of
  them when there is no limit, fewer when the peer stops early), gives the tap the same bytes,
  reports how many there were, and leaves everything after them unread.
\<close>

theorem relay_plain_prefix:
  assumes "src_clean src" and "sk_room dst = None"
  shows "let input = initial @ src_bytes src;
             k = (case limit of None \<Rightarrow> length input | Some n \<Rightarrow> min n (length input))
         in \<exists>carry st. relay_plain src dst limit initial tap = (Inr (k, carry), st)
           \<and> sk_out (rl_dst st) = sk_out dst @ take k input
           \<and> carry @ src_bytes (rl_src st) = drop k input
           \<and> map_option concat (rl_tap st) = map_option (\<lambda>t. concat t @ take k input) tap"
proof -
  let ?n = "case limit of Some n \<Rightarrow> min (length initial) n | None \<Rightarrow> length initial"
  let ?st0 = "\<lparr>rl_src = src, rl_buf = [], rl_dst = dst, rl_tap = tap, rl_count = 0\<rparr>"
  let ?st1 = "if initial = [] then ?st0 else \<lparr>rl_src = src, rl_buf = drop ?n initial,
      rl_dst = dst\<lparr>sk_out := sk_out dst @ take ?n initial\<rparr>, rl_tap = feed (take ?n initial) tap, rl_count = ?n\<rparr>"
  define st1 where "st1 = ?st1"
  have f: "rl_src st1 = src" "rl_buf st1 = drop ?n initial" "sk_out (rl_dst st1) = sk_out dst @ take ?n initial"
    "map_option concat (rl_tap st1) = map_option (\<lambda>t. concat t @ take ?n initial) tap" "rl_count st1 = ?n"
    "sk_room (rl_dst st1) = None"
    using assms(2) by (auto simp: st1_def feed_def option.map_comp comp_def split: option.splits)
  have start: "relay_plain src dst limit initial tap =
      (case relay_plain_loop limit st1 of
            (Inl e, st2) \<Rightarrow> (Inl e, st2)
          | (Inr _, st2) \<Rightarrow> (Inr (rl_count st2, rl_buf st2), st2))"
    using assms(2) by (simp add: st1_def relay_plain_def Let_def put_def write_all_def counted_def)
  have tap: "map_option concat (rl_tap st1) = map_option (\<lambda>t. concat t @ take ?n initial) tap \<Longrightarrow>
     map_option (\<lambda>t. concat t @ u) (rl_tap st1) = map_option (\<lambda>t. concat t @ take ?n initial @ u) tap" for u
    by (cases tap; cases "rl_tap st1") auto
  from relay_plain_loop_holds [of st1 limit] f assms(1) obtain st2 where
    l: "relay_plain_loop limit st1 = (Inr (), st2)"
      "src_bytes (rl_src st2) = beyond limit ?n (src_bytes src)"
      "sk_out (rl_dst st2) = sk_out dst @ take ?n initial @ upto limit ?n (src_bytes src)"
      "rl_buf st2 = drop ?n initial" "rl_count st2 = ?n + length (upto limit ?n (src_bytes src))"
      "map_option concat (rl_tap st2)
        = map_option (\<lambda>t. concat t @ take ?n initial @ upto limit ?n (src_bytes src)) tap"
    using tap [OF f(4)] by auto
  have u: "take ?n initial @ upto limit ?n (src_bytes src)
      = take (case limit of None \<Rightarrow> length (initial @ src_bytes src) | Some n \<Rightarrow> min n (length (initial @ src_bytes src)))
          (initial @ src_bytes src)"
    by (auto simp: upto_def min_def split: option.splits)
  have d: "drop ?n initial @ beyond limit ?n (src_bytes src)
      = drop (case limit of None \<Rightarrow> length (initial @ src_bytes src) | Some n \<Rightarrow> min n (length (initial @ src_bytes src)))
          (initial @ src_bytes src)"
    by (auto simp: beyond_def min_def split: option.splits)
  have k: "?n + length (upto limit ?n (src_bytes src))
      = (case limit of None \<Rightarrow> length (initial @ src_bytes src) | Some n \<Rightarrow> min n (length (initial @ src_bytes src)))"
    by (auto simp: upto_def min_def split: option.splits)
  show ?thesis unfolding Let_def start using l u d k by simp
qed

lemma relay_plain_prefix_witness:
  "\<exists>carry st. relay_plain [Data ''lo'', Data ''GET''] \<lparr>sk_out = [], sk_room = None\<rparr> (Some 5) ''hel'' (Some [])
       = (Inr (5, carry), st)
     \<and> sk_out (rl_dst st) = ''hello'' \<and> carry @ src_bytes (rl_src st) = ''GET''"
proof -
  have "src_clean [Data ''lo'', Data ''GET'']" by code_simp
  from relay_plain_prefix [OF this, of "\<lparr>sk_out = [], sk_room = None\<rparr>" "''hel''" "Some 5" "Some []"]
  show ?thesis by (auto simp: Let_def)
qed

end
