(* ===== verification/Policy.thy ===== *)
theory Policy
  imports Base
begin

text \<open>
  The destination policy of the proxy and the gateway (crates/observe/src/policy.rs): address
  classification, the inet_aton shorthand parser, host name syntax and the check of a literal
  authority. Addresses are the octets or segments of \<open>Ipv4Addr::new\<close> and
  \<open>Ipv6Addr::new\<close> at their width; the strict \<open>IpAddr\<close> parser of the standard library
  is written out.
\<close>

unbundle bit_operations_syntax

section \<open>Data\<close>

datatype deny_reason =
    Loopback | Private | LinkLocal | Cgnat | Multicast | Broadcast | Unspecified | Reserved
  | Documentation | CloudMetadata | BadHostname | BadPort

fun deny_as_str :: "deny_reason \<Rightarrow> string" where
  "deny_as_str Loopback = ''loopback address blocked''"
| "deny_as_str Private = ''private/RFC1918 address blocked''"
| "deny_as_str LinkLocal = ''link-local address blocked''"
| "deny_as_str Cgnat = ''carrier-grade NAT address blocked''"
| "deny_as_str Multicast = ''multicast address blocked''"
| "deny_as_str Broadcast = ''broadcast address blocked''"
| "deny_as_str Unspecified = ''unspecified address blocked''"
| "deny_as_str Reserved = ''reserved address range blocked''"
| "deny_as_str Documentation = ''documentation/test address blocked''"
| "deny_as_str CloudMetadata = ''cloud metadata endpoint blocked''"
| "deny_as_str BadHostname = ''invalid or unsupported hostname''"
| "deny_as_str BadPort = ''port not allowed (only 80/443 unless allowlisted)''"

datatype verdict = Allow | Deny deny_reason

definition is_allowed :: "verdict \<Rightarrow> bool" where
  "is_allowed v \<longleftrightarrow> v = Allow"

type_synonym allow_list = "(string \<times> nat) list"

definition allow_insert :: "string \<Rightarrow> nat \<Rightarrow> allow_list \<Rightarrow> allow_list" where
  "allow_insert host port a = List.insert (to_ascii_lowercase host, port) a"

definition allow_from_pairs :: "(string \<times> nat) list \<Rightarrow> allow_list" where
  "allow_from_pairs pairs = fold (\<lambda>(h, p) a. allow_insert h p a) pairs []"

definition allow_contains :: "allow_list \<Rightarrow> string \<Rightarrow> nat \<Rightarrow> bool" where
  "allow_contains a host port \<longleftrightarrow> (to_ascii_lowercase host, port) \<in> set a"

definition DEFAULT_ALLOWED_PORTS :: "nat list" where
  "DEFAULT_ALLOWED_PORTS = [80, 443]"

definition METADATA_HOSTS :: "string list" where
  "METADATA_HOSTS = [''metadata.google.internal'', ''metadata.goog'', ''metadata'',
     ''instance-data'', ''instance-data.ec2.internal'']"

section \<open>Addresses\<close>

datatype ipv4 = Ipv4 "8 word" "8 word" "8 word" "8 word"

datatype ipv6 =
  Ipv6 "16 word" "16 word" "16 word" "16 word" "16 word" "16 word" "16 word" "16 word"

datatype ip_addr = V4 ipv4 | V6 ipv6

text \<open>\<open>Ipv4Addr::from(u32)\<close>: the big-endian bytes.\<close>

definition ipv4_from :: "32 word \<Rightarrow> ipv4" where
  "ipv4_from x = Ipv4 (ucast (drop_bit 24 x)) (ucast (drop_bit 16 x)) (ucast (drop_bit 8 x)) (ucast x)"

text \<open>The predicates of \<open>std::net::Ipv4Addr\<close> the classifier calls.\<close>

fun v4_is_unspecified :: "ipv4 \<Rightarrow> bool" where
  "v4_is_unspecified (Ipv4 a b c d) = (a = 0 \<and> b = 0 \<and> c = 0 \<and> d = 0)"

fun v4_is_loopback :: "ipv4 \<Rightarrow> bool" where
  "v4_is_loopback (Ipv4 a b c d) = (a = 127)"

fun v4_is_broadcast :: "ipv4 \<Rightarrow> bool" where
  "v4_is_broadcast (Ipv4 a b c d) = (a = 255 \<and> b = 255 \<and> c = 255 \<and> d = 255)"

fun v4_is_private :: "ipv4 \<Rightarrow> bool" where
  "v4_is_private (Ipv4 a b c d) =
     (a = 10 \<or> (a = 172 \<and> 16 \<le> b \<and> b \<le> 31) \<or> (a = 192 \<and> b = 168))"

fun v4_is_link_local :: "ipv4 \<Rightarrow> bool" where
  "v4_is_link_local (Ipv4 a b c d) = (a = 169 \<and> b = 254)"

fun v4_is_multicast :: "ipv4 \<Rightarrow> bool" where
  "v4_is_multicast (Ipv4 a b c d) = (224 \<le> a \<and> a \<le> 239)"

fun v4_is_documentation :: "ipv4 \<Rightarrow> bool" where
  "v4_is_documentation (Ipv4 a b c d) =
     ((a = 192 \<and> b = 0 \<and> c = 2) \<or> (a = 198 \<and> b = 51 \<and> c = 100) \<or> (a = 203 \<and> b = 0 \<and> c = 113))"

fun classify_v4 :: "ipv4 \<Rightarrow> verdict" where
  "classify_v4 (Ipv4 a b c d) =
     (if v4_is_unspecified (Ipv4 a b c d) then Deny Unspecified
      else if v4_is_loopback (Ipv4 a b c d) then Deny Loopback
      else if v4_is_broadcast (Ipv4 a b c d) then Deny Broadcast
      else if v4_is_private (Ipv4 a b c d) then Deny Private
      else if v4_is_link_local (Ipv4 a b c d) then Deny LinkLocal
      else if v4_is_multicast (Ipv4 a b c d) then Deny Multicast
      else if v4_is_documentation (Ipv4 a b c d) then Deny Documentation
      else if a = 0 then Deny Unspecified
      else if a = 100 \<and> 64 \<le> b \<and> b \<le> 127 then Deny Cgnat
      else if a = 192 \<and> b = 0 \<and> c = 0 then Deny Reserved
      else if a = 198 \<and> (b = 18 \<or> b = 19) then Deny Reserved
      else if 240 \<le> a then Deny Reserved
      else Allow)"

definition embedded_v4 :: "16 word \<Rightarrow> 16 word \<Rightarrow> ipv4" where
  "embedded_v4 hi lo =
     Ipv4 (ucast (drop_bit 8 hi)) (ucast (hi AND 0xff)) (ucast (drop_bit 8 lo)) (ucast (lo AND 0xff))"

fun classify_v6 :: "ipv6 \<Rightarrow> verdict" where
  "classify_v6 (Ipv6 s0 s1 s2 s3 s4 s5 s6 s7) =
     (let zero6 = (s0 = 0 \<and> s1 = 0 \<and> s2 = 0 \<and> s3 = 0 \<and> s4 = 0 \<and> s5 = 0) in
      if zero6 \<and> s6 = 0 \<and> s7 = 0 then Deny Unspecified
      else if zero6 \<and> s6 = 0 \<and> s7 = 1 then Deny Loopback
      else if s0 AND 0xff00 = 0xff00 then Deny Multicast
      else if s0 AND 0xfe00 = 0xfc00 then Deny Private
      else if s0 AND 0xffc0 = 0xfe80 then Deny LinkLocal
      else if s0 = 0x2001 \<and> s1 = 0x0db8 then Deny Documentation
      else if zero6 \<and> \<not> (s6 = 0 \<and> s7 = 0) then classify_v4 (embedded_v4 s6 s7)
      else if s0 = 0x0064 \<and> s1 = 0xff9b then classify_v4 (embedded_v4 s6 s7)
      else if s0 = 0x2002 then classify_v4 (embedded_v4 s1 s2)
      else Allow)"

fun to_ipv4_mapped :: "ipv6 \<Rightarrow> ipv4 option" where
  "to_ipv4_mapped (Ipv6 s0 s1 s2 s3 s4 s5 s6 s7) =
     (if s0 = 0 \<and> s1 = 0 \<and> s2 = 0 \<and> s3 = 0 \<and> s4 = 0 \<and> s5 = 0xffff
      then Some (embedded_v4 s6 s7) else None)"

definition classify_ip :: "ip_addr \<Rightarrow> verdict" where
  "classify_ip addr =
     (case addr of
        V4 v4 \<Rightarrow> classify_v4 v4
      | V6 v6 \<Rightarrow> (case to_ipv4_mapped v6 of Some v4 \<Rightarrow> classify_v4 v4 | None \<Rightarrow> classify_v6 v6))"

definition check_resolved :: "ip_addr \<Rightarrow> bool \<Rightarrow> verdict" where
  "check_resolved addr allowlisted = (if allowlisted then Allow else classify_ip addr)"

section \<open>The strict address parser of the standard library\<close>

text \<open>
  \<open>read_number\<close> of core::net::parser: as many digits as there are, at most \<open>limit\<close> of
  them, below \<open>bound\<close>; a leading zero only where it is allowed.
\<close>

fun span_digits :: "nat \<Rightarrow> string \<Rightarrow> string \<times> string" where
  "span_digits radix [] = ([], [])"
| "span_digits radix (c # s) =
     (if to_digit radix c = None then ([], c # s)
      else (case span_digits radix s of (ds, r) \<Rightarrow> (c # ds, r)))"

definition read_number :: "nat \<Rightarrow> nat \<Rightarrow> bool \<Rightarrow> nat \<Rightarrow> string \<Rightarrow> (nat \<times> string) option" where
  "read_number radix limit zero_prefix bound s =
     (case span_digits radix s of (ds, r) \<Rightarrow>
        if ds = [] \<or> limit < length ds \<or> (\<not> zero_prefix \<and> hd ds = CHR ''0'' \<and> 1 < length ds) then None
        else (case digits_value radix 0 ds of
                None \<Rightarrow> None
              | Some v \<Rightarrow> if v < bound then Some (v, r) else None))"

definition read_char :: "char \<Rightarrow> string \<Rightarrow> string option" where
  "read_char c s = (case s of [] \<Rightarrow> None | d # r \<Rightarrow> if d = c then Some r else None)"

definition read_octet :: "string \<Rightarrow> (8 word \<times> string) option" where
  "read_octet s = map_option (\<lambda>(v, r). (of_nat v, r)) (read_number 10 3 False 256 s)"

definition dot_octet :: "string \<Rightarrow> (8 word \<times> string) option" where
  "dot_octet s = Option.bind (read_char CHR ''.'' s) read_octet"

definition read_ipv4_addr :: "string \<Rightarrow> (ipv4 \<times> string) option" where
  "read_ipv4_addr s =
     Option.bind (read_octet s) (\<lambda>(a, s1).
     Option.bind (dot_octet s1) (\<lambda>(b, s2).
     Option.bind (dot_octet s2) (\<lambda>(c, s3).
     Option.bind (dot_octet s3) (\<lambda>(d, s4). Some (Ipv4 a b c d, s4)))))"

definition sep_group :: "bool \<Rightarrow> (string \<Rightarrow> ('a \<times> string) option) \<Rightarrow> string \<Rightarrow> ('a \<times> string) option" where
  "sep_group first inner s = (if first then inner s else Option.bind (read_char CHR '':'' s) inner)"

fun v4_groups :: "ipv4 \<Rightarrow> 16 word list" where
  "v4_groups (Ipv4 a b c d) = [of_nat (unat a * 256 + unat b), of_nat (unat c * 256 + unat d)]"

text \<open>\<open>read_groups\<close>: up to \<open>limit\<close> groups, and whether an IPv4 part ended them.\<close>

fun read_groups :: "nat \<Rightarrow> bool \<Rightarrow> string \<Rightarrow> 16 word list \<times> bool \<times> string" where
  "read_groups limit first s =
     (if limit = 0 then ([], False, s)
      else case (if 1 < limit then sep_group first read_ipv4_addr s else None) of
        Some (v4, r) \<Rightarrow> (v4_groups v4, True, r)
      | None \<Rightarrow>
          (case sep_group first (read_number 16 4 True 65536) s of
             None \<Rightarrow> ([], False, s)
           | Some (g, r) \<Rightarrow>
               (case read_groups (limit - 1) False r of (gs, v4, r') \<Rightarrow> (of_nat g # gs, v4, r'))))"

declare read_groups.simps [simp del]

definition ipv6_of :: "16 word list \<Rightarrow> ipv6" where
  "ipv6_of g = Ipv6 (g ! 0) (g ! 1) (g ! 2) (g ! 3) (g ! 4) (g ! 5) (g ! 6) (g ! 7)"

definition read_ipv6_addr :: "string \<Rightarrow> (ipv6 \<times> string) option" where
  "read_ipv6_addr s =
     (case read_groups 8 True s of (head, head_v4, s1) \<Rightarrow>
        if length head = 8 then Some (ipv6_of head, s1)
        else if head_v4 then None
        else Option.bind (read_char CHR '':'' s1) (\<lambda>s2.
             Option.bind (read_char CHR '':'' s2) (\<lambda>s3.
               case read_groups (8 - (length head + 1)) True s3 of (tail, _, s4) \<Rightarrow>
                 Some (ipv6_of (head @ replicate (8 - length head - length tail) 0 @ tail), s4))))"

definition ip_addr_parse :: "string \<Rightarrow> ip_addr option" where
  "ip_addr_parse s =
     (case (case read_ipv4_addr s of
              Some (a, r) \<Rightarrow> Some (V4 a, r)
            | None \<Rightarrow> map_option (\<lambda>(a, r). (V6 a, r)) (read_ipv6_addr s)) of
        Some (ip, []) \<Rightarrow> Some ip
      | _ \<Rightarrow> None)"

section \<open>Literals, host names and authorities\<close>

datatype ip_literal = Canonical ip_addr | Shorthand ipv4

definition parse_inet_part :: "string \<Rightarrow> (32 word) option" where
  "parse_inet_part part =
     (let (radix, digits) =
        (case (case strip_prefix ''0x'' part of Some h \<Rightarrow> Some h | None \<Rightarrow> strip_prefix ''0X'' part) of
           Some h \<Rightarrow> (16, h)
         | None \<Rightarrow> if 1 < length part \<and> starts_with ''0'' part then (8, tl part) else (10, part))
      in if digits = [] \<or> \<not> list_all (\<lambda>c. to_digit radix c \<noteq> None) digits then None
         else map_option of_nat (parse_unsigned 32 radix digits))"

fun inet_values :: "32 word list \<Rightarrow> string list \<Rightarrow> 32 word list option" where
  "inet_values values [] = Some values"
| "inet_values values (p # ps) =
     (if length values = 4 then None
      else (case parse_inet_part p of None \<Rightarrow> None | Some v \<Rightarrow> inet_values (values @ [v]) ps))"

fun or_octets :: "nat \<Rightarrow> 32 word \<Rightarrow> 32 word list \<Rightarrow> 32 word" where
  "or_octets i addr [] = addr"
| "or_octets i addr (v # vs) = or_octets (i + 1) (addr OR push_bit (8 * (3 - i)) v) vs"

definition parse_ipv4_shorthand :: "string \<Rightarrow> ipv4 option" where
  "parse_ipv4_shorthand host =
     (case inet_values [] (split_on CHR ''.'' host) of
        None \<Rightarrow> None
      | Some all \<Rightarrow>
          if all = [] then None
          else let values = butlast all; last_part = last all in
          if list_ex (\<lambda>v. 0xff < v) values then None
          else let filled = 4 - length values;
                   limit = (if filled = 4 then - 1 else push_bit (8 * filled) 1 - 1)
               in if limit < last_part then None
                  else Some (ipv4_from (or_octets 0 last_part values)))"

definition parse_ip_literal :: "string \<Rightarrow> ip_literal option" where
  "parse_ip_literal host =
     (let trimmed = (case Option.bind (strip_prefix ''['' host) (strip_suffix '']'') of
                       Some h \<Rightarrow> h | None \<Rightarrow> host)
      in case ip_addr_parse trimmed of
           Some ip \<Rightarrow> Some (Canonical ip)
         | None \<Rightarrow> map_option Shorthand (parse_ipv4_shorthand trimmed))"

definition label_byte :: "char \<Rightarrow> bool" where
  "label_byte b \<longleftrightarrow> is_ascii_alphanumeric b \<or> b = CHR ''-''"

definition is_valid_label :: "string \<Rightarrow> bool" where
  "is_valid_label l \<longleftrightarrow> l \<noteq> [] \<and> length l \<le> 63 \<and> \<not> starts_with ''-'' l \<and> \<not> ends_with ''-'' l
     \<and> list_all label_byte l"

definition is_valid_hostname :: "string \<Rightarrow> bool" where
  "is_valid_hostname host0 \<longleftrightarrow>
     (let host = (case strip_suffix ''.'' host0 of Some h \<Rightarrow> h | None \<Rightarrow> host0) in
      host \<noteq> [] \<and> length host \<le> 253 \<and> list_all is_valid_label (split_on CHR ''.'' host))"

definition trim_end_dots :: "string \<Rightarrow> string" where
  "trim_end_dots s = rev (dropWhile (\<lambda>c. c = CHR ''.'') (rev s))"

definition normalize_host :: "string \<Rightarrow> string" where
  "normalize_host host = trim_end_dots (to_ascii_lowercase (trim host))"

text \<open>The DNS-name arm, and the tail of the shorthand arm that falls through to it.\<close>

definition check_name :: "string \<Rightarrow> bool \<Rightarrow> verdict" where
  "check_name host_l allowlisted =
     (if \<not> is_valid_hostname host_l then Deny BadHostname
      else if (ends_with ''.local'' host_l \<or> CHR ''.'' \<notin> set host_l) \<and> \<not> allowlisted then Deny Private
      else Allow)"

definition check_authority :: "string \<Rightarrow> nat \<Rightarrow> allow_list \<Rightarrow> verdict" where
  "check_authority host port allow =
     (let host_l = normalize_host host in
      if host_l = [] then Deny BadHostname
      else if port \<notin> set DEFAULT_ALLOWED_PORTS \<and> \<not> allow_contains allow host_l port then Deny BadPort
      else if host_l \<in> set METADATA_HOSTS then Deny CloudMetadata
      else let allowlisted = allow_contains allow host_l port in
        (case parse_ip_literal host_l of
           Some (Canonical ip) \<Rightarrow> if allowlisted then Allow else classify_ip ip
         | Some (Shorthand v4) \<Rightarrow>
             if allowlisted then Allow
             else if \<not> is_allowed (classify_v4 v4) then classify_v4 v4
             else check_name host_l allowlisted
         | None \<Rightarrow> check_name host_l allowlisted))"

end
