(* ===== verification/Strings.thy ===== *)
theory Strings
  imports Base "HOL-Library.Sublist"
begin

text \<open>
  Facts about the string functions of the standard library that several components share:
  splitting and joining, and the longest run of bytes with a property.
\<close>

section \<open>Splitting and joining\<close>

lemma split_by_free: "list_all (\<lambda>c. \<not> P c) a \<Longrightarrow> split_by P a = [a]"
  by (induction a) auto

lemma split_by_append: "list_all (\<lambda>c. \<not> P c) a \<Longrightarrow> P d \<Longrightarrow> split_by P (a @ d # b) = a # split_by P b"
  by (induction a) auto

lemma join_snoc: "rs \<noteq> [] \<Longrightarrow> join nl rs @ nl = join nl (rs @ [[]])"
  by (induction nl rs rule: join.induct) auto

lemma join_last: "rs \<noteq> [] \<Longrightarrow> last rs \<noteq> [] \<Longrightarrow> join nl rs \<noteq> [] \<and> last (join nl rs) = last (last rs)"
  by (induction nl rs rule: join.induct) auto

lemma split_by_parts: "w \<in> set (split_by P s) \<Longrightarrow> list_all (\<lambda>c. \<not> P c) w"
  by (induction s arbitrary: w) (auto split: list.splits if_splits)

lemma split_by_not_Nil [simp]: "split_by P s \<noteq> []"
  by (cases s) (auto split: list.splits)

lemma last_split_by: "s \<noteq> [] \<Longrightarrow> \<not> P (last s) \<Longrightarrow> last (split_by P s) \<noteq> []"
  by (induction s) (auto split: list.splits if_splits)

lemma join_split: "join [d] (split_on d s) = s"
proof (induction s)
  case (Cons c s)
  obtain w ws where "split_on d s = w # ws" by (metis split_by_not_Nil list.exhaust)
  with Cons show ?case by (cases ws) auto
qed simp

lemma split_join_free:
  assumes "ws \<noteq> []" "list_all (\<lambda>w. d \<notin> set w) ws"
  shows "split_on d (join [d] ws) = ws"
  using assms
proof (induction "[d]" ws rule: join.induct)
  case (2 w)
  then show ?case by (auto simp: list_all_iff intro!: split_by_free)
next
  case (3 w v ws)
  have "list_all (\<lambda>c. \<not> c = d) w" using 3(3) by (auto simp: list_all_iff)
  from split_by_append [of "\<lambda>c. c = d", OF this] 3 show ?case by simp
qed simp

lemma join_append_one: "ws \<noteq> [] \<Longrightarrow> join sep (ws @ [w]) = join sep ws @ sep @ w"
  by (induction sep ws rule: join.induct) auto

lemma set_join: "set (join sep ws) \<subseteq> set sep \<union> \<Union> (set ` set ws)"
  by (induction sep ws rule: join.induct) auto

text \<open>A piece without the separator lies within one of the parts.\<close>

lemma sublist_join:
  assumes "sublist b (join [d] ws)" "d \<notin> set b" "b \<noteq> []"
  shows "\<exists>w \<in> set ws. sublist b w"
  using assms
proof (induction "[d]" ws rule: join.induct)
  case (3 w v ws)
  then have "sublist b (w @ d # join [d] (v # ws))" by simp
  moreover have "\<not> (\<exists>x y. b = x @ y \<and> suffix x w \<and> prefix y (d # join [d] (v # ws)) \<and> x \<noteq> b \<and> y \<noteq> [])"
    using 3(3) by (auto simp: prefix_Cons)
  ultimately have "sublist b w \<or> sublist b (d # join [d] (v # ws))"
    by (auto simp: sublist_append) (metis append_Nil2 append_self_conv2 suffix_imp_sublist)
  with 3 show ?case by (auto simp: sublist_Cons_right prefix_Cons)
qed auto

section \<open>Runs\<close>

text \<open>The longest run of consecutive bytes with a property, as the scanning loops compute it.\<close>

fun run_scan :: "(char \<Rightarrow> bool) \<Rightarrow> nat \<Rightarrow> nat \<Rightarrow> string \<Rightarrow> nat" where
  "run_scan P best cur [] = best"
| "run_scan P best cur (c # s) =
     (if P c then run_scan P (max best (cur + 1)) (cur + 1) s else run_scan P best 0 s)"

definition has_run :: "(char \<Rightarrow> bool) \<Rightarrow> nat \<Rightarrow> string \<Rightarrow> bool" where
  "has_run P n s \<longleftrightarrow> (\<exists>b. sublist b s \<and> length b = n \<and> list_all P b)"

end
