(* ===== verification/PolicyProps.thy ===== *)
theory PolicyProps
  imports Policy Strings
begin

text \<open>
  What the destination policy guarantees: the IPv4 classifier is a table of CIDR blocks, no IPv6
  spelling of an IPv4 address is judged more leniently than the address itself, the shorthand
  parser computes the address inet_aton reaches, and the authority check is a closed condition
  on the normalised host.
\<close>

unbundle bit_operations_syntax

section \<open>The IPv4 classifier as a table\<close>

fun v4_value :: "ipv4 \<Rightarrow> nat" where
  "v4_value (Ipv4 a b c d) = ((unat a * 256 + unat b) * 256 + unat c) * 256 + unat d"

definition in_block :: "nat \<Rightarrow> nat \<times> nat \<Rightarrow> bool" where
  "in_block n block = (case block of (base, len) \<Rightarrow> n div 2 ^ (32 - len) = base div 2 ^ (32 - len))"

definition special_blocks :: "(nat \<times> nat) list" where
  "special_blocks =
     map (\<lambda>(a, b, c, len). (((a * 256 + b) * 256 + c) * 256, len))
       [(0, 0, 0, 8), (10, 0, 0, 8), (100, 64, 0, 10), (127, 0, 0, 8), (169, 254, 0, 16),
        (172, 16, 0, 12), (192, 0, 0, 24), (192, 0, 2, 24), (192, 168, 0, 16), (198, 18, 0, 15),
        (198, 51, 100, 24), (203, 0, 113, 24), (224, 0, 0, 4), (240, 0, 0, 4)]"

lemma unat_octet [simp]: "unat (x :: 8 word) < 256"
  using unsigned_less [of x] by simp

lemma word_eq_unat_numeral: "(a :: 'a::len word) = b \<longleftrightarrow> unat a = unat b"
  by (simp add: word_unat_eq_iff)

lemma v4_value_divs:
  fixes a b c d :: nat
  assumes "b < 256" "c < 256" "d < 256"
  defines "n \<equiv> ((a * 256 + b) * 256 + c) * 256 + d"
  shows "n div 16777216 = a" and "n div 65536 = a * 256 + b" and "n div 256 = (a * 256 + b) * 256 + c"
  using assms by auto

lemma classify_v4_nat:
  "is_allowed (classify_v4 (Ipv4 a b c d)) \<longleftrightarrow>
    (let a = unat a; b = unat b; c = unat c in
     \<not> (a = 0 \<or> a = 10 \<or> (a = 100 \<and> 64 \<le> b \<and> b \<le> 127) \<or> a = 127 \<or> (a = 169 \<and> b = 254)
      \<or> (a = 172 \<and> 16 \<le> b \<and> b \<le> 31) \<or> (a = 192 \<and> b = 0 \<and> c = 0) \<or> (a = 192 \<and> b = 0 \<and> c = 2)
      \<or> (a = 192 \<and> b = 168) \<or> (a = 198 \<and> (b = 18 \<or> b = 19)) \<or> (a = 198 \<and> b = 51 \<and> c = 100)
      \<or> (a = 203 \<and> b = 0 \<and> c = 113) \<or> 224 \<le> a))"
  by (auto simp: is_allowed_def Let_def word_eq_unat_numeral word_le_nat_alt)

lemma mixed_radix:
  fixes k :: nat
  assumes "u < k" and "r < k"
  shows "a * k + u = q * k + r \<longleftrightarrow> a = q \<and> u = r"
proof
  assume e: "a * k + u = q * k + r"
  have "(a * k + u) div k = a" "(q * k + r) div k = q" "(a * k + u) mod k = u" "(q * k + r) mod k = r"
    using assms by simp_all
  then show "a = q \<and> u = r" unfolding e by simp
qed simp

lemma div_range:
  fixes b k :: nat
  assumes "0 < k"
  shows "b div k = q \<longleftrightarrow> q * k \<le> b \<and> b < (q + 1) * k"
proof
  assume "b div k = q"
  with div_times_less_eq_dividend [of b k] dividend_less_div_times [OF assms, of b]
  show "q * k \<le> b \<and> b < (q + 1) * k" by simp
next
  assume "q * k \<le> b \<and> b < (q + 1) * k"
  then show "b div k = q" by (intro div_nat_eqI) (simp_all add: mult.commute)
qed

lemma blocks_nat:
  fixes a b c d :: nat
  assumes "a < 256" "b < 256" "c < 256" "d < 256"
  shows "(\<exists>k \<in> set special_blocks. in_block (((a * 256 + b) * 256 + c) * 256 + d) k) \<longleftrightarrow>
    (a = 0 \<or> a = 10 \<or> (a = 100 \<and> 64 \<le> b \<and> b \<le> 127) \<or> a = 127 \<or> (a = 169 \<and> b = 254)
      \<or> (a = 172 \<and> 16 \<le> b \<and> b \<le> 31) \<or> (a = 192 \<and> b = 0 \<and> c = 0) \<or> (a = 192 \<and> b = 0 \<and> c = 2)
      \<or> (a = 192 \<and> b = 168) \<or> (a = 198 \<and> (b = 18 \<or> b = 19)) \<or> (a = 198 \<and> b = 51 \<and> c = 100)
      \<or> (a = 203 \<and> b = 0 \<and> c = 113) \<or> 224 \<le> a)"
proof -
  let ?n = "((a * 256 + b) * 256 + c) * 256 + d"
  note dv = v4_value_divs [OF assms(2-4), of a]
  have d4: "?n div 268435456 = a div 16"
    using dv(1) div_mult2_eq [of ?n 16777216 16] by simp
  have d10: "?n div 4194304 = (a * 256 + b) div 64"
    using dv(2) div_mult2_eq [of ?n 65536 64] by simp
  have d12: "?n div 1048576 = (a * 256 + b) div 16"
    using dv(2) div_mult2_eq [of ?n 65536 16] by simp
  have d15: "?n div 131072 = (a * 256 + b) div 2"
    using dv(2) div_mult2_eq [of ?n 65536 2] by simp
  have q: "(a * 256 + b) div 64 = a * 4 + b div 64" "(a * 256 + b) div 16 = a * 16 + b div 16"
    "(a * 256 + b) div 2 = a * 128 + b div 2"
    using div_mult_self1 [of 64 b "a * 4"] div_mult_self1 [of 16 b "a * 16"] div_mult_self1 [of 2 b "a * 128"]
    by (simp_all add: algebra_simps)
  have small: "b div 64 < 4" "b div 16 < 16" "b div 2 < 128" using assms(2) by auto
  have e1: "(a * 256 + b) div 64 = 401 \<longleftrightarrow> a = 100 \<and> 64 \<le> b \<and> b \<le> 127"
    using mixed_radix [OF small(1), of 1 a 100] div_range [of 64 b 1] by (auto simp: q)
  have e2: "(a * 256 + b) div 16 = 2753 \<longleftrightarrow> a = 172 \<and> 16 \<le> b \<and> b \<le> 31"
    using mixed_radix [OF small(2), of 1 a 172] div_range [of 16 b 1] by (auto simp: q)
  have e3: "(a * 256 + b) div 2 = 25353 \<longleftrightarrow> a = 198 \<and> (b = 18 \<or> b = 19)"
    using mixed_radix [OF small(3), of 9 a 198] div_range [of 2 b 9] by (auto simp: q)
  have e4: "a div 16 = 14 \<longleftrightarrow> 224 \<le> a \<and> a < 240" "a div 16 = 15 \<longleftrightarrow> 240 \<le> a"
    using div_range [of 16 a 14] div_range [of 16 a 15] assms(1) by auto
  note m = mixed_radix [OF assms(2), where a = a]
  have m3: "(a * 256 + b) * 256 + c = (x * 256 + y) * 256 + z \<longleftrightarrow> a = x \<and> b = y \<and> c = z"
    if "y < 256" "z < 256" for x y z
    using mixed_radix [OF assms(3) that(2), of "a * 256 + b" "x * 256 + y"] m [OF that(1), of x] by simp
  have high: "(224 \<le> a \<and> a < 240 \<or> 240 \<le> a) = (224 \<le> a)" by auto
  show ?thesis
    unfolding special_blocks_def in_block_def
    using e1 e2 e3 e4 m [of 254 169] m [of 168 192] m3 [of 0 0 192] m3 [of 0 2 192] m3 [of 51 100 198]
      m3 [of 0 113 203] high
    by (simp only: list.map list.set bex_simps prod.case)
      (simp add: dv d4 d10 d12 d15 del: distrib_right_numeral)
qed

lemma classify_v4_blocks:
  "is_allowed (classify_v4 ip) \<longleftrightarrow> \<not> (\<exists>k \<in> set special_blocks. in_block (v4_value ip) k)"
proof (cases ip)
  case (Ipv4 a b c d)
  from blocks_nat [OF unat_octet unat_octet unat_octet unat_octet, of a b c d] show ?thesis
    unfolding Ipv4 v4_value.simps classify_v4_nat Let_def by simp
qed

text \<open>
  C11. The IPv4 classifier allows an address exactly when it lies in none of the special-purpose
  blocks of the table: this network, private, carrier NAT, loopback, link local, protocol
  assignments, documentation, benchmarking, multicast and reserved.
\<close>

theorem classify_v4_table:
  "is_allowed (classify_v4 ip) \<longleftrightarrow> \<not> (\<exists>k \<in> set special_blocks. in_block (v4_value ip) k)"
  by (rule classify_v4_blocks)

section \<open>Embedded addresses\<close>

definition join16 :: "8 word \<Rightarrow> 8 word \<Rightarrow> 16 word" where
  "join16 a b = push_bit 8 (ucast a) OR ucast b"

lemma embedded_join: "embedded_v4 (join16 a b) (join16 c d) = Ipv4 a b c d"
proof -
  have h: "(ucast (drop_bit 8 (join16 x y)) :: 8 word) = x" for x y
    by (rule bit_word_eqI) (auto simp: join16_def bit_simps dest: bit_imp_le_length)
  have e: "(0xff :: 16 word) = mask 8" by (simp add: mask_eq_exp_minus_1)
  have m: "(ucast (join16 x y AND 0xff) :: 8 word) = y" for x y
    unfolding e by (rule bit_word_eqI) (auto simp: join16_def bit_simps dest: bit_imp_le_length)
  show ?thesis by (simp add: embedded_v4_def h m)
qed

lemma join16_zero: "join16 a b = 0 \<longleftrightarrow> a = 0 \<and> b = 0"
  using embedded_join [of a b 0 0] embedded_join [of 0 0 0 0]
  by (auto simp: join16_def)

text \<open>The IPv6 spellings a translator or an operating system reads as an IPv4 address.\<close>

definition v4_spellings :: "ipv4 \<Rightarrow> ipv6 set" where
  "v4_spellings ip = (case ip of Ipv4 a b c d \<Rightarrow>
     {Ipv6 0 0 0 0 0 0xffff (join16 a b) (join16 c d), Ipv6 0 0 0 0 0 0 (join16 a b) (join16 c d)}
   \<union> {Ipv6 0x0064 0xff9b s2 s3 s4 s5 (join16 a b) (join16 c d) | s2 s3 s4 s5. True}
   \<union> {Ipv6 0x2002 (join16 a b) (join16 c d) s3 s4 s5 s6 s7 | s3 s4 s5 s6 s7. True})"

text \<open>
  C12. No IPv6 wrapping launders an address: an IPv4 address the classifier denies is denied in
  its mapped, compatible, NAT64 and 6to4 spellings too, whatever the other segments hold.
\<close>

theorem embedded_v4_denied:
  assumes "\<not> is_allowed (classify_v4 ip)" and "w \<in> v4_spellings ip"
  shows "\<not> is_allowed (classify_ip (V6 w))"
proof -
  obtain a b c d where ip: "ip = Ipv4 a b c d" by (cases ip)
  have n: "(0x64 :: 16 word) AND 0xff00 \<noteq> 0xff00" "(0x64 :: 16 word) AND 0xfe00 \<noteq> 0xfc00"
    "(0x64 :: 16 word) AND 0xffc0 \<noteq> 0xfe80" "(0x2002 :: 16 word) AND 0xff00 \<noteq> 0xff00"
    "(0x2002 :: 16 word) AND 0xfe00 \<noteq> 0xfc00" "(0x2002 :: 16 word) AND 0xffc0 \<noteq> 0xfe80"
    by simp_all
  have d: "\<not> is_allowed (Deny r)" for r by (simp add: is_allowed_def)
  from assms(2) consider
      "w = Ipv6 0 0 0 0 0 0xffff (join16 a b) (join16 c d)"
    | "w = Ipv6 0 0 0 0 0 0 (join16 a b) (join16 c d)"
    | s2 s3 s4 s5 where "w = Ipv6 0x0064 0xff9b s2 s3 s4 s5 (join16 a b) (join16 c d)"
    | s3 s4 s5 s6 s7 where "w = Ipv6 0x2002 (join16 a b) (join16 c d) s3 s4 s5 s6 s7"
    by (auto simp: v4_spellings_def ip)
  then show ?thesis
    by cases (use assms(1) n d in \<open>simp_all add: ip classify_ip_def embedded_join Let_def
        del: classify_v4.simps\<close>)
qed

lemma embedded_v4_denied_witness:
  "\<not> is_allowed (classify_ip (V6 (Ipv6 0x0064 0xff9b 1 0 0 0 0x7f00 1)))"
proof -
  have n: "\<not> is_allowed (classify_v4 (Ipv4 127 0 0 1))" by code_simp
  have j: "join16 127 0 = 0x7f00" "join16 0 1 = 1" by code_simp+
  have "Ipv6 0x0064 0xff9b 1 0 0 0 (join16 127 0) (join16 0 1) \<in> v4_spellings (Ipv4 127 0 0 1)"
    by (auto simp: v4_spellings_def)
  from embedded_v4_denied [OF n this] show ?thesis unfolding j .
qed

section \<open>The shorthand parser\<close>

text \<open>inet_aton on numbers: leading parts are octets, the last part fills what they leave.\<close>

definition inet_aton :: "nat list \<Rightarrow> nat option" where
  "inet_aton vs =
     (if vs = [] \<or> 4 < length vs \<or> (\<exists>v \<in> set (butlast vs). 255 < v)
         \<or> 256 ^ (5 - length vs) \<le> last vs then None
      else Some (last vs + (\<Sum>i < length vs - 1. vs ! i * 256 ^ (3 - i))))"

definition inet_numbers :: "string \<Rightarrow> nat list option" where
  "inet_numbers host =
     (let ps = map parse_inet_part (split_on CHR ''.'' host)
      in if None \<in> set ps then None else Some (map (unat \<circ> the) ps))"

lemma bit_bound:
  fixes v :: "32 word"
  assumes "bit v n" and "unat v < 2 ^ k"
  shows "n < k"
proof (rule ccontr)
  assume "\<not> n < k"
  then have "(2 :: nat) ^ k \<le> 2 ^ n" by simp
  with assms(2) have "unat v < 2 ^ n" by linarith
  then have "unat v div 2 ^ n = 0" by (rule div_less)
  moreover have "bit (unat v) n" using assms(1) by (simp add: bit_unsigned_iff bit_imp_le_length)
  ultimately show False by (simp add: bit_iff_odd)
qed

lemma or_octets_sum:
  "(\<And>n. bit addr n \<Longrightarrow> n < 8 * (4 - (i + length vs)) \<or> 8 * (4 - i) \<le> n) \<Longrightarrow>
   \<forall>v \<in> set vs. unat v < 256 \<Longrightarrow> i + length vs < 4 \<Longrightarrow>
     or_octets i addr vs = addr + (\<Sum>j < length vs. vs ! j * 256 ^ (3 - (i + j)))"
proof (induction vs arbitrary: i addr)
  case (Cons v vs)
  let ?k = "8 * (3 - i)"
  have vb: "?k \<le> n \<and> n < 8 * (4 - i)" if b: "bit (push_bit ?k v) n" for n
  proof -
    have "bit v (n - ?k)" "?k \<le> n" using b by (auto simp: bit_simps)
    moreover have "n - ?k < 8" using bit_bound [OF calculation(1), of 8] Cons.prems(2) by simp
    ultimately show ?thesis using Cons.prems(3) by auto
  qed
  have disj: "\<not> bit addr n \<or> \<not> bit (push_bit ?k v) n" for n
    using Cons.prems(1) [of n] vb [of n] Cons.prems(3) by auto
  have add: "addr OR push_bit ?k v = addr + push_bit ?k v"
    by (rule disjunctive_add [symmetric]) (use disj in auto)
  have "n < 8 * (4 - (i + 1 + length vs)) \<or> 8 * (4 - (i + 1)) \<le> n"
    if "bit (addr OR push_bit ?k v) n" for n
    using that Cons.prems(1) [of n] vb [of n] Cons.prems(3) by (auto simp: bit_or_iff)
  from Cons.IH [OF this] Cons.prems(2,3)
  have "or_octets i addr (v # vs) = addr + push_bit ?k v + (\<Sum>j < length vs. vs ! j * 256 ^ (3 - (i + 1 + j)))"
    by (simp add: add)
  moreover have "push_bit ?k v = v * 256 ^ (3 - i)" by (simp add: push_bit_eq_mult power_mult)
  ultimately show ?case by (simp add: sum.lessThan_Suc_shift del: sum.lessThan_Suc)
qed simp

lemma inet_values_spec:
  "length vs \<le> 4 \<Longrightarrow> inet_values vs ps =
     (if None \<in> set (map parse_inet_part ps) \<or> 4 < length vs + length ps then None
      else Some (vs @ map (the \<circ> parse_inet_part) ps))"
  by (induction ps arbitrary: vs) (auto split: option.splits)

lemma limit_bound:
  fixes t :: "32 word"
  assumes "f \<in> {1, 2, 3, 4}"
  shows "(if f = 4 then - 1 else push_bit (8 * f) 1 - 1) < t \<longleftrightarrow> 256 ^ f \<le> unat t"
proof -
  have "unat t < 4294967296" using unsigned_less [of t] by simp
  moreover have "\<not> (- 1 :: 32 word) < t" by (simp add: not_less)
  ultimately show ?thesis using assms
    by (auto simp: word_less_nat_alt push_bit_eq_mult)
qed

lemma shorthand_spec:
  "parse_ipv4_shorthand host =
     (case inet_numbers host of
        None \<Rightarrow> None
      | Some vs \<Rightarrow> map_option (\<lambda>n. ipv4_from (of_nat n)) (inet_aton vs))"
proof -
  let ?ps = "split_on CHR ''.'' host"
  let ?ws = "map (the \<circ> parse_inet_part) ?ps"
  have vals: "inet_values [] ?ps = (if None \<in> set (map parse_inet_part ?ps) \<or> 4 < length ?ps
      then None else Some ?ws)"
    using inet_values_spec [of "[]" ?ps] by simp
  have nums: "inet_numbers host = (if None \<in> set (map parse_inet_part ?ps) then None
      else Some (map unat ?ws))"
    by (simp add: inet_numbers_def Let_def)
  show ?thesis
  proof (cases "None \<in> set (map parse_inet_part ?ps) \<or> 4 < length ?ps \<or> ?ws = []")
    case True
    then show ?thesis
      unfolding parse_ipv4_shorthand_def vals nums by (auto simp: inet_aton_def)
  next
    case False
    then have l: "?ws \<noteq> []" "length ?ws \<le> 4" by auto
    define ws where "ws = ?ws"
    obtain vs t where ws: "ws = vs @ [t]" using l(1) ws_def by (metis append_butlast_last_id)
    have "length ws \<le> 4" using l(2) by (simp only: ws_def)
    then have lv: "length vs < 4" by (simp add: ws)
    have f: "4 - length vs \<in> {1, 2, 3, 4}" using lv by auto
    have ex: "list_ex (\<lambda>v. 0xff < v) vs \<longleftrightarrow> (\<exists>v \<in> set (map unat vs). 255 < v)"
      by (simp add: list_ex_iff word_less_nat_alt)
    have lhs: "parse_ipv4_shorthand host =
        (if list_ex (\<lambda>v. 0xff < v) vs then None
         else if 256 ^ (4 - length vs) \<le> unat t then None
         else Some (ipv4_from (or_octets 0 t vs)))"
      using False limit_bound [OF f, of t] unfolding parse_ipv4_shorthand_def vals
      by (simp add: ws Let_def flip: ws_def)
    have rhs: "inet_numbers host = Some (map unat vs @ [unat t])"
      unfolding nums using False by (simp add: ws flip: ws_def)
    show ?thesis
    proof (cases "list_ex (\<lambda>v. 0xff < v) vs \<or> 256 ^ (4 - length vs) \<le> unat t")
      case True
      then show ?thesis unfolding lhs rhs using ex lv
        by (auto simp: inet_aton_def)
    next
      case ok: False
      have low: "n < 8 * (4 - (0 + length vs)) \<or> 8 * (4 - 0) \<le> n" if "bit t n" for n
        using bit_bound [OF that, of "8 * (4 - length vs)"] ok by (simp add: power_mult)
      have small: "\<forall>v \<in> set vs. unat v < 256" using ok ex by auto
      have "or_octets 0 t vs = t + (\<Sum>j < length vs. vs ! j * 256 ^ (3 - j))"
        using or_octets_sum [of t 0 vs] low small lv by simp
      also have "\<dots> = of_nat (unat t + (\<Sum>j < length vs. map unat vs ! j * 256 ^ (3 - j)))"
        by simp
      finally show ?thesis unfolding lhs rhs using ok ex lv
        by (auto simp: inet_aton_def nth_append intro!: arg_cong [of _ _ ipv4_from])
    qed
  qed
qed

text \<open>
  What a part denotes, from the notation itself: a digit is an entry of a table below the base, a
  numeral its digits weighed by position, and a part is decimal, octal after a zero, or
  hexadecimal after 0x or 0X. Nothing of the code's own reading of a part is used here.
\<close>

definition digit_of :: "nat \<Rightarrow> char \<Rightarrow> nat \<Rightarrow> bool" where
  "digit_of b c d \<longleftrightarrow> d < b \<and> (c = ''0123456789abcdef'' ! d \<or> c = ''0123456789ABCDEF'' ! d)"

inductive based_numeral :: "nat \<Rightarrow> string \<Rightarrow> nat \<Rightarrow> bool" where
  numeral_digit: "digit_of b c d \<Longrightarrow> based_numeral b [c] d"
| numeral_snoc: "based_numeral b s n \<Longrightarrow> digit_of b c d \<Longrightarrow> based_numeral b (s @ [c]) (n * b + d)"

inductive inet_part :: "string \<Rightarrow> nat \<Rightarrow> bool" where
  part_decimal: "based_numeral 10 s n \<Longrightarrow> s = ''0'' \<or> hd s \<noteq> CHR ''0'' \<Longrightarrow> inet_part s n"
| part_octal: "based_numeral 8 s n \<Longrightarrow> inet_part (''0'' @ s) n"
| part_hexadecimal: "based_numeral 16 s n \<Longrightarrow> x \<in> {CHR ''x'', CHR ''X''} \<Longrightarrow> inet_part (''0'' @ x # s) n"

text \<open>The code's tables and its reading of a part are these.\<close>

lemma digit_table:
  "list_all (\<lambda>c. case digit_value c of
       None \<Rightarrow> c \<notin> set ''0123456789abcdefABCDEF''
     | Some d \<Rightarrow> d < 16 \<and> (c = ''0123456789abcdef'' ! d \<or> c = ''0123456789ABCDEF'' ! d)) (map char_of [0..<256::nat])"
  by code_simp

lemma digit_entries:
  "list_all (\<lambda>d. digit_value (''0123456789abcdef'' ! d) = Some d \<and> digit_value (''0123456789ABCDEF'' ! d) = Some d) [0..<16]"
  by code_simp

lemma digit_of_iff: "b \<le> 16 \<Longrightarrow> digit_of b c d \<longleftrightarrow> to_digit b c = Some d"
proof -
  assume b: "b \<le> 16"
  have "c \<in> set (map char_of [0..<256::nat])"
    by (auto intro!: image_eqI [of _ _ "of_char c"])
  from bspec [OF digit_table [unfolded list_all_iff] this]
  have "d < 16 \<and> (c = ''0123456789abcdef'' ! d \<or> c = ''0123456789ABCDEF'' ! d)" if "digit_value c = Some d" for d
    using that by simp
  moreover have "digit_value c = Some d" if "d < 16" "c = ''0123456789abcdef'' ! d \<or> c = ''0123456789ABCDEF'' ! d"
    using digit_entries that by (auto simp: list_all_iff)
  ultimately show "digit_of b c d \<longleftrightarrow> to_digit b c = Some d"
    using b unfolding digit_of_def to_digit_def by (auto split: option.splits)
qed

lemma based_numeral_iff:
  assumes b: "b \<le> 16"
  shows "based_numeral b s n \<longleftrightarrow> s \<noteq> [] \<and> digits_value b 0 s = Some n"
proof
  assume "based_numeral b s n"
  from this b show "s \<noteq> [] \<and> digits_value b 0 s = Some n"
    by (induction rule: based_numeral.induct) (simp_all add: digit_of_iff digits_value_append)
next
  assume "s \<noteq> [] \<and> digits_value b 0 s = Some n"
  then have "s \<noteq> []" "digits_value b 0 s = Some n" by simp_all
  then show "based_numeral b s n"
  proof (induction s arbitrary: n rule: rev_nonempty_induct)
    case (single c)
    then show ?case using b by (auto simp: digit_of_iff split: option.splits intro: numeral_digit)
  next
    case (snoc c s)
    from snoc.prems obtain m d where "digits_value b 0 s = Some m" "to_digit b c = Some d" "n = m * b + d"
      by (auto simp: digits_value_append split: option.splits)
    with snoc.IH b show ?case by (auto simp: digit_of_iff intro: numeral_snoc)
  qed
qed

lemma numeral_hd: "based_numeral b s n \<Longrightarrow> s \<noteq> [] \<and> (\<exists>d. digit_of b (hd s) d)"
  by (induction rule: based_numeral.induct) auto

lemma digits_value_all: "digits_value r acc s \<noteq> None \<longleftrightarrow> list_all (\<lambda>c. to_digit r c \<noteq> None) s"
  by (induction r acc s rule: digits_value.induct) (auto split: option.splits)

lemma unat_of_nat_32: "v < 2 ^ 32 \<Longrightarrow> unat (of_nat v :: 32 word) = v"
  using take_bit_nat_eq_self [of v 32] by (simp add: unsigned_of_nat)

lemma unat_bound_32: "unat (w :: 32 word) < 2 ^ 32"
  using unsigned_less [of w] by simp

lemma parse_digits:
  assumes "b \<le> 16"
  shows "(if s = [] \<or> \<not> list_all (\<lambda>c. to_digit b c \<noteq> None) s then None
          else map_option of_nat (parse_unsigned 32 b s)) = Some (w :: 32 word)
     \<longleftrightarrow> based_numeral b s (unat w)"
proof -
  have "to_digit b CHR ''+'' = None" by (simp add: to_digit_def digit_value_def is_ascii_digit_def byte_def)
  then have pu: "parse_unsigned 32 b s = (case digits_value b 0 s of None \<Rightarrow> None
      | Some v \<Rightarrow> if v < 2 ^ 32 then Some v else None)"
    if "s \<noteq> []" "list_all (\<lambda>c. to_digit b c \<noteq> None) s"
    using that by (cases s) (auto simp: parse_unsigned_def Let_def)
  have "of_nat v = w \<longleftrightarrow> v = unat w" if "v < 2 ^ 32" for v
    using unat_of_nat_32 [OF that] by auto
  moreover have "unat w < 2 ^ 32" using unsigned_less [of w] by simp
  ultimately show ?thesis
    unfolding based_numeral_iff [OF assms]
    using digits_value_all [of b 0 s] pu by (auto split: option.splits)
qed

lemma numeral_start: "based_numeral b s n \<Longrightarrow> s \<noteq> [] \<and> (\<exists>d. digit_of b (hd s) d)"
  by (induction rule: based_numeral.induct) auto

lemma inet_part_iff:
  "inet_part p n \<longleftrightarrow> based_numeral 10 p n \<and> (p = ''0'' \<or> hd p \<noteq> CHR ''0'')
     \<or> (\<exists>s. p = CHR ''0'' # s \<and> based_numeral 8 s n)
     \<or> (\<exists>s x. p = CHR ''0'' # x # s \<and> x \<in> {CHR ''x'', CHR ''X''} \<and> based_numeral 16 s n)"
  by (subst inet_part.simps) auto

lemma parse_inet_part_iff: "parse_inet_part p = Some w \<longleftrightarrow> inet_part p (unat w)"
proof -
  have nox: "\<not> digit_of b c d" if "b \<le> 10" "c \<in> {CHR ''x'', CHR ''X''}" for b c d
    using that by (auto simp: digit_of_iff to_digit_def digit_value_def is_ascii_digit_def byte_def)
  have zero: "based_numeral 10 ''0'' n \<longleftrightarrow> n = 0" for n
    by (auto simp: based_numeral_iff to_digit_def digit_value_def is_ascii_digit_def byte_def)
  consider s x where "p = CHR ''0'' # x # s" "x \<in> {CHR ''x'', CHR ''X''}"
    | x s where "p = CHR ''0'' # x # s" "x \<notin> {CHR ''x'', CHR ''X''}"
    | "p = ''0'' \<or> p = [] \<or> hd p \<noteq> CHR ''0''"
    by (cases p; cases "tl p") auto
  then show ?thesis
  proof cases
    case 1
    have parts: "inet_part p n \<longleftrightarrow> based_numeral 16 s n" for n
    proof -
      have "\<not> based_numeral 8 (x # s) n" using 1(2) nox [of 8 x] numeral_start [of 8 "x # s" n] by auto
      then show ?thesis unfolding inet_part_iff using 1 by auto
    qed
    have "parse_inet_part p = (if s = [] \<or> \<not> list_all (\<lambda>c. to_digit 16 c \<noteq> None) s then None
        else map_option of_nat (parse_unsigned 32 16 s))"
      unfolding parse_inet_part_def using 1 by (cases "x = CHR ''x''") (auto simp: strip_prefix_def starts_with_def)
    with parts [of "unat w"] parse_digits [of 16 "s" w]
    show ?thesis by (simp only:)
  next
    case 2
    have parts: "inet_part p n \<longleftrightarrow> based_numeral 8 (x # s) n" for n
      unfolding inet_part_iff using 2 by auto
    have "parse_inet_part p = (if x # s = [] \<or> \<not> list_all (\<lambda>c. to_digit 8 c \<noteq> None) (x # s) then None
        else map_option of_nat (parse_unsigned 32 8 (x # s)))"
      unfolding parse_inet_part_def using 2 by (cases "x = CHR ''x''") (auto simp: strip_prefix_def starts_with_def)
    with parts [of "unat w"] parse_digits [of 8 "x # s" w]
    show ?thesis by (simp only:)
  next
    case 3
    have parts: "inet_part p n \<longleftrightarrow> based_numeral 10 p n" for n
      unfolding inet_part_iff using 3 numeral_start [of 10 p n] numeral_start [of 8 "[]" n] by auto
    have "parse_inet_part p = (if p = [] \<or> \<not> list_all (\<lambda>c. to_digit 10 c \<noteq> None) p then None
        else map_option of_nat (parse_unsigned 32 10 p))"
      unfolding parse_inet_part_def using 3 by (cases p) (auto simp: strip_prefix_def starts_with_def)
    with parts [of "unat w"] parse_digits [of 10 "p" w]
    show ?thesis by (simp only:)
  qed
qed

lemma inet_part_dotless: "inet_part p n \<Longrightarrow> CHR ''.'' \<notin> set p"
proof -
  have "based_numeral b s m \<Longrightarrow> b \<le> 16 \<Longrightarrow> CHR ''.'' \<notin> set s" for b s m
    by (induction rule: based_numeral.induct)
      (auto simp: digit_of_iff to_digit_def digit_value_def is_ascii_digit_def byte_def)
  then show "inet_part p n \<Longrightarrow> CHR ''.'' \<notin> set p"
    unfolding inet_part_iff by fastforce
qed

lemma all_parsed:
  "(if None \<in> set (map f ps) then None else Some (map (g \<circ> the \<circ> f) ps)) = Some vs \<longleftrightarrow>
     list_all2 (\<lambda>p v. \<exists>w. f p = Some w \<and> v = g w) ps vs"
proof (induction ps arbitrary: vs)
  case (Cons p ps)
  show ?case
  proof (cases "f p")
    case (Some w)
    have "(if None \<in> set (map f (p # ps)) then None else Some (map (g \<circ> the \<circ> f) (p # ps))) = Some vs
        \<longleftrightarrow> (\<exists>us. vs = g w # us \<and> None \<notin> set (map f ps) \<and> map (g \<circ> the \<circ> f) ps = us)"
      by (auto simp: Some)
    moreover have "None \<notin> set (map f ps) \<and> map (g \<circ> the \<circ> f) ps = us \<longleftrightarrow>
        list_all2 (\<lambda>p v. \<exists>w. f p = Some w \<and> v = g w) ps us" for us
      unfolding Cons.IH [symmetric] by auto
    ultimately show ?thesis by (simp only: list_all2_Cons1) (auto simp: Some)
  qed (simp add: list_all2_Cons1)
qed auto

lemma list_all2_conj_right:
  "list_all2 (\<lambda>p v. P p v \<and> Q v) ps vs \<longleftrightarrow> list_all2 P ps vs \<and> (\<forall>v \<in> set vs. Q v)"
proof (induction ps arbitrary: vs)
  case (Cons p ps)
  then show ?case by (cases vs) auto
qed auto

lemma inet_numbers_iff:
  "inet_numbers host = Some vs \<longleftrightarrow>
     list_all2 inet_part (split_on CHR ''.'' host) vs \<and> (\<forall>v \<in> set vs. v < 2 ^ 32)"
proof -
  have "(\<exists>w. parse_inet_part p = Some w \<and> v = unat w) \<longleftrightarrow> inet_part p v \<and> v < 2 ^ 32" for p v
    unfolding parse_inet_part_iff using unat_of_nat_32 [of v] unat_bound_32 by metis
  then have "list_all2 (\<lambda>p v. \<exists>w. parse_inet_part p = Some w \<and> v = unat w) ps vs \<longleftrightarrow>
      list_all2 inet_part ps vs \<and> (\<forall>v \<in> set vs. v < 2 ^ 32)" for ps
    by (simp only: list_all2_conj_right)
  with all_parsed [of parse_inet_part "split_on CHR ''.'' host" unat vs] show ?thesis
    by (simp only: inet_numbers_def Let_def comp_assoc map_map)
qed

lemma ipv4_from_value:
  assumes n: "n < 2 ^ 32"
  shows "v4_value (ipv4_from (of_nat n)) = n"
proof -
  define x :: "32 word" where "x = of_nat n"
  have x: "unat x = n" using unat_of_nat_32 [OF n] by (simp only: x_def)
  have octet: "unat (ucast (drop_bit k x) :: 8 word) = n div 2 ^ k mod 256" for k
  proof -
    have "unat (drop_bit k x) = drop_bit k n"
      using n by (simp only: unsigned_drop_bit_eq x) (simp add: take_bit_nat_eq_self)
    then show ?thesis by (simp only: unsigned_ucast_eq) (simp add: take_bit_eq_mod drop_bit_eq_div)
  qed
  have last: "unat (ucast x :: 8 word) = n mod 256"
    using octet [of 0] by simp
  have "((n div 16777216 mod 256 * 256 + n div 65536 mod 256) * 256 + n div 256 mod 256) * 256 + n mod 256 = n"
    using n by (simp add: div_mult2_eq [of n 256 256, simplified] div_mult2_eq [of n 65536 256, simplified])
  moreover have "n div 16777216 mod 256 = n div 16777216" using n by simp
  ultimately show ?thesis by (simp add: ipv4_from_def octet last flip: x_def)
qed

lemma v4_value_inject: "v4_value a = v4_value b \<longleftrightarrow> a = b"
proof
  obtain p q r s where a: "a = Ipv4 p q r s" by (cases a)
  obtain p' q' r' s' where b: "b = Ipv4 p' q' r' s'" by (cases b)
  assume eq: "v4_value a = v4_value b"
  note da = v4_value_divs [of "unat q" "unat r" "unat s" "unat p", OF unat_octet unat_octet unat_octet]
  note db = v4_value_divs [of "unat q'" "unat r'" "unat s'" "unat p'", OF unat_octet unat_octet unat_octet]
  have "unat p = unat p'" using da(1) db(1) eq by (simp add: a b)
  moreover from this have "unat q = unat q'" using da(2) db(2) eq by (simp add: a b)
  moreover from calculation have "unat r = unat r'" using da(3) db(3) eq by (simp add: a b)
  moreover from calculation have "unat s = unat s'" using eq by (simp add: a b)
  ultimately show "a = b" by (simp add: a b word_eq_unat_numeral)
qed simp

lemma inet_aton_bound:
  assumes "inet_aton vs = Some n"
  shows "n < 2 ^ 32 \<and> (\<forall>v \<in> set vs. v < 2 ^ 32)"
proof -
  have vs: "vs \<noteq> []" "length vs \<le> 4" "\<forall>v \<in> set (butlast vs). v \<le> 255" "last vs < 256 ^ (5 - length vs)"
    and n: "n = last vs + (\<Sum>i < length vs - 1. vs ! i * 256 ^ (3 - i))"
    using assms by (auto simp: inet_aton_def split: if_splits)
  obtain us u where us: "vs = us @ [u]" using vs(1) by (metis append_butlast_last_id)
  have "length us < 4" using vs(2) us by simp
  moreover have "(256 :: nat) ^ (4 - length us) \<le> 256 ^ 4" by (rule power_increasing) auto
  ultimately have u: "u < 2 ^ 32" using vs(4) us by simp
  have "u + (\<Sum>i < length us. us ! i * 256 ^ (3 - i)) < 2 ^ 32"
    using \<open>length us < 4\<close> vs(3,4) us
    by (cases us; cases "tl us"; cases "tl (tl us)") (auto simp: lessThan_Suc sum.lessThan_Suc_shift)
  then have "n < 2 ^ 32" unfolding n us by (simp add: nth_append)
  with u vs(3) us show ?thesis by (auto simp: us)
qed

text \<open>
  C13. The shorthand parser accepts exactly the numbers-and-dots notation of inet_aton, and computes
  the address it denotes: parts separated by dots, each a decimal, octal or hexadecimal
  numeral of the notation above, at most four of them, leading parts below 256 and the last one
  filling the remaining octets, combined by their weights. The right-hand side uses none of the
  code's functions; the value of an address is that of its four octets.
\<close>

theorem shorthand_is_inet_aton:
  "parse_ipv4_shorthand host = Some a \<longleftrightarrow>
     (\<exists>parts vs. host = join ''.'' parts \<and> list_all2 inet_part parts vs \<and> inet_aton vs = Some (v4_value a))"
proof -
  have "parse_ipv4_shorthand host = Some a \<longleftrightarrow>
      (\<exists>vs n. inet_numbers host = Some vs \<and> inet_aton vs = Some n \<and> a = ipv4_from (of_nat n))"
    unfolding shorthand_spec by (auto split: option.splits)
  also have "\<dots> \<longleftrightarrow> (\<exists>vs. inet_numbers host = Some vs \<and> inet_aton vs = Some (v4_value a))"
    by (metis inet_aton_bound ipv4_from_value v4_value_inject)
  also have "\<dots> \<longleftrightarrow> (\<exists>vs. list_all2 inet_part (split_on CHR ''.'' host) vs \<and> inet_aton vs = Some (v4_value a))"
    unfolding inet_numbers_iff using inet_aton_bound by blast
  also have "\<dots> \<longleftrightarrow> (\<exists>parts vs. host = join ''.'' parts \<and> list_all2 inet_part parts vs \<and> inet_aton vs = Some (v4_value a))"
  proof -
    have "split_on CHR ''.'' (join ''.'' parts) = parts"
      if "list_all2 inet_part parts vs" "inet_aton vs = Some m" for parts vs m
    proof (rule split_join_free)
      show "parts \<noteq> []" using that by (auto simp: inet_aton_def)
      show "list_all (\<lambda>w. CHR ''.'' \<notin> set w) parts"
        using that(1) inet_part_dotless unfolding list_all_iff list_all2_conv_all_nth by (metis in_set_conv_nth)
    qed
    then show ?thesis by (metis join_split)
  qed
  finally show ?thesis .
qed

section \<open>The authority check\<close>

definition unbracketed :: "string \<Rightarrow> string" where
  "unbracketed h = (case Option.bind (strip_prefix ''['' h) (strip_suffix '']'') of Some b \<Rightarrow> b | None \<Rightarrow> h)"

text \<open>
  A host that names nothing internal before name resolution: as a strict literal it is public,
  as a number inet_aton reads it is public, and otherwise it is a dotted DNS name.
\<close>

definition names_nothing_internal :: "string \<Rightarrow> bool" where
  "names_nothing_internal h \<longleftrightarrow>
     (case ip_addr_parse (unbracketed h) of
        Some ip \<Rightarrow> is_allowed (classify_ip ip)
      | None \<Rightarrow>
          (case Option.bind (inet_numbers (unbracketed h)) inet_aton of
             None \<Rightarrow> True
           | Some n \<Rightarrow> \<not> (\<exists>k \<in> set special_blocks. in_block (v4_value (ipv4_from (of_nat n))) k))
        \<and> is_valid_hostname h \<and> CHR ''.'' \<in> set h \<and> \<not> ends_with ''.local'' h)"

lemma authority_facts:
  assumes "check_authority host port allow = Allow"
  shows "normalize_host host \<notin> set METADATA_HOSTS \<and> normalize_host host \<noteq> []
     \<and> (allow_contains allow (normalize_host host) port
        \<or> (port = 80 \<or> port = 443) \<and> names_nothing_internal (normalize_host host))"
proof -
  let ?h = "normalize_host host"
  have base: "?h \<noteq> []" "?h \<notin> set METADATA_HOSTS"
    "port \<in> set DEFAULT_ALLOWED_PORTS \<or> allow_contains allow ?h port"
    using assms by (auto simp: check_authority_def Let_def split: if_splits)
  have "names_nothing_internal ?h" if na: "\<not> allow_contains allow ?h port"
  proof (cases "ip_addr_parse (unbracketed ?h)")
    case (Some ip)
    with assms base na have "classify_ip ip = Allow"
      by (auto simp: check_authority_def Let_def parse_ip_literal_def unbracketed_def)
    with Some show ?thesis by (simp add: names_nothing_internal_def is_allowed_def)
  next
    case None
    then have lit: "parse_ip_literal ?h = map_option Shorthand (parse_ipv4_shorthand (unbracketed ?h))"
      by (simp add: parse_ip_literal_def unbracketed_def Let_def)
    have name: "check_name ?h False = Allow"
      using assms base na lit
      by (auto simp: check_authority_def Let_def is_allowed_def split: option.splits if_splits)
    have short: "is_allowed (classify_v4 v)" if "parse_ipv4_shorthand (unbracketed ?h) = Some v" for v
      using assms base na lit that
      by (auto simp: check_authority_def Let_def is_allowed_def split: if_splits)
    from short name None show ?thesis
      unfolding classify_v4_blocks shorthand_spec
      by (auto simp: names_nothing_internal_def check_name_def bind_eq_Some_conv split: option.splits if_splits)
  qed
  with base show ?thesis by (auto simp: DEFAULT_ALLOWED_PORTS_def)
qed

text \<open>
  C14. What an allowed authority means: the host is never a metadata name, allowlisted or not,
  and either the operator allowlisted exactly this host and port, or the port is 80 or 443 and
  the host names nothing internal in any spelling the resolver would accept.
\<close>

theorem authority_allowed:
  assumes "check_authority host port allow = Allow"
  shows "normalize_host host \<notin> set METADATA_HOSTS \<and> normalize_host host \<noteq> []
     \<and> (allow_contains allow (normalize_host host) port
        \<or> (port = 80 \<or> port = 443) \<and> names_nothing_internal (normalize_host host))"
  by (rule authority_facts [OF assms])

lemma authority_allowed_witness:
  "check_authority ''API.example.com.'' 443 [] = Allow
   \<and> names_nothing_internal (normalize_host ''API.example.com.'')"
proof -
  have r: "check_authority ''API.example.com.'' 443 [] = Allow" by code_simp
  have "\<not> allow_contains [] (normalize_host ''API.example.com.'') 443" by (simp add: allow_contains_def)
  with r authority_allowed [OF r] show ?thesis by simp
qed

lemma trim_end_dots_replicate: "trim_end_dots (s @ replicate n CHR ''.'') = trim_end_dots s"
proof -
  have "dropWhile (\<lambda>c. c = CHR ''.'') (replicate n CHR ''.'' @ t) = dropWhile (\<lambda>c. c = CHR ''.'') t" for t
    by (induction n) auto
  then show ?thesis by (simp add: trim_end_dots_def)
qed

lemma normalize_host_spelling:
  assumes "blank w" and "blank w'" and "list_all solid h" and "h \<noteq> []"
    and "to_ascii_lowercase h' = to_ascii_lowercase h" and "list_all solid h'"
  shows "normalize_host (w @ h' @ replicate n CHR ''.'' @ w') = normalize_host h"
proof -
  have ne: "h' \<noteq> []" using assms(4,5) by (metis length_0_conv lower_length)
  have d: "solid CHR ''.''" by code_simp
  have "list_all solid (h' @ replicate n CHR ''.'')" using assms(6) d by (auto simp: list_all_iff)
  then have "solid (hd (h' @ replicate n CHR ''.''))" "solid (last (h' @ replicate n CHR ''.''))"
    using ne by (metis append_is_Nil_conv list_all_iff hd_in_set, metis append_is_Nil_conv list_all_iff last_in_set)
  from trim_blank_solid [OF assms(1,2) _ this] ne
  have t: "trim (w @ h' @ replicate n CHR ''.'' @ w') = h' @ replicate n CHR ''.''" by simp
  have "to_ascii_lower_char CHR ''.'' = CHR ''.''" by code_simp
  then have "to_ascii_lowercase (replicate n CHR ''.'') = replicate n CHR ''.''"
    by (simp add: to_ascii_lowercase_def)
  then show ?thesis
    by (simp add: normalize_host_def t assms(5) trim_end_dots_replicate trim_all_solid [OF assms(3)])
qed

text \<open>
  The verdict does not depend on how the host is spelled: surrounding white space, letter
  case and any number of trailing dots change nothing, so none of them turns a denial of a
  metadata name, a single-label name or an allowlist miss into an allowance.
\<close>

theorem authority_spelling:
  assumes "blank w" and "blank w'" and "list_all solid h" and "h \<noteq> []"
    and "to_ascii_lowercase h' = to_ascii_lowercase h" and "list_all solid h'"
  shows "check_authority (w @ h' @ replicate n CHR ''.'' @ w') port allow = check_authority h port allow"
  by (simp only: check_authority_def normalize_host_spelling [OF assms])

lemma authority_spelling_witness:
  "check_authority ('' '' @ ''Metadata.Google.INTERNAL'' @ replicate 2 CHR ''.'' @ []) 443 []
     = check_authority ''metadata.google.internal'' 443 []"
proof -
  have "blank '' ''" "blank []" "list_all solid ''metadata.google.internal''"
    "to_ascii_lowercase ''Metadata.Google.INTERNAL'' = to_ascii_lowercase ''metadata.google.internal''"
    "list_all solid ''Metadata.Google.INTERNAL''" by code_simp+
  from authority_spelling [OF this(1,2,3) _ this(4,5)] show ?thesis by blast
qed

end
