(* ===== verification/AuditTrail.thy ===== *)
theory AuditTrail
  imports Base
begin

text \<open>
  A row of the audit log, crates/core/src/audit.rs: identifiers and names only. Its position in
  the log is its id.
\<close>

record audit_row =
  au_at :: string
  au_event :: string
  au_project_id :: "string option"
  au_credential_id :: "string option"
  au_detail :: string

end
