(* ===== verification/Providers.thy ===== *)
theory Providers
  imports Base
begin

text \<open>
  The provider catalogue (crates/core/src/providers.rs): the manifest data, its validation and
  the lookup by id. The TOML decoder, the regular expression compiler and Unicode lower-casing
  are parameters; the embedded manifest sources are the list the catalogue is built from.
\<close>

datatype support_level = Implemented | SupportedNotImplemented | Unsupported_level | ManualOnly

fun support_label :: "support_level \<Rightarrow> string" where
  "support_label Implemented = ''implemented''"
| "support_label SupportedNotImplemented = ''supported, not implemented''"
| "support_label Unsupported_level = ''unsupported''"
| "support_label ManualOnly = ''manual action required''"

datatype attribution = NotApplicable | AccountLevel | ProviderProjectLevel | ExactCredential

fun attribution_label :: "attribution \<Rightarrow> string" where
  "attribution_label NotApplicable = ''n/a''"
| "attribution_label AccountLevel = ''account level only''"
| "attribution_label ProviderProjectLevel = ''provider-project level only''"
| "attribution_label ExactCredential = ''exact credential level''"

record capability_entry =
  ce_support :: support_level
  ce_requires_admin_credential :: bool
  ce_attribution :: attribution
  ce_note :: string

record capabilities =
  cap_validate_credential :: capability_entry
  cap_fetch_metadata :: capability_entry
  cap_fetch_usage :: capability_entry
  cap_read_permissions :: capability_entry
  cap_change_permissions :: capability_entry
  cap_create_credential :: capability_entry
  cap_disable_credential :: capability_entry
  cap_revoke_credential :: capability_entry
  cap_rotate_credential :: capability_entry
  cap_fetch_pricing :: capability_entry

definition capability_entries :: "capabilities \<Rightarrow> (string \<times> capability_entry) list" where
  "capability_entries c =
     [(''validate credential'', cap_validate_credential c),
      (''fetch metadata'', cap_fetch_metadata c),
      (''fetch usage'', cap_fetch_usage c),
      (''read permissions'', cap_read_permissions c),
      (''change permissions'', cap_change_permissions c),
      (''create credential'', cap_create_credential c),
      (''disable credential'', cap_disable_credential c),
      (''revoke credential'', cap_revoke_credential c),
      (''rotate credential'', cap_rotate_credential c),
      (''fetch pricing'', cap_fetch_pricing c)]"

datatype confidence = CLow | CMedium | CHigh

text \<open>The derived order of the Rust enum: the order of its variants.\<close>

instantiation confidence :: linorder
begin

fun confidence_rank :: "confidence \<Rightarrow> nat" where
  "confidence_rank CLow = 0"
| "confidence_rank CMedium = 1"
| "confidence_rank CHigh = 2"

definition less_eq_confidence :: "confidence \<Rightarrow> confidence \<Rightarrow> bool" where
  "less_eq_confidence a b \<longleftrightarrow> confidence_rank a \<le> confidence_rank b"

definition less_confidence :: "confidence \<Rightarrow> confidence \<Rightarrow> bool" where
  "less_confidence a b \<longleftrightarrow> confidence_rank a < confidence_rank b"

instance
proof
  fix x y z :: confidence
  show "x < y \<longleftrightarrow> x \<le> y \<and> \<not> y \<le> x"
    by (auto simp: less_eq_confidence_def less_confidence_def)
  show "x \<le> x" by (simp add: less_eq_confidence_def)
  show "x \<le> y \<Longrightarrow> y \<le> z \<Longrightarrow> x \<le> z" by (simp add: less_eq_confidence_def)
  show "x \<le> y \<Longrightarrow> y \<le> x \<Longrightarrow> x = y"
    by (cases x; cases y) (simp_all add: less_eq_confidence_def)
  show "x \<le> y \<or> y \<le> x" by (auto simp: less_eq_confidence_def)
qed

end

fun confidence_label :: "confidence \<Rightarrow> string" where
  "confidence_label CLow = ''low''"
| "confidence_label CMedium = ''medium''"
| "confidence_label CHigh = ''high''"

record detection_pattern =
  dp_name :: string
  dp_regex :: string
  dp_confidence :: confidence

record gateway_section =
  gs_origins :: "string list"
  gs_base_path :: string
  gs_env_vars :: "string list"
  gs_usage_shape :: string

record provider_manifest =
  pm_id :: string
  pm_name :: string
  pm_description :: string
  pm_website :: string
  pm_api_docs_url :: string
  pm_auth_docs_url :: string
  pm_manage_url :: string
  pm_env_vars :: "string list"
  pm_credential_types :: "string list"
  pm_expiration :: string
  pm_changelog_url :: string
  pm_pricing_url :: string
  pm_permissions_docs_url :: string
  pm_login_url :: string
  pm_billing_url :: string
  pm_watch_docs :: "string list"
  pm_detection :: "detection_pattern list"
  pm_gateway :: "gateway_section option"
  pm_capabilities :: capabilities

record provider_info =
  pi_id :: string
  pi_name :: string
  pi_docs_url :: string
  pi_manage_url :: string
  pi_common_env_vars :: "string list"

definition manifest_info :: "provider_manifest \<Rightarrow> provider_info" where
  "manifest_info m = \<lparr>pi_id = pm_id m, pi_name = pm_name m, pi_docs_url = pm_api_docs_url m,
     pi_manage_url = pm_manage_url m, pi_common_env_vars = pm_env_vars m\<rparr>"

section \<open>Validation\<close>

definition bare_host_suffix :: "(string \<Rightarrow> string) \<Rightarrow> string \<Rightarrow> bool" where
  "bare_host_suffix lowercase rest \<longleftrightarrow>
     rest \<noteq> [] \<and> \<not> list_ex (\<lambda>c. c \<in> set ''/?#@:'') rest \<and> rest = lowercase rest"

text \<open>The first offending origin, then the first offending variable name, decides the message.\<close>

fun check_gateway_origins :: "(string \<Rightarrow> string) \<Rightarrow> string \<Rightarrow> string list \<Rightarrow> unit res" where
  "check_gateway_origins lowercase i [] = Inr ()"
| "check_gateway_origins lowercase i (origin # os) =
     (case strip_prefix ''https://'' origin of
        None \<Rightarrow> Inl (InvalidInput (''provider '' @ quoted i @ '' gateway origin '' @ quoted origin
                     @ '' must be https''))
      | Some rest \<Rightarrow>
          if \<not> bare_host_suffix lowercase rest
          then Inl (InvalidInput (''provider '' @ quoted i @ '' gateway origin '' @ quoted origin
            @ '' must be a bare lowercase https host: no path, query, fragment, userinfo, or port (443 is implied and enforced)''))
          else check_gateway_origins lowercase i os)"

definition usable_env_name :: "string \<Rightarrow> bool" where
  "usable_env_name var \<longleftrightarrow> trim var \<noteq> [] \<and> CHR ''='' \<notin> set var"

definition validate_gateway_section ::
    "(string \<Rightarrow> string) \<Rightarrow> string \<Rightarrow> gateway_section \<Rightarrow> unit res" where
  "validate_gateway_section lowercase i g =
     (if gs_origins g = [] \<and> gs_env_vars g = []
      then Inl (InvalidInput (''provider '' @ quoted i @ '' [gateway] declares neither origins nor env_vars''))
      else case check_gateway_origins lowercase i (gs_origins g) of
        Inl e \<Rightarrow> Inl e
      | Inr _ \<Rightarrow>
          if gs_base_path g \<noteq> []
             \<and> (\<not> starts_with ''/'' (gs_base_path g) \<or> list_ex (\<lambda>c. c \<in> set ''?#'') (gs_base_path g))
          then Inl (InvalidInput (''provider '' @ quoted i @ '' gateway base_path '' @ quoted (gs_base_path g)
            @ '' must be empty or start with '' @ quoted ''/'' @ '' and carry no query/fragment''))
          else (case find (\<lambda>v. \<not> usable_env_name v) (gs_env_vars g) of
              Some v \<Rightarrow> Inl (InvalidInput (''provider '' @ quoted i @ '' gateway env_vars entry ''
                          @ quoted v @ '' is not a variable name''))
            | None \<Rightarrow>
                if gs_usage_shape g \<notin> {[], ''openai'', ''anthropic''}
                then Inl (InvalidInput (''provider '' @ quoted i @ '' gateway usage_shape ''
                       @ quoted (gs_usage_shape g) @ '' is not a known extraction shape''))
                else Inr ()))"

text \<open>\<open>regex_error\<close> is what the regex crate reports on a pattern, None if it compiles.\<close>

definition validate_manifest ::
    "(string \<Rightarrow> string) \<Rightarrow> (string \<Rightarrow> string option) \<Rightarrow> provider_manifest \<Rightarrow> unit res" where
  "validate_manifest lowercase regex_error m =
     (if trim (pm_id m) = [] then Inl (InvalidInput ''provider manifest has an empty id'')
      else if pm_id m \<noteq> lowercase (pm_id m)
      then Inl (InvalidInput (''provider id '' @ quoted (pm_id m) @ '' must be lowercase''))
      else if trim (pm_name m) = []
      then Inl (InvalidInput (''provider '' @ quoted (pm_id m) @ '' has an empty name''))
      else case find (\<lambda>p. regex_error (dp_regex p) \<noteq> None) (pm_detection m) of
        Some p \<Rightarrow> Inl (InvalidInput (''provider '' @ quoted (pm_id m) @ '' pattern '' @ quoted (dp_name p)
                    @ '' is not a valid regex: '' @ the (regex_error (dp_regex p))))
      | None \<Rightarrow>
          (case pm_gateway m of
             None \<Rightarrow> Inr ()
           | Some g \<Rightarrow> validate_gateway_section lowercase (pm_id m) g))"

definition parse_manifest ::
    "(string \<Rightarrow> string) \<Rightarrow> (string \<Rightarrow> string option) \<Rightarrow> (string \<Rightarrow> string + provider_manifest) \<Rightarrow> string
       \<Rightarrow> provider_manifest res" where
  "parse_manifest lowercase regex_error toml source =
     (case toml source of
        Inl e \<Rightarrow> Inl (InvalidInput (''invalid provider manifest: '' @ e))
      | Inr m \<Rightarrow> (case validate_manifest lowercase regex_error m of Inl e \<Rightarrow> Inl e | Inr _ \<Rightarrow> Inr m))"

section \<open>Lookup\<close>

definition find_provider :: "provider_manifest list \<Rightarrow> string \<Rightarrow> provider_manifest option" where
  "find_provider ms i = find (\<lambda>m. eq_ignore_ascii_case (pm_id m) (trim i)) ms"

definition normalize_provider :: "(string \<Rightarrow> string) \<Rightarrow> provider_manifest list \<Rightarrow> string \<Rightarrow> string" where
  "normalize_provider lowercase ms i =
     (case find_provider ms i of Some m \<Rightarrow> pm_id m | None \<Rightarrow> lowercase (trim i))"

definition provider_infos :: "provider_manifest list \<Rightarrow> provider_info list" where
  "provider_infos ms = map manifest_info ms"

lemma check_gateway_origins_ok:
  "check_gateway_origins lowercase i os = Inr u \<Longrightarrow> o' \<in> set os \<Longrightarrow>
     \<exists>rest. strip_prefix ''https://'' o' = Some rest \<and> bare_host_suffix lowercase rest"
  by (induction os) (auto split: option.splits if_splits)

lemma validated_origin:
  "validate_gateway_section lowercase i g = Inr u \<Longrightarrow> o' \<in> set (gs_origins g) \<Longrightarrow>
     \<exists>rest. strip_prefix ''https://'' o' = Some rest \<and> bare_host_suffix lowercase rest"
  by (auto simp: validate_gateway_section_def split: if_splits sum.splits
      intro: check_gateway_origins_ok)

end
