(* ===== verification/Routes.thy ===== *)
theory Routes
  imports AuditTrail Policy Providers
begin

text \<open>
  The gateway's route table (crates/gateway/src/routes.rs): prefix and origin validation, the
  route authentication code, the stored routes and project links, and the validated snapshot
  the forwarding path consults. The keyed hash blake3 is the parameter \<open>kh\<close>, Unicode
  lower-casing the parameter \<open>lowercase\<close>, the embedded manifests the list \<open>ms\<close>,
  the clock's text the argument \<open>now\<close>. A table is the list of its rows, a statement what
  it does to them under the constraints of the schema in crates/core/src/db.rs.
\<close>

section \<open>Prefixes and origins\<close>

definition RESERVED_PREFIXES :: "string list" where
  "RESERVED_PREFIXES = [''p'', ''_tethra'']"

definition MAX_PREFIX_LEN :: nat where "MAX_PREFIX_LEN = 32"

definition prefix_byte :: "char \<Rightarrow> bool" where
  "prefix_byte c \<longleftrightarrow> is_ascii_lowercase c \<or> is_ascii_digit c \<or> c = CHR ''-''"

definition validate_route_prefix :: "string \<Rightarrow> unit res" where
  "validate_route_prefix prefix =
     (if prefix = [] \<or> MAX_PREFIX_LEN < length prefix
      then Inl (InvalidInput ''route prefix must be 1..=32 characters'')
      else if \<not> is_ascii_lowercase (hd prefix)
      then Inl (InvalidInput ''route prefix must start with a lowercase letter'')
      else if \<not> list_all prefix_byte prefix
      then Inl (InvalidInput (''route prefix '' @ quoted prefix
             @ '' may only contain lowercase letters, digits, and '' @ quoted ''-''))
      else if prefix \<in> set RESERVED_PREFIXES
      then Inl (InvalidInput (''route prefix '' @ quoted prefix @ '' is reserved''))
      else Inr ())"

fun split_once_str :: "string \<Rightarrow> string \<Rightarrow> (string \<times> string) option" where
  "split_once_str pat [] = (if pat = [] then Some ([], []) else None)"
| "split_once_str pat (c # s) =
     (if starts_with pat (c # s) then Some ([], drop (length pat) (c # s))
      else map_option (\<lambda>(a, b). (c # a, b)) (split_once_str pat s))"

definition origin_host_port :: "string \<Rightarrow> string \<Rightarrow> (string \<times> nat) res" where
  "origin_host_port origin rest =
     (let bad_port = Inl (InvalidInput (''origin '' @ quoted origin @ '': bad port'')) in
      if starts_with ''['' rest then
        (case split_once_str '']:'' rest of
           Some (h, p) \<Rightarrow>
             (case parse_unsigned 16 10 p of None \<Rightarrow> bad_port | Some port \<Rightarrow> Inr (h @ '']'', port))
         | None \<Rightarrow> Inr (rest, 443))
      else
        (case rsplit_once CHR '':'' rest of
           Some (h, p) \<Rightarrow> (case parse_unsigned 16 10 p of None \<Rightarrow> bad_port | Some port \<Rightarrow> Inr (h, port))
         | None \<Rightarrow> Inr (rest, 443)))"

definition validate_origin :: "(string \<Rightarrow> string) \<Rightarrow> string \<Rightarrow> (string \<times> nat) res" where
  "validate_origin lowercase origin =
     (case strip_prefix ''https://'' origin of
        None \<Rightarrow> Inl (InvalidInput (''origin '' @ quoted origin @ '' must be https''))
      | Some rest \<Rightarrow>
          if list_ex (\<lambda>c. c \<in> set ''/?#'') rest
          then Inl (InvalidInput (''origin '' @ quoted origin
                 @ '' must be a bare authority (no path, query, or fragment)''))
          else if CHR ''@'' \<in> set rest
          then Inl (InvalidInput (''origin '' @ quoted origin @ '' must not carry userinfo''))
          else (case origin_host_port origin rest of
              Inl e \<Rightarrow> Inl e
            | Inr (host, port) \<Rightarrow>
                if port \<noteq> 443
                then Inl (InvalidInput (''origin '' @ quoted origin @ '' must use port 443''))
                else if host = [] then Inl (InvalidInput ''origin has an empty host'')
                else if \<not> is_allowed (check_authority (lowercase host) port [])
                then Inl (InvalidInput (''origin '' @ quoted origin
                       @ '' is denied by the destination policy (loopback, private, link-local, and cloud-metadata targets are never routable)''))
                else Inr (lowercase host, port)))"

section \<open>The route authentication code\<close>

text \<open>Little-endian bytes of an unsigned integer.\<close>

fun le_bytes :: "nat \<Rightarrow> nat \<Rightarrow> string" where
  "le_bytes 0 n = []"
| "le_bytes (Suc k) n = char_of (n mod 256) # le_bytes k (n div 256)"

definition length_prefixed :: "string \<Rightarrow> string" where
  "length_prefixed f = le_bytes 8 (length f) @ f"

definition route_message ::
    "string \<Rightarrow> string \<Rightarrow> string \<Rightarrow> string \<Rightarrow> nat \<Rightarrow> string \<Rightarrow> string" where
  "route_message vault_id route_prefix provider_id origin_host port consent_ts =
     ''tethra:gateway-route-mac:v2''
     @ concat (map length_prefixed [vault_id, route_prefix, provider_id, origin_host, consent_ts])
     @ le_bytes 2 port"

definition route_mac ::
    "(string \<Rightarrow> string \<Rightarrow> string) \<Rightarrow> string \<Rightarrow> string \<Rightarrow> string \<Rightarrow> string \<Rightarrow> string \<Rightarrow> nat \<Rightarrow> string
       \<Rightarrow> string res" where
  "route_mac kh mac_key vault_id route_prefix provider_id origin_host port consent_ts =
     (if length mac_key \<noteq> 32 then Inl (Crypto ''gateway MAC key length'')
      else Inr (kh mac_key
                  (route_message vault_id route_prefix provider_id origin_host port consent_ts)))"

section \<open>The stored tables\<close>

record route_row =
  gr_prefix :: string
  gr_provider_id :: string
  gr_enabled :: bool
  gr_origin :: "string option"
  gr_port :: "int option"
  gr_mac :: "string option"
  gr_consent :: "string option"
  gr_created_at :: string
  gr_updated_at :: string

record link_row =
  lk_slug :: string
  lk_project_id :: string
  lk_route_prefix :: string
  lk_env_path :: "string option"
  lk_prior_env_json :: "string option"
  lk_created_at :: string

record gateway_db =
  gd_meta :: "(string \<times> string) list"
  gd_projects :: "string list"
  gd_routes :: "route_row list"
  gd_links :: "link_row list"
  gd_audit :: "audit_row list"

definition audit_record ::
    "string \<Rightarrow> string \<Rightarrow> string option \<Rightarrow> string option \<Rightarrow> string \<Rightarrow> gateway_db \<Rightarrow> gateway_db" where
  "audit_record now event project_id credential_id detail db =
     db\<lparr>gd_audit := gd_audit db @ [\<lparr>au_at = now, au_event = event, au_project_id = project_id,
          au_credential_id = credential_id, au_detail = detail\<rparr>]\<rparr>"

definition route_key_exists :: "gateway_db \<Rightarrow> bool" where
  "route_key_exists db \<longleftrightarrow> map_of (gd_meta db) ''wrapped_gateway_mac_key'' \<noteq> None"

definition vault_id_of :: "gateway_db \<Rightarrow> string res" where
  "vault_id_of db =
     (case map_of (gd_meta db) ''vault_id'' of
        None \<Rightarrow> Inl (VaultCorrupted ''vault_meta has no vault_id'') | Some v \<Rightarrow> Inr v)"

definition insert_route ::
    "string \<Rightarrow> string \<Rightarrow> string \<Rightarrow> (string \<times> nat \<times> string \<times> string) option \<Rightarrow> gateway_db
       \<Rightarrow> unit res \<times> gateway_db" where
  "insert_route now prefix provider_id custom db =
     (let row = \<lparr>gr_prefix = prefix, gr_provider_id = provider_id, gr_enabled = True,
                 gr_origin = map_option fst custom,
                 gr_port = map_option (\<lambda>(_, p, _). int p) custom,
                 gr_mac = map_option (\<lambda>(_, _, m, _). m) custom,
                 gr_consent = map_option (\<lambda>(_, _, _, c). c) custom,
                 gr_created_at = now, gr_updated_at = now\<rparr> in
      if prefix \<in> gr_prefix ` set (gd_routes db)
      then (Inl (AlreadyExists ''gateway route'' prefix), db)
      else (Inr (), db\<lparr>gd_routes := gd_routes db @ [row]\<rparr>))"

fun validate_all_origins :: "(string \<Rightarrow> string) \<Rightarrow> string list \<Rightarrow> unit res" where
  "validate_all_origins lowercase [] = Inr ()"
| "validate_all_origins lowercase (ori # os) =
     (case validate_origin lowercase ori of Inl e \<Rightarrow> Inl e | Inr _ \<Rightarrow> validate_all_origins lowercase os)"

definition add_manifest_route ::
    "(string \<Rightarrow> string) \<Rightarrow> provider_manifest list \<Rightarrow> string \<Rightarrow> string \<Rightarrow> string \<Rightarrow> gateway_db
       \<Rightarrow> unit res \<times> gateway_db" where
  "add_manifest_route lowercase ms now prefix provider db =
     (case validate_route_prefix prefix of Inl e \<Rightarrow> (Inl e, db) | Inr _ \<Rightarrow>
      (let provider_id = normalize_provider lowercase ms provider in
       case find_provider ms provider_id of
         None \<Rightarrow> (Inl (NotFound ''provider'' provider_id), db)
       | Some m \<Rightarrow>
         (case pm_gateway m of
            None \<Rightarrow> (Inl (Unsupported provider_id ''gateway_route''
                ''this provider has no fixed data-plane origin; register a custom origin instead''), db)
          | Some g \<Rightarrow>
              if gs_origins g = []
              then (Inl (Unsupported provider_id ''gateway_route''
                ''this provider's origins are per-project; register the project's own origin as a custom route (route add <provider> --origin https://<host>)''), db)
              else (case validate_all_origins lowercase (gs_origins g) of
                  Inl e \<Rightarrow> (Inl e, db)
                | Inr _ \<Rightarrow>
                    (case insert_route now prefix provider_id None db of
                       (Inl e, db') \<Rightarrow> (Inl e, db')
                     | (Inr _, db') \<Rightarrow>
                         (Inr (), audit_record now ''gateway_route_added'' None None
                            (''prefix='' @ prefix @ '' provider='' @ provider_id) db'))))))"

definition add_custom_route ::
    "(string \<Rightarrow> string) \<Rightarrow> (string \<Rightarrow> string \<Rightarrow> string) \<Rightarrow> provider_manifest list \<Rightarrow> string \<Rightarrow> string
       \<Rightarrow> string \<Rightarrow> string \<Rightarrow> string \<Rightarrow> gateway_db \<Rightarrow> unit res \<times> gateway_db" where
  "add_custom_route lowercase kh ms now prefix provider origin mac_key db =
     (case validate_route_prefix prefix of Inl e \<Rightarrow> (Inl e, db) | Inr _ \<Rightarrow>
      (let provider_id = normalize_provider lowercase ms provider in
       if find_provider ms provider_id = None
       then (Inl (NotFound ''provider'' provider_id), db)
       else case validate_origin lowercase origin of Inl e \<Rightarrow> (Inl e, db) | Inr (host, port) \<Rightarrow>
       (case vault_id_of db of Inl e \<Rightarrow> (Inl e, db) | Inr vault_id \<Rightarrow>
       (case route_mac kh mac_key vault_id prefix provider_id host port now of
          Inl e \<Rightarrow> (Inl e, db)
        | Inr mac \<Rightarrow>
          (case insert_route now prefix provider_id (Some (host, port, mac, now)) db of
             (Inl e, db') \<Rightarrow> (Inl e, db')
           | (Inr _, db') \<Rightarrow>
               (Inr (), audit_record now ''gateway_route_added'' None None
                  (''prefix='' @ prefix @ '' provider='' @ provider_id @ '' custom_origin='' @ host) db'))))))"

text \<open>The links of a removed route go with it: ON DELETE CASCADE.\<close>

definition remove_route :: "string \<Rightarrow> string \<Rightarrow> gateway_db \<Rightarrow> bool \<times> gateway_db" where
  "remove_route now prefix db =
     (let hit = list_ex (\<lambda>r. gr_prefix r = prefix) (gd_routes db);
          db' = db\<lparr>gd_routes := filter (\<lambda>r. gr_prefix r \<noteq> prefix) (gd_routes db),
                   gd_links := filter (\<lambda>l. \<not> (hit \<and> lk_route_prefix l = prefix)) (gd_links db)\<rparr>
      in if hit then (True, audit_record now ''gateway_route_removed'' None None (''prefix='' @ prefix) db')
         else (False, db'))"

definition set_route_enabled :: "string \<Rightarrow> string \<Rightarrow> bool \<Rightarrow> gateway_db \<Rightarrow> bool \<times> gateway_db" where
  "set_route_enabled now prefix enabled db =
     (list_ex (\<lambda>r. gr_prefix r = prefix) (gd_routes db),
      db\<lparr>gd_routes := map (\<lambda>r. if gr_prefix r = prefix
                               then r\<lparr>gr_enabled := enabled, gr_updated_at := now\<rparr> else r) (gd_routes db)\<rparr>)"

section \<open>Project links\<close>

definition hex_nibble :: "nat \<Rightarrow> char" where
  "hex_nibble d = (if d < 10 then char_of (48 + d) else char_of (87 + d))"

definition hex_lower :: "string \<Rightarrow> string" where
  "hex_lower bs = concat (map (\<lambda>b. [hex_nibble (byte b div 16), hex_nibble (byte b mod 16)]) bs)"

definition new_link_slug :: "string \<Rightarrow> string" where
  "new_link_slug random_bytes = hex_lower random_bytes"

text \<open>
  INSERT OR IGNORE skips a row that breaks the primary key or the (project, route) uniqueness;
  the foreign key on the project is not a conflict it ignores.
\<close>

definition add_project_link_with_slug ::
    "string \<Rightarrow> string \<Rightarrow> string \<Rightarrow> string \<Rightarrow> gateway_db \<Rightarrow> unit res \<times> gateway_db" where
  "add_project_link_with_slug now project_id prefix slug db =
     (let route_exists = list_ex (\<lambda>r. gr_prefix r = prefix) (gd_routes db);
          clash = list_ex (\<lambda>l. lk_slug l = slug
                    \<or> (lk_project_id l = project_id \<and> lk_route_prefix l = prefix)) (gd_links db)
      in if \<not> route_exists then (Inl (NotFound ''gateway route'' prefix), db)
         else if clash
         then (Inl (AlreadyExists ''gateway project link'' (project_id @ '':'' @ prefix)), db)
         else if project_id \<notin> set (gd_projects db)
         then (Inl (DbErr ''FOREIGN KEY constraint failed''), db)
         else (Inr (), audit_record now ''gateway_project_linked'' (Some project_id) None
                 (''prefix='' @ prefix)
                 (db\<lparr>gd_links := gd_links db @ [\<lparr>lk_slug = slug, lk_project_id = project_id,
                      lk_route_prefix = prefix, lk_env_path = None, lk_prior_env_json = None,
                      lk_created_at = now\<rparr>]\<rparr>)))"

definition add_project_link ::
    "string \<Rightarrow> string \<Rightarrow> string \<Rightarrow> string \<Rightarrow> gateway_db \<Rightarrow> string res \<times> gateway_db" where
  "add_project_link random_bytes now project_id prefix db =
     (let slug = new_link_slug random_bytes in
      case add_project_link_with_slug now project_id prefix slug db of
        (Inl e, db') \<Rightarrow> (Inl e, db')
      | (Inr _, db') \<Rightarrow> (Inr slug, db'))"

definition find_project_link :: "string \<Rightarrow> string \<Rightarrow> gateway_db \<Rightarrow> link_row option" where
  "find_project_link project_id prefix db =
     find (\<lambda>l. lk_project_id l = project_id \<and> lk_route_prefix l = prefix) (gd_links db)"

definition list_project_links :: "gateway_db \<Rightarrow> link_row list" where
  "list_project_links db = sort_key lk_created_at (gd_links db)"

definition update_link_env ::
    "string \<Rightarrow> string option \<Rightarrow> string option \<Rightarrow> gateway_db \<Rightarrow> gateway_db" where
  "update_link_env slug env_path prior_env_json db =
     db\<lparr>gd_links := map (\<lambda>l. if lk_slug l = slug
          then l\<lparr>lk_env_path := env_path, lk_prior_env_json := prior_env_json\<rparr> else l) (gd_links db)\<rparr>"

definition remove_project_link :: "string \<Rightarrow> string \<Rightarrow> string \<Rightarrow> gateway_db \<Rightarrow> bool \<times> gateway_db" where
  "remove_project_link now project_id prefix db =
     (let this = (\<lambda>l. lk_project_id l = project_id \<and> lk_route_prefix l = prefix);
          hit = list_ex this (gd_links db);
          db' = db\<lparr>gd_links := filter (\<lambda>l. \<not> this l) (gd_links db)\<rparr>
      in if hit then (True, audit_record now ''gateway_project_unlinked'' (Some project_id) None
                        (''prefix='' @ prefix) db')
         else (False, db'))"

section \<open>The snapshot\<close>

record upstream_origin =
  uo_host :: string
  uo_port :: nat

datatype unforwardable = MacKeyUnavailable | MacMismatch

datatype route_target = Ready upstream_origin | Unforwardable unforwardable

record route =
  ro_prefix :: string
  ro_provider_id :: string
  ro_target :: route_target
  ro_custom :: bool
  ro_usage_shape :: string

record link_info =
  li_project_id :: string
  li_route_prefix :: string
  li_link_slug :: string

record route_table =
  rt_routes :: "(string \<times> route) list"
  rt_links :: "(string \<times> link_info) list"
  rt_skipped :: "(string \<times> string) list"
  rt_disabled :: nat

definition empty_table :: route_table where
  "empty_table = \<lparr>rt_routes = [], rt_links = [], rt_skipped = [], rt_disabled = 0\<rparr>"

definition table_route :: "route_table \<Rightarrow> string \<Rightarrow> route option" where
  "table_route t prefix = map_of (rt_routes t) prefix"

definition table_link :: "route_table \<Rightarrow> string \<Rightarrow> link_info option" where
  "table_link t slug = map_of (rt_links t) slug"

definition usage_shape_of :: "provider_manifest list \<Rightarrow> string \<Rightarrow> string" where
  "usage_shape_of ms provider_id =
     (case Option.bind (find_provider ms provider_id) pm_gateway of
        None \<Rightarrow> [] | Some g \<Rightarrow> gs_usage_shape g)"

text \<open>The manifest arm: Inl is the reason the row is skipped.\<close>

definition load_manifest_row ::
    "(string \<Rightarrow> string) \<Rightarrow> provider_manifest list \<Rightarrow> route_row \<Rightarrow> string + route" where
  "load_manifest_row lowercase ms row =
     (let provider_id = gr_provider_id row in
      case find_provider ms provider_id of
        None \<Rightarrow> Inl (''unknown provider '' @ quoted provider_id)
      | Some m \<Rightarrow>
        (case pm_gateway m of
           None \<Rightarrow> Inl (''provider '' @ quoted provider_id @ '' declares no gateway origin'')
         | Some g \<Rightarrow>
           (case gs_origins g of
              [] \<Rightarrow> Inl (''provider '' @ quoted provider_id @ '' has no origins'')
            | first # _ \<Rightarrow>
              (case validate_origin lowercase first of
                 Inl e \<Rightarrow> Inl (''manifest origin: '' @ display_error e)
               | Inr (host, port) \<Rightarrow>
                   Inr \<lparr>ro_prefix = gr_prefix row, ro_provider_id = provider_id,
                        ro_target = Ready \<lparr>uo_host = host, uo_port = port\<rparr>, ro_custom = False,
                        ro_usage_shape = usage_shape_of ms provider_id\<rparr>))))"

definition custom_authority :: "string \<Rightarrow> nat \<Rightarrow> string" where
  "custom_authority origin_host port =
     (if starts_with ''['' origin_host then ''https://'' @ origin_host @ '':'' @ dec_of_nat port
      else if port = 443 then ''https://'' @ origin_host
      else ''https://'' @ origin_host @ '':'' @ dec_of_nat port)"

text \<open>The target of a custom row once its origin passed validation.\<close>

definition custom_target ::
    "(string \<Rightarrow> string \<Rightarrow> string) \<Rightarrow> string option \<Rightarrow> string \<Rightarrow> route_row \<Rightarrow> string \<Rightarrow> nat \<Rightarrow> string \<Rightarrow> string
       \<Rightarrow> route_target res" where
  "custom_target kh mac_key vault_id row origin_host port stored_mac consent_ts =
     (case mac_key of
        None \<Rightarrow> Inr (Unforwardable MacKeyUnavailable)
      | Some key \<Rightarrow>
        (case route_mac kh key vault_id (gr_prefix row) (gr_provider_id row) origin_host port consent_ts of
           Inl e \<Rightarrow> Inl e
         | Inr expected \<Rightarrow>
             Inr (if length stored_mac = 32 \<and> expected = stored_mac
                  then Ready \<lparr>uo_host = origin_host, uo_port = port\<rparr>
                  else Unforwardable MacMismatch)))"

definition load_custom_row ::
    "(string \<Rightarrow> string) \<Rightarrow> (string \<Rightarrow> string \<Rightarrow> string) \<Rightarrow> provider_manifest list \<Rightarrow> string option \<Rightarrow> string
       \<Rightarrow> route_row \<Rightarrow> string \<Rightarrow> int \<Rightarrow> string \<Rightarrow> string \<Rightarrow> (string + route) res" where
  "load_custom_row lowercase kh ms mac_key vault_id row origin_host port_i stored_mac consent_ts =
     (if \<not> (0 \<le> port_i \<and> port_i < 2 ^ 16) then Inr (Inl ''invalid custom port'')
      else let port = nat port_i in
        (case validate_origin lowercase (custom_authority origin_host port) of
           Inl e \<Rightarrow> Inr (Inl (''custom origin: '' @ display_error e))
         | Inr _ \<Rightarrow>
           (case custom_target kh mac_key vault_id row origin_host port stored_mac consent_ts of
              Inl e \<Rightarrow> Inl e
            | Inr target \<Rightarrow>
                Inr (Inr \<lparr>ro_prefix = gr_prefix row, ro_provider_id = gr_provider_id row,
                          ro_target = target, ro_custom = True,
                          ro_usage_shape = usage_shape_of ms (gr_provider_id row)\<rparr>))))"

definition load_row ::
    "(string \<Rightarrow> string) \<Rightarrow> (string \<Rightarrow> string \<Rightarrow> string) \<Rightarrow> provider_manifest list \<Rightarrow> string option \<Rightarrow> string
       \<Rightarrow> route_row \<Rightarrow> (string + route) res" where
  "load_row lowercase kh ms mac_key vault_id row =
     (case (gr_origin row, gr_port row, gr_mac row, gr_consent row) of
        (None, None, None, None) \<Rightarrow> Inr (load_manifest_row lowercase ms row)
      | (Some o', Some p, Some m, Some c) \<Rightarrow>
          load_custom_row lowercase kh ms mac_key vault_id row o' p m c
      | _ \<Rightarrow> Inr (Inl ''malformed custom route row''))"

fun load_rows ::
    "(string \<Rightarrow> string) \<Rightarrow> (string \<Rightarrow> string \<Rightarrow> string) \<Rightarrow> provider_manifest list \<Rightarrow> string option \<Rightarrow> string
       \<Rightarrow> route_row list \<Rightarrow> route_table \<Rightarrow> route_table res" where
  "load_rows lowercase kh ms mac_key vault_id [] t = Inr t"
| "load_rows lowercase kh ms mac_key vault_id (row # rows) t =
     (if \<not> gr_enabled row
      then load_rows lowercase kh ms mac_key vault_id rows (t\<lparr>rt_disabled := rt_disabled t + 1\<rparr>)
      else if \<not> isl (validate_route_prefix (gr_prefix row)) then
        (case load_row lowercase kh ms mac_key vault_id row of
           Inl e \<Rightarrow> Inl e
         | Inr (Inl why) \<Rightarrow>
             load_rows lowercase kh ms mac_key vault_id rows
               (t\<lparr>rt_skipped := rt_skipped t @ [(gr_prefix row, why)]\<rparr>)
         | Inr (Inr r) \<Rightarrow>
             load_rows lowercase kh ms mac_key vault_id rows
               (t\<lparr>rt_routes := put_assoc (gr_prefix row) r (rt_routes t)\<rparr>))
      else load_rows lowercase kh ms mac_key vault_id rows
             (t\<lparr>rt_skipped := rt_skipped t @ [(gr_prefix row, ''invalid route prefix'')]\<rparr>))"

definition load_links :: "link_row list \<Rightarrow> (string \<times> link_info) list" where
  "load_links ls =
     fold (\<lambda>l m. put_assoc (lk_slug l)
        \<lparr>li_project_id = lk_project_id l, li_route_prefix = lk_route_prefix l, li_link_slug = lk_slug l\<rparr> m) ls []"

definition load_route_table ::
    "(string \<Rightarrow> string) \<Rightarrow> (string \<Rightarrow> string \<Rightarrow> string) \<Rightarrow> provider_manifest list \<Rightarrow> string option
       \<Rightarrow> gateway_db \<Rightarrow> route_table res" where
  "load_route_table lowercase kh ms mac_key db =
     (case vault_id_of db of
        Inl e \<Rightarrow> Inl e
      | Inr vault_id \<Rightarrow>
        (case load_rows lowercase kh ms mac_key vault_id (gd_routes db) empty_table of
           Inl e \<Rightarrow> Inl e
         | Inr t \<Rightarrow> Inr (t\<lparr>rt_links := load_links (gd_links db)\<rparr>)))"

end
