(* ===== verification/RouteProps.thy ===== *)
theory RouteProps
  imports Routes PolicyProps
begin

text \<open>
  What the route table guarantees: the authenticated message determines every field it binds, a
  custom route forwards only under a key and only to the origin its code was issued for, every
  destination in a snapshot has passed the destination policy, and a route registered under a
  key is forwardable when the table is loaded with it.
\<close>

section \<open>The authenticated message\<close>

lemma le_bytes_length [simp]: "length (le_bytes k n) = k"
  by (induction k arbitrary: n) auto

lemma le_bytes_inject: "le_bytes k n = le_bytes k m \<Longrightarrow> n < 256 ^ k \<Longrightarrow> m < 256 ^ k \<Longrightarrow> n = m"
proof (induction k arbitrary: n m)
  case (Suc k)
  have "n mod 256 = m mod 256" using Suc.prems(1)
    by (simp add: char_of_eq_iff) (metis Suc.prems(1) byte_char_of le_bytes.simps(2) list.inject mod_less_divisor zero_less_numeral)
  moreover have "n div 256 = m div 256"
    using Suc.prems by (intro Suc.IH) (auto simp: less_mult_imp_div_less mult.commute)
  ultimately show ?case by (metis div_mult_mod_eq)
qed simp

definition fits :: "string \<Rightarrow> bool" where
  "fits s \<longleftrightarrow> length s < 2 ^ 64"

lemma length_prefixed_append:
  assumes "length_prefixed f @ r = length_prefixed f' @ r'" and "fits f" and "fits f'"
  shows "f = f' \<and> r = r'"
proof -
  have "le_bytes 8 (length f) = le_bytes 8 (length f')" and e: "f @ r = f' @ r'"
    using assms(1) by (auto simp: length_prefixed_def append_eq_append_conv)
  then have "length f = length f'"
    using assms(2,3) by (intro le_bytes_inject [of 8]) (auto simp: fits_def)
  with e show ?thesis by simp
qed

lemma route_message_fields:
  assumes "route_message v p i h q c = route_message v' p' i' h' q' c'"
    and "list_all fits [v, p, i, h, c]" and "list_all fits [v', p', i', h', c']"
    and "q < 2 ^ 16" and "q' < 2 ^ 16"
  shows "v = v' \<and> p = p' \<and> i = i' \<and> h = h' \<and> q = q' \<and> c = c'"
proof -
  have e: "length_prefixed v @ length_prefixed p @ length_prefixed i @ length_prefixed h
        @ length_prefixed c @ le_bytes 2 q
      = length_prefixed v' @ length_prefixed p' @ length_prefixed i' @ length_prefixed h'
        @ length_prefixed c' @ le_bytes 2 q'"
    using assms(1) by (simp add: route_message_def)
  note f = assms(2,3)
  from length_prefixed_append [OF e] f have v: "v = v'" and e1: "length_prefixed p @ length_prefixed i @ length_prefixed h
        @ length_prefixed c @ le_bytes 2 q
      = length_prefixed p' @ length_prefixed i' @ length_prefixed h' @ length_prefixed c' @ le_bytes 2 q'" by auto
  from length_prefixed_append [OF e1] f have p: "p = p'" and e2: "length_prefixed i @ length_prefixed h
        @ length_prefixed c @ le_bytes 2 q
      = length_prefixed i' @ length_prefixed h' @ length_prefixed c' @ le_bytes 2 q'" by auto
  from length_prefixed_append [OF e2] f have i: "i = i'" and e3: "length_prefixed h @ length_prefixed c @ le_bytes 2 q
      = length_prefixed h' @ length_prefixed c' @ le_bytes 2 q'" by auto
  from length_prefixed_append [OF e3] f have h: "h = h'" and e4: "length_prefixed c @ le_bytes 2 q
      = length_prefixed c' @ le_bytes 2 q'" by auto
  from length_prefixed_append [OF e4] f have c: "c = c'" and q: "le_bytes 2 q = le_bytes 2 q'" by auto
  from le_bytes_inject [OF q] assms(4,5) have "q = q'" by simp
  with v p i h c show ?thesis by simp
qed

text \<open>
  C16. The message a route's code authenticates determines every field it binds: two different
  bindings of vault, prefix, provider, origin, port and consent never share a message, so no
  boundary between fields can be moved.
\<close>

theorem route_message_inject:
  assumes "route_message v p i h q c = route_message v' p' i' h' q' c'"
    and "list_all fits [v, p, i, h, c]" and "list_all fits [v', p', i', h', c']"
    and "q < 2 ^ 16" and "q' < 2 ^ 16"
  shows "v = v' \<and> p = p' \<and> i = i' \<and> h = h' \<and> q = q' \<and> c = c'"
  by (rule route_message_fields [OF assms])

lemma route_message_inject_witness:
  "\<not> route_message ''v'' ''ab'' ''c'' ''h'' 443 ''t'' = route_message ''v'' ''a'' ''bc'' ''h'' 443 ''t''"
proof
  assume "route_message ''v'' ''ab'' ''c'' ''h'' 443 ''t'' = route_message ''v'' ''a'' ''bc'' ''h'' 443 ''t''"
  from route_message_inject [OF this] show False by (simp add: fits_def)
qed

section \<open>The loader\<close>

text \<open>What a row contributes to the table, when it contributes a route.\<close>

lemma load_rows_route:
  "load_rows lc kh ms mk v rows t = Inr t' \<Longrightarrow> map_of (rt_routes t') p = Some r \<Longrightarrow>
     map_of (rt_routes t) p = Some r
   \<or> (\<exists>row \<in> set rows. gr_enabled row \<and> gr_prefix row = p \<and> validate_route_prefix p = Inr ()
        \<and> load_row lc kh ms mk v row = Inr (Inr r))"
proof (induction rows arbitrary: t)
  case (Cons row rows)
  then show ?case
    by (cases "validate_route_prefix (gr_prefix row)")
      (fastforce split: if_splits sum.splits)+
qed simp

lemma load_table_route:
  assumes "load_route_table lc kh ms mk db = Inr t" and "table_route t p = Some r"
  shows "\<exists>row \<in> set (gd_routes db). \<exists>v. gr_enabled row \<and> gr_prefix row = p \<and> vault_id_of db = Inr v
           \<and> load_row lc kh ms mk v row = Inr (Inr r)"
proof -
  obtain v t1 where v: "vault_id_of db = Inr v" and l: "load_rows lc kh ms mk v (gd_routes db) empty_table = Inr t1"
    and t: "t = t1\<lparr>rt_links := load_links (gd_links db)\<rparr>"
    using assms(1) by (auto simp: load_route_table_def split: sum.splits)
  from load_rows_route [OF l, of p r] assms(2) t v show ?thesis
    by (auto simp: table_route_def empty_table_def)
qed

lemma load_row_custom:
  assumes "load_row lc kh ms mk v row = Inr (Inr r)" and "ro_custom r"
  obtains h p m c where "gr_origin row = Some h" and "gr_port row = Some p" and "gr_mac row = Some m"
    and "gr_consent row = Some c" and "0 \<le> p" and "p < 2 ^ 16"
    and "\<not> isl (validate_origin lc (custom_authority h (nat p)))"
    and "ro_provider_id r = gr_provider_id row"
    and "custom_target kh mk v row h (nat p) m c = Inr (ro_target r)"
  using assms
  by (fastforce simp: load_row_def load_custom_row_def load_manifest_row_def Let_def
      split: option.splits list.splits sum.splits if_splits)

lemma load_row_manifest:
  assumes "load_row lc kh ms mk v row = Inr (Inr r)" and "\<not> ro_custom r"
  obtains a h q where "validate_origin lc a = Inr (h, q)" and "ro_target r = Ready \<lparr>uo_host = h, uo_port = q\<rparr>"
  using assms
  by (fastforce simp: load_row_def load_custom_row_def load_manifest_row_def Let_def
      split: option.splits list.splits sum.splits if_splits)

lemma custom_target_ready:
  "custom_target kh mk v row h q m c = Inr (Ready u) \<Longrightarrow>
     \<exists>key. mk = Some key \<and> length key = 32 \<and> u = \<lparr>uo_host = h, uo_port = q\<rparr>
       \<and> m = kh key (route_message v (gr_prefix row) (gr_provider_id row) h q c)"
  by (auto simp: custom_target_def route_mac_def split: option.splits if_splits sum.splits)

lemma validate_origin_ok:
  "validate_origin lc a = Inr (h, q) \<Longrightarrow> q = 443 \<and> h \<noteq> [] \<and> check_authority h 443 [] = Allow"
  by (auto simp: validate_origin_def is_allowed_def check_authority_def normalize_host_def
      Let_def trim_end_dots_def to_ascii_lowercase_def split: option.splits if_splits sum.splits)

section \<open>A demonstration vault\<close>

definition demo_hash :: "string \<Rightarrow> string \<Rightarrow> string" where
  "demo_hash key msg = take 32 (rev msg @ key)"

definition demo_key :: string where
  "demo_key = ''0123456789abcdef0123456789abcdef''"

definition demo_entry :: capability_entry where
  "demo_entry = \<lparr>ce_support = ManualOnly, ce_requires_admin_credential = False,
     ce_attribution = NotApplicable, ce_note = []\<rparr>"

definition demo_manifest :: provider_manifest where
  "demo_manifest = \<lparr>pm_id = ''supabase'', pm_name = ''Supabase'', pm_description = [],
     pm_website = [], pm_api_docs_url = [], pm_auth_docs_url = [], pm_manage_url = [],
     pm_env_vars = [], pm_credential_types = [], pm_expiration = [], pm_changelog_url = [],
     pm_pricing_url = [], pm_permissions_docs_url = [], pm_login_url = [], pm_billing_url = [],
     pm_watch_docs = [], pm_detection = [],
     pm_gateway = Some \<lparr>gs_origins = [''https://api.supabase.com''], gs_base_path = [],
        gs_env_vars = [''SUPABASE_URL''], gs_usage_shape = []\<rparr>,
     pm_capabilities = \<lparr>cap_validate_credential = demo_entry, cap_fetch_metadata = demo_entry,
        cap_fetch_usage = demo_entry, cap_read_permissions = demo_entry,
        cap_change_permissions = demo_entry, cap_create_credential = demo_entry,
        cap_disable_credential = demo_entry, cap_revoke_credential = demo_entry,
        cap_rotate_credential = demo_entry, cap_fetch_pricing = demo_entry\<rparr>\<rparr>"

definition demo_vault :: gateway_db where
  "demo_vault = \<lparr>gd_meta = [(''vault_id'', ''vault-1'')], gd_projects = [], gd_routes = [],
     gd_links = [], gd_audit = []\<rparr>"

definition demo_added :: "unit res \<times> gateway_db" where
  "demo_added = add_custom_route to_ascii_lowercase demo_hash [demo_manifest] ''2025-01-01T00:00:00Z''
     ''supa'' ''Supabase'' ''https://Proj.supabase.co'' demo_key demo_vault"

definition demo_route :: route where
  "demo_route = \<lparr>ro_prefix = ''supa'', ro_provider_id = ''supabase'',
     ro_target = Ready \<lparr>uo_host = ''proj.supabase.co'', uo_port = 443\<rparr>, ro_custom = True,
     ro_usage_shape = []\<rparr>"

lemma demo_added_ok: "demo_added = (Inr (), snd demo_added)"
  by code_simp

lemma demo_vault_id: "vault_id_of (snd demo_added) = Inr ''vault-1''"
  by code_simp

lemma demo_load:
  "load_route_table to_ascii_lowercase demo_hash [demo_manifest] (Some demo_key) (snd demo_added)
     = Inr \<lparr>rt_routes = [(''supa'', demo_route)], rt_links = [], rt_skipped = [], rt_disabled = 0\<rparr>"
  by code_simp

text \<open>
  C17. A custom route forwards only where its authentication code says. If the code stored in
  the row of a prefix was issued, under the loaded key, for some vault, prefix, provider, origin
  and port, then a forwardable custom route at that prefix has exactly these, or the hash has
  collided on two messages one can name: an edited or transplanted row stops the route.
\<close>

theorem custom_route_authentic:
  assumes "load_route_table lc kh ms (Some key) db = Inr t" and "table_route t p = Some r"
    and "ro_custom r" and "ro_target r = Ready u" and "vault_id_of db = Inr v"
    and "\<forall>row \<in> set (gd_routes db). gr_prefix row = p \<longrightarrow>
           gr_mac row = Some (kh key (route_message v' p' i' h' q' c'))
         \<and> (\<forall>c. gr_consent row = Some c \<longrightarrow> fits c)"
    and "list_all fits [v, p, ro_provider_id r, uo_host u]"
    and "list_all fits [v', p', i', h', c']" and "q' < 2 ^ 16"
  shows "(v', p', i', h', q') = (v, p, ro_provider_id r, uo_host u, uo_port u)
    \<or> (\<exists>c. route_message v p (ro_provider_id r) (uo_host u) (uo_port u) c \<noteq> route_message v' p' i' h' q' c'
         \<and> kh key (route_message v p (ro_provider_id r) (uo_host u) (uo_port u) c)
           = kh key (route_message v' p' i' h' q' c'))"
proof -
  from load_table_route [OF assms(1,2)] assms(5) obtain row where
    row: "row \<in> set (gd_routes db)" "gr_prefix row = p"
      "load_row lc kh ms (Some key) v row = Inr (Inr r)" by auto
  obtain h q m c where
    o: "gr_origin row = Some h" "gr_port row = Some q" "gr_mac row = Some m" "gr_consent row = Some c"
      "0 \<le> q" "q < 2 ^ 16" "\<not> isl (validate_origin lc (custom_authority h (nat q)))"
      "ro_provider_id r = gr_provider_id row"
      "custom_target kh (Some key) v row h (nat q) m c = Inr (ro_target r)"
    by (rule load_row_custom [OF row(3) assms(3)])
  have "custom_target kh (Some key) v row h (nat q) m c = Inr (Ready u)" using o(9) assms(4) by simp
  from custom_target_ready [OF this] row(2) o(8) have u: "u = \<lparr>uo_host = h, uo_port = nat q\<rparr>"
    and m: "m = kh key (route_message v p (ro_provider_id r) (uo_host u) (uo_port u) c)" by auto
  have e: "kh key (route_message v p (ro_provider_id r) (uo_host u) (uo_port u) c)
      = kh key (route_message v' p' i' h' q' c')" and fc: "fits c"
    using assms(6) row(1,2) o(3,4) m by auto
  show ?thesis
  proof (cases "route_message v p (ro_provider_id r) (uo_host u) (uo_port u) c = route_message v' p' i' h' q' c'")
    case True
    have "uo_port u < 2 ^ 16" using o(5,6) by (simp add: u)
    with route_message_fields [OF True] assms(7,8,9) fc show ?thesis by simp
  next
    case False
    with e show ?thesis by blast
  qed
qed

lemma custom_route_authentic_witness:
  "(''vault-1'', ''supa'', ''supabase'', ''proj.supabase.co'', 443)
     = (''vault-1'', ''supa'', ro_provider_id demo_route, ''proj.supabase.co'', 443 :: nat)
   \<or> (\<exists>c. demo_hash demo_key (route_message ''vault-1'' ''supa'' ''supabase'' ''proj.supabase.co'' 443 c)
           = demo_hash demo_key (route_message ''vault-1'' ''supa'' ''supabase'' ''proj.supabase.co'' 443
               ''2025-01-01T00:00:00Z''))"
proof -
  have rows: "list_all (\<lambda>row. gr_mac row = Some (demo_hash demo_key (route_message ''vault-1'' ''supa''
         ''supabase'' ''proj.supabase.co'' 443 ''2025-01-01T00:00:00Z''))
       \<and> gr_consent row = Some ''2025-01-01T00:00:00Z'') (gd_routes (snd demo_added))"
    by code_simp
  have "\<forall>row \<in> set (gd_routes (snd demo_added)). gr_prefix row = ''supa'' \<longrightarrow>
      gr_mac row = Some (demo_hash demo_key (route_message ''vault-1'' ''supa''
         ''supabase'' ''proj.supabase.co'' 443 ''2025-01-01T00:00:00Z''))
      \<and> (\<forall>c. gr_consent row = Some c \<longrightarrow> fits c)"
    using rows by (auto simp: list_all_iff fits_def)
  from custom_route_authentic [OF demo_load _ _ _ demo_vault_id this, of demo_route
      "\<lparr>uo_host = ''proj.supabase.co'', uo_port = 443\<rparr>"]
  show ?thesis by (simp add: table_route_def demo_route_def fits_def)
qed

lemma load_row_no_key: "\<not> isl (load_row lc kh ms None v row)"
  by (auto simp: load_row_def load_custom_row_def custom_target_def Let_def
      split: option.split sum.split)

lemma load_rows_total:
  "(\<And>row. \<not> isl (load_row lc kh ms mk v row)) \<Longrightarrow> \<exists>t'. load_rows lc kh ms mk v rows t = Inr t'"
proof (induction rows arbitrary: t)
  case (Cons row rows)
  from Cons.prems [of row] obtain x where x: "load_row lc kh ms mk v row = Inr x"
    by (cases "load_row lc kh ms mk v row") auto
  have ih: "\<exists>t'. load_rows lc kh ms mk v rows t = Inr t'" for t by (rule Cons.IH [OF Cons.prems])
  show ?case
    by (cases x) (use ih in \<open>simp_all add: x\<close>)
qed simp

text \<open>
  Without the key no custom route forwards: a table loaded before the vault was unlocked
  has no forwardable custom route, and loading it does not fail.
\<close>

theorem no_key_no_custom:
  assumes "vault_id_of db = Inr v"
  shows "\<exists>t. load_route_table lc kh ms None db = Inr t
     \<and> (\<forall>p r. table_route t p = Some r \<longrightarrow> ro_custom r \<longrightarrow>
           ro_target r = Unforwardable MacKeyUnavailable)"
proof -
  from load_rows_total [OF load_row_no_key] obtain t1 where "load_rows lc kh ms None v (gd_routes db) empty_table = Inr t1" by blast
  then obtain t where t: "load_route_table lc kh ms None db = Inr t"
    using assms by (simp add: load_route_table_def)
  have "ro_target r = Unforwardable MacKeyUnavailable" if tr: "table_route t p = Some r" and cu: "ro_custom r" for p r
  proof -
    from load_table_route [OF t tr] obtain row v where "load_row lc kh ms None v row = Inr (Inr r)" by blast
    then obtain h q m c where
      "custom_target kh None v row h q m c = Inr (ro_target r)"
      by (rule load_row_custom [OF _ cu])
    then show ?thesis by (simp add: custom_target_def)
  qed
  with t show ?thesis by blast
qed

lemma no_key_no_custom_witness:
  "\<exists>t. load_route_table to_ascii_lowercase demo_hash [demo_manifest] None (snd demo_added) = Inr t
     \<and> (\<forall>p r. table_route t p = Some r \<longrightarrow> ro_custom r \<longrightarrow> ro_target r = Unforwardable MacKeyUnavailable)"
  by (rule no_key_no_custom [OF demo_vault_id])

text \<open>
  Every destination in a snapshot has passed the destination policy: whatever the database
  holds, a forwardable route's host is the manifest's validated origin, or a stored origin that
  validated again at this load, on port 443, and that validated host names nothing internal.
\<close>

theorem ready_destination_safe:
  assumes "load_route_table lc kh ms mk db = Inr t" and "table_route t p = Some r"
    and "ro_target r = Ready u"
  shows "\<exists>a h. validate_origin lc a = Inr (h, 443)
     \<and> (if ro_custom r then a = custom_authority (uo_host u) (uo_port u)
        else u = \<lparr>uo_host = h, uo_port = 443\<rparr>)
     \<and> names_nothing_internal (normalize_host h) \<and> normalize_host h \<notin> set METADATA_HOSTS"
proof -
  have safe: "q = 443 \<and> names_nothing_internal (normalize_host h) \<and> normalize_host h \<notin> set METADATA_HOSTS"
    if "validate_origin lc a = Inr (h, q)" for a h q
    using validate_origin_ok [OF that] authority_facts [of h 443 "[]"]
    by (auto simp: allow_contains_def)
  from load_table_route [OF assms(1,2)] obtain row v where
    row: "load_row lc kh ms mk v row = Inr (Inr r)" by blast
  show ?thesis
  proof (cases "ro_custom r")
    case True
    from row obtain h q m c where
      o: "\<not> isl (validate_origin lc (custom_authority h (nat q)))"
        "custom_target kh mk v row h (nat q) m c = Inr (ro_target r)"
      by (rule load_row_custom [OF _ True])
    have "custom_target kh mk v row h (nat q) m c = Inr (Ready u)" using o(2) assms(3) by simp
    from custom_target_ready [OF this] have u: "u = \<lparr>uo_host = h, uo_port = nat q\<rparr>" by auto
    from o(1) obtain h' q' where "validate_origin lc (custom_authority h (nat q)) = Inr (h', q')"
      by (cases "validate_origin lc (custom_authority h (nat q))") auto
    with safe [OF this] True u show ?thesis by auto
  next
    case False
    from row obtain a h q where
      "validate_origin lc a = Inr (h, q)" "ro_target r = Ready \<lparr>uo_host = h, uo_port = q\<rparr>"
      by (rule load_row_manifest [OF _ False])
    with safe [OF this(1)] False assms(3) show ?thesis by auto
  qed
qed

lemma ready_destination_safe_witness:
  "\<exists>a h. validate_origin to_ascii_lowercase a = Inr (h, 443)
     \<and> a = custom_authority ''proj.supabase.co'' 443 \<and> names_nothing_internal (normalize_host h)"
proof -
  have "table_route \<lparr>rt_routes = [(''supa'', demo_route)], rt_links = [], rt_skipped = [], rt_disabled = 0\<rparr>
      ''supa'' = Some demo_route" by (simp add: table_route_def)
  from ready_destination_safe [OF demo_load this, of "\<lparr>uo_host = ''proj.supabase.co'', uo_port = 443\<rparr>"]
  show ?thesis by (auto simp: demo_route_def)
qed

section \<open>Registering and loading\<close>

text \<open>A host the custom-origin arm reads back as it was written.\<close>

definition plain_host :: "string \<Rightarrow> bool" where
  "plain_host h \<longleftrightarrow> list_all (\<lambda>c. c \<notin> set ''/?#@:['') h"

lemma validate_plain_host:
  assumes "plain_host h" and "h \<noteq> []" and "lc h = h" and "check_authority h 443 [] = Allow"
  shows "validate_origin lc (''https://'' @ h) = Inr (h, 443)"
proof -
  have c: "\<not> list_ex (\<lambda>c. c \<in> set ''/?#'') h" "CHR ''@'' \<notin> set h" "CHR '':'' \<notin> set h"
    and b: "\<not> starts_with ''['' h"
    using assms(1) starts_with_first [of "CHR ''[''" h] by (auto simp: plain_host_def list_all_iff list_ex_iff)
  then have "origin_host_port (''https://'' @ h) h = Inr (h, 443)"
    by (simp add: origin_host_port_def rsplit_once_free Let_def)
  with c assms(2-4) show ?thesis
    by (simp only: validate_origin_def strip_prefix_append) (simp add: is_allowed_def)
qed

lemma load_rows_append:
  "load_rows lc kh ms mk v (xs @ ys) t =
     (case load_rows lc kh ms mk v xs t of Inl e \<Rightarrow> Inl e | Inr t' \<Rightarrow> load_rows lc kh ms mk v ys t')"
  by (induction lc kh ms mk v xs t rule: load_rows.induct) (auto split: sum.splits)

lemma load_row_key:
  "length key = 32 \<Longrightarrow> \<not> isl (load_row lc kh ms (Some key) v row)"
  by (auto simp: load_row_def load_custom_row_def custom_target_def route_mac_def Let_def
      split: option.split sum.split)

text \<open>
  C20. Consent takes effect: a custom route accepted for registration, whose host is written
  plainly, is forwardable to exactly that host when the table is next loaded under the key it
  was registered with, whatever else the database holds.
\<close>

theorem custom_route_loads:
  assumes "add_custom_route lc kh ms now p provider origin key db = (Inr (), db')"
    and "validate_origin lc origin = Inr (h, 443)" and "plain_host h" and "lc h = h"
    and "\<And>m. length (kh key m) = 32"
  shows "\<exists>t r. load_route_table lc kh ms (Some key) db' = Inr t \<and> table_route t p = Some r
     \<and> ro_custom r \<and> ro_target r = Ready \<lparr>uo_host = h, uo_port = 443\<rparr>
     \<and> ro_provider_id r = normalize_provider lc ms provider"
proof -
  let ?i = "normalize_provider lc ms provider"
  from assms(1,2) obtain v where pre: "validate_route_prefix p = Inr ()" and k: "length key = 32"
    and v: "vault_id_of db = Inr v" and db': "db' = snd (add_custom_route lc kh ms now p provider origin key db)"
    and ins: "insert_route now p ?i (Some (h, 443, kh key (route_message v p ?i h 443 now), now)) db
       = (Inr (), snd (insert_route now p ?i (Some (h, 443, kh key (route_message v p ?i h 443 now), now)) db))"
    by (auto simp: add_custom_route_def Let_def route_mac_def split: sum.splits if_splits prod.splits)
  define row where "row = \<lparr>gr_prefix = p, gr_provider_id = ?i, gr_enabled = True, gr_origin = Some h,
      gr_port = Some 443, gr_mac = Some (kh key (route_message v p ?i h 443 now)), gr_consent = Some now,
      gr_created_at = now, gr_updated_at = now\<rparr>"
  have rows: "gd_routes db' = gd_routes db @ [row]" and meta: "vault_id_of db' = Inr v"
    using assms(1,2) v k
    by (auto simp: add_custom_route_def Let_def route_mac_def insert_route_def audit_record_def row_def
        vault_id_of_def split: sum.splits if_splits prod.splits option.splits)
  from load_rows_total [OF load_row_key [OF k]] obtain t1 where
    t1: "load_rows lc kh ms (Some key) v (gd_routes db) empty_table = Inr t1" by blast
  have auth: "check_authority h 443 [] = Allow" "h \<noteq> []" using validate_origin_ok [OF assms(2)] by auto
  have b: "\<not> starts_with ''['' h"
    using assms(3) starts_with_first [of "CHR ''[''" h] by (auto simp: plain_host_def list_all_iff)
  have "load_row lc kh ms (Some key) v row = Inr (Inr \<lparr>ro_prefix = p, ro_provider_id = ?i,
      ro_target = Ready \<lparr>uo_host = h, uo_port = 443\<rparr>, ro_custom = True, ro_usage_shape = usage_shape_of ms ?i\<rparr>)"
    using validate_plain_host [of h lc] assms(3,4) auth b k assms(5)
    by (simp add: load_row_def load_custom_row_def row_def custom_authority_def custom_target_def route_mac_def)
  then show ?thesis
    using t1 pre
    by (simp add: load_route_table_def meta rows load_rows_append row_def table_route_def)
qed

lemma custom_route_loads_witness:
  "\<exists>t r. load_route_table to_ascii_lowercase (\<lambda>k m. k) [demo_manifest] (Some demo_key)
        (snd (add_custom_route to_ascii_lowercase (\<lambda>k m. k) [demo_manifest] ''now'' ''supa'' ''Supabase''
           ''https://Proj.supabase.co'' demo_key demo_vault)) = Inr t
     \<and> table_route t ''supa'' = Some r \<and> ro_custom r
     \<and> ro_target r = Ready \<lparr>uo_host = ''proj.supabase.co'', uo_port = 443\<rparr>"
proof -
  let ?add = "add_custom_route to_ascii_lowercase (\<lambda>k m. k) [demo_manifest] ''now'' ''supa'' ''Supabase''
           ''https://Proj.supabase.co'' demo_key demo_vault"
  have a: "?add = (Inr (), snd ?add)" by code_simp
  have o: "validate_origin to_ascii_lowercase ''https://Proj.supabase.co'' = Inr (''proj.supabase.co'', 443)"
    by code_simp
  have h: "plain_host ''proj.supabase.co''" "to_ascii_lowercase ''proj.supabase.co'' = ''proj.supabase.co''"
    by code_simp+
  from custom_route_loads [OF a o h] show ?thesis by (auto simp: demo_key_def)
qed

section \<open>Where the two gates of a manifest origin differ\<close>

text \<open>
  An origin the catalogue's own validation accepts passes every syntactic check of the route
  table: only the destination policy can still refuse it, and the host is the origin's text.
\<close>

lemma manifest_origin_host:
  assumes "validate_gateway_section lc i g = Inr u" and "a \<in> set (gs_origins g)"
    and "\<And>s. lc (lc s) = lc s"
  shows "\<exists>h. a = ''https://'' @ h \<and> (starts_with ''['' h
     \<or> validate_origin lc a = Inr (h, 443) \<or> \<not> is_allowed (check_authority h 443 []))"
proof -
  from validated_origin [OF assms(1,2)] obtain h where
    h: "strip_prefix ''https://'' a = Some h" "bare_host_suffix lc h" by blast
  then have a: "a = ''https://'' @ h" by (simp only: strip_prefix_Some)
  show ?thesis
  proof (cases "starts_with ''['' h \<or> \<not> is_allowed (check_authority h 443 [])")
    case True
    with a show ?thesis by blast
  next
    case False
    from h(2) have c: "\<not> list_ex (\<lambda>c. c \<in> set ''/?#'') h" "CHR ''@'' \<notin> set h" "CHR '':'' \<notin> set h"
      "h \<noteq> []" "lc h = h" by (auto simp: bare_host_suffix_def list_ex_iff)
    then have "origin_host_port a h = Inr (h, 443)"
      using False by (simp add: origin_host_port_def rsplit_once_free Let_def)
    with c False h(1) have "validate_origin lc a = Inr (h, 443)"
      by (simp add: validate_origin_def is_allowed_def)
    with a show ?thesis by blast
  qed
qed

section \<open>Two observations\<close>

text \<open>White space around the host passes validation and stays in the returned host.\<close>

lemma origin_keeps_white_space:
  "validate_origin to_ascii_lowercase (''https://api.openai.com'' @ crlf)
     = Inr (''api.openai.com'' @ crlf, 443)"
  by code_simp

text \<open>An unbracketed IPv6 origin with its port is accepted, but its stored form is not.\<close>

lemma unbracketed_ipv6_not_reloadable:
  "validate_origin to_ascii_lowercase ''https://2606:4700::1111:443'' = Inr (''2606:4700::1111'', 443)
   \<and> isl (validate_origin to_ascii_lowercase (custom_authority ''2606:4700::1111'' 443))"
  by code_simp

end
