(* ===== verification/RouteState.thy ===== *)
theory RouteState
  imports Routes
begin

text \<open>
  The live route state of crates/gateway/src/routes.rs (\<open>RouteState\<close>) and the schema-checked
  open of crates/core/src/db.rs it loads through. A file is what a process finds at the
  database's path at one moment: nothing, or the outcome of opening it, of reading its schema
  version and of the polling connection's \<open>PRAGMA data_version\<close>. A reload is two moments,
  loading and installing, because no lock is held between them; its atomic composition is the
  code's \<open>reload\<close>, and the step relation interleaves the halves of concurrent reloads.
\<close>

section \<open>Opening the database\<close>

record db_file =
  df_open :: "gateway_db res"
  df_user_version :: "int res"
  df_data_version :: "int res"

definition open_at_current_version :: "int \<Rightarrow> string \<Rightarrow> db_file option \<Rightarrow> gateway_db res" where
  "open_at_current_version supported path file =
     (case file of
        None \<Rightarrow> Inl (VaultNotFound path)
      | Some f \<Rightarrow>
        (case df_open f of
           Inl e \<Rightarrow> Inl e
         | Inr conn \<Rightarrow>
           (case df_user_version f of
              Inl e \<Rightarrow> Inl e
            | Inr found \<Rightarrow>
                if supported < found then Inl (SchemaTooNew found supported)
                else if found < supported then Inl (SchemaNotCurrent found supported)
                else Inr conn)))"

section \<open>The state\<close>

text \<open>What a process is built and started with: the library functions, manifests, schema, path.\<close>

record reload_env =
  re_lower :: "string \<Rightarrow> string"
  re_hash :: "string \<Rightarrow> string \<Rightarrow> string"
  re_manifests :: "provider_manifest list"
  re_supported :: int
  re_path :: string

record route_state =
  rs_mac_key :: "string option"
  rs_table :: route_table
  rs_polling :: bool
  rs_version :: int
  rs_degraded :: bool

definition open_file :: "reload_env \<Rightarrow> db_file option \<Rightarrow> gateway_db res" where
  "open_file env = open_at_current_version (re_supported env) (re_path env)"

definition load_with :: "reload_env \<Rightarrow> string option \<Rightarrow> gateway_db \<Rightarrow> route_table res" where
  "load_with env = load_route_table (re_lower env) (re_hash env) (re_manifests env)"

text \<open>The two halves of \<open>reload\<close>: what it loads under the key it cloned, and its outcome.\<close>

definition reload_load :: "reload_env \<Rightarrow> db_file option \<Rightarrow> route_state \<Rightarrow> route_table res" where
  "reload_load env file s =
     (case open_file env file of Inl e \<Rightarrow> Inl e | Inr conn \<Rightarrow> load_with env (rs_mac_key s) conn)"

definition reload_install :: "route_table res \<Rightarrow> route_state \<Rightarrow> route_state" where
  "reload_install loaded s =
     (case loaded of
        Inr table \<Rightarrow> s\<lparr>rs_table := table, rs_degraded := False\<rparr>
      | Inl _ \<Rightarrow> s\<lparr>rs_degraded := True\<rparr>)"

definition reload :: "reload_env \<Rightarrow> db_file option \<Rightarrow> route_state \<Rightarrow> route_state" where
  "reload env file s = reload_install (reload_load env file s) s"

definition blank_state :: route_state where
  "blank_state = \<lparr>rs_mac_key = None, rs_table = empty_table, rs_polling = False, rs_version = - 1,
     rs_degraded = False\<rparr>"

definition route_state_new :: "reload_env \<Rightarrow> db_file option \<Rightarrow> route_state" where
  "route_state_new env file = reload env file blank_state"

definition set_mac_key :: "reload_env \<Rightarrow> string option \<Rightarrow> db_file option \<Rightarrow> route_state \<Rightarrow> route_state" where
  "set_mac_key env key file s = reload env file (s\<lparr>rs_mac_key := key\<rparr>)"

definition has_mac_key :: "route_state \<Rightarrow> bool" where
  "has_mac_key s \<longleftrightarrow> rs_mac_key s \<noteq> None"

text \<open>
  \<open>held\<close> is what the polling connection answers, \<open>first\<close> the file when a new polling
  connection is opened, \<open>second\<close> the file when the reload opens it.
\<close>

definition reload_if_changed ::
    "reload_env \<Rightarrow> int option \<Rightarrow> db_file option \<Rightarrow> db_file option \<Rightarrow> route_state \<Rightarrow> route_state" where
  "reload_if_changed env held first second s =
     (case (if rs_polling s then held else None) of
        Some v \<Rightarrow>
          (let s' = s\<lparr>rs_version := v\<rparr> in if rs_version s \<noteq> v then reload env second s' else s')
      | None \<Rightarrow>
          (let conn = open_file env first;
               s1 = s\<lparr>rs_polling := \<not> isl conn\<rparr>;
               s2 = (case (conn, first) of
                       (Inr _, Some f) \<Rightarrow>
                         (case df_data_version f of Inr v \<Rightarrow> s1\<lparr>rs_version := v\<rparr> | Inl _ \<Rightarrow> s1)
                     | _ \<Rightarrow> s1)
           in reload env second s2))"

end
