(* ===== verification/RouteStateProps.thy ===== *)
theory RouteStateProps
  imports RouteState RouteProps
begin

text \<open>
  What the live route state guarantees over whole executions: the step relation below lets the
  poller, the control channel and any number of reloads interleave, each reload loading at one
  step and installing at a later one. The installed table is always the last one that loaded,
  its destinations are safe in every interleaving, and a poll that sees a change picks it up.
\<close>

section \<open>Interleavings\<close>

text \<open>A world is the shared state and the reloads that have loaded and not yet installed.\<close>

record route_world =
  rw_state :: route_state
  rw_flight :: "route_table res list"

text \<open>
  The keys a step may install are bounded by \<open>K\<close>: with \<open>K\<close> empty the process never received
  a key. A poll's own updates touch only the polling fields.
\<close>

inductive route_step :: "reload_env \<Rightarrow> string set \<Rightarrow> route_world \<Rightarrow> route_world \<Rightarrow> bool"
  for env :: reload_env and K :: "string set" where
  load: "route_step env K w (w\<lparr>rw_flight := reload_load env f (rw_state w) # rw_flight w\<rparr>)"
| install: "l \<in> set (rw_flight w) \<Longrightarrow>
    route_step env K w (w\<lparr>rw_state := reload_install l (rw_state w), rw_flight := remove1 l (rw_flight w)\<rparr>)"
| key: "set_option k \<subseteq> K \<Longrightarrow>
    route_step env K w (w\<lparr>rw_state := (rw_state w)\<lparr>rs_mac_key := k\<rparr>\<rparr>)"
| poll: "route_step env K w (w\<lparr>rw_state := (rw_state w)\<lparr>rs_polling := b, rs_version := v\<rparr>\<rparr>)"

inductive route_reach :: "reload_env \<Rightarrow> string set \<Rightarrow> route_world \<Rightarrow> bool"
  for env :: reload_env and K :: "string set" where
  start: "route_reach env K \<lparr>rw_state = blank_state, rw_flight = []\<rparr>"
| step: "route_reach env K w \<Longrightarrow> route_step env K w w' \<Longrightarrow> route_reach env K w'"

text \<open>The operations of the code are runs of this relation.\<close>

lemma reach_reload:
  assumes "route_reach env K w"
  shows "route_reach env K (w\<lparr>rw_state := reload env f (rw_state w)\<rparr>)"
proof -
  let ?l = "reload_load env f (rw_state w)"
  have "route_reach env K (w\<lparr>rw_flight := ?l # rw_flight w\<rparr>)"
    by (rule route_reach.step [OF assms route_step.load])
  from route_reach.step [OF this route_step.install [of ?l]]
  show ?thesis by (simp add: reload_def)
qed

lemma reach_set_mac_key:
  assumes "route_reach env K w" and "set_option k \<subseteq> K"
  shows "route_reach env K (w\<lparr>rw_state := set_mac_key env k f (rw_state w)\<rparr>)"
  using reach_reload [OF route_reach.step [OF assms(1) route_step.key [OF assms(2)]], of f]
  by (simp add: set_mac_key_def)

lemma reach_poll:
  assumes "route_reach env K w"
  shows "route_reach env K (w\<lparr>rw_state := reload_if_changed env held first second (rw_state w)\<rparr>)"
proof -
  let ?s = "rw_state w"
  let ?at = "\<lambda>b v. w\<lparr>rw_state := ?s\<lparr>rs_polling := b, rs_version := v\<rparr>\<rparr>"
  have polled: "route_reach env K (?at b v)" for b v
    by (rule route_reach.step [OF assms route_step.poll])
  have again: "route_reach env K (w\<lparr>rw_state := reload env second (rw_state (?at b v))\<rparr>)" for b v
    using reach_reload [OF polled [where b = b and v = v], of second] by simp
  show ?thesis
  proof (cases "if rs_polling ?s then held else None")
    case (Some v)
    with polled [where b = "rs_polling ?s" and v = v] again [where b = "rs_polling ?s" and v = v]
    show ?thesis by (simp add: reload_if_changed_def Let_def)
  next
    case None
    define s2 where "s2 = (case (open_file env first, first) of
        (Inr _, Some f) \<Rightarrow> (case df_data_version f of
            Inr v \<Rightarrow> ?s\<lparr>rs_polling := \<not> isl (open_file env first), rs_version := v\<rparr>
          | Inl _ \<Rightarrow> ?s\<lparr>rs_polling := \<not> isl (open_file env first)\<rparr>)
      | _ \<Rightarrow> ?s\<lparr>rs_polling := \<not> isl (open_file env first)\<rparr>)"
    have poll: "reload_if_changed env held first second ?s = reload env second s2"
      using None by (simp add: reload_if_changed_def s2_def Let_def)
    have "s2 = ?s\<lparr>rs_polling := rs_polling s2, rs_version := rs_version s2\<rparr>"
      by (simp add: s2_def split: sum.split option.split)
    with again [where b = "rs_polling s2" and v = "rs_version s2"] show ?thesis by (simp add: poll)
  qed
qed

section \<open>The last known good snapshot\<close>

definition loaded_from :: "reload_env \<Rightarrow> string set \<Rightarrow> route_table \<Rightarrow> bool" where
  "loaded_from env K t \<longleftrightarrow>
     t = empty_table \<or> (\<exists>k db. set_option k \<subseteq> K \<and> load_with env k db = Inr t)"

definition world_ok :: "reload_env \<Rightarrow> string set \<Rightarrow> route_world \<Rightarrow> bool" where
  "world_ok env K w \<longleftrightarrow> set_option (rs_mac_key (rw_state w)) \<subseteq> K
     \<and> loaded_from env K (rs_table (rw_state w))
     \<and> (\<forall>t. Inr t \<in> set (rw_flight w) \<longrightarrow> loaded_from env K t)"

lemma load_loaded_from:
  "reload_load env f s = Inr t \<Longrightarrow> set_option (rs_mac_key s) \<subseteq> K \<Longrightarrow> loaded_from env K t"
  by (auto simp: reload_load_def loaded_from_def split: sum.splits)

lemma route_step_ok: "route_step env K w w' \<Longrightarrow> world_ok env K w \<Longrightarrow> world_ok env K w'"
proof (induction rule: route_step.induct)
  case (load w f)
  then show ?case by (auto simp: world_ok_def intro: load_loaded_from [OF sym])
next
  case (install l w)
  then show ?case
    by (auto simp: world_ok_def reload_install_def dest: in_set_remove1 notin_set_remove1 split: sum.split)
qed (auto simp: world_ok_def)

lemma route_reach_ok: "route_reach env K w \<Longrightarrow> world_ok env K w"
proof (induction rule: route_reach.induct)
  case start
  show ?case by (simp add: world_ok_def blank_state_def loaded_from_def)
qed (rule route_step_ok)

text \<open>
  An attempt is what one reload read: the file it found and the key it was under. It loads the
  table the file's database gives under that key, or fails.
\<close>

type_synonym load_attempt = "db_file option \<times> string option"

definition loads_table :: "reload_env \<Rightarrow> load_attempt \<Rightarrow> route_table \<Rightarrow> bool" where
  "loads_table env a t \<longleftrightarrow> (\<exists>db. open_file env (fst a) = Inr db \<and> load_with env (snd a) db = Inr t)"

text \<open>
  What a process does after it was started: whole reloads, key changes and polls, the two halves
  of a concurrent reload, and the key or the polling fields written by a caller that has not
  reloaded yet.
\<close>

datatype route_move =
    Reloads "db_file option"
  | KeyChange "string option" "db_file option"
  | Polls "int option" "db_file option" "db_file option"
  | Begins "db_file option"
  | Finishes nat
  | WritesKey "string option"
  | PollMarks bool int

record route_run =
  ru_state :: route_state
  ru_flight :: "(load_attempt \<times> route_table res) list"
  ru_finished :: "load_attempt list"

text \<open>
  The state is changed by the code's functions; beside it the run notes what every reload read,
  in the order in which the reloads finished. A poll reloads unless the polling connection
  answers the version it answered last.
\<close>

definition finish :: "route_state \<Rightarrow> load_attempt list \<Rightarrow> route_run \<Rightarrow> route_run" where
  "finish s as r = r\<lparr>ru_state := s, ru_finished := ru_finished r @ as\<rparr>"

fun move :: "reload_env \<Rightarrow> route_move \<Rightarrow> route_run \<Rightarrow> route_run" where
  "move env (Reloads f) r =
     (let s = ru_state r in finish (reload env f s) [(f, rs_mac_key s)] r)"
| "move env (KeyChange k f) r = finish (set_mac_key env k f (ru_state r)) [(f, k)] r"
| "move env (Polls held first second) r =
     (let s = ru_state r in
      finish (reload_if_changed env held first second s)
        (if rs_polling s \<and> held = Some (rs_version s) then [] else [(second, rs_mac_key s)]) r)"
| "move env (Begins f) r =
     (let s = ru_state r in r\<lparr>ru_flight := ru_flight r @ [((f, rs_mac_key s), reload_load env f s)]\<rparr>)"
| "move env (Finishes i) r =
     (if i < length (ru_flight r)
      then (case ru_flight r ! i of (a, l) \<Rightarrow>
         finish (reload_install l (ru_state r)) [a]
           (r\<lparr>ru_flight := take i (ru_flight r) @ drop (i + 1) (ru_flight r)\<rparr>))
      else r)"
| "move env (WritesKey k) r = r\<lparr>ru_state := (ru_state r)\<lparr>rs_mac_key := k\<rparr>\<rparr>"
| "move env (PollMarks p v) r = r\<lparr>ru_state := (ru_state r)\<lparr>rs_polling := p, rs_version := v\<rparr>\<rparr>"

definition started :: "reload_env \<Rightarrow> db_file option \<Rightarrow> route_run" where
  "started env f = \<lparr>ru_state = route_state_new env f, ru_flight = [], ru_finished = [(f, None)]\<rparr>"

text \<open>The table of the last attempt that loaded one; the empty table before the first.\<close>

definition last_good :: "reload_env \<Rightarrow> load_attempt list \<Rightarrow> route_table \<Rightarrow> bool" where
  "last_good env as t \<longleftrightarrow>
     (let good = filter (\<lambda>a. \<exists>u. loads_table env a u) as
      in if good = [] then t = empty_table else loads_table env (last good) t)"

definition run_ok :: "reload_env \<Rightarrow> route_run \<Rightarrow> bool" where
  "run_ok env r \<longleftrightarrow> last_good env (ru_finished r) (rs_table (ru_state r))
     \<and> (ru_finished r \<noteq> [] \<longrightarrow>
          (rs_degraded (ru_state r) \<longleftrightarrow> (\<nexists>u. loads_table env (last (ru_finished r)) u)))
     \<and> (\<forall>x \<in> set (ru_flight r). \<forall>u. snd x = Inr u \<longleftrightarrow> loads_table env (fst x) u)"

lemma reload_load_iff: "reload_load env f s = Inr t \<longleftrightarrow> loads_table env (f, rs_mac_key s) t"
  by (auto simp: reload_load_def loads_table_def split: sum.splits)

lemma last_good_snoc:
  "last_good env (as @ [a]) t \<longleftrightarrow>
     (if \<exists>u. loads_table env a u then loads_table env a t else last_good env as t)"
proof (cases "\<exists>u. loads_table env a u")
  case True
  then show ?thesis by (simp add: last_good_def Let_def)
next
  case False
  then have "filter (\<lambda>a. \<exists>u. loads_table env a u) (as @ [a]) = filter (\<lambda>a. \<exists>u. loads_table env a u) as" by simp
  with False show ?thesis by (simp only: last_good_def if_False)
qed

text \<open>Installing the outcome of an attempt keeps the invariant.\<close>

lemma install_ok:
  assumes "last_good env as (rs_table s)" and "\<And>u. l = Inr u \<longleftrightarrow> loads_table env a u"
  shows "last_good env (as @ [a]) (rs_table (reload_install l s))"
    and "rs_degraded (reload_install l s) \<longleftrightarrow> (\<nexists>u. loads_table env a u)"
proof -
  have "last_good env (as @ [a]) (rs_table (reload_install l s))
      \<and> (rs_degraded (reload_install l s) \<longleftrightarrow> (\<nexists>u. loads_table env a u))"
  proof (cases l)
    case (Inl e)
    with assms(2) have "\<nexists>u. loads_table env a u" by simp
    with Inl assms(1) show ?thesis by (simp add: last_good_snoc reload_install_def)
  next
    case (Inr u)
    with assms(2) [of u] have "loads_table env a u" by simp
    then have "\<exists>u. loads_table env a u" "\<not> (\<nexists>u. loads_table env a u)" by blast+
    with Inr \<open>loads_table env a u\<close> show ?thesis by (simp add: last_good_snoc reload_install_def)
  qed
  then show "last_good env (as @ [a]) (rs_table (reload_install l s))"
    and "rs_degraded (reload_install l s) \<longleftrightarrow> (\<nexists>u. loads_table env a u)" by blast+
qed

lemma reload_ok:
  assumes "last_good env as (rs_table s)"
  shows "last_good env (as @ [(f, rs_mac_key s)]) (rs_table (reload env f s))"
    and "rs_degraded (reload env f s) \<longleftrightarrow> (\<nexists>u. loads_table env (f, rs_mac_key s) u)"
  unfolding reload_def by (rule install_ok [OF assms]; simp add: reload_load_iff)+

lemma poll_reloads:
  assumes "\<not> (rs_polling s \<and> held = Some (rs_version s))"
  shows "\<exists>p v. reload_if_changed env held first second s = reload env second (s\<lparr>rs_polling := p, rs_version := v\<rparr>)"
proof (cases "if rs_polling s then held else None")
  case (Some v)
  with assms have "reload_if_changed env held first second s = reload env second (s\<lparr>rs_version := v\<rparr>)"
    by (auto simp: reload_if_changed_def Let_def split: if_splits)
  moreover have "s\<lparr>rs_version := v\<rparr> = s\<lparr>rs_polling := rs_polling s, rs_version := v\<rparr>" by simp
  ultimately show ?thesis by metis
next
  case None
  define s2 where "s2 = (case (open_file env first, first) of
      (Inr _, Some f) \<Rightarrow> (case df_data_version f of
          Inr v \<Rightarrow> s\<lparr>rs_polling := \<not> isl (open_file env first), rs_version := v\<rparr>
        | Inl _ \<Rightarrow> s\<lparr>rs_polling := \<not> isl (open_file env first)\<rparr>)
    | _ \<Rightarrow> s\<lparr>rs_polling := \<not> isl (open_file env first)\<rparr>)"
  have "reload_if_changed env held first second s = reload env second s2"
    using None by (simp add: reload_if_changed_def s2_def Let_def)
  moreover have "s2 = s\<lparr>rs_polling := rs_polling s2, rs_version := rs_version s2\<rparr>"
    by (simp add: s2_def split: sum.split option.split)
  ultimately show ?thesis by metis
qed

lemma poll_keeps:
  assumes "rs_polling s" "held = Some (rs_version s)"
  shows "reload_if_changed env held first second s = s"
  using assms by (simp add: reload_if_changed_def Let_def)

lemma finish_ok:
  assumes "run_ok env r" and "last_good env (ru_finished r @ [a]) (rs_table s)"
    and "rs_degraded s \<longleftrightarrow> (\<nexists>u. loads_table env a u)" and "set fl \<subseteq> set (ru_flight r)"
  shows "run_ok env (finish s [a] (r\<lparr>ru_flight := fl\<rparr>))"
proof -
  have "\<forall>x \<in> set fl. \<forall>u. snd x = Inr u \<longleftrightarrow> loads_table env (fst x) u"
    using assms(1,4) unfolding run_ok_def by blast
  with assms(2,3) show ?thesis by (simp add: run_ok_def finish_def)
qed

lemma move_ok: "run_ok env r \<Longrightarrow> run_ok env (move env m r)"
proof -
  assume ok: "run_ok env r"
  then have good: "last_good env (ru_finished r) (rs_table (ru_state r))" by (simp add: run_ok_def)
  have done_ok: "run_ok env (finish s [a] r)"
    if "last_good env (ru_finished r @ [a]) (rs_table s)" "rs_degraded s \<longleftrightarrow> (\<nexists>u. loads_table env a u)" for s a
    using finish_ok [OF ok that, of "ru_flight r"] by simp
  show "run_ok env (move env m r)"
  proof (cases m)
    case (Reloads f)
    with done_ok [OF reload_ok [OF good]] show ?thesis by (simp add: Let_def)
  next
    case (KeyChange k f)
    with done_ok [OF reload_ok [where s = "(ru_state r)\<lparr>rs_mac_key := k\<rparr>" and f = f]] good
    show ?thesis by (simp add: set_mac_key_def)
  next
    case (Polls held first second)
    show ?thesis
    proof (cases "rs_polling (ru_state r) \<and> held = Some (rs_version (ru_state r))")
      case True
      with Polls ok show ?thesis by (simp add: poll_keeps finish_def)
    next
      case False
      from poll_reloads [OF False, of env first second] obtain p v where
        "reload_if_changed env held first second (ru_state r) = reload env second ((ru_state r)\<lparr>rs_polling := p, rs_version := v\<rparr>)"
        by blast
      with done_ok [OF reload_ok [where s = "(ru_state r)\<lparr>rs_polling := p, rs_version := v\<rparr>" and f = second]] good
      have "run_ok env (finish (reload_if_changed env held first second (ru_state r)) [(second, rs_mac_key (ru_state r))] r)"
        by simp
      then show ?thesis unfolding Polls move.simps Let_def if_not_P [OF False] .
    qed
  next
    case (Begins f)
    with ok show ?thesis by (auto simp: run_ok_def Let_def reload_load_iff)
  next
    case (Finishes i)
    show ?thesis
    proof (cases "i < length (ru_flight r)")
      case True
      obtain a l where al: "ru_flight r ! i = (a, l)" by (cases "ru_flight r ! i")
      with True have "(a, l) \<in> set (ru_flight r)" by (metis nth_mem)
      with ok have "l = Inr u \<longleftrightarrow> loads_table env a u" for u by (fastforce simp: run_ok_def)
      from finish_ok [OF ok install_ok [OF good this], of "take i (ru_flight r) @ drop (i + 1) (ru_flight r)"]
      show ?thesis using Finishes True al set_take_subset [of i] set_drop_subset [of "i + 1" "ru_flight r"]
        by (auto simp: set_take_subset)
    qed (use Finishes ok in simp)
  next
    case (WritesKey k)
    with ok show ?thesis by (simp add: run_ok_def)
  next
    case (PollMarks p v)
    with ok show ?thesis by (simp add: run_ok_def)
  qed
qed

lemma started_ok: "run_ok env (started env f)"
proof -
  have "last_good env [] (rs_table blank_state)" by (simp add: last_good_def blank_state_def)
  from reload_ok [OF this, of f] show ?thesis
    by (simp add: run_ok_def started_def route_state_new_def blank_state_def)
qed

text \<open>
  C25. The last known good snapshot, in every interleaving of polls, key changes and concurrent
  reloads: the table forwarded from is exactly the one that the last successful reload loaded,
  from the file that reload found and under the key it held, and the empty table before the
  first; a reload that fails leaves it in place, and only marks the process degraded until the next
  reload that succeeds.
\<close>

theorem route_table_last_known_good:
  "let r = fold (move env) moves (started env f) in
     last_good env (ru_finished r) (rs_table (ru_state r))
   \<and> (rs_degraded (ru_state r) \<longleftrightarrow> \<not> (\<exists>t. loads_table env (last (ru_finished r)) t))"
proof -
  have "run_ok env r \<Longrightarrow> ru_finished r \<noteq> [] \<Longrightarrow>
      run_ok env (fold (move env) moves r) \<and> ru_finished (fold (move env) moves r) \<noteq> []" for r
  proof (induction moves arbitrary: r)
    case (Cons m moves)
    have "ru_finished (move env m r) \<noteq> []"
      using Cons.prems(2) by (cases m) (auto simp: finish_def Let_def split: prod.split)
    with Cons move_ok show ?case by simp
  qed simp
  from this [OF started_ok] show ?thesis by (simp add: started_def run_ok_def Let_def)
qed

text \<open>
  C26. Safety of everything that is ever forwarded, in every interleaving: the host of a
  forwardable route validates again and names nothing internal, and a custom route forwards
  only in a process that was given a key.
\<close>

theorem reachable_destinations_safe:
  assumes "route_reach env K w" and "table_route (rs_table (rw_state w)) p = Some r"
    and "ro_target r = Ready u"
  shows "(\<exists>a h. validate_origin (re_lower env) a = Inr (h, 443)
        \<and> (if ro_custom r then a = custom_authority (uo_host u) (uo_port u)
           else u = \<lparr>uo_host = h, uo_port = 443\<rparr>)
        \<and> names_nothing_internal (normalize_host h) \<and> normalize_host h \<notin> set METADATA_HOSTS)
     \<and> (ro_custom r \<longrightarrow> K \<noteq> {})"
proof -
  from route_reach_ok [OF assms(1)] assms(2) obtain k db
    where k: "set_option k \<subseteq> K" and t: "load_with env k db = Inr (rs_table (rw_state w))"
    by (auto simp: world_ok_def loaded_from_def table_route_def empty_table_def)
  note t = t [unfolded load_with_def]
  have "K \<noteq> {}" if cu: "ro_custom r"
  proof
    assume "K = {}"
    with k have kn: "k = None" by simp
    from load_table_route [OF t assms(2)] obtain row v
      where "load_row (re_lower env) (re_hash env) (re_manifests env) k v row = Inr (Inr r)" by blast
    then obtain h q m c where "custom_target (re_hash env) k v row h q m c = Inr (ro_target r)"
      by (rule load_row_custom [OF _ cu])
    with kn assms(3) show False by (simp add: custom_target_def)
  qed
  with ready_destination_safe [OF t assms(2,3)] show ?thesis by simp
qed


text \<open>A process that was given a key and loaded the demonstration vault.\<close>

definition demo_env :: reload_env where
  "demo_env = \<lparr>re_lower = to_ascii_lowercase, re_hash = demo_hash, re_manifests = [demo_manifest],
     re_supported = 17, re_path = ''vault.db''\<rparr>"

definition demo_file :: "db_file option" where
  "demo_file = Some \<lparr>df_open = Inr (snd demo_added), df_user_version = Inr 17, df_data_version = Inr 1\<rparr>"

definition demo_table :: route_table where
  "demo_table = \<lparr>rt_routes = [(''supa'', demo_route)], rt_links = [], rt_skipped = [], rt_disabled = 0\<rparr>"

definition demo_started :: route_state where
  "demo_started = set_mac_key demo_env (Some demo_key) demo_file (route_state_new demo_env None)"

lemma demo_load_with: "load_with demo_env (Some demo_key) (snd demo_added) = Inr demo_table"
  by (simp add: load_with_def demo_env_def demo_load demo_table_def)

lemma demo_open: "open_file demo_env demo_file = Inr (snd demo_added)"
  by (simp add: open_file_def open_at_current_version_def demo_env_def demo_file_def)

lemma demo_started_table: "rs_table demo_started = demo_table"
  by (simp add: demo_started_def set_mac_key_def reload_def reload_load_def reload_install_def
      demo_open demo_load_with)

lemma demo_reach:
  "route_reach demo_env {demo_key} \<lparr>rw_state = demo_started, rw_flight = []\<rparr>"
  using reach_set_mac_key [OF reach_reload [OF route_reach.start], of "Some demo_key"]
  by (simp add: demo_started_def route_state_new_def)

text \<open>A reload that finds no file keeps the table of the demonstration vault.\<close>

lemma failed_reload_keeps_table:
  "let r = fold (move demo_env) [KeyChange (Some demo_key) demo_file, Reloads None] (started demo_env None) in
     rs_table (ru_state r) = demo_table \<and> rs_degraded (ru_state r)
   \<and> ru_finished r = [(None, None), (demo_file, Some demo_key), (None, Some demo_key)]"
proof -
  have none: "reload_load demo_env None s = Inl (VaultNotFound ''vault.db'')" for s
    by (simp add: reload_load_def open_file_def open_at_current_version_def demo_env_def)
  have key: "rs_mac_key (set_mac_key demo_env k f s) = k" for k f s
    by (simp add: set_mac_key_def reload_def reload_install_def split: sum.split)
  have "rs_table (set_mac_key demo_env (Some demo_key) demo_file s) = demo_table" for s
    by (simp add: set_mac_key_def reload_def reload_load_def reload_install_def demo_open demo_load_with)
  then show ?thesis
    by (simp add: Let_def finish_def started_def key reload_def [of _ None] none reload_install_def)
qed

lemma reachable_destinations_safe_witness:
  "\<exists>a h. validate_origin (re_lower demo_env) a = Inr (h, 443)
     \<and> a = custom_authority ''proj.supabase.co'' 443 \<and> names_nothing_internal (normalize_host h)"
proof -
  have "table_route demo_table ''supa'' = Some demo_route"
    by (simp add: demo_table_def table_route_def)
  with reachable_destinations_safe [OF demo_reach, of "''supa''" demo_route
      "\<lparr>uo_host = ''proj.supabase.co'', uo_port = 443\<rparr>"]
  show ?thesis by (auto simp: demo_route_def demo_started_table)
qed

section \<open>Freshness of polling\<close>

text \<open>
  The database as a sequence of committed versions: \<open>content n\<close> is what it holds at data
  version \<open>n\<close>. A poll sees the version at its check and another, not older, at its reload.
\<close>

datatype route_event = Poll int int | Reload int | SetKey "string option" int

definition file_at :: "reload_env \<Rightarrow> (int \<Rightarrow> gateway_db) \<Rightarrow> int \<Rightarrow> db_file option" where
  "file_at env content n = Some \<lparr>df_open = Inr (content n), df_user_version = Inr (re_supported env),
     df_data_version = Inr n\<rparr>"

fun apply_event :: "reload_env \<Rightarrow> (int \<Rightarrow> gateway_db) \<Rightarrow> route_event \<Rightarrow> route_state \<Rightarrow> route_state" where
  "apply_event env content (Poll n m) s =
     reload_if_changed env (Some n) (file_at env content n) (file_at env content m) s"
| "apply_event env content (Reload m) s = reload env (file_at env content m) s"
| "apply_event env content (SetKey k m) s = set_mac_key env k (file_at env content m) s"

fun event_versions :: "route_event \<Rightarrow> int list" where
  "event_versions (Poll n m) = [n, m]"
| "event_versions (Reload m) = [m]"
| "event_versions (SetKey k m) = [m]"

fun key_length_ok :: "route_event \<Rightarrow> bool" where
  "key_length_ok (SetKey (Some k) m) \<longleftrightarrow> length k = 32"
| "key_length_ok e \<longleftrightarrow> True"

definition fresh :: "reload_env \<Rightarrow> (int \<Rightarrow> gateway_db) \<Rightarrow> int \<Rightarrow> route_state \<Rightarrow> bool" where
  "fresh env content now s \<longleftrightarrow> \<not> rs_degraded s \<and> rs_version s \<le> now
     \<and> (\<forall>k \<in> set_option (rs_mac_key s). length k = 32)
     \<and> (\<exists>m \<ge> rs_version s. load_with env (rs_mac_key s) (content m) = Inr (rs_table s))"

lemma open_file_at [simp]: "open_file env (file_at env content n) = Inr (content n)"
  by (simp add: open_file_def open_at_current_version_def file_at_def)

lemma load_with_total:
  assumes "\<exists>v. vault_id_of db = Inr v" and "\<forall>k \<in> set_option key. length k = 32"
  shows "\<exists>t. load_with env key db = Inr t"
proof -
  have none: "\<not> isl (load_row lc kh ms key v row)" for lc kh ms v row
    using assms(2) load_row_no_key load_row_key by (cases key) simp_all
  from assms(1) obtain v where v: "vault_id_of db = Inr v" ..
  from load_rows_total [OF none] obtain t
    where "load_rows (re_lower env) (re_hash env) (re_manifests env) key v (gd_routes db) empty_table = Inr t"
    by blast
  with v show ?thesis by (simp add: load_with_def load_route_table_def)
qed

text \<open>Every version holds a vault, so a load under a key of the right length succeeds.\<close>

lemma fresh_reload:
  assumes vaults: "\<forall>n. \<exists>v. vault_id_of (content n) = Inr v"
    and key: "\<forall>k \<in> set_option (rs_mac_key s). length k = 32" and "rs_version s \<le> m"
  shows "fresh env content m (reload env (file_at env content m) s)"
proof -
  from load_with_total [OF vaults [rule_format] key] obtain t
    where t: "load_with env (rs_mac_key s) (content m) = Inr t" by blast
  then have "reload env (file_at env content m) s = s\<lparr>rs_table := t, rs_degraded := False\<rparr>"
    by (simp add: reload_def reload_load_def reload_install_def)
  with key assms(3) t show ?thesis by (auto simp: fresh_def)
qed

lemma fresh_later: "fresh env content now s \<Longrightarrow> now \<le> later \<Longrightarrow> fresh env content later s"
  by (auto simp: fresh_def)

lemma fresh_poll:
  assumes vaults: "\<forall>n. \<exists>v. vault_id_of (content n) = Inr v"
    and now: "fresh env content now s" and "now \<le> n" and "n \<le> m"
  shows "fresh env content m (apply_event env content (Poll n m) s)
    \<and> rs_version (apply_event env content (Poll n m) s) = n"
proof -
  let ?poll = "apply_event env content (Poll n m) s"
  have key: "\<forall>k \<in> set_option (rs_mac_key s). length k = 32" using now by (simp add: fresh_def)
  have re: "fresh env content m (reload env (file_at env content m) (s\<lparr>rs_polling := b, rs_version := n\<rparr>))
      \<and> rs_version (reload env (file_at env content m) (s\<lparr>rs_polling := b, rs_version := n\<rparr>)) = n" for b
    using fresh_reload [OF vaults, of "s\<lparr>rs_polling := b, rs_version := n\<rparr>" m env] key \<open>n \<le> m\<close>
    by (simp add: reload_def reload_install_def split: sum.split)
  show ?thesis
  proof (cases "rs_polling s")
    case False
    then have "?poll = reload env (file_at env content m) (s\<lparr>rs_polling := True, rs_version := n\<rparr>)"
      by (simp add: reload_if_changed_def Let_def) (simp add: file_at_def)
    with re [of True] show ?thesis by simp
  next
    case True
    show ?thesis
    proof (cases "rs_version s = n")
      case True
      with \<open>rs_polling s\<close> have "?poll = s" by (simp add: reload_if_changed_def Let_def)
      with True now \<open>now \<le> n\<close> \<open>n \<le> m\<close> show ?thesis by (auto intro: fresh_later)
    next
      case False
      then have "?poll = reload env (file_at env content m) (s\<lparr>rs_version := n\<rparr>)"
        using \<open>rs_polling s\<close> by (simp add: reload_if_changed_def Let_def)
      moreover have "s\<lparr>rs_polling := True, rs_version := n\<rparr> = s\<lparr>rs_version := n\<rparr>"
        using \<open>rs_polling s\<close> by simp
      ultimately show ?thesis using re [of True] by (simp only:)
    qed
  qed
qed

lemma fresh_event:
  assumes vaults: "\<forall>n. \<exists>v. vault_id_of (content n) = Inr v"
    and now: "fresh env content now s" and "key_length_ok e" and "sorted (now # event_versions e)"
  shows "fresh env content (last (event_versions e)) (apply_event env content e s)"
proof (cases e)
  case (Poll n m)
  with assms(4) fresh_poll [OF vaults now, of n m] show ?thesis by simp
next
  case (Reload m)
  have "fresh env content m (reload env (file_at env content m) s)"
    using now assms(4) Reload by (intro fresh_reload [OF vaults]) (auto simp: fresh_def)
  with Reload show ?thesis by simp
next
  case (SetKey k m)
  have "fresh env content m (set_mac_key env k (file_at env content m) s)"
    unfolding set_mac_key_def using now assms(3,4) SetKey
    by (intro fresh_reload [OF vaults]) (cases k; auto simp: fresh_def)+
  with SetKey show ?thesis by simp
qed

lemma fresh_run:
  assumes vaults: "\<forall>n. \<exists>v. vault_id_of (content n) = Inr v"
  shows "fresh env content now s \<Longrightarrow> list_all key_length_ok es \<Longrightarrow>
     sorted (now # concat (map event_versions es)) \<Longrightarrow>
     \<exists>later. fresh env content later (fold (apply_event env content) es s)
       \<and> later \<in> set (now # concat (map event_versions es))"
proof (induction es arbitrary: now s)
  case (Cons e es)
  have ne: "event_versions e \<noteq> []" by (cases e) auto
  have "fresh env content (last (event_versions e)) (apply_event env content e s)"
    using Cons.prems by (intro fresh_event [OF vaults]) (auto simp: sorted_append)
  moreover have "sorted (last (event_versions e) # concat (map event_versions es))"
    using Cons.prems(3) ne by (auto simp: sorted_append)
  ultimately obtain later
    where "fresh env content later (fold (apply_event env content) es (apply_event env content e s))"
      "later \<in> set (last (event_versions e) # concat (map event_versions es))"
    using Cons.IH [of "last (event_versions e)" "apply_event env content e s"] Cons.prems(2) by auto
  then show ?case using ne by auto
qed auto

text \<open>
  C27. A change is picked up by the next poll: while the file can be opened, after any history
  of polls, reloads and key changes, a poll leaves the process forwarding from a snapshot of the
  database at the version it checked or a later one, under the current key, and not degraded.
\<close>

theorem poll_is_fresh:
  assumes "\<forall>n. \<exists>v. vault_id_of (content n) = Inr v" and "list_all key_length_ok es"
    and "sorted ([0, n0] @ concat (map event_versions es) @ [n, m])"
  shows "\<exists>s. s = fold (apply_event env content) (es @ [Poll n m]) (route_state_new env (file_at env content n0))
     \<and> \<not> rs_degraded s
     \<and> (\<exists>k \<ge> n. load_with env (rs_mac_key s) (content k) = Inr (rs_table s))"
proof -
  note vaults = assms(1)
  have "fresh env content n0 (route_state_new env (file_at env content n0))"
    unfolding route_state_new_def using assms(3)
    by (intro fresh_reload [OF vaults]) (auto simp: blank_state_def)
  from fresh_run [OF vaults this assms(2)] assms(3) obtain later
    where f: "fresh env content later (fold (apply_event env content) es (route_state_new env (file_at env content n0)))"
      and l: "later \<in> set (n0 # concat (map event_versions es))"
    by (auto simp: sorted_append)
  from l assms(3) have "later \<le> n" "n \<le> m" by (auto simp: sorted_append)
  from fresh_poll [OF vaults f this] show ?thesis by (auto simp: fresh_def)
qed

lemma poll_is_fresh_witness:
  "\<exists>s. s = fold (apply_event demo_env (\<lambda>_. snd demo_added))
        ([Poll 1 1, SetKey (Some demo_key) 2] @ [Poll 3 4]) (route_state_new demo_env (file_at demo_env (\<lambda>_. snd demo_added) 1))
     \<and> \<not> rs_degraded s
     \<and> (\<exists>k \<ge> (3 :: int). load_with demo_env (rs_mac_key s) (snd demo_added) = Inr (rs_table s))"
proof -
  have "\<forall>n :: int. \<exists>v. vault_id_of ((\<lambda>_. snd demo_added) n) = Inr v" using demo_vault_id by blast
  moreover have "list_all key_length_ok [Poll 1 1, SetKey (Some demo_key) 2]"
    by (simp add: demo_key_def)
  moreover have "sorted ([0, 1] @ concat (map event_versions [Poll 1 1, SetKey (Some demo_key) 2]) @ [3, 4])"
    by simp
  ultimately show ?thesis by (rule poll_is_fresh)
qed

section \<open>Two limits of the reload\<close>

text \<open>
  A failed reload is not retried: the poll records the version it saw before it reloads,
  so when that one reload fails the polls that follow change nothing, and the process stays
  degraded on the old snapshot until another commit, however soon the database recovers.
\<close>

theorem failed_reload_not_retried:
  assumes "rs_polling s" and "rs_version s \<noteq> v" and "reload_load env second s = Inl e"
  shows "fold (\<lambda>(f, g). reload_if_changed env (Some v) f g) polls
       (reload_if_changed env (Some v) first second s) = s\<lparr>rs_version := v, rs_degraded := True\<rparr>"
proof -
  have "reload_load env second (s\<lparr>rs_version := v\<rparr>) = Inl e"
    using assms(3) by (auto simp: reload_load_def split: sum.splits)
  with assms(1,2) have now: "reload_if_changed env (Some v) first second s = s\<lparr>rs_version := v, rs_degraded := True\<rparr>"
    by (simp add: reload_if_changed_def reload_def reload_install_def Let_def)
  have again: "reload_if_changed env (Some v) f g (s\<lparr>rs_version := v, rs_degraded := True\<rparr>)
      = s\<lparr>rs_version := v, rs_degraded := True\<rparr>" for f g
    using assms(1) by (simp add: reload_if_changed_def Let_def)
  have "fold (\<lambda>(f, g). reload_if_changed env (Some v) f g) polls (s\<lparr>rs_version := v, rs_degraded := True\<rparr>)
      = s\<lparr>rs_version := v, rs_degraded := True\<rparr>"
    by (induction polls) (auto simp: again)
  with now show ?thesis by simp
qed

lemma failed_reload_not_retried_witness:
  "fold (\<lambda>(f, g). reload_if_changed demo_env (Some 2) f g) [(demo_file, demo_file)]
       (reload_if_changed demo_env (Some 2) demo_file None (demo_started\<lparr>rs_polling := True\<rparr>))
     = demo_started\<lparr>rs_polling := True, rs_version := 2, rs_degraded := True\<rparr>"
proof -
  have "rs_version demo_started = - 1"
    by (simp add: demo_started_def set_mac_key_def route_state_new_def blank_state_def reload_def
        reload_install_def split: sum.split)
  moreover have "reload_load demo_env None (demo_started\<lparr>rs_polling := True\<rparr>) = Inl (VaultNotFound ''vault.db'')"
    by (simp add: reload_load_def open_file_def open_at_current_version_def demo_env_def)
  ultimately show ?thesis
    by (subst failed_reload_not_retried) auto
qed

text \<open>
  Revoking the key can lose a race: a reload that loaded while the key was resident may
  install its table after the revocation has finished, and then the process, which holds no
  key and has no reload under way, forwards from the keyed snapshot again.
\<close>

theorem revoked_key_snapshot_returns:
  assumes "open_file env f = Inr db" and "load_with env (Some k) db = Inr t"
  shows "\<exists>s w. route_reach env {k} \<lparr>rw_state = set_mac_key env None f s, rw_flight = [Inr t]\<rparr>
     \<and> route_step env {k} \<lparr>rw_state = set_mac_key env None f s, rw_flight = [Inr t]\<rparr> w
     \<and> rw_flight w = [] \<and> rs_mac_key (rw_state w) = None \<and> rs_table (rw_state w) = t"
proof -
  let ?s = "set_mac_key env (Some k) f blank_state"
  have key: "rs_mac_key ?s = Some k"
    by (simp add: set_mac_key_def reload_def reload_install_def split: sum.split)
  have "route_reach env {k} \<lparr>rw_state = ?s, rw_flight = []\<rparr>"
    using reach_set_mac_key [OF route_reach.start, of "Some k"] by simp
  from route_reach.step [OF this route_step.load [of _ _ _ f]]
  have "route_reach env {k} \<lparr>rw_state = ?s, rw_flight = [Inr t]\<rparr>"
    using assms by (simp add: reload_load_def key)
  from reach_set_mac_key [OF this, of None]
  have r: "route_reach env {k} \<lparr>rw_state = set_mac_key env None f ?s, rw_flight = [Inr t]\<rparr>" by simp
  moreover have "route_step env {k} \<lparr>rw_state = set_mac_key env None f ?s, rw_flight = [Inr t]\<rparr>
      \<lparr>rw_state = reload_install (Inr t) (set_mac_key env None f ?s), rw_flight = []\<rparr>"
    using route_step.install [of "Inr t" "\<lparr>rw_state = set_mac_key env None f ?s, rw_flight = [Inr t]\<rparr>" env "{k}"]
    by simp
  moreover have "rs_mac_key (set_mac_key env None f ?s) = None"
    by (simp add: set_mac_key_def reload_def reload_install_def split: sum.split)
  ultimately show ?thesis by (intro exI conjI) (assumption | simp add: reload_install_def)+
qed

lemma revoked_key_snapshot_returns_witness:
  "\<exists>s w. route_reach demo_env {demo_key} \<lparr>rw_state = set_mac_key demo_env None demo_file s, rw_flight = [Inr demo_table]\<rparr>
     \<and> route_step demo_env {demo_key}
         \<lparr>rw_state = set_mac_key demo_env None demo_file s, rw_flight = [Inr demo_table]\<rparr> w
     \<and> rw_flight w = [] \<and> rs_mac_key (rw_state w) = None \<and> rs_table (rw_state w) = demo_table"
  by (rule revoked_key_snapshot_returns [OF demo_open demo_load_with])

end
