(* ===== verification/EnvFile.thy ===== *)
theory EnvFile
  imports Base
begin

text \<open>
  The lossless .env document (crates/core/src/envfile.rs): one line at a time, parsing, rendering
  and the edits the .env writer performs, with the masked display form of crates/core/src/model.rs.
  A secret string is its text.
\<close>

definition GATEWAY_MARKER_TAG :: string where
  "GATEWAY_MARKER_TAG = ''tethra-gateway''"

datatype newline = Lf | CrLf

fun newline_str :: "newline \<Rightarrow> string" where
  "newline_str Lf = [chr_lf]"
| "newline_str CrLf = crlf"

datatype quoting = Bare | Single | Double

record env_entry =
  ee_key :: string
  ee_value :: string
  ee_quoting :: quoting
  ee_export :: bool
  ee_inline_comment :: "string option"
  ee_raw :: string
  ee_line :: nat

datatype env_line =
    Blank string
  | Comment string
  | Entry env_entry
  | Malformed (ml_raw: string) (ml_line: nat) (ml_reason: string)

datatype env_problem_kind = MalformedLine | DuplicateKey

record env_problem =
  ep_line :: nat
  ep_kind :: env_problem_kind
  ep_detail :: string

record env_document =
  ed_lines :: "env_line list"
  ed_newline :: newline
  ed_trailing_newline :: bool

section \<open>Values\<close>

definition key_byte :: "char \<Rightarrow> bool" where
  "key_byte c \<longleftrightarrow> is_ascii_alphanumeric c \<or> c = CHR ''_''"

definition valid_key :: "string \<Rightarrow> bool" where
  "valid_key key \<longleftrightarrow> key \<noteq> [] \<and> (is_ascii_alphabetic (hd key) \<or> hd key = CHR ''_'')
     \<and> list_all key_byte key"

fun decode_double :: "string \<Rightarrow> string" where
  "decode_double [] = []"
| "decode_double [c] = [c]"
| "decode_double (c # d # s) =
     (if c \<noteq> chr_backslash then c # decode_double (d # s)
      else if d = CHR ''n'' then chr_lf # decode_double s
      else if d = CHR ''r'' then chr_cr # decode_double s
      else if d = CHR ''t'' then chr_tab # decode_double s
      else if d = chr_quote then chr_quote # decode_double s
      else if d = chr_backslash then chr_backslash # decode_double s
      else chr_backslash # d # decode_double s)"

definition encode_char :: "char \<Rightarrow> string" where
  "encode_char c =
     (if c = chr_quote then [chr_backslash, chr_quote]
      else if c = chr_backslash then [chr_backslash, chr_backslash]
      else if c = chr_lf then [chr_backslash, CHR ''n'']
      else if c = chr_cr then [chr_backslash, CHR ''r'']
      else if c = chr_tab then [chr_backslash, CHR ''t'']
      else [c])"

definition encode_double :: "string \<Rightarrow> string" where
  "encode_double value = concat (map encode_char value)"

text \<open>\<open>char::is_control\<close> over UTF-8: U+0000..U+001F, U+007F and U+0080..U+009F.\<close>

fun control_at :: "string \<Rightarrow> bool" where
  "control_at [] = False"
| "control_at (a # s) =
     (byte a < 0x20 \<or> byte a = 0x7F
      \<or> (byte a = 0xC2 \<and> (case s of [] \<Rightarrow> False | b # _ \<Rightarrow> 0x80 \<le> byte b \<and> byte b \<le> 0x9F)))"

fun some_suffix :: "(string \<Rightarrow> bool) \<Rightarrow> string \<Rightarrow> bool" where
  "some_suffix P [] = P []"
| "some_suffix P (c # s) = (P (c # s) \<or> some_suffix P s)"

definition has_control :: "string \<Rightarrow> bool" where
  "has_control s \<longleftrightarrow> some_suffix control_at s"

definition has_whitespace :: "string \<Rightarrow> bool" where
  "has_whitespace s \<longleftrightarrow> some_suffix (\<lambda>t. ws_len t \<noteq> 0) s"

definition single_quotable :: "string \<Rightarrow> bool" where
  "single_quotable v \<longleftrightarrow> chr_apos \<notin> set v \<and> \<not> has_control v"

definition bare_writable :: "string \<Rightarrow> bool" where
  "bare_writable v \<longleftrightarrow> v \<noteq> [] \<and> \<not> starts_with [chr_apos] v
     \<and> \<not> (has_whitespace v \<or> CHR ''#'' \<in> set v \<or> chr_quote \<in> set v \<or> has_control v)
     \<and> trim v = v"

definition render_value :: "quoting \<Rightarrow> string \<Rightarrow> string" where
  "render_value q v =
     (if q = Single \<and> single_quotable v then [chr_apos] @ v @ [chr_apos]
      else if q = Bare \<and> bare_writable v then v
      else [chr_quote] @ encode_double v @ [chr_quote])"

definition render_entry :: "env_entry \<Rightarrow> string" where
  "render_entry e =
     (if ee_export e then ''export '' else []) @ ee_key e @ ''=''
     @ render_value (ee_quoting e) (ee_value e)
     @ (case ee_inline_comment e of None \<Rightarrow> [] | Some c \<Rightarrow> '' '' @ c)"

definition entry_new :: "string \<Rightarrow> string \<Rightarrow> env_entry" where
  "entry_new key v =
     (let e = \<lparr>ee_key = key, ee_value = v, ee_quoting = Bare, ee_export = False,
               ee_inline_comment = None, ee_raw = [], ee_line = 0\<rparr>
      in e\<lparr>ee_raw := render_entry e\<rparr>)"

definition set_value :: "string \<Rightarrow> env_entry \<Rightarrow> env_entry" where
  "set_value v e = (let e' = e\<lparr>ee_value := v\<rparr> in e'\<lparr>ee_raw := render_entry e'\<rparr>)"

text \<open>The characters of a UTF-8 string, each as its bytes.\<close>

definition utf8_len :: "char \<Rightarrow> nat" where
  "utf8_len c = (if byte c < 0x80 then 1 else if byte c < 0xE0 then 2 else if byte c < 0xF0 then 3 else 4)"

function utf8_chars :: "string \<Rightarrow> string list" where
  "utf8_chars [] = []"
| "utf8_chars (c # s) = (c # take (utf8_len c - 1) s) # utf8_chars (drop (utf8_len c - 1) s)"
  by pat_completeness auto
termination
  by (relation "measure length") auto

definition mask_value :: "string \<Rightarrow> string" where
  "mask_value value =
     (let v = utf8_chars (trim value); n = length v; dots = [CHR 0xE2, CHR 0x80, CHR 0xA6];
          bullet = [CHR 0xE2, CHR 0x80, CHR 0xA2]
      in if 12 \<le> n then concat (take 4 v) @ dots @ concat (drop (n - 2) v)
         else if 8 \<le> n then concat (take 2 v) @ dots
         else concat (replicate 4 bullet))"

definition entry_masked :: "env_entry \<Rightarrow> string" where
  "entry_masked e = mask_value (ee_value e)"

section \<open>Parsing\<close>

definition parse_tail_comment :: "string \<Rightarrow> string + string option" where
  "parse_tail_comment tail =
     (if tail = [] then Inr None
      else if starts_with ''#'' tail then Inr (Some tail)
      else Inl ''unexpected content after closing quote'')"

fun find_closing_double :: "bool \<Rightarrow> string \<Rightarrow> nat option" where
  "find_closing_double escaped [] = None"
| "find_closing_double escaped (c # s) =
     (if escaped then map_option Suc (find_closing_double False s)
      else if c = chr_backslash then map_option Suc (find_closing_double True s)
      else if c = chr_quote then Some 0
      else map_option Suc (find_closing_double False s))"

text \<open>The first hash at the start or after an ASCII white-space byte.\<close>

fun find_inline_hash :: "bool \<Rightarrow> string \<Rightarrow> nat option" where
  "find_inline_hash after_ws [] = None"
| "find_inline_hash after_ws (c # s) =
     (if c = CHR ''#'' \<and> after_ws then Some 0
      else map_option Suc (find_inline_hash (is_ascii_whitespace c) s))"

definition parse_value :: "string \<Rightarrow> string + (string \<times> quoting \<times> string option)" where
  "parse_value value_trimmed =
     (case strip_prefix [chr_apos] value_trimmed of
        Some rest \<Rightarrow>
          (case find_byte (\<lambda>c. c = chr_apos) rest of
             None \<Rightarrow> Inl ''unterminated single quote''
           | Some close \<Rightarrow>
               (case parse_tail_comment (trim (drop (close + 1) rest)) of
                  Inl e \<Rightarrow> Inl e
                | Inr comment \<Rightarrow> Inr (take close rest, Single, comment)))
      | None \<Rightarrow>
        (case strip_prefix [chr_quote] value_trimmed of
           Some rest \<Rightarrow>
             (case find_closing_double False rest of
                None \<Rightarrow> Inl ''unterminated double quote''
              | Some close \<Rightarrow>
                  (case parse_tail_comment (trim (drop (close + 1) rest)) of
                     Inl e \<Rightarrow> Inl e
                   | Inr comment \<Rightarrow> Inr (decode_double (take close rest), Double, comment)))
         | None \<Rightarrow>
             (case find_inline_hash True value_trimmed of
                None \<Rightarrow> Inr (trim value_trimmed, Bare, None)
              | Some i \<Rightarrow>
                  Inr (trim (take i value_trimmed), Bare, Some (trim_end (drop i value_trimmed))))))"

definition parse_entry :: "string \<Rightarrow> nat \<Rightarrow> string + env_entry" where
  "parse_entry line line_no =
     (let trimmed = trim_start line;
          (export, rest) = (case strip_prefix ''export '' trimmed of
                              Some r \<Rightarrow> (True, trim_start r) | None \<Rightarrow> (False, trimmed))
      in case split_once CHR ''='' rest of
           None \<Rightarrow> Inl (''no '' @ quoted ''='' @ '' found'')
         | Some (earlier, value_part) \<Rightarrow>
             let key = trim_end earlier in
             if \<not> valid_key key then Inl (quoted key @ '' is not a valid variable name'')
             else (case parse_value (trim_start value_part) of
                     Inl e \<Rightarrow> Inl e
                   | Inr (v, q, comment) \<Rightarrow>
                       Inr \<lparr>ee_key = key, ee_value = v, ee_quoting = q, ee_export = export,
                            ee_inline_comment = comment, ee_raw = line, ee_line = line_no\<rparr>))"

definition parse_line :: "string \<Rightarrow> nat \<Rightarrow> env_line" where
  "parse_line line line_no =
     (let trimmed = trim line in
      if trimmed = [] then Blank line
      else if starts_with ''#'' trimmed then Comment line
      else (case parse_entry line line_no of
              Inr e \<Rightarrow> Entry e
            | Inl reason \<Rightarrow> Malformed line line_no reason))"

fun count_crlf :: "string \<Rightarrow> nat" where
  "count_crlf (a # b # s) =
     (if a = chr_cr \<and> b = chr_lf then Suc (count_crlf s) else count_crlf (b # s))"
| "count_crlf _ = 0"

definition detect_newline :: "string \<Rightarrow> newline" where
  "detect_newline content =
     (if 0 < count_crlf content \<and> count_list content chr_lf \<le> count_crlf content * 2 then CrLf else Lf)"

definition strip_cr :: "string \<Rightarrow> string" where
  "strip_cr s = (case strip_suffix [chr_cr] s of Some r \<Rightarrow> r | None \<Rightarrow> s)"

definition fragments :: "string \<Rightarrow> string list" where
  "fragments content =
     (let fs = split_on chr_lf content in
      if (content = [] \<or> ends_with [chr_lf] content) \<and> last fs = [] then butlast fs else fs)"

fun parse_lines :: "nat \<Rightarrow> string list \<Rightarrow> env_line list" where
  "parse_lines n [] = []"
| "parse_lines n (f # fs) = parse_line (strip_cr f) n # parse_lines (n + 1) fs"

definition document_parse :: "string \<Rightarrow> env_document" where
  "document_parse content =
     \<lparr>ed_lines = parse_lines 1 (fragments content), ed_newline = detect_newline content,
      ed_trailing_newline = (content = [] \<or> ends_with [chr_lf] content)\<rparr>"

section \<open>Rendering and queries\<close>

fun line_raw :: "env_line \<Rightarrow> string" where
  "line_raw (Blank r) = r"
| "line_raw (Comment r) = r"
| "line_raw (Entry e) = ee_raw e"
| "line_raw (Malformed r _ _) = r"

definition document_render :: "env_document \<Rightarrow> string" where
  "document_render d =
     (let nl = newline_str (ed_newline d) in
      join nl (map line_raw (ed_lines d))
      @ (if ed_trailing_newline d \<and> ed_lines d \<noteq> [] then nl else []))"

fun line_entry :: "env_line \<Rightarrow> env_entry option" where
  "line_entry (Entry e) = Some e"
| "line_entry _ = None"

definition entries :: "env_document \<Rightarrow> env_entry list" where
  "entries d = List.map_filter line_entry (ed_lines d)"

definition last_option :: "'a list \<Rightarrow> 'a option" where
  "last_option xs = (if xs = [] then None else Some (last xs))"

definition document_get :: "string \<Rightarrow> env_document \<Rightarrow> env_entry option" where
  "document_get key d = last_option (filter (\<lambda>e. ee_key e = key) (entries d))"

fun is_key_line :: "string \<Rightarrow> env_line \<Rightarrow> bool" where
  "is_key_line key (Entry e) = (ee_key e = key)"
| "is_key_line key _ = False"

section \<open>Edits\<close>

fun set_line :: "string \<Rightarrow> string \<Rightarrow> env_line \<Rightarrow> env_line" where
  "set_line key v (Entry e) = (if ee_key e = key then Entry (set_value v e) else Entry e)"
| "set_line key v l = l"

definition document_set :: "string \<Rightarrow> string \<Rightarrow> env_document \<Rightarrow> env_document" where
  "document_set key v d =
     d\<lparr>ed_lines := map (set_line key v) (ed_lines d)
        @ (if list_ex (is_key_line key) (ed_lines d) then [] else [Entry (entry_new key v)])\<rparr>"

fun set_each :: "string \<Rightarrow> string list \<Rightarrow> nat \<Rightarrow> env_line list \<Rightarrow> env_line list" where
  "set_each key vs i [] = []"
| "set_each key vs i (l # ls) =
     (if is_key_line key l
      then set_line key (if i < length vs then vs ! i else vs ! (length vs - 1)) l # set_each key vs (i + 1) ls
      else l # set_each key vs i ls)"

definition set_each_occurrence :: "string \<Rightarrow> string list \<Rightarrow> env_document \<Rightarrow> env_document" where
  "set_each_occurrence key vs d =
     (if vs = [] then d else d\<lparr>ed_lines := set_each key vs 0 (ed_lines d)\<rparr>)"

definition document_remove :: "string \<Rightarrow> env_document \<Rightarrow> bool \<times> env_document" where
  "document_remove key d =
     (let ls = filter (\<lambda>l. \<not> is_key_line key l) (ed_lines d)
      in (length ls \<noteq> length (ed_lines d), d\<lparr>ed_lines := ls\<rparr>))"

fun is_marker :: "env_line \<Rightarrow> bool" where
  "is_marker (Comment c) = contains_str GATEWAY_MARKER_TAG c"
| "is_marker _ = False"

definition marker_text :: "string \<Rightarrow> string" where
  "marker_text comment = (if starts_with ''#'' (trim_start comment) then comment else ''# '' @ comment)"

text \<open>
  The marker is placed above the first occurrence: it is compared with the line before it, if any.
  None of the whole is the \<open>expect\<close> of the code.
\<close>

fun place_marker :: "string \<Rightarrow> string \<Rightarrow> env_line list \<Rightarrow> env_line list option" where
  "place_marker key rendered [] = None"
| "place_marker key rendered (l # ls) =
     (if is_key_line key l then Some (Comment rendered # l # ls)
      else (case ls of
              k # rest \<Rightarrow>
                if is_key_line key k then
                  Some (case l of
                          Comment existing \<Rightarrow>
                            if trim existing = trim rendered then l # k # rest
                            else if contains_str GATEWAY_MARKER_TAG existing
                            then Comment rendered # k # rest
                            else l # Comment rendered # k # rest
                        | _ \<Rightarrow> l # Comment rendered # k # rest)
                else map_option ((#) l) (place_marker key rendered ls)
            | [] \<Rightarrow> None))"

definition set_with_comment :: "string \<Rightarrow> string \<Rightarrow> string \<Rightarrow> env_document \<Rightarrow> env_document option" where
  "set_with_comment key v comment d =
     (let d' = document_set key v d in
      map_option (\<lambda>ls. d'\<lparr>ed_lines := ls\<rparr>) (place_marker key (marker_text comment) (ed_lines d')))"

text \<open>
  \<open>remove_with_comment\<close> removes the first occurrence and a marker above it until no
  occurrence is left; \<open>earlier\<close> holds the lines before the next one, last first.
\<close>

fun remove_marked :: "string \<Rightarrow> env_line list \<Rightarrow> env_line list \<Rightarrow> env_line list" where
  "remove_marked key earlier [] = rev earlier"
| "remove_marked key earlier (l # ls) =
     (if is_key_line key l then
        (case earlier of
           m # ms \<Rightarrow> if is_marker m then remove_marked key ms ls else remove_marked key earlier ls
         | [] \<Rightarrow> remove_marked key [] ls)
      else remove_marked key (l # earlier) ls)"

definition remove_with_comment :: "string \<Rightarrow> env_document \<Rightarrow> bool \<times> env_document" where
  "remove_with_comment key d =
     (list_ex (is_key_line key) (ed_lines d), d\<lparr>ed_lines := remove_marked key [] (ed_lines d)\<rparr>)"

fun drop_marker :: "string \<Rightarrow> env_line list \<Rightarrow> (bool \<times> env_line list)" where
  "drop_marker key [] = (False, [])"
| "drop_marker key (l # ls) =
     (if is_key_line key l then (False, l # ls)
      else (case ls of
              k # _ \<Rightarrow>
                if is_key_line key k then (if is_marker l then (True, ls) else (False, l # ls))
                else (case drop_marker key ls of (b, ls') \<Rightarrow> (b, l # ls'))
            | [] \<Rightarrow> (False, [l])))"

definition remove_marker_above :: "string \<Rightarrow> env_document \<Rightarrow> bool \<times> env_document" where
  "remove_marker_above key d =
     (case drop_marker key (ed_lines d) of (b, ls) \<Rightarrow> (b, d\<lparr>ed_lines := ls\<rparr>))"

fun marked_keys :: "env_line option \<Rightarrow> string list \<Rightarrow> env_line list \<Rightarrow> string list" where
  "marked_keys prev out [] = out"
| "marked_keys prev out (l # ls) =
     marked_keys (Some l)
       (case (l, prev) of
          (Entry e, Some p) \<Rightarrow> if ee_key e \<notin> set out \<and> is_marker p then out @ [ee_key e] else out
        | _ \<Rightarrow> out) ls"

definition keys_with_gateway_marker :: "env_document \<Rightarrow> string list" where
  "keys_with_gateway_marker d = marked_keys None [] (ed_lines d)"

fun malformed_problem :: "env_line \<Rightarrow> env_problem option" where
  "malformed_problem (Malformed r n why) = Some \<lparr>ep_line = n, ep_kind = MalformedLine, ep_detail = why\<rparr>"
| "malformed_problem _ = None"

fun duplicate_problems :: "(string \<times> nat) list \<Rightarrow> env_entry list \<Rightarrow> env_problem list" where
  "duplicate_problems seen [] = []"
| "duplicate_problems seen (e # es) =
     (case map_of seen (ee_key e) of
        Some first \<Rightarrow>
          \<lparr>ep_line = ee_line e, ep_kind = DuplicateKey,
           ep_detail = quoted (ee_key e) @ '' is also defined on line '' @ dec_of_nat first
             @ ''; the later value usually wins''\<rparr> # duplicate_problems seen es
      | None \<Rightarrow> duplicate_problems (put_assoc (ee_key e) (ee_line e) seen) es)"

definition document_problems :: "env_document \<Rightarrow> env_problem list" where
  "document_problems d =
     List.map_filter malformed_problem (ed_lines d) @ duplicate_problems [] (entries d)"

end
