(* ===== verification/KeyedStore.thy ===== *)
theory KeyedStore
  imports Base
begin

text \<open>
  The contract of a store addressed by key: the .env document, the settings table and the hash
  maps of the program promise the two laws of a lookup after a write, and what a caller that
  writes several keys relies on follows once for all of them.
\<close>

locale keyed_store =
  fixes get :: "'k \<Rightarrow> 'd \<Rightarrow> 'v option"
    and put :: "'k \<Rightarrow> 'v \<Rightarrow> 'd \<Rightarrow> 'd"
    and valid :: "'k \<Rightarrow> bool"
  assumes get_put_same: "valid k \<Longrightarrow> get k (put k v d) = Some v"
    and get_put_other: "k' \<noteq> k \<Longrightarrow> get k' (put k v d) = get k' d"
begin

lemma get_put: "valid k \<Longrightarrow> get k' (put k v d) = (if k' = k then Some v else get k' d)"
  by (simp add: get_put_same get_put_other)

text \<open>Writing a list of keys in order: the last write of a key is read back.\<close>

lemma get_fold_put:
  "list_all (\<lambda>p. valid (fst p)) kvs \<Longrightarrow>
     get k (fold (\<lambda>p. put (fst p) (snd p)) kvs d)
       = (case map_of (rev kvs) k of Some v \<Rightarrow> Some v | None \<Rightarrow> get k d)"
proof (induction kvs arbitrary: d)
  case (Cons p kvs)
  obtain a v where p: "p = (a, v)" by fastforce
  with Cons.prems have va: "valid a" "list_all (\<lambda>p. valid (fst p)) kvs" by auto
  show ?case
    using Cons.IH [OF va(2)] get_put [OF va(1)]
    by (auto simp: p map_add_def split: option.splits)
qed simp

lemma put_put_read: "valid k \<Longrightarrow> get k' (put k w (put k v d)) = get k' (put k w d)"
  by (simp add: get_put)

end

interpretation assoc: keyed_store "\<lambda>k m. map_of m k" put_assoc "\<lambda>_. True"
  by unfold_locales auto

end
