(* ===== verification/EnvProps.thy ===== *)
theory EnvProps
  imports EnvFile KeyedStore Strings
begin

text \<open>
  What the .env document guarantees: an unmodified file with uniform line endings renders back
  byte for byte; whatever value is stored under a key is the value the rendered file parses back
  to, on one line, so no value can add a line; the edits obey the laws of a keyed document.
\<close>

section \<open>White space at the edges\<close>

lemma ws_len_append_ascii:
  "s \<noteq> [] \<Longrightarrow> byte c < 0x80 \<Longrightarrow> ws_len s = 0 \<Longrightarrow> ws_len (s @ c # t) = 0"
  by (cases s; cases "tl s"; cases "tl (tl s)")
    (auto simp: ws_len.simps(2) ws2_def ws3_def split: if_splits list.splits)

lemma ws_len_rev_solid_end: "solid c \<Longrightarrow> ws_len_rev (t @ [c]) \<le> length t"
  by (cases t; cases "tl t"; cases "tl (tl t)")
    (auto simp: ws_len_rev.simps(2) ws2_def ws3_def solid_def)

lemma trim_rev_solid_end:
  assumes "solid c"
  shows "\<exists>u. trim_rev (t @ [c]) = u @ [c]"
proof (induction "length t" arbitrary: t rule: less_induct)
  case less
  show ?case
  proof (cases "ws_len_rev (t @ [c])")
    case 0
    then show ?thesis by auto
  next
    case (Suc n)
    with ws_len_rev_solid_end [OF assms, of t] have n: "n < length t" by simp
    have "length (drop (Suc n) t) < length t" using n by simp
    from less [OF this] obtain u where "trim_rev (drop (Suc n) t @ [c]) = u @ [c]" by blast
    then show ?thesis using trim_rev_step [OF Suc] n by auto
  qed
qed

lemma trim_solid_start:
  assumes "solid c"
  shows "\<exists>u. trim (c # s) = c # u"
proof -
  have "trim_start (c # s) = c # s" using assms by simp
  moreover obtain u where "trim_rev (rev s @ [c]) = u @ [c]"
    using trim_rev_solid_end [OF assms, of "rev s"] by blast
  ultimately have "trim (c # s) = c # rev u" by (simp add: trim_def trim_end_def)
  then show ?thesis by blast
qed

lemma trim_blank: "blank w \<Longrightarrow> trim (w @ s) = trim s"
  by (simp add: trim_def trim_start_blank)

lemma trim_end_blank: "blank w \<Longrightarrow> trim_end (s @ w) = trim_end s"
proof -
  assume "blank w"
  then have "blank (rev w)" by (auto simp: blank_def list_all_iff)
  then show ?thesis by (simp add: trim_end_def trim_rev_blank)
qed

lemma blank_space [simp]: "blank '' ''"
  by code_simp

section \<open>Quoting\<close>

lemma decode_plain: "c \<noteq> chr_backslash \<Longrightarrow> decode_double (c # s) = c # decode_double s"
  by (cases s) auto

lemma decode_encode: "decode_double (encode_double v) = v"
proof (induction v)
  case (Cons c v)
  then show ?case
    by (cases "encode_char c = [c]")
      (auto simp: encode_double_def encode_char_def decode_plain split: if_splits)
qed (simp add: encode_double_def)

lemma closing_encoded:
  "find_closing_double False (encode_double v @ chr_quote # t) = Some (length (encode_double v))"
  by (induction v) (auto simp: encode_double_def encode_char_def)

lemma find_byte_first: "\<not> P c \<or> P c \<Longrightarrow> (\<And>x. x \<in> set s \<Longrightarrow> \<not> P x) \<Longrightarrow> P d \<Longrightarrow> find_byte P (s @ d # t) = Some (length s)"
  by (induction s) auto

lemma encode_no_newline: "chr_lf \<notin> set (encode_double v) \<and> chr_cr \<notin> set (encode_double v)"
  by (auto simp: encode_double_def encode_char_def)

lemma some_suffix_here: "\<not> some_suffix P s \<Longrightarrow> \<not> P s"
  by (cases s) auto

lemma no_control_byte: "\<not> has_control v \<Longrightarrow> c \<in> set v \<Longrightarrow> 0x20 \<le> byte c"
  unfolding has_control_def by (induction v) auto

lemma no_whitespace_start: "\<not> has_whitespace v \<Longrightarrow> ws_len v = 0"
  unfolding has_whitespace_def using some_suffix_here by blast

definition comment_ok :: "string option \<Rightarrow> bool" where
  "comment_ok c = (case c of None \<Rightarrow> True
     | Some t \<Rightarrow> starts_with ''#'' t \<and> trim t = t \<and> chr_lf \<notin> set t)"

definition comment_tail :: "string option \<Rightarrow> string" where
  "comment_tail c = (case c of None \<Rightarrow> [] | Some t \<Rightarrow> '' '' @ t)"

lemma comment_tail_parse: "comment_ok c \<Longrightarrow> parse_tail_comment (trim (comment_tail c)) = Inr c"
  by (auto simp: comment_ok_def comment_tail_def parse_tail_comment_def starts_with_def
      trim_blank [of "'' ''", simplified] split: option.splits)

lemma hash_after: "CHR ''#'' \<notin> set v \<Longrightarrow> v \<noteq> [] \<Longrightarrow>
   find_inline_hash b (v @ CHR '' '' # CHR ''#'' # t) = Some (length v + 1)"
proof (induction v arbitrary: b)
  case (Cons c v)
  have w: "is_ascii_whitespace CHR '' ''" by code_simp
  show ?case
  proof (cases v)
    case Nil
    with Cons.prems w show ?thesis by auto
  next
    case (Cons d u)
    with Cons.IH Cons.prems show ?thesis by auto
  qed
qed simp

lemma no_hash: "CHR ''#'' \<notin> set v \<Longrightarrow> find_inline_hash b v = None"
  by (induction v arbitrary: b) auto

lemma solid_hash [simp]: "solid CHR ''#''" and solid_quotes [simp]: "solid chr_apos" "solid chr_quote"
  by code_simp+

lemma comment_trim_end:
  assumes "comment_ok (Some t)"
  shows "trim_end t = t"
proof -
  from assms obtain u where t: "t = CHR ''#'' # u" by (cases t) (auto simp: comment_ok_def starts_with_def)
  then have "trim_start t = t" by simp
  with assms show ?thesis by (simp add: comment_ok_def trim_def)
qed

lemma parse_rendered_value:
  assumes "comment_ok c"
  shows "\<exists>q'. parse_value (render_value q v @ comment_tail c) = Inr (v, q', c)"
proof -
  consider "q = Single \<and> single_quotable v" | "\<not> (q = Single \<and> single_quotable v)" "q = Bare \<and> bare_writable v"
    | "\<not> (q = Single \<and> single_quotable v)" "\<not> (q = Bare \<and> bare_writable v)" by blast
  then show ?thesis
  proof cases
    case 1
    then have "find_byte (\<lambda>x. x = chr_apos) (v @ chr_apos # comment_tail c) = Some (length v)"
      by (intro find_byte_first) (auto simp: single_quotable_def)
    with 1 comment_tail_parse [OF assms] show ?thesis
      by (simp add: render_value_def parse_value_def strip_prefix_def starts_with_def)
  next
    case 3
    have "render_value q v = [chr_quote] @ encode_double v @ [chr_quote]"
      by (simp only: render_value_def 3 if_False)
    with closing_encoded [of v "comment_tail c"] comment_tail_parse [OF assms] decode_encode [of v]
    show ?thesis
      by (simp add: parse_value_def strip_prefix_def starts_with_def)
  next
    case 2
    then have b: "v \<noteq> []" "\<not> starts_with [chr_apos] v" "\<not> has_whitespace v" "CHR ''#'' \<notin> set v"
      "chr_quote \<notin> set v" "trim v = v" by (auto simp: bare_writable_def)
    have e: "trim_end v = v" using b(6) no_whitespace_start [OF b(3)] by (simp add: trim_def)
    have s1: "strip_prefix [chr_apos] (v @ comment_tail c) = None"
      using b(1,2) by (cases v) (auto simp: strip_prefix_def starts_with_def)
    have s2: "strip_prefix [chr_quote] (v @ comment_tail c) = None"
      using b(1,5) by (cases v) (auto simp: strip_prefix_def starts_with_def)
    show ?thesis
    proof (cases c)
      case None
      with s1 s2 b(6) no_hash [OF b(4), of True] 2 show ?thesis
        by (simp add: render_value_def parse_value_def comment_tail_def)
    next
      case (Some t)
      with assms obtain u where t: "t = CHR ''#'' # u"
        by (cases t) (auto simp: comment_ok_def starts_with_def)
      have "ws_len (v @ '' '') = 0"
        using ws_len_append_ascii [of v "CHR '' ''" "[]"] b(1) no_whitespace_start [OF b(3)]
        by (simp add: byte_def)
      then have "trim (v @ '' '') = v"
        using trim_end_blank [of "'' ''" v] e by (simp add: trim_def)
      with s1 s2 2 Some t hash_after [OF b(4,1), of True u] comment_trim_end [of t] assms show ?thesis
        by (simp add: render_value_def parse_value_def comment_tail_def)
    qed
  qed
qed

section \<open>One entry\<close>

lemma key_byte_facts:
  assumes "key_byte c"
  shows "solid c" and "c \<noteq> CHR ''=''" and "c \<noteq> CHR ''#''" and "c \<noteq> CHR '' ''" and "c \<noteq> chr_lf"
proof -
  show "solid c" using assms by (auto simp: key_byte_def byte_defs)
  have "\<not> key_byte CHR ''=''" "\<not> key_byte CHR ''#''" "\<not> key_byte CHR '' ''" "\<not> key_byte chr_lf"
    by code_simp+
  with assms show "c \<noteq> CHR ''=''" "c \<noteq> CHR ''#''" "c \<noteq> CHR '' ''" "c \<noteq> chr_lf" by metis+
qed

lemma valid_key_facts:
  assumes "valid_key k"
  shows "k \<noteq> []" and "solid (hd k)" and "solid (last k)" and "CHR ''='' \<notin> set k"
    and "hd k \<noteq> CHR ''#''" and "chr_lf \<notin> set k" and "list_all key_byte k"
proof -
  have all: "\<And>c. c \<in> set k \<Longrightarrow> key_byte c" and ne: "k \<noteq> []"
    using assms by (auto simp: valid_key_def list_all_iff)
  show "k \<noteq> []" by (rule ne)
  show "list_all key_byte k" using all by (auto simp: list_all_iff)
  from all [of "hd k"] all [of "last k"] ne
  show "solid (hd k)" "solid (last k)" "hd k \<noteq> CHR ''#''" using key_byte_facts by auto
  show "CHR ''='' \<notin> set k" "chr_lf \<notin> set k" using all key_byte_facts(2,5) by blast+
qed

lemma not_export_prefix:
  assumes "valid_key k"
  shows "strip_prefix ''export '' (k @ CHR ''='' # s) = None"
proof (rule ccontr)
  assume "strip_prefix ''export '' (k @ CHR ''='' # s) \<noteq> None"
  then obtain r where e: "k @ CHR ''='' # s = ''export '' @ r"
    by (metis not_None_eq strip_prefix_Some)
  have k: "dropWhile key_byte (k @ CHR ''='' # s) = CHR ''='' # s"
    using valid_key_facts(7) [OF assms] key_byte_facts(2)
    by (subst dropWhile_append2) (auto simp: list_all_iff)
  have "key_byte CHR ''e''" "key_byte CHR ''x''" "key_byte CHR ''p''" "key_byte CHR ''o''"
    "key_byte CHR ''r''" "key_byte CHR ''t''" "\<not> key_byte CHR '' ''" by code_simp+
  then have "dropWhile key_byte (''export '' @ r) = CHR '' '' # r" by simp
  with k show False unfolding e by simp
qed

definition entry_ok :: "env_entry \<Rightarrow> bool" where
  "entry_ok e \<longleftrightarrow> valid_key (ee_key e) \<and> comment_ok (ee_inline_comment e)"

lemma rendered_value_start:
  "ws_len (render_value q v @ comment_tail c) = 0"
proof -
  consider "q = Single \<and> single_quotable v" | "\<not> (q = Single \<and> single_quotable v)" "q = Bare \<and> bare_writable v"
    | "\<not> (q = Single \<and> single_quotable v)" "\<not> (q = Bare \<and> bare_writable v)" by blast
  then show ?thesis
  proof cases
    case 2
    then have b: "v \<noteq> []" "ws_len v = 0" by (auto simp: bare_writable_def intro: no_whitespace_start)
    have "byte CHR '' '' < 0x80" by (simp add: byte_def)
    with ws_len_append_ascii [OF b(1) _ b(2), of "CHR '' ''"] b 2 show ?thesis
      by (auto simp: render_value_def comment_tail_def split: option.splits)
  next
    case 1
    then show ?thesis by (simp add: render_value_def)
  next
    case 3
    then show ?thesis by (simp only: render_value_def if_False) simp
  qed
qed

lemma render_entry_shape:
  "render_entry e = (if ee_export e then ''export '' else [])
     @ ee_key e @ CHR ''='' # (render_value (ee_quoting e) (ee_value e) @ comment_tail (ee_inline_comment e))"
  by (simp add: render_entry_def comment_tail_def)

lemma trim_end_key: "valid_key k \<Longrightarrow> trim_end k = k"
  using valid_key_facts [of k] by (cases k rule: rev_cases) (simp_all add: trim_end_def)

lemma trim_start_key: "valid_key k \<Longrightarrow> trim_start (k @ s) = k @ s"
  using valid_key_facts [of k] by (cases k) simp_all

lemma parse_rendered_entry:
  assumes "entry_ok e"
  shows "\<exists>q. parse_entry (render_entry e) n
           = Inr (e\<lparr>ee_quoting := q, ee_raw := render_entry e, ee_line := n\<rparr>)"
proof -
  have k: "valid_key (ee_key e)" and c: "comment_ok (ee_inline_comment e)"
    using assms by (auto simp: entry_ok_def)
  let ?v = "render_value (ee_quoting e) (ee_value e) @ comment_tail (ee_inline_comment e)"
  let ?r = "ee_key e @ CHR ''='' # ?v"
  obtain q where pv: "parse_value ?v = Inr (ee_value e, q, ee_inline_comment e)"
    using parse_rendered_value [OF c] by blast
  have so: "split_once CHR ''='' ?r = Some (ee_key e, ?v)"
    by (rule split_once_first) (rule valid_key_facts(4) [OF k])
  have ts: "trim_start ?r = ?r" by (rule trim_start_key [OF k])
  have tv: "trim_start ?v = ?v" by (simp add: rendered_value_start)
  have ex: "trim_start (''export '' @ ?r) = ''export '' @ ?r"
  proof -
    have "solid CHR ''e''" by code_simp
    then show ?thesis by simp
  qed
  have head: "(let trimmed = trim_start (render_entry e) in
      case strip_prefix ''export '' trimmed of Some r \<Rightarrow> (True, trim_start r) | None \<Rightarrow> (False, trimmed))
      = (ee_export e, ?r)"
  proof (cases "ee_export e")
    case True
    then have "render_entry e = ''export '' @ ?r" by (simp add: render_entry_shape)
    then show ?thesis using True ex ts by (simp only: Let_def strip_prefix_append option.case)
  next
    case False
    then have "render_entry e = ?r" by (simp add: render_entry_shape)
    then show ?thesis using False ts not_export_prefix [OF k] by (simp only: Let_def option.case)
  qed
  have "parse_entry (render_entry e) n = Inr \<lparr>ee_key = ee_key e, ee_value = ee_value e, ee_quoting = q,
      ee_export = ee_export e, ee_inline_comment = ee_inline_comment e, ee_raw = render_entry e, ee_line = n\<rparr>"
    using head so pv tv trim_end_key [OF k] k
    by (simp add: parse_entry_def Let_def)
  then show ?thesis by (intro exI [of _ q]) simp
qed

lemma rendered_value_no_newline: "chr_lf \<notin> set (render_value q v)"
proof -
  have "byte chr_lf < 0x20" by (simp add: byte_def)
  then have "\<not> has_control v \<Longrightarrow> chr_lf \<notin> set v" using no_control_byte [of v chr_lf] by fastforce
  then show ?thesis
    using encode_no_newline [of v] by (auto simp: render_value_def single_quotable_def bare_writable_def)
qed

lemma render_entry_no_newline: "entry_ok e \<Longrightarrow> chr_lf \<notin> set (render_entry e)"
  using rendered_value_no_newline [of "ee_quoting e" "ee_value e"] valid_key_facts(6) [of "ee_key e"]
  by (auto simp: render_entry_shape entry_ok_def comment_ok_def comment_tail_def split: option.splits)

text \<open>
  C21. Whatever value is written, the rendered line is one line and reads back as the same key,
  value, export prefix and comment: quotes, backslashes, hashes, blanks, control characters and
  line breaks in a value never change what the entry means or add a line to the file.
\<close>

theorem rendered_entry_reads_back:
  assumes "entry_ok e"
  shows "chr_lf \<notin> set (render_entry e) \<and>
    (\<exists>e'. parse_entry (render_entry e) n = Inr e' \<and> ee_key e' = ee_key e \<and> ee_value e' = ee_value e
       \<and> ee_export e' = ee_export e \<and> ee_inline_comment e' = ee_inline_comment e)"
  using parse_rendered_entry [OF assms, of n] render_entry_no_newline [OF assms] by auto

lemma rendered_entry_reads_back_witness:
  "\<exists>e'. parse_entry (render_entry (entry_new ''KEY'' (''a #'' @ [chr_lf, chr_quote] @ ''EVIL=1''))) 1 = Inr e'
     \<and> ee_key e' = ''KEY'' \<and> ee_value e' = ''a #'' @ [chr_lf, chr_quote] @ ''EVIL=1''"
proof -
  let ?e = "entry_new ''KEY'' (''a #'' @ [chr_lf, chr_quote] @ ''EVIL=1'')"
  have ok: "entry_ok ?e" by code_simp
  have f: "ee_key ?e = ''KEY''" "ee_value ?e = ''a #'' @ [chr_lf, chr_quote] @ ''EVIL=1''"
    by (simp_all add: entry_new_def Let_def)
  from rendered_entry_reads_back [OF ok, of 1] f show ?thesis by metis
qed

section \<open>The document as lines\<close>

text \<open>A line without its number and its recorded quoting style, which rendering may change.\<close>

fun norm_line :: "env_line \<Rightarrow> env_line" where
  "norm_line (Entry e) = Entry (e\<lparr>ee_quoting := Bare, ee_line := 0\<rparr>)"
| "norm_line (Malformed r n why) = Malformed r 0 why"
| "norm_line l = l"

definition stable_line :: "env_line \<Rightarrow> bool" where
  "stable_line l \<longleftrightarrow> chr_lf \<notin> set (line_raw l) \<and> strip_cr (line_raw l) = line_raw l
     \<and> (\<forall>n. norm_line (parse_line (line_raw l) n) = norm_line l)
     \<and> (case line_entry l of None \<Rightarrow> True | Some e \<Rightarrow> entry_ok e)"

definition document_ok :: "env_document \<Rightarrow> bool" where
  "document_ok d \<longleftrightarrow> list_all stable_line (ed_lines d)
     \<and> (ed_trailing_newline d \<or> (ed_lines d \<noteq> [] \<and> line_raw (last (ed_lines d)) \<noteq> []))"

lemma strip_cr_append [simp]: "strip_cr (s @ [chr_cr]) = s"
  by (simp add: strip_cr_def strip_suffix_def ends_with_def)

lemma strip_cr_other: "s = [] \<or> last s \<noteq> chr_cr \<Longrightarrow> strip_cr s = s"
  by (cases s rule: rev_cases) (auto simp: strip_cr_def strip_suffix_def ends_with_def)

lemma ends_with_one: "ends_with [c] s \<longleftrightarrow> s \<noteq> [] \<and> last s = c"
  by (cases s rule: rev_cases) (auto simp: ends_with_def)

lemma parse_line_raw [simp]: "line_raw (parse_line s n) = s"
  by (auto simp: parse_line_def parse_entry_def Let_def split: sum.splits option.splits prod.splits)

lemma parse_entry_number:
  "parse_entry s m = (case parse_entry s n of Inl e \<Rightarrow> Inl e | Inr e \<Rightarrow> Inr (e\<lparr>ee_line := m\<rparr>))"
  by (auto simp: parse_entry_def Let_def split: sum.split option.split prod.split)

lemma parse_line_number: "norm_line (parse_line s m) = norm_line (parse_line s n)"
  unfolding parse_line_def Let_def
  by (subst parse_entry_number [of s m n]) (auto split: sum.split)

lemma parse_rendered_line:
  assumes "entry_ok e"
  shows "norm_line (parse_line (render_entry e) n)
           = norm_line (Entry (e\<lparr>ee_raw := render_entry e\<rparr>))"
proof -
  have k: "valid_key (ee_key e)" using assms by (simp add: entry_ok_def)
  obtain c s where cs: "render_entry e = c # s" and c: "solid c" "c \<noteq> CHR ''#''"
  proof (cases "ee_export e")
    case True
    have "solid CHR ''e''" by code_simp
    with True that show thesis by (auto simp: render_entry_shape)
  next
    case False
    obtain a b where "ee_key e = a # b" using valid_key_facts(1) [OF k] by (cases "ee_key e") auto
    with False that valid_key_facts(2,5) [OF k] show thesis by (auto simp: render_entry_shape)
  qed
  obtain u where "trim (render_entry e) = c # u" using trim_solid_start [OF c(1), of s] cs by auto
  then have "parse_line (render_entry e) n = (case parse_entry (render_entry e) n of
      Inr e' \<Rightarrow> Entry e' | Inl reason \<Rightarrow> Malformed (render_entry e) n reason)"
    using c(2) by (simp add: parse_line_def starts_with_def)
  with parse_rendered_entry [OF assms, of n] show ?thesis by auto
qed

lemma render_value_last:
  "render_value q v \<noteq> [] \<and> last (render_value q v) \<noteq> chr_cr"
proof -
  have "byte chr_cr < 0x20" by (simp add: byte_def)
  have "last v \<noteq> chr_cr" if "bare_writable v"
  proof -
    have "0x20 \<le> byte (last v)" using that no_control_byte [of v "last v"] by (simp add: bare_writable_def)
    then show ?thesis by (auto simp: byte_def)
  qed
  moreover have "v \<noteq> []" if "bare_writable v" using that by (simp add: bare_writable_def)
  ultimately show ?thesis by (auto simp: render_value_def)
qed

lemma comment_last: "comment_ok (Some t) \<Longrightarrow> t \<noteq> [] \<and> last t \<noteq> chr_cr"
proof -
  assume ok: "comment_ok (Some t)"
  then have ne: "t \<noteq> []" by (auto simp: comment_ok_def starts_with_def)
  have "ws1 (byte chr_cr)" by code_simp
  then have "trim_end (u @ [chr_cr]) = trim_end u" for u
    using trim_end_blank [of "[chr_cr]" u] by (simp add: blank_def)
  moreover have "length (trim_end u) \<le> length u" for u
  proof -
    have "length (trim_rev w) \<le> length w" for w
    proof (induction w rule: trim_rev.induct)
      case (1 w)
      show ?case
      proof (cases "ws_len_rev w = 0")
        case False
        with 1 have "length (trim_rev (drop (ws_len_rev w) w)) \<le> length (drop (ws_len_rev w) w)" by simp
        with False show ?thesis by (simp add: trim_rev.simps [of w])
      qed simp
    qed
    from this [of "rev u"] show ?thesis by (simp add: trim_end_def)
  qed
  ultimately have "trim_end (u @ [chr_cr]) \<noteq> u @ [chr_cr]" for u
    by (metis length_append_singleton not_less_eq_eq)
  with comment_trim_end [OF ok] ne show ?thesis by (metis append_butlast_last_id)
qed

lemma stable_rendered:
  assumes "entry_ok e"
  shows "stable_line (Entry (e\<lparr>ee_raw := render_entry e\<rparr>))"
proof -
  have "render_entry e \<noteq> []" "last (render_entry e) \<noteq> chr_cr"
    using render_value_last [of "ee_quoting e" "ee_value e"] comment_last assms
    by (auto simp: render_entry_shape comment_tail_def entry_ok_def split: option.splits)
  then have "strip_cr (render_entry e) = render_entry e" by (simp add: strip_cr_other)
  with assms parse_rendered_line [OF assms] render_entry_no_newline [OF assms] show ?thesis
    by (simp add: stable_line_def entry_ok_def)
qed

lemma stable_set_line: "valid_key k \<Longrightarrow> stable_line l \<Longrightarrow> stable_line (set_line k v l)"
proof (cases l)
  case (Entry e)
  assume "valid_key k" "stable_line l"
  then have "entry_ok (e\<lparr>ee_value := v\<rparr>)" using Entry by (simp add: stable_line_def entry_ok_def)
  from stable_rendered [OF this] Entry \<open>stable_line l\<close> show ?thesis by (simp add: set_value_def Let_def)
qed simp_all

lemma stable_new: "valid_key k \<Longrightarrow> stable_line (Entry (entry_new k v))"
  unfolding entry_new_def Let_def by (rule stable_rendered) (simp add: entry_ok_def comment_ok_def)

section \<open>Splitting what was joined\<close>

lemma split_join:
  assumes "chr_lf \<notin> set w"
  shows "list_all (\<lambda>r. chr_lf \<notin> set r) rs \<Longrightarrow> rs \<noteq> [] \<Longrightarrow>
     split_on chr_lf (join (w @ [chr_lf]) rs) = map (\<lambda>r. r @ w) (butlast rs) @ [last rs]"
proof (induction "w @ [chr_lf]" rs rule: join.induct)
  case (2 r)
  then show ?case by (auto simp: list_all_iff intro!: split_by_free)
next
  case (3 r v rs)
  have "join (w @ [chr_lf]) (r # v # rs) = (r @ w) @ chr_lf # join (w @ [chr_lf]) (v # rs)" by simp
  moreover have "list_all (\<lambda>c. \<not> c = chr_lf) (r @ w)" using 3(2) assms by (auto simp: list_all_iff)
  ultimately show ?case using split_by_append [of "\<lambda>c. c = chr_lf" "r @ w" chr_lf] 3 by simp
qed simp

lemma newline_shape: obtains w where "newline_str nl = w @ [chr_lf]" and "w = [] \<or> w = [chr_cr]"
  by (cases nl) auto

text \<open>The lines a rendered document splits into again.\<close>

lemma fragments_render:
  assumes "document_ok d"
  shows "map strip_cr (fragments (document_render d)) = map line_raw (ed_lines d)
       \<and> (ed_trailing_newline d = (document_render d = [] \<or> ends_with [chr_lf] (document_render d)))"
proof (cases "ed_lines d = []")
  case True
  with assms have "ed_trailing_newline d" "document_render d = []"
    by (auto simp: document_ok_def document_render_def)
  with True show ?thesis by (simp add: fragments_def)
next
  case ne: False
  let ?rs = "map line_raw (ed_lines d)"
  have lf: "list_all (\<lambda>r. chr_lf \<notin> set r) ?rs" and st: "\<forall>r \<in> set ?rs. strip_cr r = r"
    using assms by (auto simp: document_ok_def stable_line_def list_all_iff)
  obtain w where nl: "newline_str (ed_newline d) = w @ [chr_lf]" and w: "w = [] \<or> w = [chr_cr]"
    by (rule newline_shape)
  then have wl: "chr_lf \<notin> set w" by auto
  have strip: "strip_cr (r @ w) = r" if "r \<in> set ?rs" for r using w st that by auto
  have strips: "map strip_cr (map (\<lambda>r. r @ w) xs) = xs" if "set xs \<subseteq> set ?rs" for xs
    using strip that by (auto simp: map_idI subset_eq comp_def)
  show ?thesis
  proof (cases "ed_trailing_newline d")
    case True
    with ne have r: "document_render d = join (w @ [chr_lf]) (?rs @ [[]])"
      using join_snoc [of ?rs "w @ [chr_lf]"] by (simp add: document_render_def nl Let_def)
    have sp: "split_on chr_lf (document_render d) = map (\<lambda>r. r @ w) ?rs @ [[]]"
      unfolding r using split_join [OF wl, of "?rs @ [[]]"] lf by simp
    have "document_render d = join (w @ [chr_lf]) ?rs @ w @ [chr_lf]"
      using True ne by (simp add: document_render_def nl Let_def)
    then have e: "ends_with [chr_lf] (document_render d)" by (simp add: ends_with_one)
    with sp strips [of ?rs] True show ?thesis by (simp add: fragments_def)
  next
    case False
    with assms ne have l: "last ?rs \<noteq> []" by (auto simp: document_ok_def last_map)
    have r: "document_render d = join (w @ [chr_lf]) ?rs"
      using False by (simp add: document_render_def nl Let_def)
    have sp: "split_on chr_lf (document_render d) = map (\<lambda>r. r @ w) (butlast ?rs) @ [last ?rs]"
      unfolding r using split_join [OF wl lf] ne by simp
    have "chr_lf \<notin> set (last ?rs)" using lf ne by (metis last_in_set list_all_iff map_is_Nil_conv)
    then have e: "document_render d \<noteq> []" "\<not> ends_with [chr_lf] (document_render d)"
      using join_last [of ?rs "w @ [chr_lf]"] ne l unfolding r ends_with_one
      by (auto simp: list.set_sel dest: last_in_set)
    have "set (butlast ?rs) \<subseteq> set ?rs" by (auto dest: in_set_butlastD)
    note a = strips [OF this]
    have b: "strip_cr (last ?rs) = last ?rs" using st ne by (metis last_in_set map_is_Nil_conv)
    have "map strip_cr (map (\<lambda>r. r @ w) (butlast ?rs) @ [last ?rs]) = butlast ?rs @ [last ?rs]"
      by (simp only: map_append a list.map b)
    also have "\<dots> = ?rs" using ne by (intro append_butlast_last_id) simp
    finally have "map strip_cr (map (\<lambda>r. r @ w) (butlast ?rs) @ [last ?rs]) = ?rs" .
    with sp e False show ?thesis by (simp add: fragments_def)
  qed
qed

lemma parse_lines_norm:
  "map norm_line (parse_lines n fs) = map norm_line (map (\<lambda>r. parse_line r 0) (map strip_cr fs))"
  by (induction n fs rule: parse_lines.induct) (auto intro: parse_line_number)

lemma reparse_lines:
  assumes "document_ok d"
  shows "map norm_line (ed_lines (document_parse (document_render d))) = map norm_line (ed_lines d)"
  using fragments_render [OF assms] assms
  by (simp add: document_parse_def parse_lines_norm document_ok_def stable_line_def list_all_iff)

section \<open>The keyed document\<close>

lemma entries_norm:
  "List.map_filter line_entry (map norm_line ls)
     = map (\<lambda>e. e\<lparr>ee_quoting := Bare, ee_line := 0\<rparr>) (List.map_filter line_entry ls)"
proof (induction ls)
  case (Cons l ls)
  then show ?case by (cases l) (simp_all add: List.map_filter_simps)
qed (simp add: List.map_filter_simps)

definition value_in :: "string \<Rightarrow> env_line list \<Rightarrow> string option" where
  "value_in k ls = map_option ee_value (last_option (filter (\<lambda>e. ee_key e = k) (List.map_filter line_entry ls)))"

lemma document_get_value: "map_option ee_value (document_get k d) = value_in k (ed_lines d)"
  by (simp add: document_get_def value_in_def entries_def)

lemma filter_key_norm:
  "filter (\<lambda>e. ee_key e = k) (map (\<lambda>e. e\<lparr>ee_quoting := Bare, ee_line := 0\<rparr>) es)
     = map (\<lambda>e. e\<lparr>ee_quoting := Bare, ee_line := 0\<rparr>) (filter (\<lambda>e. ee_key e = k) es)"
  by (induction es) auto

lemma value_in_norm: "value_in k (map norm_line ls) = value_in k ls"
  by (simp add: value_in_def entries_norm filter_key_norm last_option_def last_map)

lemma value_in_same_norm: "map norm_line ls = map norm_line ls' \<Longrightarrow> value_in k ls = value_in k ls'"
  by (metis value_in_norm)

lemma value_in_simps [simp]:
  "value_in k [] = None"
  "value_in k (ls @ [l]) = (if is_key_line k l then map_option ee_value (line_entry l) else value_in k ls)"
proof -
  show "value_in k [] = None" by (simp add: value_in_def last_option_def List.map_filter_simps)
  show "value_in k (ls @ [l]) = (if is_key_line k l then map_option ee_value (line_entry l) else value_in k ls)"
    by (cases l) (simp_all add: value_in_def last_option_def List.map_filter_def)
qed

lemma set_line_key: "is_key_line k' (set_line k v l) = is_key_line k' l"
  by (cases l) (auto simp: set_value_def Let_def)

lemma value_in_set:
  "value_in k' (map (set_line k v) ls)
     = (if k' = k then (if list_ex (is_key_line k) ls then Some v else None) else value_in k' ls)"
proof (induction ls rule: rev_induct)
  case (snoc l ls)
  then show ?case
    by (cases l) (auto simp: set_value_def Let_def set_line_key)
qed simp

lemma value_in_document_set:
  "value_in k' (ed_lines (document_set k v d)) = (if k' = k then Some v else value_in k' (ed_lines d))"
  by (auto simp: document_set_def value_in_set entry_new_def Let_def)

interpretation env: keyed_store "\<lambda>k d. map_option ee_value (document_get k d)" document_set "\<lambda>_. True"
  by unfold_locales (simp_all add: document_get_value value_in_document_set)

text \<open>
  C22. The document is a keyed store: after any list of writes, in order, every key reads the
  value of its last write, and every key that was not written reads what it read before.
\<close>

theorem document_writes_read:
  "map_option ee_value (document_get k (fold (\<lambda>p. document_set (fst p) (snd p)) kvs d))
     = (case map_of (rev kvs) k of Some v \<Rightarrow> Some v | None \<Rightarrow> map_option ee_value (document_get k d))"
  by (rule env.get_fold_put) (simp add: list_all_iff)

section \<open>The file after an edit\<close>

lemma trim_rev_stopped: "ws_len_rev (trim_rev s) = 0"
proof (induction s rule: trim_rev.induct)
  case (1 s)
  show ?case
  proof (cases "ws_len_rev s = 0")
    case False
    with 1 show ?thesis by (simp add: trim_rev.simps [of s])
  qed simp
qed

lemma trim_end_idem [simp]: "trim_end (trim_end s) = trim_end s"
  by (simp add: trim_end_def trim_rev_stopped)

lemma set_trim_rev: "set (trim_rev s) \<subseteq> set s"
proof (induction s rule: trim_rev.induct)
  case (1 s)
  show ?case
  proof (cases "ws_len_rev s = 0")
    case False
    then have "set (trim_rev s) = set (trim_rev (drop (ws_len_rev s) s))" by (simp add: trim_rev.simps [of s])
    with 1 [OF False] show ?thesis using set_drop_subset by fastforce
  qed simp
qed

lemma set_trim_start: "set (trim_start s) \<subseteq> set s"
proof (induction s rule: trim_start.induct)
  case (1 s)
  show ?case
  proof (cases "ws_len s = 0")
    case False
    then have "set (trim_start s) = set (trim_start (drop (ws_len s) s))" by (simp add: trim_start.simps [of s])
    with 1 [OF False] show ?thesis using set_drop_subset by fastforce
  qed simp
qed

lemma set_trim_end: "set (trim_end s) \<subseteq> set s"
  using set_trim_rev [of "rev s"] by (simp add: trim_end_def)

lemma trimmed_comment_ok:
  assumes "starts_with ''#'' (trim_end s)" and "chr_lf \<notin> set s"
  shows "comment_ok (Some (trim_end s))"
proof -
  obtain u where u: "trim_end s = CHR ''#'' # u"
    using assms(1) by (cases "trim_end s") (auto simp: starts_with_def)
  then have "trim (trim_end s) = trim_end s" using trim_end_idem [of s] by (simp add: trim_def)
  then show ?thesis using assms set_trim_end [of s] by (auto simp: comment_ok_def)
qed

lemma tail_comment_ok:
  assumes "parse_tail_comment (trim s) = Inr c" and "chr_lf \<notin> set s"
  shows "comment_ok c"
proof (cases c)
  case (Some t)
  with assms(1) have "t = trim_end (trim_start s)" "starts_with ''#'' (trim_end (trim_start s))"
    by (auto simp: parse_tail_comment_def trim_def split: if_splits)
  with trimmed_comment_ok [of "trim_start s"] assms(2) set_trim_start [of s] Some show ?thesis by auto
qed (simp add: comment_ok_def)

lemma find_hash_here: "find_inline_hash b s = Some i \<Longrightarrow> \<exists>u. drop i s = CHR ''#'' # u"
  by (induction b s arbitrary: i rule: find_inline_hash.induct) (auto split: if_splits)

lemma parse_value_comment:
  assumes "parse_value s = Inr (v, q, c)" and "chr_lf \<notin> set s"
  shows "comment_ok c"
proof -
  have d: "chr_lf \<notin> set (drop n t)" if "chr_lf \<notin> set t" for n t
    using that set_drop_subset [of n t] by blast
  consider r where "strip_prefix [chr_apos] s = Some r"
    | r where "strip_prefix [chr_apos] s = None" "strip_prefix [chr_quote] s = Some r"
    | "strip_prefix [chr_apos] s = None" "strip_prefix [chr_quote] s = None"
    by (cases "strip_prefix [chr_apos] s"; cases "strip_prefix [chr_quote] s") auto
  then show ?thesis
  proof cases
    case (1 r)
    then have "chr_lf \<notin> set r" using assms(2) by (auto simp: strip_prefix_Some)
    with 1 assms(1) d show ?thesis
      by (auto simp: parse_value_def split: option.splits sum.splits intro: tail_comment_ok)
  next
    case (2 r)
    then have "chr_lf \<notin> set r" using assms(2) by (auto simp: strip_prefix_Some)
    with 2 assms(1) d show ?thesis
      by (auto simp: parse_value_def split: option.splits sum.splits intro: tail_comment_ok)
  next
    case 3
    show ?thesis
    proof (cases "find_inline_hash True s")
      case None
      with 3 assms(1) show ?thesis by (simp add: parse_value_def comment_ok_def)
    next
      case (Some i)
      obtain u where u: "drop i s = CHR ''#'' # u" using find_hash_here [OF Some] by blast
      obtain w where "trim (CHR ''#'' # u) = CHR ''#'' # w" using trim_solid_start [of "CHR ''#''" u] by auto
      then have "starts_with ''#'' (trim_end (drop i s))" by (simp add: u trim_def starts_with_def)
      from trimmed_comment_ok [OF this] d [OF assms(2), of i] 3 Some assms(1) show ?thesis
        by (simp add: parse_value_def)
    qed
  qed
qed

lemma split_once_sub: "split_once d s = Some (a, b) \<Longrightarrow> set b \<subseteq> set s"
  by (induction s arbitrary: a) (auto split: if_splits option.splits)

lemma parse_entry_ok:
  assumes "parse_entry s n = Inr e" and "chr_lf \<notin> set s"
  shows "entry_ok e"
proof -
  obtain ex r where head: "(case strip_prefix ''export '' (trim_start s) of
      Some r \<Rightarrow> (True, trim_start r) | None \<Rightarrow> (False, trim_start s)) = (ex, r)" by fastforce
  have "chr_lf \<notin> set (trim_start s)" using assms(2) set_trim_start [of s] by auto
  then have r: "chr_lf \<notin> set r"
    using head set_trim_start by (auto simp: strip_prefix_Some split: option.splits)
  obtain a b where so: "split_once CHR ''='' r = Some (a, b)"
    using assms(1) head by (auto simp: parse_entry_def Let_def split: option.splits)
  have lf: "chr_lf \<notin> set (trim_start b)"
    using r split_once_sub [OF so] set_trim_start [of b] by blast
  obtain v q c where pv: "parse_value (trim_start b) = Inr (v, q, c)" and k: "valid_key (trim_end a)"
    and e: "ee_key e = trim_end a" "ee_inline_comment e = c"
    using assms(1) head so by (auto simp: parse_entry_def Let_def split: sum.splits if_splits)
  from parse_value_comment [OF pv lf] k e show ?thesis by (simp add: entry_ok_def)
qed

lemma parsed_stable:
  assumes "chr_lf \<notin> set s" and "strip_cr s = s"
  shows "stable_line (parse_line s n)"
proof -
  have "case line_entry (parse_line s n) of None \<Rightarrow> True | Some e \<Rightarrow> entry_ok e"
    using parse_entry_ok [OF _ assms(1), of n]
    by (auto simp: parse_line_def Let_def split: sum.splits)
  with assms show ?thesis by (simp add: stable_line_def parse_line_number)
qed

text \<open>No line carries two carriage returns before its line feed.\<close>

definition single_cr :: "string \<Rightarrow> bool" where
  "single_cr content \<longleftrightarrow> list_all (\<lambda>f. strip_cr (strip_cr f) = strip_cr f) (split_on chr_lf content)
     \<and> last (split_on chr_lf content) \<noteq> [chr_cr]"

lemma strip_cr_sub: "set (strip_cr s) \<subseteq> set s"
  by (auto simp: strip_cr_def strip_suffix_def split: if_splits option.splits dest: in_set_takeD)

lemma parse_lines_all: "l \<in> set (parse_lines n fs) \<Longrightarrow> \<exists>f m. f \<in> set fs \<and> l = parse_line (strip_cr f) m"
  by (induction n fs rule: parse_lines.induct) auto

lemma last_parse_lines: "fs \<noteq> [] \<Longrightarrow> parse_lines n fs \<noteq> [] \<and> line_raw (last (parse_lines n fs)) = strip_cr (last fs)"
  by (induction n fs rule: parse_lines.induct) (auto simp: Let_def)

lemma parsed_document_ok:
  assumes "single_cr content"
  shows "document_ok (document_parse content)"
proof -
  have sub: "set (fragments content) \<subseteq> set (split_on chr_lf content)"
    by (auto simp: fragments_def Let_def dest: in_set_butlastD)
  have "stable_line l" if l: "l \<in> set (parse_lines 1 (fragments content))" for l
  proof -
    obtain f m where f: "f \<in> set (split_on chr_lf content)" "l = parse_line (strip_cr f) m"
      using parse_lines_all [OF l] sub by blast
    have "chr_lf \<notin> set (strip_cr f)"
      using split_by_parts [OF f(1)] strip_cr_sub [of f] by (auto simp: list_all_iff)
    moreover have "strip_cr (strip_cr f) = strip_cr f" using assms f(1) by (auto simp: single_cr_def list_all_iff)
    ultimately show ?thesis unfolding f(2) by (rule parsed_stable)
  qed
  moreover have "parse_lines 1 (fragments content) \<noteq> []
      \<and> line_raw (last (parse_lines 1 (fragments content))) \<noteq> []"
    if t: "\<not> (content = [] \<or> ends_with [chr_lf] content)"
  proof -
    have fr: "fragments content = split_on chr_lf content" using t by (simp add: fragments_def Let_def)
    have "last (split_on chr_lf content) \<noteq> []"
      using t last_split_by [of content "\<lambda>c. c = chr_lf"] by (auto simp: ends_with_one)
    moreover have "strip_cr s \<noteq> []" if "s \<noteq> []" "s \<noteq> [chr_cr]" for s
      using that by (cases s rule: rev_cases) (auto simp: strip_cr_def strip_suffix_def ends_with_def)
    ultimately show ?thesis
      using assms last_parse_lines [of "fragments content" 1] by (auto simp: fr single_cr_def)
  qed
  ultimately show ?thesis by (auto simp: document_ok_def document_parse_def list_all_iff)
qed

lemma set_line_raw: "stable_line l \<Longrightarrow> line_raw l \<noteq> [] \<Longrightarrow> line_raw (set_line k v l) \<noteq> []"
  by (cases l) (auto simp: set_value_def Let_def render_entry_shape)

lemma set_document_ok:
  assumes "valid_key k" and "document_ok d"
  shows "document_ok (document_set k v d)"
proof -
  have "list_all stable_line (ed_lines (document_set k v d))"
    using assms stable_set_line [OF assms(1)] stable_new [OF assms(1), of v]
    by (auto simp: document_ok_def document_set_def list_all_iff)
  moreover have "ed_lines (document_set k v d) \<noteq> [] \<and> line_raw (last (ed_lines (document_set k v d))) \<noteq> []"
    if "\<not> ed_trailing_newline d"
  proof -
    have ne: "ed_lines d \<noteq> []" "line_raw (last (ed_lines d)) \<noteq> []" and
      st: "stable_line (last (ed_lines d))"
      using assms(2) that by (auto simp: document_ok_def list_all_iff)
    have "line_raw (Entry (entry_new k v)) \<noteq> []" by (simp add: entry_new_def Let_def render_entry_shape)
    with ne set_line_raw [OF st ne(2), of k v] show ?thesis
      by (auto simp: document_set_def last_map)
  qed
  ultimately show ?thesis by (auto simp: document_ok_def document_set_def)
qed

text \<open>
  C23. The written file means what was written: take any file without stray carriage returns,
  set a key, render it and parse it again, as a loader will: the key reads the new value, and
  every other key reads exactly what it read in the original file.
\<close>

theorem edited_file_reads_back:
  assumes "single_cr content" and "valid_key k"
  shows "map_option ee_value
       (document_get k' (document_parse (document_render (document_set k v (document_parse content)))))
     = (if k' = k then Some v else map_option ee_value (document_get k' (document_parse content)))"
  using value_in_same_norm [OF reparse_lines [OF set_document_ok [OF assms(2) parsed_document_ok [OF assms(1)]]]]
  by (simp add: document_get_value value_in_document_set)

lemma edited_file_reads_back_witness:
  "map_option ee_value (document_get ''A'' (document_parse (document_render
       (document_set ''B'' (''x'' @ [chr_lf] @ ''A=9'') (document_parse (''A=1'' @ crlf @ ''B=2 # b'' @ crlf))))))
     = Some ''1''"
proof -
  have ok: "single_cr (''A=1'' @ crlf @ ''B=2 # b'' @ crlf)" "valid_key ''B''" by code_simp+
  have a: "map_option ee_value (document_get ''A'' (document_parse (''A=1'' @ crlf @ ''B=2 # b'' @ crlf))) = Some ''1''"
    by code_simp
  from edited_file_reads_back [OF ok, of "''A''" "''x'' @ [chr_lf] @ ''A=9''"] a show ?thesis by simp
qed

section \<open>Unmodified files\<close>

text \<open>Every line but the last ends with the line ending, and no carriage return is stray.\<close>

definition uniform :: "newline \<Rightarrow> string \<Rightarrow> bool" where
  "uniform nl content \<longleftrightarrow>
     (let fs = split_on chr_lf content; inner = butlast fs in
        (case nl of
           Lf \<Rightarrow> list_all (\<lambda>f. \<not> ends_with [chr_cr] f) inner
         | CrLf \<Rightarrow> list_all (ends_with [chr_cr]) inner)
        \<and> \<not> ends_with [chr_cr] (last fs))"

lemma strip_cr_no: "\<not> ends_with [chr_cr] f \<Longrightarrow> strip_cr f = f"
  by (simp add: strip_cr_def strip_suffix_def)

lemma strip_cr_yes: "ends_with [chr_cr] f \<Longrightarrow> strip_cr f @ [chr_cr] = f"
  by (cases f rule: rev_cases) (auto simp: ends_with_one)

lemma join_crlf:
  "fs \<noteq> [] \<Longrightarrow> list_all (ends_with [chr_cr]) (butlast fs) \<Longrightarrow> \<not> ends_with [chr_cr] (last fs) \<Longrightarrow>
     join crlf (map strip_cr fs) = join [chr_lf] fs"
proof (induction "[chr_lf]" fs rule: join.induct)
  case (3 w v ws)
  then have "strip_cr w @ [chr_cr] = w" by (simp add: strip_cr_yes)
  then have "strip_cr w @ crlf @ x = w @ [chr_lf] @ x" for x
    by (metis append_Cons append_Nil append_assoc)
  with 3 show ?case by simp
qed (simp_all add: strip_cr_no)

lemma raws_parse_lines: "map line_raw (parse_lines n fs) = map strip_cr fs"
  by (induction n fs rule: parse_lines.induct) auto

lemma count_free: "chr_lf \<notin> set f \<Longrightarrow> count_crlf f = 0"
  by (induction f rule: count_crlf.induct) auto

lemma count_crlf_LF [simp]: "count_crlf (chr_lf # s) = count_crlf s"
  by (cases s) auto

lemma count_crlf_append:
  "chr_lf \<notin> set f \<Longrightarrow>
     count_crlf (f @ chr_lf # s) = (if ends_with [chr_cr] f then 1 else 0) + count_crlf s"
proof (induction f rule: count_crlf.induct)
  case (1 a b f)
  then show ?case by (auto simp: ends_with_one)
qed (auto simp: ends_with_one)

lemma counts_join:
  "list_all (\<lambda>f. chr_lf \<notin> set f) fs \<Longrightarrow> fs \<noteq> [] \<Longrightarrow>
     count_crlf (join [chr_lf] fs) = length (filter (ends_with [chr_cr]) (butlast fs))
   \<and> count_list (join [chr_lf] fs) chr_lf = length (butlast fs)"
proof (induction "[chr_lf]" fs rule: join.induct)
  case (2 w)
  then show ?case by (simp add: count_free count_list_0_iff)
next
  case (3 w v ws)
  then show ?case using count_crlf_append [of w "join [chr_lf] (v # ws)"]
    by (auto simp: count_list_0_iff)
qed simp

lemma render_uniform:
  assumes u: "uniform nl content"
  shows "document_render (document_parse content) = content"
proof -
  let ?fs = "split_on chr_lf content"
  have j: "join [chr_lf] ?fs = content" by (rule join_split)
  have free: "list_all (\<lambda>f. chr_lf \<notin> set f) ?fs"
    by (auto simp: list_all_iff dest!: split_by_parts)
  have lastok: "\<not> ends_with [chr_cr] (last ?fs)" using u by (simp add: uniform_def Let_def)
  have cnt: "count_crlf content = length (filter (ends_with [chr_cr]) (butlast ?fs))"
    "count_list content chr_lf = length (butlast ?fs)"
    using counts_join [OF free] by (simp_all add: j)
  have jn: "join (newline_str (detect_newline content)) (map strip_cr ?fs) = content"
  proof (cases "butlast ?fs = []")
    case True
    then obtain f where f: "?fs = [f]" by (metis append_Nil append_butlast_last_id split_by_not_Nil)
    with j lastok show ?thesis by (simp add: strip_cr_no)
  next
    case False
    show ?thesis
    proof (cases nl)
      case Lf
      then have no: "list_all (\<lambda>f. \<not> ends_with [chr_cr] f) (butlast ?fs)"
        using u by (simp add: uniform_def Let_def)
      then have "detect_newline content = Lf"
        using cnt by (simp add: detect_newline_def list_all_iff filter_empty_conv)
      moreover have "map strip_cr ?fs = ?fs"
      proof -
        have "strip_cr f = f" if "f \<in> set ?fs" for f
        proof -
          have "f \<in> set (butlast ?fs) \<or> f = last ?fs"
            using that by (metis Un_iff append_butlast_last_id empty_iff insert_iff list.set set_append split_by_not_Nil)
          then show ?thesis using no lastok by (auto simp: list_all_iff strip_cr_no)
        qed
        then show ?thesis by (rule map_idI)
      qed
      ultimately show ?thesis using j by simp
    next
      case CrLf
      then have yes: "list_all (ends_with [chr_cr]) (butlast ?fs)"
        using u by (simp add: uniform_def Let_def)
      then have "count_crlf content = length (butlast ?fs)"
        using cnt(1) by (simp add: list_all_iff filter_id_conv)
      moreover have "0 < length (butlast ?fs)" using False by (rule length_greater_0_conv [THEN iffD2])
      ultimately have "detect_newline content = CrLf" using cnt(2) by (simp only: detect_newline_def) simp
      with join_crlf [OF _ yes lastok] j show ?thesis by simp
    qed
  qed
  show ?thesis
  proof (cases "content = [] \<or> ends_with [chr_lf] content")
    case tr: True
    have l: "last ?fs = []"
    proof (rule ccontr)
      assume n: "last ?fs \<noteq> []"
      have "content \<noteq> []" using n j by auto
      with tr have "last content = chr_lf" by (simp add: ends_with_one)
      moreover have "last content = last (last ?fs)"
        using join_last [of ?fs "[chr_lf]"] n by (simp add: j)
      ultimately have "chr_lf \<in> set (last ?fs)" using n by (metis last_in_set)
      with free show False by (auto simp: list_all_iff)
    qed
    then have fr: "fragments content = butlast ?fs" using tr by (simp add: fragments_def)
    show ?thesis
    proof (cases "butlast ?fs = []")
      case True
      then have "?fs = [[]]" using l by (metis append_Nil append_butlast_last_id split_by_not_Nil)
      then have "content = []" using j by simp
      with fr True show ?thesis by (simp add: document_render_def document_parse_def)
    next
      case False
      have "parse_lines 1 (butlast ?fs) \<noteq> []" using last_parse_lines [OF False] by simp
      then have "document_render (document_parse content)
          = join (newline_str (detect_newline content)) (map strip_cr (butlast ?fs))
            @ newline_str (detect_newline content)"
        using tr by (simp add: document_render_def document_parse_def fr Let_def raws_parse_lines)
      also have "\<dots> = join (newline_str (detect_newline content)) (map strip_cr (butlast ?fs @ [last ?fs]))"
        using join_snoc [of "map strip_cr (butlast ?fs)"] False l
        by (simp add: strip_cr_other del: map_butlast)
      finally show ?thesis using jn by simp
    qed
  next
    case False
    then have "fragments content = ?fs" by (simp add: fragments_def Let_def)
    with False jn show ?thesis
      by (simp add: document_render_def document_parse_def Let_def raws_parse_lines)
  qed
qed

text \<open>
  An unmodified file is rendered back byte for byte: comments, blank lines, malformed
  lines, quoting and the line ending included, for every file whose line endings are all of one
  kind and which has no carriage return at its very end.
\<close>

theorem unmodified_round_trip:
  assumes "uniform nl content"
  shows "document_render (document_parse content) = content"
  by (rule render_uniform [OF assms])

lemma unmodified_round_trip_witness:
  "document_render (document_parse (''# c'' @ crlf @ ''A=1 # x'' @ crlf @ crlf @ ''not an entry''))
     = ''# c'' @ crlf @ ''A=1 # x'' @ crlf @ crlf @ ''not an entry''"
proof -
  have "uniform CrLf (''# c'' @ crlf @ ''A=1 # x'' @ crlf @ crlf @ ''not an entry'')" by code_simp
  from unmodified_round_trip [OF this] show ?thesis .
qed

text \<open>A final carriage return without a line feed is lost.\<close>

lemma final_cr_lost: "document_render (document_parse (''A=1'' @ [chr_cr])) = ''A=1''"
  by code_simp

end
