(* ===== verification/Effects.thy ===== *)
theory Effects
  imports Base
begin

text \<open>
  State passing with errors: an operation takes a state and returns its result and the state it
  leaves, also when the result is an error, since every statement of the database commits on its
  own. \<open>andthen\<close> is the sequencing of \<open>?\<close>, \<open>attempt\<close> a match on a result, and
  \<open>in_txn\<close> a write transaction that an error rolls back. The second half states what an
  operation guarantees from a precondition, once for all the state machines of the vault.
\<close>

type_synonym ('w, 'a) op = "'w \<Rightarrow> 'a res \<times> 'w"

definition ret :: "'a \<Rightarrow> ('w, 'a) op" where
  "ret a w = (Inr a, w)"

definition throw :: "core_error \<Rightarrow> ('w, 'a) op" where
  "throw e w = (Inl e, w)"

definition andthen :: "('w, 'a) op \<Rightarrow> ('a \<Rightarrow> ('w, 'b) op) \<Rightarrow> ('w, 'b) op" where
  "andthen m f w = (case m w of (Inl e, w') \<Rightarrow> (Inl e, w') | (Inr a, w') \<Rightarrow> f a w')"

definition inspect :: "('w \<Rightarrow> 'a res) \<Rightarrow> ('w, 'a) op" where
  "inspect f w = (f w, w)"

definition change :: "('w \<Rightarrow> 'w) \<Rightarrow> ('w, unit) op" where
  "change f w = (Inr (), f w)"

definition attempt :: "('w, 'a) op \<Rightarrow> ('w, 'a res) op" where
  "attempt m w = (case m w of (r, w') \<Rightarrow> (Inr r, w'))"

definition in_txn :: "('w, 'a) op \<Rightarrow> ('w, 'a) op" where
  "in_txn m w = (case m w of (Inl e, _) \<Rightarrow> (Inl e, w) | (Inr a, w') \<Rightarrow> (Inr a, w'))"

lemmas op_defs = ret_def throw_def andthen_def inspect_def change_def attempt_def in_txn_def

lemma andthen_InrE:
  assumes "andthen m f w = (Inr b, w'')"
  obtains a w' where "m w = (Inr a, w')" "f a w' = (Inr b, w'')"
  using assms by (auto simp: andthen_def split: prod.splits sum.splits)

section \<open>What an operation guarantees\<close>

text \<open>
  \<open>guards R P m Q\<close>: from a state satisfying \<open>P\<close> the operation, whatever it returns,
  moves along \<open>R\<close>, and when it returns normally \<open>Q\<close> holds of the result and the new
  state. A predicate is stable when \<open>R\<close> cannot falsify it.
\<close>

definition guards :: "('w \<Rightarrow> 'w \<Rightarrow> bool) \<Rightarrow> ('w \<Rightarrow> bool) \<Rightarrow> ('w, 'a) op \<Rightarrow> ('a \<Rightarrow> 'w \<Rightarrow> bool) \<Rightarrow> bool" where
  "guards R P m Q \<longleftrightarrow>
     (\<forall>w. P w \<longrightarrow> R w (snd (m w)) \<and> (\<forall>a. fst (m w) = Inr a \<longrightarrow> Q a (snd (m w))))"

definition stable :: "('w \<Rightarrow> 'w \<Rightarrow> bool) \<Rightarrow> ('w \<Rightarrow> bool) \<Rightarrow> bool" where
  "stable R P \<longleftrightarrow> (\<forall>w w'. R w w' \<longrightarrow> P w \<longrightarrow> P w')"

lemma guardsI:
  "(\<And>w. P w \<Longrightarrow> R w (snd (m w))) \<Longrightarrow> (\<And>w a. P w \<Longrightarrow> fst (m w) = Inr a \<Longrightarrow> Q a (snd (m w)))
     \<Longrightarrow> guards R P m Q"
  by (simp add: guards_def)

lemma guards_step: "guards R P m Q \<Longrightarrow> P w \<Longrightarrow> R w (snd (m w))"
  by (simp add: guards_def)

lemma guards_result: "guards R P m Q \<Longrightarrow> P w \<Longrightarrow> m w = (Inr a, w') \<Longrightarrow> Q a w'"
  by (fastforce simp: guards_def)

lemma guards_weaken:
  "guards R P' m Q' \<Longrightarrow> (\<And>w. P w \<Longrightarrow> P' w) \<Longrightarrow> (\<And>a w. Q' a w \<Longrightarrow> Q a w) \<Longrightarrow> guards R P m Q"
  by (simp add: guards_def)

lemma stable_True [simp]: "stable R (\<lambda>_. True)"
  by (simp add: stable_def)

lemma stable_const [simp]: "stable R (\<lambda>_. c)"
  by (simp add: stable_def)

lemma stable_conj: "stable R P \<Longrightarrow> stable R Q \<Longrightarrow> stable R (\<lambda>w. P w \<and> Q w)"
  by (auto simp: stable_def)

text \<open>An interface: a reflexive and transitive evolution of the state.\<close>

locale evolution =
  fixes evolves :: "'w \<Rightarrow> 'w \<Rightarrow> bool"
  assumes same: "evolves w w"
    and later: "evolves w w' \<Longrightarrow> evolves w' w'' \<Longrightarrow> evolves w w''"
begin

lemma guards_ret: "guards evolves P (ret a) (\<lambda>b w. b = a \<and> P w)"
  by (rule guardsI) (simp_all add: ret_def same)

lemma guards_throw: "guards evolves P (throw e) Q"
  by (rule guardsI) (simp_all add: throw_def same)

lemma guards_inspect: "guards evolves P (inspect f) (\<lambda>a w. f w = Inr a \<and> P w)"
  by (rule guardsI) (simp_all add: inspect_def same)

lemma guards_look: "guards evolves P (inspect f) (\<lambda>_ _. True)"
  by (rule guardsI) (simp_all add: inspect_def same)

lemma guards_ret_any: "(\<And>w. P w \<Longrightarrow> Q a w) \<Longrightarrow> guards evolves P (ret a) Q"
  by (rule guardsI) (auto simp: ret_def same)

lemma guards_seq:
  assumes m: "guards evolves P m Q" and f: "\<And>a. guards evolves (Q a) (f a) S"
  shows "guards evolves P (andthen m f) S"
proof (rule guardsI)
  fix w
  assume P: "P w"
  obtain r w' where mw: "m w = (r, w')" by fastforce
  from m P mw have e: "evolves w w'" by (metis guards_step snd_conv)
  have Q: "Q a w'" if "r = Inr a" for a
    using m P mw that by (blast intro: guards_result)
  show "evolves w (snd (andthen m f w))"
  proof (cases r)
    case (Inl e')
    with mw e show ?thesis by (simp add: andthen_def)
  next
    case (Inr a)
    with f Q have "evolves w' (snd (f a w'))" by (blast intro: guards_step)
    with mw Inr e show ?thesis by (auto simp: andthen_def intro: later)
  qed
  fix b
  assume "fst (andthen m f w) = Inr b"
  with mw obtain a where a: "r = Inr a" "fst (f a w') = Inr b" "andthen m f w = f a w'"
    by (cases r) (auto simp: andthen_def)
  with f [of a] Q show "S b (snd (andthen m f w))" by (simp add: guards_def)
qed

lemma guards_andthen:
  assumes m: "guards evolves P m Q" and st: "stable evolves P"
    and f: "\<And>a. guards evolves (\<lambda>w. P w \<and> Q a w) (f a) S"
  shows "guards evolves P (andthen m f) S"
proof (rule guards_seq [OF _ f])
  show "guards evolves P m (\<lambda>a w. P w \<and> Q a w)"
    using m st by (fastforce simp: guards_def stable_def)
qed

lemma guards_attempt:
  assumes "guards evolves P m Q"
  shows "guards evolves P (attempt m) (\<lambda>r w. \<forall>a. r = Inr a \<longrightarrow> Q a w)"
  using assms by (auto simp: guards_def attempt_def split: prod.split)

text \<open>The control structure of the code, for the rules below: branches of a condition or a match.\<close>

lemma guards_if:
  "(c \<Longrightarrow> guards evolves P m Q) \<Longrightarrow> (\<not> c \<Longrightarrow> guards evolves P m' Q)
     \<Longrightarrow> guards evolves P (if c then m else m') Q"
  by simp

lemma guards_option:
  "(x = None \<Longrightarrow> guards evolves P m Q) \<Longrightarrow> (\<And>a. x = Some a \<Longrightarrow> guards evolves P (f a) Q)
     \<Longrightarrow> guards evolves P (case x of None \<Rightarrow> m | Some a \<Rightarrow> f a) Q"
  by (cases x) simp_all

lemma guards_sum:
  "(\<And>e. x = Inl e \<Longrightarrow> guards evolves P (g e) Q) \<Longrightarrow> (\<And>a. x = Inr a \<Longrightarrow> guards evolves P (f a) Q)
     \<Longrightarrow> guards evolves P (case x of Inl e \<Rightarrow> g e | Inr a \<Rightarrow> f a) Q"
  by (cases x) simp_all

lemma guards_pair:
  "(\<And>a b. x = (a, b) \<Longrightarrow> guards evolves P (f a b) Q) \<Longrightarrow> guards evolves P (case x of (a, b) \<Rightarrow> f a b) Q"
  by (cases x) simp

lemma guards_in_txn: "guards evolves P m Q \<Longrightarrow> guards evolves P (in_txn m) Q"
  by (fastforce simp: guards_def in_txn_def same split: prod.split sum.split)

end

end
