(* ===== verification/VaultDb.thy ===== *)
theory VaultDb
  imports Effects AuditTrail
begin

text \<open>
  The tables of the vault database that credential rotation reads and writes, as lists of rows in
  insertion order (crates/core/src/db.rs, the migrations that create them), and the clock. A
  clock reads an instant in nanoseconds; every write to the database advances the reading, so
  two statements of one operation may see different times. Values are held in plain text: a
  ciphertext stands for the text it decrypts to under the key of its row.
\<close>

record clock =
  ck_at :: "nat \<Rightarrow> int"
  ck_text :: "int \<Rightarrow> string"
  ck_parse :: "string \<Rightarrow> int res"
  ck_date :: "string \<Rightarrow> string"

record rotation =
  rn_id :: string
  rn_credential_id :: string
  rn_provider :: string
  rn_state :: string
  rn_mode :: string
  rn_note :: string
  rn_created_at :: string
  rn_updated_at :: string
  rn_approved_at :: "string option"
  rn_old_version :: "int option"
  rn_new_version :: "int option"
  rn_sync_plan_id :: "string option"
  rn_grace_minutes :: int
  rn_grace_ends_at :: "string option"
  rn_old_provider_key_id :: "string option"
  rn_new_provider_key_id :: "string option"
  rn_provider_project_id :: "string option"
  rn_new_value_validated :: bool
  rn_old_disabled_at :: "string option"
  rn_old_revoked_at :: "string option"
  rn_last_error :: string
  rn_manual_instructions :: string

record rotation_event =
  ev_rotation_id :: string
  ev_at :: string
  ev_from_state :: string
  ev_to_state :: string
  ev_detail :: string

record rotation_schedule =
  sc_credential_id :: string
  sc_interval_days :: int
  sc_next_due_at :: string
  sc_enabled :: bool
  sc_paused_reason :: string
  sc_created_at :: string
  sc_last_completed_rotation_id :: "string option"

record credential_row =
  cr_id :: string
  cr_project_id :: string
  cr_name :: string
  cr_environment :: string
  cr_provider :: string
  cr_linked_credential_id :: "string option"
  cr_value :: "string option"
  cr_value_version :: int
  cr_fingerprint :: string
  cr_masked_value :: string
  cr_updated_at :: string
  cr_provider_expires_at :: "string option"

record version_row =
  vr_credential_id :: string
  vr_version :: int
  vr_value :: string
  vr_masked_value :: string
  vr_created_at :: string
  vr_reason :: string

record project_row =
  pj_id :: string
  pj_name :: string

record key_link_row =
  kl_provider :: string
  kl_api_key_id :: string
  kl_credential_id :: string
  kl_created_at :: string

record side_key_row =
  sk_provider :: string
  sk_api_key_id :: string
  sk_provider_project_id :: "string option"
  sk_name :: string
  sk_synced_at :: string

record usage_row =
  us_provider :: string
  us_provider_api_key_id :: "string option"
  us_window_start :: string
  us_collected_at :: string
  us_source :: string

record vault_db =
  vd_rotations :: "rotation list"
  vd_events :: "rotation_event list"
  vd_schedules :: "rotation_schedule list"
  vd_credentials :: "credential_row list"
  vd_versions :: "version_row list"
  vd_projects :: "project_row list"
  vd_key_links :: "key_link_row list"
  vd_side_keys :: "side_key_row list"
  vd_usage :: "usage_row list"
  vd_audit :: "audit_row list"
  vd_tick :: nat

definition clock_now :: "clock \<Rightarrow> vault_db \<Rightarrow> int" where
  "clock_now clk db = ck_at clk (vd_tick db)"

definition now_rfc3339 :: "clock \<Rightarrow> vault_db \<Rightarrow> string" where
  "now_rfc3339 clk db = ck_text clk (clock_now clk db)"

text \<open>\<open>rfc3339_after\<close>: a number of seconds from now.\<close>

definition rfc3339_after :: "clock \<Rightarrow> int \<Rightarrow> vault_db \<Rightarrow> string" where
  "rfc3339_after clk secs db = ck_text clk (clock_now clk db + secs * 1000000000)"

definition audit_add ::
    "clock \<Rightarrow> string \<Rightarrow> string option \<Rightarrow> string option \<Rightarrow> string \<Rightarrow> vault_db \<Rightarrow> vault_db" where
  "audit_add clk event project_id credential_id detail db =
     db\<lparr>vd_audit := vd_audit db @ [\<lparr>au_at = now_rfc3339 clk db, au_event = event,
          au_project_id = project_id, au_credential_id = credential_id, au_detail = detail\<rparr>],
        vd_tick := vd_tick db + 1\<rparr>"

text \<open>\<open>ORDER BY .. DESC\<close> on a text column; SQLite compares text byte by byte.\<close>

definition sort_desc :: "('a \<Rightarrow> string) \<Rightarrow> 'a list \<Rightarrow> 'a list" where
  "sort_desc key rows = rev (sort_key key rows)"

end
