(* ===== verification/RotationStore.thy ===== *)
theory RotationStore
  imports VaultDb
begin

text \<open>
  crates/core/src/rotation.rs: the states of a rotation, and the operations that read and write
  its row, its timeline and the schedules. States are texts in the code and here. The only write
  of a state is \<open>set_state\<close>, a compare-and-swap that also records the transition.
\<close>

section \<open>States\<close>

definition PLANNED :: string where "PLANNED = ''planned''"
definition APPROVED :: string where "APPROVED = ''approved''"
definition CREATING_REPLACEMENT :: string where "CREATING_REPLACEMENT = ''creating_replacement''"
definition CREATING_IN_PROGRESS :: string where "CREATING_IN_PROGRESS = ''creating_in_progress''"
definition AWAITING_MANUAL_KEY :: string where "AWAITING_MANUAL_KEY = ''awaiting_manual_key''"
definition REPLACEMENT_STORED :: string where "REPLACEMENT_STORED = ''replacement_stored''"
definition UPDATING_DESTINATIONS :: string where "UPDATING_DESTINATIONS = ''updating_destinations''"
definition DESTINATIONS_VERIFIED :: string where "DESTINATIONS_VERIFIED = ''destinations_verified''"
definition GRACE_PERIOD :: string where "GRACE_PERIOD = ''grace_period''"
definition OLD_DISABLED :: string where "OLD_DISABLED = ''old_disabled''"
definition COMPLETED :: string where "COMPLETED = ''completed''"
definition FAILED :: string where "FAILED = ''failed''"
definition ROLLING_BACK :: string where "ROLLING_BACK = ''rolling_back''"
definition ROLLED_BACK :: string where "ROLLED_BACK = ''rolled_back''"
definition MANUAL_REQUIRED :: string where "MANUAL_REQUIRED = ''manual_required''"
definition MODE_API :: string where "MODE_API = ''api_create''"
definition MODE_MANUAL :: string where "MODE_MANUAL = ''manual_create''"

lemmas rotation_states = PLANNED_def APPROVED_def CREATING_REPLACEMENT_def CREATING_IN_PROGRESS_def
  AWAITING_MANUAL_KEY_def REPLACEMENT_STORED_def UPDATING_DESTINATIONS_def DESTINATIONS_VERIFIED_def
  GRACE_PERIOD_def OLD_DISABLED_def COMPLETED_def FAILED_def ROLLING_BACK_def ROLLED_BACK_def
  MANUAL_REQUIRED_def

definition is_active :: "string \<Rightarrow> bool" where
  "is_active s \<longleftrightarrow> s \<in> {APPROVED, CREATING_REPLACEMENT, CREATING_IN_PROGRESS, AWAITING_MANUAL_KEY,
     REPLACEMENT_STORED, UPDATING_DESTINATIONS, DESTINATIONS_VERIFIED, GRACE_PERIOD, OLD_DISABLED}"

definition is_terminal :: "string \<Rightarrow> bool" where
  "is_terminal s \<longleftrightarrow> s \<in> {COMPLETED, ROLLED_BACK}"

section \<open>Rows and the timeline\<close>

definition find_rotation :: "string \<Rightarrow> vault_db \<Rightarrow> rotation option" where
  "find_rotation rid db = find (\<lambda>r. rn_id r = rid) (vd_rotations db)"

text \<open>\<open>UPDATE rotations SET .. WHERE id = ..\<close>; the statement advances the clock.\<close>

definition update_rotation :: "string \<Rightarrow> (rotation \<Rightarrow> rotation) \<Rightarrow> vault_db \<Rightarrow> vault_db" where
  "update_rotation rid f db =
     db\<lparr>vd_rotations := map (\<lambda>r. if rn_id r = rid then f r else r) (vd_rotations db),
        vd_tick := vd_tick db + 1\<rparr>"

definition record_event ::
    "clock \<Rightarrow> string \<Rightarrow> string \<Rightarrow> string \<Rightarrow> string \<Rightarrow> vault_db \<Rightarrow> vault_db" where
  "record_event clk rid from_state to_state detail db =
     db\<lparr>vd_events := vd_events db @ [\<lparr>ev_rotation_id = rid, ev_at = now_rfc3339 clk db,
          ev_from_state = from_state, ev_to_state = to_state, ev_detail = detail\<rparr>],
        vd_tick := vd_tick db + 1\<rparr>"

definition insert_rotation ::
    "clock \<Rightarrow> string \<Rightarrow> string \<Rightarrow> string \<Rightarrow> string \<Rightarrow> string \<Rightarrow> int \<Rightarrow> string option \<Rightarrow> string option
       \<Rightarrow> string \<Rightarrow> (vault_db, string) op" where
  "insert_rotation clk uuid credential_id provider mode note grace_minutes old_key project_id
      instructions db =
     (let now = now_rfc3339 clk db;
          row = \<lparr>rn_id = uuid, rn_credential_id = credential_id, rn_provider = provider,
                 rn_state = PLANNED, rn_mode = mode, rn_note = note, rn_created_at = now,
                 rn_updated_at = now, rn_approved_at = None, rn_old_version = None,
                 rn_new_version = None, rn_sync_plan_id = None, rn_grace_minutes = grace_minutes,
                 rn_grace_ends_at = None, rn_old_provider_key_id = old_key,
                 rn_new_provider_key_id = None, rn_provider_project_id = project_id,
                 rn_new_value_validated = False, rn_old_disabled_at = None,
                 rn_old_revoked_at = None, rn_last_error = [], rn_manual_instructions = instructions\<rparr>
      in if uuid \<in> rn_id ` set (vd_rotations db)
         then (Inl (DbErr ''UNIQUE constraint failed: rotations.id''), db)
         else if credential_id \<notin> cr_id ` set (vd_credentials db)
         then (Inl (DbErr ''FOREIGN KEY constraint failed''), db)
         else (Inr uuid, record_event clk uuid [] PLANNED ''rotation planned (dry run)''
                 (db\<lparr>vd_rotations := vd_rotations db @ [row], vd_tick := vd_tick db + 1\<rparr>)))"

definition load_rotation :: "string \<Rightarrow> vault_db \<Rightarrow> rotation res" where
  "load_rotation rid db =
     (case find_rotation rid db of None \<Rightarrow> Inl (NotFound ''rotation'' rid) | Some r \<Rightarrow> Inr r)"

definition list_rotations :: "string option \<Rightarrow> nat \<Rightarrow> vault_db \<Rightarrow> rotation list" where
  "list_rotations credential_id limit db =
     take limit (sort_desc rn_created_at
       (case credential_id of
          Some c \<Rightarrow> filter (\<lambda>r. rn_credential_id r = c) (vd_rotations db)
        | None \<Rightarrow> vd_rotations db))"

definition in_flight :: "rotation \<Rightarrow> bool" where
  "in_flight r \<longleftrightarrow> rn_state r \<notin> {COMPLETED, ROLLED_BACK, FAILED, PLANNED}"

definition active_rotations :: "vault_db \<Rightarrow> rotation list" where
  "active_rotations db = sort_desc rn_created_at (filter in_flight (vd_rotations db))"

text \<open>
  The compare-and-swap: the row must still be in \<open>from_state\<close>. It is one statement, which answers
  how many rows it changed; the event is a second statement, committed on its own.
\<close>

definition claim_state :: "clock \<Rightarrow> string \<Rightarrow> string \<Rightarrow> string \<Rightarrow> vault_db \<Rightarrow> nat \<times> vault_db" where
  "claim_state clk rid from_state to_state db =
     (let now = now_rfc3339 clk db; hit = (\<lambda>r. rn_id r = rid \<and> rn_state r = from_state) in
      (length (filter hit (vd_rotations db)),
       db\<lparr>vd_rotations := map (\<lambda>r. if hit r
             then r\<lparr>rn_state := to_state, rn_updated_at := now, rn_last_error := []\<rparr> else r) (vd_rotations db),
          vd_tick := vd_tick db + 1\<rparr>))"

definition set_state ::
    "clock \<Rightarrow> string \<Rightarrow> string \<Rightarrow> string \<Rightarrow> string \<Rightarrow> (vault_db, unit) op" where
  "set_state clk rid from_state to_state detail db =
     (case claim_state clk rid from_state to_state db of (n, db) \<Rightarrow>
        if n = 0
        then (case load_rotation rid db of
                Inl e \<Rightarrow> (Inl e, db)
              | Inr current \<Rightarrow>
                  (Inl (InvalidInput (''rotation '' @ rid @ '' changed concurrently (expected '' @
                     quoted from_state @ '', found '' @ quoted (rn_state current) @
                     ''); re-check its state before acting'')), db))
        else (Inr (), record_event clk rid from_state to_state detail db))"

definition record_event_note :: "clock \<Rightarrow> string \<Rightarrow> string \<Rightarrow> (vault_db, unit) op" where
  "record_event_note clk rid note db =
     (case load_rotation rid db of
        Inl e \<Rightarrow> (Inl e, db)
      | Inr cur \<Rightarrow> (Inr (), record_event clk rid (rn_state cur) (rn_state cur) note db))"

definition clear_error :: "string \<Rightarrow> (vault_db, unit) op" where
  "clear_error rid db = (Inr (), update_rotation rid (\<lambda>r. r\<lparr>rn_last_error := []\<rparr>) db)"

definition record_error :: "clock \<Rightarrow> string \<Rightarrow> string \<Rightarrow> (vault_db, unit) op" where
  "record_error clk rid err db =
     (case load_rotation rid db of
        Inl e \<Rightarrow> (Inl e, db)
      | Inr cur \<Rightarrow>
          (let now = now_rfc3339 clk db in
           (Inr (), record_event clk rid (rn_state cur) (rn_state cur)
              (''step failed (retryable): '' @ err)
              (update_rotation rid (\<lambda>r. r\<lparr>rn_last_error := err, rn_updated_at := now\<rparr>) db))))"

text \<open>\<open>set_field\<close> writes one of the allowed columns; the match is the statement it formats.\<close>

definition ALLOWED_FIELDS :: "string list" where
  "ALLOWED_FIELDS = [''approved_at'', ''sync_plan_id'', ''grace_ends_at'', ''old_provider_key_id'',
     ''new_provider_key_id'', ''provider_project_id'', ''old_disabled_at'', ''old_revoked_at'']"

definition set_column :: "string \<Rightarrow> string option \<Rightarrow> rotation \<Rightarrow> rotation" where
  "set_column field v r =
     (if field = ''approved_at'' then r\<lparr>rn_approved_at := v\<rparr>
      else if field = ''sync_plan_id'' then r\<lparr>rn_sync_plan_id := v\<rparr>
      else if field = ''grace_ends_at'' then r\<lparr>rn_grace_ends_at := v\<rparr>
      else if field = ''old_provider_key_id'' then r\<lparr>rn_old_provider_key_id := v\<rparr>
      else if field = ''new_provider_key_id'' then r\<lparr>rn_new_provider_key_id := v\<rparr>
      else if field = ''provider_project_id'' then r\<lparr>rn_provider_project_id := v\<rparr>
      else if field = ''old_disabled_at'' then r\<lparr>rn_old_disabled_at := v\<rparr>
      else if field = ''old_revoked_at'' then r\<lparr>rn_old_revoked_at := v\<rparr>
      else r)"

definition set_field :: "clock \<Rightarrow> string \<Rightarrow> string \<Rightarrow> string option \<Rightarrow> (vault_db, unit) op" where
  "set_field clk rid field v db =
     (if field \<notin> set ALLOWED_FIELDS
      then (Inl (InvalidInput (quoted field @ '' is not a settable rotation field'')), db)
      else (let now = now_rfc3339 clk db in
            (Inr (), update_rotation rid (\<lambda>r. (set_column field v r)\<lparr>rn_updated_at := now\<rparr>) db)))"

definition set_versions :: "clock \<Rightarrow> string \<Rightarrow> int option \<Rightarrow> int \<Rightarrow> (vault_db, unit) op" where
  "set_versions clk rid old new db =
     (let now = now_rfc3339 clk db in
      (Inr (), update_rotation rid (\<lambda>r. r\<lparr>rn_old_version := old, rn_new_version := Some new,
                 rn_updated_at := now\<rparr>) db))"

definition mark_new_value_validated :: "clock \<Rightarrow> string \<Rightarrow> (vault_db, unit) op" where
  "mark_new_value_validated clk rid db =
     (let now = now_rfc3339 clk db in
      (Inr (), update_rotation rid (\<lambda>r. r\<lparr>rn_new_value_validated := True, rn_updated_at := now\<rparr>) db))"

definition rotation_timeline :: "string \<Rightarrow> vault_db \<Rightarrow> rotation_event list" where
  "rotation_timeline rid db = filter (\<lambda>e. ev_rotation_id e = rid) (vd_events db)"

section \<open>Schedules\<close>

definition day_seconds :: "int \<Rightarrow> int" where
  "day_seconds days = days mod 2 ^ 64 * 24 * 3600 mod 2 ^ 64"

definition schedule_set :: "clock \<Rightarrow> string \<Rightarrow> int \<Rightarrow> (vault_db, unit) op" where
  "schedule_set clk credential_id interval_days db =
     (if \<not> (1 \<le> interval_days \<and> interval_days \<le> 3650)
      then (Inl (InvalidInput ''the rotation interval must be between 1 day and 10 years''), db)
      else
       (let next_due = rfc3339_after clk (day_seconds interval_days) db;
            now = now_rfc3339 clk db in
        if credential_id \<notin> cr_id ` set (vd_credentials db)
        then (Inl (DbErr ''FOREIGN KEY constraint failed''), db)
        else
          (Inr (), db\<lparr>vd_schedules :=
             (if credential_id \<in> sc_credential_id ` set (vd_schedules db)
              then map (\<lambda>s. if sc_credential_id s = credential_id
                     then s\<lparr>sc_interval_days := interval_days, sc_next_due_at := next_due,
                            sc_enabled := True, sc_paused_reason := []\<rparr> else s) (vd_schedules db)
              else vd_schedules db @ [\<lparr>sc_credential_id = credential_id,
                     sc_interval_days = interval_days, sc_next_due_at = next_due,
                     sc_enabled = True, sc_paused_reason = [], sc_created_at = now,
                     sc_last_completed_rotation_id = None\<rparr>]),
             vd_tick := vd_tick db + 1\<rparr>)))"

definition schedule_remove :: "string \<Rightarrow> (vault_db, bool) op" where
  "schedule_remove credential_id db =
     (Inr (credential_id \<in> sc_credential_id ` set (vd_schedules db)),
      db\<lparr>vd_schedules := filter (\<lambda>s. sc_credential_id s \<noteq> credential_id) (vd_schedules db),
         vd_tick := vd_tick db + 1\<rparr>)"

definition schedule_pause :: "string \<Rightarrow> string \<Rightarrow> (vault_db, unit) op" where
  "schedule_pause credential_id reason db =
     (Inr (), db\<lparr>vd_schedules := map (\<lambda>s. if sc_credential_id s = credential_id
          then s\<lparr>sc_enabled := False, sc_paused_reason := reason\<rparr> else s) (vd_schedules db),
        vd_tick := vd_tick db + 1\<rparr>)"

definition schedule_mark_completed :: "clock \<Rightarrow> string \<Rightarrow> string \<Rightarrow> (vault_db, unit) op" where
  "schedule_mark_completed clk credential_id rotation_id db =
     (case find (\<lambda>s. sc_credential_id s = credential_id) (vd_schedules db) of
        None \<Rightarrow> (Inr (), db)
      | Some s0 \<Rightarrow>
          (let next_due = rfc3339_after clk (day_seconds (sc_interval_days s0)) db in
           (Inr (), db\<lparr>vd_schedules := map (\<lambda>s. if sc_credential_id s = credential_id
                then s\<lparr>sc_next_due_at := next_due, sc_enabled := True, sc_paused_reason := [],
                       sc_last_completed_rotation_id := Some rotation_id\<rparr> else s) (vd_schedules db),
              vd_tick := vd_tick db + 1\<rparr>)))"

definition rotation_schedules :: "vault_db \<Rightarrow> rotation_schedule list" where
  "rotation_schedules db = sort_key sc_next_due_at (vd_schedules db)"

end
