(* ===== verification/Reuse.thy ===== *)
theory Reuse
  imports Base
begin

text \<open>
  crates/core/src/reuse.rs and the environments of crates/core/src/model.rs: the keyed fingerprint
  of a credential value, and what another credential with the same fingerprint means. The keyed
  hash is a parameter.
\<close>

section \<open>Environments\<close>

datatype environment = Development | Test | Staging | Production

definition ALL_ENVIRONMENTS :: "environment list" where
  "ALL_ENVIRONMENTS = [Development, Test, Staging, Production]"

fun environment_str :: "environment \<Rightarrow> string" where
  "environment_str Development = ''development''"
| "environment_str Test = ''test''"
| "environment_str Staging = ''staging''"
| "environment_str Production = ''production''"

definition parse_environment :: "string \<Rightarrow> environment res" where
  "parse_environment s =
     (let other = to_ascii_lowercase (trim s) in
      if other = ''development'' \<or> other = ''dev'' then Inr Development
      else if other = ''test'' then Inr Test
      else if other = ''staging'' then Inr Staging
      else if other = ''production'' \<or> other = ''prod'' then Inr Production
      else Inl (InvalidInput (''unknown environment '' @ quoted other @
             ''; expected development, test, staging, or production'')))"

section \<open>Fingerprints and warnings\<close>

definition fingerprint :: "(string \<Rightarrow> string \<Rightarrow> string) \<Rightarrow> string \<Rightarrow> string \<Rightarrow> string res" where
  "fingerprint kh key v =
     (if length key \<noteq> 32 then Inl (Crypto ''fingerprint key length'') else Inr (kh key (trim v)))"

datatype reuse_kind =
    DuplicateInProject
  | AcrossProjects
  | ProductionSharedWithDevelopment
  | IntentionalReference

fun reuse_kind_text :: "reuse_kind \<Rightarrow> string" where
  "reuse_kind_text DuplicateInProject = ''duplicate within the same project''"
| "reuse_kind_text AcrossProjects = ''reused across projects''"
| "reuse_kind_text ProductionSharedWithDevelopment = ''production credential shared with development''"
| "reuse_kind_text IntentionalReference = ''intentional reference''"

record reuse_match =
  rm_credential_id :: string
  rm_credential_name :: string
  rm_project_id :: string
  rm_project_name :: string
  rm_environment :: environment
  rm_is_reference :: bool

record reuse_warning =
  rw_kind :: reuse_kind
  rw_other :: reuse_match
  rw_message :: string
  rw_recommendation :: string

definition dev_like :: "environment \<Rightarrow> bool" where
  "dev_like e \<longleftrightarrow> e = Development \<or> e = Test"

definition is_prod_dev_pair :: "environment \<Rightarrow> environment \<Rightarrow> bool" where
  "is_prod_dev_pair a b \<longleftrightarrow> a = Production \<and> dev_like b \<or> b = Production \<and> dev_like a"

definition reuse_kind_of :: "string \<Rightarrow> environment \<Rightarrow> reuse_match \<Rightarrow> reuse_kind" where
  "reuse_kind_of target_project_id target_environment m =
     (if rm_is_reference m then IntentionalReference
      else if rm_project_id m = target_project_id then DuplicateInProject
      else if is_prod_dev_pair target_environment (rm_environment m) then ProductionSharedWithDevelopment
      else AcrossProjects)"

definition reuse_location :: "reuse_match \<Rightarrow> string" where
  "reuse_location m = rm_project_name m @ ''/'' @ rm_credential_name m"

fun reuse_texts :: "reuse_match \<Rightarrow> reuse_kind \<Rightarrow> string \<times> string" where
  "reuse_texts m DuplicateInProject =
     (''this exact secret value is already stored in this project as '' @ quoted (rm_credential_name m),
      ''avoid storing the same value twice; reference the existing credential instead'')"
| "reuse_texts m ProductionSharedWithDevelopment =
     (''this value is shared between production and development/test: it is also stored as '' @
        quoted (reuse_location m) @ '' ('' @ environment_str (rm_environment m) @
        ''); a leak in the lower environment would compromise production'',
      ''create separate provider credentials for production and development, and rotate this one'')"
| "reuse_texts m AcrossProjects =
     (''this exact secret value is also stored in another project as '' @ quoted (reuse_location m),
      ''prefer one provider credential per project; either create a separate credential at the provider, or intentionally reference the existing entry instead of storing a copy'')"
| "reuse_texts m IntentionalReference =
     (quoted (reuse_location m) @ '' intentionally references this same stored value'',
      ''intentional sharing; no separate secret copy is stored'')"

definition classify_reuse :: "string \<Rightarrow> environment \<Rightarrow> reuse_match list \<Rightarrow> reuse_warning list" where
  "classify_reuse target_project_id target_environment matches =
     map (\<lambda>m. let kind = reuse_kind_of target_project_id target_environment m in
       \<lparr>rw_kind = kind, rw_other = m, rw_message = fst (reuse_texts m kind),
        rw_recommendation = snd (reuse_texts m kind)\<rparr>) matches"

lemma environment_reads_back: "parse_environment (environment_str e) = Inr e"
proof -
  have "list_all (\<lambda>e. parse_environment (environment_str e) = Inr e) ALL_ENVIRONMENTS" by code_simp
  then show ?thesis by (cases e) (simp_all add: ALL_ENVIRONMENTS_def)
qed

end
