(* ===== verification/CredValues.thy ===== *)
theory CredValues
  imports RotationStore EnvFile Reuse
begin

text \<open>
  Credential rows, values and retained versions of crates/core/src/vault.rs: finding a row,
  replacing a value (the outgoing value is retained as a version, old versions are pruned, those
  a rotation in flight may roll back to are exempt) and reading a version back. Whether a
  project's key is at hand, whether a master password is right, and the keyed hash of
  fingerprints are parameters.
\<close>

record vault_env =
  ve_clock :: clock
  ve_password :: "string \<Rightarrow> unit res"
  ve_project_key :: "string \<Rightarrow> unit res"
  ve_rollback_window_days :: nat
  ve_lower :: "string \<Rightarrow> string"
  ve_keyed_hash :: "string \<Rightarrow> string \<Rightarrow> string"
  ve_fingerprint_key :: string

section \<open>Finding rows\<close>

definition credential_row_by_id :: "string \<Rightarrow> vault_db \<Rightarrow> credential_row option" where
  "credential_row_by_id cid db = find (\<lambda>c. cr_id c = cid) (vd_credentials db)"

definition project_row_by_ident :: "string \<Rightarrow> vault_db \<Rightarrow> project_row res" where
  "project_row_by_ident ident db =
     (case find (\<lambda>p. pj_id p = ident) (vd_projects db) of
        Some p \<Rightarrow> Inr p
      | None \<Rightarrow>
          (case find (\<lambda>p. eq_ignore_ascii_case (pj_name p) ident) (vd_projects db) of
             Some p \<Rightarrow> Inr p
           | None \<Rightarrow> Inl (NotFound ''project'' ident)))"

definition project_name_of :: "string \<Rightarrow> vault_db \<Rightarrow> string res" where
  "project_name_of pid db =
     (case find (\<lambda>p. pj_id p = pid) (vd_projects db) of
        Some p \<Rightarrow> Inr (pj_name p) | None \<Rightarrow> Inl (DbErr ''Query returned no rows''))"

definition resolve_credential :: "string \<Rightarrow> vault_db \<Rightarrow> credential_row res" where
  "resolve_credential selector db =
     (case credential_row_by_id selector db of
        Some c \<Rightarrow> Inr c
      | None \<Rightarrow>
        (case split_once CHR ''/'' selector of
           Some (project_ident, name) \<Rightarrow>
             (case project_row_by_ident project_ident db of
                Inl e \<Rightarrow> Inl e
              | Inr p \<Rightarrow>
                  (case find (\<lambda>c. cr_project_id c = pj_id p \<and> eq_ignore_ascii_case (cr_name c) name)
                          (vd_credentials db) of
                     Some c \<Rightarrow> Inr c | None \<Rightarrow> Inl (NotFound ''credential'' selector)))
         | None \<Rightarrow>
             (case filter (\<lambda>c. eq_ignore_ascii_case (cr_name c) selector) (vd_credentials db) of
                [] \<Rightarrow> Inl (NotFound ''credential'' selector)
              | [c] \<Rightarrow> Inr c
              | _ \<Rightarrow> Inl (Ambiguous ''credential'' selector))))"

definition value_version_of :: "string \<Rightarrow> vault_db \<Rightarrow> int res" where
  "value_version_of cid db =
     (case credential_row_by_id cid db of
        Some c \<Rightarrow> Inr (cr_value_version c) | None \<Rightarrow> Inl (DbErr ''Query returned no rows''))"

section \<open>Retaining and replacing\<close>

definition KEEP_VERSIONS :: int where "KEEP_VERSIONS = 10"

text \<open>The clause exempting versions a rotation in flight may roll back to.\<close>

definition prune_exempt :: "vault_db \<Rightarrow> version_row \<Rightarrow> bool" where
  "prune_exempt db v \<longleftrightarrow> (\<exists>r \<in> set (vd_rotations db). rn_credential_id r = vr_credential_id v
     \<and> rn_old_version r = Some (vr_version v) \<and> in_flight r)"

definition prune_versions :: "string \<Rightarrow> (version_row \<Rightarrow> bool) \<Rightarrow> vault_db \<Rightarrow> vault_db" where
  "prune_versions cid old db =
     db\<lparr>vd_versions := filter (\<lambda>v. \<not> (vr_credential_id v = cid \<and> old v \<and> \<not> prune_exempt db v))
          (vd_versions db), vd_tick := vd_tick db + 1\<rparr>"

definition prune_by_age :: "vault_env \<Rightarrow> string \<Rightarrow> vault_db \<Rightarrow> vault_db" where
  "prune_by_age env cid db =
     (if 0 < ve_rollback_window_days env
      then prune_versions cid (\<lambda>v. vr_created_at v <
             rfc3339_after (ve_clock env) (- (int (ve_rollback_window_days env) * 86400)) db) db
      else db)"

definition retain_credential_version ::
    "vault_env \<Rightarrow> credential_row \<Rightarrow> string \<Rightarrow> (vault_db, int) op" where
  "retain_credential_version env row reason db =
     (case value_version_of (cr_id row) db of
        Inl e \<Rightarrow> (Inl e, db)
      | Inr version \<Rightarrow>
        (case cr_value row of
           None \<Rightarrow> (Inl (VaultCorrupted ''credential is missing its ciphertext''), db)
         | Some plain \<Rightarrow>
           (let retained = \<lparr>vr_credential_id = cr_id row, vr_version = version, vr_value = plain,
                  vr_masked_value = cr_masked_value row, vr_created_at = now_rfc3339 (ve_clock env) db,
                  vr_reason = reason\<rparr>;
                inserted = db\<lparr>vd_versions := filter (\<lambda>v. \<not> (vr_credential_id v = cr_id row
                    \<and> vr_version v = version)) (vd_versions db) @ [retained], vd_tick := vd_tick db + 1\<rparr>
            in (Inr version, prune_by_age env (cr_id row)
                  (prune_versions (cr_id row) (\<lambda>v. vr_version v \<le> version - KEEP_VERSIONS) inserted)))))"

text \<open>The two updates of a replacement: the row itself, and the references that mirror it.\<close>

definition store_value ::
    "credential_row \<Rightarrow> string \<Rightarrow> string \<Rightarrow> string \<Rightarrow> int \<Rightarrow> vault_db \<Rightarrow> vault_db" where
  "store_value row fp new_value now version db =
     db\<lparr>vd_credentials := map (\<lambda>c.
          if cr_id c = cr_id row
          then c\<lparr>cr_value := Some (trim new_value), cr_fingerprint := fp, cr_masked_value := mask_value new_value,
                 cr_updated_at := now, cr_value_version := version, cr_provider_expires_at := None\<rparr>
          else if cr_linked_credential_id c = Some (cr_id row)
          then c\<lparr>cr_fingerprint := fp, cr_masked_value := mask_value new_value, cr_updated_at := now\<rparr>
          else c) (vd_credentials db), vd_tick := vd_tick db + 2\<rparr>"

text \<open>Other credentials that share a fingerprint, by project and name; both columns collate without case.\<close>

definition reuse_rows :: "vault_db \<Rightarrow> string \<Rightarrow> string \<Rightarrow> (credential_row \<times> project_row) list" where
  "reuse_rows db fp exclude =
     sort_key (\<lambda>(c, p). to_ascii_lowercase (pj_name p)) (sort_key (\<lambda>(c, p). to_ascii_lowercase (cr_name c))
       (concat (map (\<lambda>c. map (\<lambda>p. (c, p)) (filter (\<lambda>p. pj_id p = cr_project_id c) (vd_projects db)))
          (filter (\<lambda>c. cr_fingerprint c = fp \<and> cr_id c \<noteq> exclude) (vd_credentials db)))))"

fun reuse_matches :: "(credential_row \<times> project_row) list \<Rightarrow> reuse_match list res" where
  "reuse_matches [] = Inr []"
| "reuse_matches ((c, p) # rows) =
     (case parse_environment (cr_environment c) of
        Inl e \<Rightarrow> Inl e
      | Inr env \<Rightarrow> map_sum id ((#) \<lparr>rm_credential_id = cr_id c, rm_credential_name = cr_name c,
          rm_project_id = cr_project_id c, rm_project_name = pj_name p, rm_environment = env,
          rm_is_reference = (cr_linked_credential_id c \<noteq> None)\<rparr>) (reuse_matches rows))"

definition find_reuse_matches :: "string \<Rightarrow> string option \<Rightarrow> vault_db \<Rightarrow> reuse_match list res" where
  "find_reuse_matches fp exclude db =
     reuse_matches (reuse_rows db fp (case exclude of None \<Rightarrow> [] | Some c \<Rightarrow> c))"

definition replace_in_txn ::
    "vault_env \<Rightarrow> string \<Rightarrow> string \<Rightarrow> (vault_db, string \<times> reuse_warning list) op" where
  "replace_in_txn env selector new_value =
     andthen (inspect (resolve_credential selector)) (\<lambda>row.
     if cr_linked_credential_id row \<noteq> None
     then throw (InvalidInput ''this record is a reference; replace the value on the credential it points to'')
     else
     andthen (inspect (project_row_by_ident (cr_project_id row))) (\<lambda>project.
     andthen (inspect (\<lambda>_. ve_project_key env (pj_id project))) (\<lambda>_.
     andthen (inspect (\<lambda>_. fingerprint (ve_keyed_hash env) (ve_fingerprint_key env) new_value)) (\<lambda>fp.
     andthen (inspect (\<lambda>_. parse_environment (cr_environment row))) (\<lambda>environment.
     andthen (inspect (find_reuse_matches fp (Some (cr_id row)))) (\<lambda>matches.
     andthen (inspect (\<lambda>db. Inr (now_rfc3339 (ve_clock env) db))) (\<lambda>now.
     andthen (retain_credential_version env row ''value replaced'') (\<lambda>retained.
     andthen (change (store_value row fp new_value now (retained + 1))) (\<lambda>_.
     andthen (change (audit_add (ve_clock env) ''credential_value_replaced''
                (Some (cr_project_id row)) (Some (cr_id row)) [])) (\<lambda>_.
     ret (cr_id row, classify_reuse (cr_project_id row) environment matches)))))))))))"

definition replace_credential_value ::
    "vault_env \<Rightarrow> string \<Rightarrow> string \<Rightarrow> string \<Rightarrow> (vault_db, string \<times> reuse_warning list) op" where
  "replace_credential_value env selector master_password new_value =
     andthen (inspect (\<lambda>_. ve_password env master_password)) (\<lambda>_.
     if trim new_value = [] then throw (InvalidInput ''credential value must not be empty'')
     else in_txn (replace_in_txn env selector new_value))"

section \<open>Reading a version\<close>

definition decrypt_credential_version ::
    "vault_env \<Rightarrow> string \<Rightarrow> int \<Rightarrow> vault_db \<Rightarrow> string res" where
  "decrypt_credential_version env cid version db =
     (case credential_row_by_id cid db of
        None \<Rightarrow> Inl (NotFound ''credential'' cid)
      | Some row \<Rightarrow>
        (case value_version_of cid db of
           Inl e \<Rightarrow> Inl e
         | Inr cur \<Rightarrow>
           if cur = version then
             (case project_row_by_ident (cr_project_id row) db of Inl e \<Rightarrow> Inl e | Inr p \<Rightarrow>
             (case ve_project_key env (pj_id p) of Inl e \<Rightarrow> Inl e | Inr _ \<Rightarrow>
             (case cr_value row of
                None \<Rightarrow> Inl (VaultCorrupted ''credential is missing its ciphertext'')
              | Some v \<Rightarrow> Inr v)))
           else
             (case find (\<lambda>v. vr_credential_id v = cid \<and> vr_version v = version) (vd_versions db) of
                None \<Rightarrow> Inl (NotFound ''credential version'' (cid @ ''@v'' @ dec_of_int version))
              | Some v \<Rightarrow>
                (case project_row_by_ident (cr_project_id row) db of Inl e \<Rightarrow> Inl e | Inr p \<Rightarrow>
                (case ve_project_key env (pj_id p) of Inl e \<Rightarrow> Inl e | Inr _ \<Rightarrow> Inr (vr_value v))))))"

end
