(* ===== verification/CredProps.thy ===== *)
theory CredProps
  imports CredValues
begin

text \<open>
  Replacing a credential's value: the new value and the outgoing one can both be read back under
  their version numbers, and a version that a rotation in flight may roll back to survives every
  later replacement.
\<close>

section \<open>What a replacement leaves\<close>

definition retained_row :: "vault_env \<Rightarrow> credential_row \<Rightarrow> int \<Rightarrow> string \<Rightarrow> vault_db \<Rightarrow> version_row" where
  "retained_row env row version plain db =
     \<lparr>vr_credential_id = cr_id row, vr_version = version, vr_value = plain,
      vr_masked_value = cr_masked_value row, vr_created_at = now_rfc3339 (ve_clock env) db,
      vr_reason = ''value replaced''\<rparr>"

definition retained_db :: "vault_env \<Rightarrow> credential_row \<Rightarrow> int \<Rightarrow> string \<Rightarrow> vault_db \<Rightarrow> vault_db" where
  "retained_db env row version plain db =
     prune_by_age env (cr_id row) (prune_versions (cr_id row) (\<lambda>v. vr_version v \<le> version - KEEP_VERSIONS)
       (db\<lparr>vd_versions := filter (\<lambda>v. \<not> (vr_credential_id v = cr_id row \<and> vr_version v = version))
              (vd_versions db) @ [retained_row env row version plain db], vd_tick := vd_tick db + 1\<rparr>))"

lemma retain_cases:
  "retain_credential_version env row ''value replaced'' db =
     (case value_version_of (cr_id row) db of
        Inl e \<Rightarrow> (Inl e, db)
      | Inr version \<Rightarrow>
        (case cr_value row of
           None \<Rightarrow> (Inl (VaultCorrupted ''credential is missing its ciphertext''), db)
         | Some plain \<Rightarrow> (Inr version, retained_db env row version plain db)))"
  by (simp add: retain_credential_version_def retained_db_def retained_row_def Let_def
      split: sum.split option.split)

lemma prune_tables [simp]:
  "vd_credentials (prune_versions c old db) = vd_credentials db"
  "vd_rotations (prune_versions c old db) = vd_rotations db"
  "vd_projects (prune_versions c old db) = vd_projects db"
  "vd_credentials (prune_by_age env c db) = vd_credentials db"
  "vd_rotations (prune_by_age env c db) = vd_rotations db"
  "vd_projects (prune_by_age env c db) = vd_projects db"
  by (simp_all add: prune_by_age_def prune_versions_def)

lemma retained_tables [simp]:
  "vd_credentials (retained_db env row n plain db) = vd_credentials db"
  "vd_rotations (retained_db env row n plain db) = vd_rotations db"
  "vd_projects (retained_db env row n plain db) = vd_projects db"
  by (simp_all add: retained_db_def)

text \<open>A replacement either leaves the vault alone or is exactly this one.\<close>

definition replaced_db :: "vault_env \<Rightarrow> credential_row \<Rightarrow> string \<Rightarrow> int \<Rightarrow> string \<Rightarrow> string \<Rightarrow> vault_db \<Rightarrow> vault_db" where
  "replaced_db env row fp version plain v db =
     audit_add (ve_clock env) ''credential_value_replaced'' (Some (cr_project_id row)) (Some (cr_id row)) []
       (store_value row fp v (now_rfc3339 (ve_clock env) db) (version + 1) (retained_db env row version plain db))"

lemma replaced_tables:
  "vd_projects (replaced_db env row fp n plain v db) = vd_projects db"
  "vd_rotations (replaced_db env row fp n plain v db) = vd_rotations db"
  "vd_versions (replaced_db env row fp n plain v db) = vd_versions (retained_db env row n plain db)"
  by (simp_all add: replaced_db_def audit_add_def store_value_def)

lemma replace_cases:
  obtains (refused) e where "replace_credential_value env sel pw v db = (Inl e, db)"
  | (replaced) row version plain fp warnings where
      "resolve_credential sel db = Inr row" "value_version_of (cr_id row) db = Inr version"
      "cr_value row = Some plain"
      "\<exists>p. project_row_by_ident (cr_project_id row) db = Inr p \<and> ve_project_key env (pj_id p) = Inr ()"
      "replace_credential_value env sel pw v db = (Inr (cr_id row, warnings), replaced_db env row fp version plain v db)"
proof (cases "fst (replace_credential_value env sel pw v db)")
  case (Inl e)
  then have "replace_credential_value env sel pw v db = (Inl e, db)"
    by (auto simp: replace_credential_value_def replace_in_txn_def op_defs split: prod.splits sum.splits if_splits)
  then show ?thesis by (rule refused)
next
  case (Inr c)
  then show ?thesis
    by (auto simp: replace_credential_value_def replace_in_txn_def op_defs retain_cases replaced_db_def
        split: prod.splits sum.splits if_splits option.splits intro!: replaced)
qed

section \<open>Reading back\<close>

lemma find_distinct:
  "distinct (map k xs) \<Longrightarrow> x \<in> set xs \<Longrightarrow> find (\<lambda>y. k y = k x) xs = Some x"
  by (induction xs) auto

lemma find_map_key:
  "(\<And>x. k (f x) = k x) \<Longrightarrow> find (\<lambda>x. k x = i) (map f xs) = map_option f (find (\<lambda>x. k x = i) xs)"
  by (induction xs) auto

lemma resolved_in: "resolve_credential sel db = Inr row \<Longrightarrow> row \<in> set (vd_credentials db)"
  by (auto simp: resolve_credential_def credential_row_by_id_def find_Some_iff
      split: option.splits sum.splits list.splits dest: filter_eq_ConsD)

lemma replaced_row:
  assumes "credential_row_by_id (cr_id row) db = Some row"
  shows "credential_row_by_id (cr_id row) (replaced_db env row fp n plain v db) = Some (row
     \<lparr>cr_value := Some (trim v), cr_fingerprint := fp, cr_masked_value := mask_value v,
      cr_updated_at := now_rfc3339 (ve_clock env) db, cr_value_version := n + 1,
      cr_provider_expires_at := None\<rparr>)"
  using assms unfolding credential_row_by_id_def replaced_db_def
  by (simp add: audit_add_def store_value_def) (subst find_map_key, auto)

text \<open>
  The clock, for a window of days: instants most of a day apart order as texts do, and the
  statements of one replacement take less than the rest.
\<close>

definition steady :: "clock \<Rightarrow> vault_db \<Rightarrow> bool" where
  "steady clk db \<longleftrightarrow> (\<forall>a b. a + 86000 * 1000000000 \<le> b \<longrightarrow> \<not> ck_text clk b < ck_text clk a)
     \<and> ck_at clk (vd_tick db + 2) \<le> ck_at clk (vd_tick db) + 400 * 1000000000"

lemma retained_survives:
  assumes "steady (ve_clock env) db"
  shows "retained_row env row n plain db \<in> set (vd_versions (retained_db env row n plain db))"
proof -
  let ?clk = "ve_clock env" and ?days = "int (ve_rollback_window_days env)"
  have "\<not> ck_text ?clk (ck_at ?clk (vd_tick db)) < ck_text ?clk (ck_at ?clk (vd_tick db + 2) - ?days * 86400 * 1000000000)"
    if "0 < ve_rollback_window_days env"
    using assms that by (auto simp: steady_def)
  then show ?thesis
    by (simp add: retained_db_def prune_by_age_def prune_versions_def retained_row_def KEEP_VERSIONS_def
        rfc3339_after_def clock_now_def now_rfc3339_def)
qed

lemma retained_only:
  "x \<in> set (vd_versions (retained_db env row n plain db)) \<Longrightarrow> vr_credential_id x = cr_id row \<Longrightarrow>
     vr_version x = n \<Longrightarrow> x = retained_row env row n plain db"
  by (auto simp: retained_db_def prune_by_age_def prune_versions_def retained_row_def split: if_splits)

lemma retained_found:
  assumes "steady (ve_clock env) db"
  shows "find (\<lambda>v. vr_credential_id v = cr_id row \<and> vr_version v = n) (vd_versions (retained_db env row n plain db))
     = Some (retained_row env row n plain db)"
proof -
  have found: "find P xs = Some x" if "x \<in> set xs" "P x" "\<And>y. y \<in> set xs \<Longrightarrow> P y \<Longrightarrow> y = x" for P x xs
  proof (cases "find P xs")
    case None
    with that(1,2) show ?thesis by (auto simp: find_None_iff)
  next
    case (Some y)
    then have "y \<in> set xs" "P y" by (auto simp: find_Some_iff)
    then have "y = x" by (rule that(3))
    with Some show ?thesis by simp
  qed
  show ?thesis
  proof (rule found [OF retained_survives [OF assms]])
    show "vr_credential_id (retained_row env row n plain db) = cr_id row
      \<and> vr_version (retained_row env row n plain db) = n" by (simp add: retained_row_def)
  qed (blast intro: retained_only)
qed

text \<open>
  C37. Round trip: after a successful replacement the credential is at the next version, reading
  that version returns the new value (trimmed), and reading the version before returns exactly the
  value it had. The ids of credentials are distinct, and the clock is steady: the call
  takes at most 400 seconds, and the texts of instants nearly a day apart are in order.
\<close>

theorem replaced_value_reads_back:
  assumes "distinct (map cr_id (vd_credentials db))" "steady (ve_clock env) db"
    and "replace_credential_value env sel pw v db = (Inr (cid, warnings), db')"
  shows "\<exists>n old. value_version_of cid db = Inr n \<and> Option.bind (credential_row_by_id cid db) cr_value = Some old
     \<and> value_version_of cid db' = Inr (n + 1)
     \<and> decrypt_credential_version env cid (n + 1) db' = Inr (trim v)
     \<and> decrypt_credential_version env cid n db' = Inr old"
proof (cases rule: replace_cases [of env sel pw v db])
  case (refused e)
  with assms(3) show ?thesis by simp
next
  case (replaced row n plain fp warnings)
  with assms(3) have eq: "cid = cr_id row" "db' = replaced_db env row fp n plain v db" by simp_all
  have row: "credential_row_by_id (cr_id row) db = Some row"
    using find_distinct [OF assms(1) resolved_in [OF replaced(1)]] by (simp add: credential_row_by_id_def)
  note row' = replaced_row [OF row, of env fp n plain v]
  obtain p where p: "project_row_by_ident (cr_project_id row) db = Inr p" "ve_project_key env (pj_id p) = Inr ()"
    using replaced by blast
  have p': "project_row_by_ident (cr_project_id row) (replaced_db env row fp n plain v db) = Inr p"
    using p(1) unfolding project_row_by_ident_def replaced_tables .
  have old: "value_version_of cid db = Inr n" "Option.bind (credential_row_by_id cid db) cr_value = Some plain"
    using replaced row by (simp_all add: eq)
  have new: "value_version_of cid db' = Inr (n + 1)" by (simp add: eq value_version_of_def row')
  moreover have "decrypt_credential_version env cid (n + 1) db' = Inr (trim v)"
    using new by (simp add: decrypt_credential_version_def eq row' p p')
  moreover have "decrypt_credential_version env cid n db' = Inr plain"
    using new by (simp add: decrypt_credential_version_def eq row' p p' replaced_tables
        retained_found [OF assms(2)]) (simp add: retained_row_def)
  ultimately show ?thesis using old by blast
qed

text \<open>A small vault, and an environment with a rollback window, to apply the theorems to.\<close>

definition cred_env :: vault_env where
  "cred_env = \<lparr>ve_clock = \<lparr>ck_at = int, ck_text = (\<lambda>t. if t < 0 then ''a'' else ''b''), ck_parse = (\<lambda>_. Inr 0), ck_date = id\<rparr>,
     ve_password = (\<lambda>_. Inr ()), ve_project_key = (\<lambda>_. Inr ()), ve_rollback_window_days = 7, ve_lower = id,
     ve_keyed_hash = (\<lambda>_ v. v), ve_fingerprint_key = replicate 32 CHR 0x00\<rparr>"

definition cred_version :: version_row where
  "cred_version = \<lparr>vr_credential_id = ''c'', vr_version = 1, vr_value = ''first'', vr_masked_value = [],
     vr_created_at = [], vr_reason = []\<rparr>"

definition cred_db :: vault_db where
  "cred_db = \<lparr>vd_rotations = [\<lparr>rn_id = ''r'', rn_credential_id = ''c'', rn_provider = ''p'',
       rn_state = REPLACEMENT_STORED, rn_mode = MODE_MANUAL, rn_note = [], rn_created_at = [], rn_updated_at = [],
       rn_approved_at = None, rn_old_version = Some 1, rn_new_version = Some 2, rn_sync_plan_id = None,
       rn_grace_minutes = 0, rn_grace_ends_at = None, rn_old_provider_key_id = None,
       rn_new_provider_key_id = None, rn_provider_project_id = None, rn_new_value_validated = False,
       rn_old_disabled_at = None, rn_old_revoked_at = None, rn_last_error = [], rn_manual_instructions = []\<rparr>],
     vd_events = [], vd_schedules = [],
     vd_credentials = [\<lparr>cr_id = ''c'', cr_project_id = ''j'', cr_name = ''key'', cr_environment = ''prod'', cr_provider = ''p'',
       cr_linked_credential_id = None, cr_value = Some ''old'', cr_value_version = 30, cr_fingerprint = [],
       cr_masked_value = [], cr_updated_at = [], cr_provider_expires_at = None\<rparr>],
     vd_versions = [cred_version], vd_projects = [\<lparr>pj_id = ''j'', pj_name = ''proj''\<rparr>],
     vd_key_links = [], vd_side_keys = [], vd_usage = [], vd_audit = [], vd_tick = 0\<rparr>"

theorem replaced_value_reads_back_witness:
  "\<exists>db'. replace_credential_value cred_env ''key'' [] '' new '' cred_db = (Inr (''c'', []), db')
     \<and> decrypt_credential_version cred_env ''c'' 31 db' = Inr ''new''
     \<and> decrypt_credential_version cred_env ''c'' 30 db' = Inr ''old''"
proof -
  have d: "distinct (map cr_id (vd_credentials cred_db))" by (simp add: cred_db_def)
  have c: "steady (ve_clock cred_env) cred_db" by (auto simp: steady_def cred_env_def cred_db_def)
  have "fst (replace_credential_value cred_env ''key'' [] '' new '' cred_db) = Inr (''c'', [])" by code_simp
  then obtain db' where r: "replace_credential_value cred_env ''key'' [] '' new '' cred_db = (Inr (''c'', []), db')"
    by (cases "replace_credential_value cred_env ''key'' [] '' new '' cred_db") simp
  have "value_version_of ''c'' cred_db = Inr 30"
    "Option.bind (credential_row_by_id ''c'' cred_db) cr_value = Some ''old''" "trim '' new '' = ''new''"
    by code_simp+
  with replaced_value_reads_back [OF d c r] r show ?thesis by simp
qed

section \<open>Retention\<close>

lemma prune_keeps_exempt:
  "x \<in> set (vd_versions db) \<Longrightarrow> prune_exempt db x \<Longrightarrow> x \<in> set (vd_versions (prune_versions c old db))"
  "prune_exempt (prune_versions c old db) = prune_exempt db"
  by (auto simp: prune_versions_def prune_exempt_def)

lemma prune_by_age_keeps_exempt:
  "x \<in> set (vd_versions db) \<Longrightarrow> prune_exempt db x \<Longrightarrow> x \<in> set (vd_versions (prune_by_age env c db))"
  by (simp add: prune_by_age_def prune_keeps_exempt)

definition same_version :: "version_row \<Rightarrow> version_row \<Rightarrow> bool" where
  "same_version x y \<longleftrightarrow> vr_credential_id x = vr_credential_id y \<and> vr_version x = vr_version y"

lemma exempt_same: "same_version x y \<Longrightarrow> prune_exempt db x \<longleftrightarrow> prune_exempt db y"
  by (simp add: same_version_def prune_exempt_def)

lemma retained_keeps_exempt:
  assumes x: "x \<in> set (vd_versions db)" "prune_exempt db x"
  shows "\<exists>y \<in> set (vd_versions (retained_db env row n plain db)). same_version y x"
proof -
  let ?r = "retained_row env row n plain db"
  let ?y = "if vr_credential_id x = cr_id row \<and> vr_version x = n then ?r else x"
  have same: "same_version ?y x" by (simp add: same_version_def retained_row_def)
  let ?db = "db\<lparr>vd_versions := filter (\<lambda>v. \<not> (vr_credential_id v = cr_id row \<and> vr_version v = n)) (vd_versions db)
      @ [?r], vd_tick := vd_tick db + 1\<rparr>"
  have in_db: "?y \<in> set (vd_versions ?db)" using x by auto
  have ex: "prune_exempt ?db ?y" using exempt_same [OF same, of db] x by (simp add: prune_exempt_def)
  then have "?y \<in> set (vd_versions (retained_db env row n plain db))"
    unfolding retained_db_def
    by (intro prune_by_age_keeps_exempt prune_keeps_exempt(1) in_db) (simp_all add: prune_keeps_exempt(2))
  with same show ?thesis by blast
qed

definition replacements :: "(vault_env \<times> string \<times> string \<times> string) list \<Rightarrow> vault_db \<Rightarrow> vault_db" where
  "replacements reqs db = foldl (\<lambda>d (env, sel, pw, v). snd (replace_credential_value env sel pw v d)) db reqs"

text \<open>
  C38. Retention: however many replacements follow, with whatever outcome and whatever rollback
  window, a version that a rotation in flight may roll back to is still there.
\<close>

theorem rollback_version_survives:
  assumes "x \<in> set (vd_versions db)" "prune_exempt db x"
  shows "\<exists>y \<in> set (vd_versions (replacements reqs db)). vr_credential_id y = vr_credential_id x
     \<and> vr_version y = vr_version x \<and> prune_exempt (replacements reqs db) y"
proof -
  have one: "\<exists>z \<in> set (vd_versions (snd (replace_credential_value env sel pw v d))).
      same_version z x \<and> prune_exempt (snd (replace_credential_value env sel pw v d)) z"
    if "\<exists>y \<in> set (vd_versions d). same_version y x \<and> prune_exempt d y" for env sel pw v d
  proof -
    from that obtain y where y: "y \<in> set (vd_versions d)" "same_version y x" "prune_exempt d y" by blast
    show ?thesis
    proof (cases rule: replace_cases [of env sel pw v d])
      case (refused e)
      with y show ?thesis by auto
    next
      case (replaced row n plain fp warnings)
      from retained_keeps_exempt [OF y(1,3), of env row n plain] obtain z where
        z: "z \<in> set (vd_versions (retained_db env row n plain d))" "same_version z y" by blast
      then have "prune_exempt d z" using exempt_same y(3) by blast
      moreover from z(2) y(2) have "same_version z x" by (simp add: same_version_def)
      ultimately show ?thesis using replaced z(1)
        by (auto simp: replaced_tables prune_exempt_def)
    qed
  qed
  have "\<exists>y \<in> set (vd_versions (replacements reqs db)). same_version y x \<and> prune_exempt (replacements reqs db) y"
  proof (induction reqs rule: rev_induct)
    case Nil
    show ?case using assms by (auto simp: replacements_def same_version_def)
  next
    case (snoc q qs)
    obtain env sel pw v where "q = (env, sel, pw, v)" by (cases q)
    with one [OF snoc.IH, of env sel pw v] show ?case by (simp add: replacements_def)
  qed
  then show ?thesis by (auto simp: same_version_def)
qed

theorem rollback_version_survives_witness:
  "prune_exempt cred_db cred_version
   \<and> (\<exists>y \<in> set (vd_versions (replacements [(cred_env, ''key'', [], ''n1''), (cred_env, ''key'', [], ''n2'')] cred_db)).
        vr_credential_id y = ''c'' \<and> vr_version y = 1)"
proof -
  have "prune_exempt cred_db cred_version" by code_simp
  moreover have "cred_version \<in> set (vd_versions cred_db)" by (simp add: cred_db_def)
  ultimately show ?thesis
    using rollback_version_survives [of cred_version cred_db] by (auto simp: cred_version_def)
qed

end
