(* ===== verification/RotationFlow.thy ===== *)
theory RotationFlow
  imports CredValues Providers
begin

text \<open>
  The rotation workflow of crates/core/src/vault.rs over the store of crates/core/src/rotation.rs:
  plan, approve, advance with its step functions, complete, cancel, roll back, and the view of a
  rotation. One iteration of \<open>rotation_advance\<close> is a function of the row it loaded, so a row
  loaded earlier by a second process can be given to it. Everything outside the vault's own
  tables (provider APIs, destinations and their sync engine, administrative secrets) is a state
  of type \<open>'x\<close> the calls read and change; a call made for a rotation is recorded, with the vault
  as it stood when the call was made.
\<close>

section \<open>The world\<close>

datatype rotation_call =
    CallCreate string string
  | CallDisable string string
  | CallRevoke string string
  | CallEnable string string
  | CallRevokeNew string string

record 'x rotation_world =
  wd_db :: vault_db
  wd_ext :: 'x
  wd_calls :: "rotation_call list"
  wd_found :: "vault_db list"

record created_key =
  nk_value :: string
  nk_provider_key_id :: "string option"
  nk_provider_project_id :: "string option"
  nk_detail :: string

record validation_result =
  vl_valid :: bool
  vl_detail :: string
  vl_provider_expires_at :: "string option"

record 'x rotation_env =
  fe_vault :: vault_env
  fe_manifests :: "provider_manifest list"
  fe_has_connector :: "string \<Rightarrow> bool"
  fe_admin_secret :: "string \<Rightarrow> 'x \<Rightarrow> string res"
  fe_create :: "string \<Rightarrow> string \<Rightarrow> string \<Rightarrow> string option \<Rightarrow> 'x \<Rightarrow> created_key res \<times> 'x"
  fe_disable :: "string \<Rightarrow> string \<Rightarrow> string option \<Rightarrow> string \<Rightarrow> 'x \<Rightarrow> string res \<times> 'x"
  fe_revoke :: "string \<Rightarrow> string \<Rightarrow> string option \<Rightarrow> string \<Rightarrow> 'x \<Rightarrow> string res \<times> 'x"
  fe_enable :: "string \<Rightarrow> string \<Rightarrow> 'x \<Rightarrow> string res \<times> 'x"
  fe_validate :: "string \<Rightarrow> string \<Rightarrow> 'x \<Rightarrow> validation_result res \<times> 'x"
  fe_sync_create :: "string \<Rightarrow> string \<Rightarrow> vault_db \<Rightarrow> 'x \<Rightarrow> (string \<times> nat) res \<times> 'x"
  fe_sync_execute :: "string \<Rightarrow> vault_db \<Rightarrow> 'x \<Rightarrow> string res \<times> 'x"
  fe_sync_rollback :: "string \<Rightarrow> vault_db \<Rightarrow> 'x \<Rightarrow> unit res \<times> 'x"

abbreviation fe_clock :: "'x rotation_env \<Rightarrow> clock" where
  "fe_clock env \<equiv> ve_clock (fe_vault env)"

definition on_db :: "(vault_db, 'a) op \<Rightarrow> ('x rotation_world, 'a) op" where
  "on_db m w = (case m (wd_db w) of (r, db) \<Rightarrow> (r, w\<lparr>wd_db := db\<rparr>))"

definition db_read :: "(vault_db \<Rightarrow> 'a res) \<Rightarrow> ('x rotation_world, 'a) op" where
  "db_read f = inspect (\<lambda>w. f (wd_db w))"

definition external :: "(vault_db \<Rightarrow> 'x \<Rightarrow> 'a res \<times> 'x) \<Rightarrow> ('x rotation_world, 'a) op" where
  "external f w = (case f (wd_db w) (wd_ext w) of (r, x) \<Rightarrow> (r, w\<lparr>wd_ext := x\<rparr>))"

definition recorded :: "rotation_call \<Rightarrow> ('x \<Rightarrow> 'a res \<times> 'x) \<Rightarrow> ('x rotation_world, 'a) op" where
  "recorded c f w =
     (case f (wd_ext w) of (r, x) \<Rightarrow> 
       (r, w\<lparr>wd_ext := x, wd_calls := wd_calls w @ [c], wd_found := wd_found w @ [wd_db w]\<rparr>))"

definition verify_password :: "'x rotation_env \<Rightarrow> string \<Rightarrow> ('x rotation_world, unit) op" where
  "verify_password env pw = inspect (\<lambda>_. ve_password (fe_vault env) pw)"

definition admin_secret :: "'x rotation_env \<Rightarrow> string \<Rightarrow> ('x rotation_world, string) op" where
  "admin_secret env provider = inspect (\<lambda>w. fe_admin_secret env provider (wd_ext w))"

definition connector_for :: "'x rotation_env \<Rightarrow> string \<Rightarrow> ('x rotation_world, unit) op" where
  "connector_for env provider = inspect (\<lambda>_. if fe_has_connector env provider then Inr ()
     else Inl (Unsupported provider ''connector'' ''no connector is implemented for this provider''))"

definition credential_required :: "string \<Rightarrow> vault_db \<Rightarrow> credential_row res" where
  "credential_required cid db =
     (case credential_row_by_id cid db of
        None \<Rightarrow> Inl (NotFound ''credential'' cid) | Some c \<Rightarrow> Inr c)"

definition audit_op ::
    "'x rotation_env \<Rightarrow> string \<Rightarrow> string option \<Rightarrow> string option \<Rightarrow> string \<Rightarrow> ('x rotation_world, unit) op" where
  "audit_op env event pid cid detail = on_db (change (audit_add (fe_clock env) event pid cid detail))"

definition option_text :: "string \<Rightarrow> string option \<Rightarrow> string" where
  "option_text d s = (case s of None \<Rightarrow> d | Some t \<Rightarrow> t)"

section \<open>The view\<close>

record rotation_view =
  vw_rotation :: rotation
  vw_credential_name :: string
  vw_project_name :: string
  vw_waiting_on :: "string option"

definition waiting_on :: "string \<Rightarrow> rotation \<Rightarrow> string option" where
  "waiting_on now rot =
     (let retry = (if rn_last_error rot \<noteq> [] then Some ''a retry after the recorded error'' else None) in
      if rn_state rot = PLANNED then Some ''approval (`rotation approve`)''
      else if rn_state rot = AWAITING_MANUAL_KEY
      then Some ''the manually created replacement key (`rotation provide-key`)''
      else if rn_state rot = GRACE_PERIOD
      then map_option (\<lambda>ends. if now < ends then ''grace/overlap period until '' @ ends
             else if rn_last_error rot \<noteq> [] then ''resolution of the continued-use warning''
             else ''the next advance'') (rn_grace_ends_at rot)
      else if rn_state rot = MANUAL_REQUIRED then Some ''manual provider-side action''
      else retry)"

definition hydrate_rotation :: "clock \<Rightarrow> rotation \<Rightarrow> vault_db \<Rightarrow> rotation_view res" where
  "hydrate_rotation clk rot db =
     (let view = (\<lambda>c p. \<lparr>vw_rotation = rot, vw_credential_name = c, vw_project_name = p,
                        vw_waiting_on = waiting_on (now_rfc3339 clk db) rot\<rparr>) in
      case credential_row_by_id (rn_credential_id rot) db of
        None \<Rightarrow> Inr (view ''(deleted)'' [])
      | Some row \<Rightarrow>
          (case project_name_of (cr_project_id row) db of
             Inl e \<Rightarrow> Inl e | Inr p \<Rightarrow> Inr (view (cr_name row) p)))"

definition rotation_get :: "'x rotation_env \<Rightarrow> string \<Rightarrow> ('x rotation_world, rotation_view) op" where
  "rotation_get env rid =
     andthen (db_read (load_rotation rid)) (\<lambda>rot. db_read (hydrate_rotation (fe_clock env) rot))"

section \<open>Capabilities\<close>

definition provider_can ::
    "'x rotation_env \<Rightarrow> (capabilities \<Rightarrow> capability_entry) \<Rightarrow> string \<Rightarrow> bool" where
  "provider_can env cap provider =
     (case find_provider (fe_manifests env) provider of
        None \<Rightarrow> False | Some m \<Rightarrow> ce_support (cap (pm_capabilities m)) = Implemented)"

definition manage_url :: "'x rotation_env \<Rightarrow> string \<Rightarrow> string" where
  "manage_url env provider =
     (case find_provider (fe_manifests env) provider of None \<Rightarrow> [] | Some m \<Rightarrow> pm_manage_url m)"

definition rotation_mode_for :: "'x rotation_env \<Rightarrow> string \<Rightarrow> 'x \<Rightarrow> string" where
  "rotation_mode_for env provider x =
     (if provider_can env cap_create_credential provider \<and> \<not> isl (fe_admin_secret env provider x)
      then MODE_API else MODE_MANUAL)"

section \<open>Plan and approve\<close>

definition newest_link :: "string \<Rightarrow> string \<Rightarrow> vault_db \<Rightarrow> string option" where
  "newest_link provider cid db =
     (case sort_desc kl_created_at
         (filter (\<lambda>l. kl_provider l = provider \<and> kl_credential_id l = cid) (vd_key_links db)) of
        [] \<Rightarrow> None | l # _ \<Rightarrow> Some (kl_api_key_id l))"

definition side_key_project :: "string \<Rightarrow> string \<Rightarrow> vault_db \<Rightarrow> string option" where
  "side_key_project provider key db =
     Option.bind (find (\<lambda>k. sk_provider k = provider \<and> sk_api_key_id k = key) (vd_side_keys db))
       sk_provider_project_id"

definition plan_instructions ::
    "string \<Rightarrow> string \<Rightarrow> nat \<Rightarrow> bool \<Rightarrow> bool \<Rightarrow> bool \<Rightarrow> bool \<Rightarrow> string list" where
  "plan_instructions mode url link_count key_given key_known can_disable can_revoke =
     (if mode = MODE_MANUAL
      then [''create the replacement key yourself at '' @ url @
            '', then run `rotation provide-key` with the new value''] else [])
     @ (if 1 < link_count \<and> \<not> key_given
        then [dec_of_nat link_count @ '' provider-side key ids are linked to this credential (older links are kept for usage history); the NEWEST was selected as the old key '' @ em_dash @
              '' verify with `provider list-keys` or pass --old-key-id explicitly''] else [])
     @ (if \<not> key_known \<and> (can_disable \<or> can_revoke)
        then [''no provider-side key id is linked for the OLD key; link one (`provider link`) or pass --old-key-id, otherwise disabling/revoking the old key stays manual''] else [])
     @ (if \<not> can_disable \<and> \<not> can_revoke
        then [''this provider has no API disable/revoke '' @ em_dash @
              '' after the grace period, revoke the old key yourself at '' @ url @
              '' and run `rotation complete-manual`''] else [])"

definition rotation_plan ::
    "'x rotation_env \<Rightarrow> string \<Rightarrow> string \<Rightarrow> int \<Rightarrow> string option \<Rightarrow> string option \<Rightarrow> string
       \<Rightarrow> ('x rotation_world, rotation_view) op" where
  "rotation_plan env uuid credential grace_minutes project_arg key_arg note =
     andthen (db_read (resolve_credential credential)) (\<lambda>cred.
     if cr_linked_credential_id cred \<noteq> None
     then throw (InvalidInput ''this record is a reference; rotate the credential it points to'')
     else if \<not> (0 \<le> grace_minutes \<and> grace_minutes \<le> 60 * 24 * 90)
     then throw (InvalidInput ''the grace period must be between 0 minutes and 90 days'')
     else
     andthen (inspect (\<lambda>w. Inr (rotation_mode_for env (cr_provider cred) (wd_ext w)))) (\<lambda>mode.
     andthen (inspect (\<lambda>w. Inr (wd_db w))) (\<lambda>db.
     let provider = cr_provider cred;
         link_count = length (filter (\<lambda>l. kl_provider l = provider \<and> kl_credential_id l = cr_id cred)
                                (vd_key_links db));
         old_key = (case key_arg of Some k \<Rightarrow> Some k | None \<Rightarrow> newest_link provider (cr_id cred) db);
         project = (case project_arg of Some p \<Rightarrow> Some p
                    | None \<Rightarrow> Option.bind old_key (\<lambda>k. side_key_project provider k db));
         manual = plan_instructions mode (manage_url env provider) link_count (key_arg \<noteq> None)
                    (old_key \<noteq> None) (provider_can env cap_disable_credential provider)
                    (provider_can env cap_revoke_credential provider)
     in
     andthen (on_db (insert_rotation (fe_clock env) uuid (cr_id cred) provider mode note grace_minutes
                       old_key project (join [CHR 0x0A] manual))) (\<lambda>rid.
     andthen (audit_op env ''rotation_planned'' (Some (cr_project_id cred)) (Some (cr_id cred))
                (''rotation='' @ rid @ '' mode='' @ mode)) (\<lambda>_.
     rotation_get env rid)))))"

definition other_in_flight :: "rotation \<Rightarrow> vault_db \<Rightarrow> bool" where
  "other_in_flight rot db \<longleftrightarrow> (\<exists>r \<in> set (vd_rotations db).
     rn_credential_id r = rn_credential_id rot \<and> rn_id r \<noteq> rn_id rot \<and> in_flight r)"

definition stamp_field :: "'x rotation_env \<Rightarrow> string \<Rightarrow> string \<Rightarrow> ('x rotation_world, unit) op" where
  "stamp_field env rid field =
     on_db (\<lambda>db. set_field (fe_clock env) rid field (Some (now_rfc3339 (fe_clock env) db)) db)"

definition move :: "'x rotation_env \<Rightarrow> string \<Rightarrow> string \<Rightarrow> string \<Rightarrow> string \<Rightarrow> ('x rotation_world, unit) op" where
  "move env rid from_state to_state detail = on_db (set_state (fe_clock env) rid from_state to_state detail)"

definition note_error :: "'x rotation_env \<Rightarrow> string \<Rightarrow> string \<Rightarrow> ('x rotation_world, unit) op" where
  "note_error env rid err = on_db (record_error (fe_clock env) rid err)"

definition rotation_approve ::
    "'x rotation_env \<Rightarrow> string \<Rightarrow> string \<Rightarrow> ('x rotation_world, rotation_view) op" where
  "rotation_approve env rid pw =
     andthen (verify_password env pw) (\<lambda>_.
     andthen (db_read (load_rotation rid)) (\<lambda>rot.
     if rn_state rot \<noteq> PLANNED
     then throw (InvalidInput (''rotation '' @ rid @ '' is '' @ quoted (rn_state rot) @ '', not awaiting approval''))
     else
     andthen (db_read (\<lambda>db. Inr (other_in_flight rot db))) (\<lambda>busy.
     if busy
     then throw (InvalidInput ''another rotation for this credential is already in flight; finish, roll back, or cancel it first'')
     else
     andthen (stamp_field env rid ''approved_at'') (\<lambda>_.
     andthen (move env rid PLANNED APPROVED ''user approved'') (\<lambda>_.
     andthen (db_read (credential_required (rn_credential_id rot))) (\<lambda>cred.
     andthen (audit_op env ''rotation_approved'' (Some (cr_project_id cred)) (Some (cr_id cred))
                (''rotation='' @ rid)) (\<lambda>_.
     rotation_get env rid)))))))"

end
