(* ===== verification/RotationAdvance.thy ===== *)
theory RotationAdvance
  imports RotationFlow
begin

text \<open>
  \<open>rotation_advance\<close> of crates/core/src/vault.rs and the steps it takes: one definition per
  arm of its match on the loaded row, each saying whether the loop goes on, and the steps that
  talk to the provider. The loop has the source's bound of twelve iterations.
\<close>

section \<open>Storing and creating the replacement\<close>

text \<open>The bytes of the arrow in the detail text.\<close>

abbreviation (input) arrow :: string where "arrow \<equiv> [CHR 0xE2, CHR 0x86, CHR 0x92]"

definition rotation_store_replacement ::
    "'x rotation_env \<Rightarrow> rotation \<Rightarrow> string \<Rightarrow> string \<Rightarrow> ('x rotation_world, string) op" where
  "rotation_store_replacement env rot pw value =
     andthen (db_read (load_rotation (rn_id rot))) (\<lambda>fresh.
     if rn_new_version fresh \<noteq> None then ret ''replacement already stored (recovered)''
     else if trim value = [] then throw (InvalidInput ''the replacement value must not be empty'')
     else
     andthen (db_read (value_version_of (rn_credential_id rot))) (\<lambda>old_version.
     andthen (on_db (replace_credential_value (fe_vault env) (rn_credential_id rot) pw value)) (\<lambda>(cid, _).
     andthen (db_read (value_version_of cid)) (\<lambda>new_version.
     andthen (on_db (set_versions (fe_clock env) (rn_id rot) (Some old_version) new_version)) (\<lambda>_.
     ret (''replacement stored encrypted (v'' @ dec_of_int old_version @ '' retained '' @ arrow @
          '' v'' @ dec_of_int new_version @ '')''))))))"

definition cache_created_key ::
    "clock \<Rightarrow> string \<Rightarrow> string \<Rightarrow> created_key \<Rightarrow> vault_db \<Rightarrow> vault_db" where
  "cache_created_key clk provider key created db =
     db\<lparr>vd_side_keys := filter (\<lambda>k. \<not> (sk_provider k = provider \<and> sk_api_key_id k = key)) (vd_side_keys db)
          @ [\<lparr>sk_provider = provider, sk_api_key_id = key,
              sk_provider_project_id = nk_provider_project_id created, sk_name = nk_detail created,
              sk_synced_at = now_rfc3339 clk db\<rparr>],
        vd_tick := vd_tick db + 1\<rparr>"

text \<open>Linking a provider key; the attribution it writes back to usage rows is not modelled.\<close>

definition link_key :: "clock \<Rightarrow> string \<Rightarrow> string \<Rightarrow> string \<Rightarrow> vault_db \<Rightarrow> vault_db" where
  "link_key clk provider key cid db =
     (let row = \<lparr>kl_provider = provider, kl_api_key_id = key, kl_credential_id = cid,
                 kl_created_at = now_rfc3339 clk db\<rparr>;
          here = (\<lambda>l. kl_provider l = provider \<and> kl_api_key_id l = key) in
      db\<lparr>vd_key_links := (if list_ex here (vd_key_links db)
                        then map (\<lambda>l. if here l then row else l) (vd_key_links db)
                        else vd_key_links db @ [row]),
         vd_tick := vd_tick db + 2\<rparr>)"

definition attributed_rows :: "string \<Rightarrow> string \<Rightarrow> vault_db \<Rightarrow> nat" where
  "attributed_rows provider key db = length (filter (\<lambda>u. us_provider u = provider
     \<and> us_provider_api_key_id u = Some key \<and> us_source u \<noteq> ''manual'') (vd_usage db))"

definition provider_link_key ::
    "'x rotation_env \<Rightarrow> string \<Rightarrow> string \<Rightarrow> string \<Rightarrow> ('x rotation_world, unit) op" where
  "provider_link_key env provider_arg key selector =
     (let provider = normalize_provider (ve_lower (fe_vault env)) (fe_manifests env) provider_arg in
      andthen (db_read (resolve_credential selector)) (\<lambda>cred.
      if \<not> eq_ignore_ascii_case (cr_provider cred) provider
      then throw (InvalidInput (''credential '' @ quoted (cr_name cred) @ '' belongs to provider '' @
             quoted (cr_provider cred) @ '', not '' @ quoted provider))
      else
      andthen (on_db (change (link_key (fe_clock env) provider key (cr_id cred)))) (\<lambda>_.
      andthen (db_read (\<lambda>db. Inr (attributed_rows provider key db))) (\<lambda>rows.
      audit_op env ''provider_key_linked'' (Some (cr_project_id cred)) (Some (cr_id cred))
        (''provider='' @ provider @ '' api_key_id='' @ key @ '' rows='' @ dec_of_nat rows)))))"

definition remember_created_key ::
    "'x rotation_env \<Rightarrow> rotation \<Rightarrow> created_key \<Rightarrow> ('x rotation_world, unit) op" where
  "remember_created_key env rot created =
     (case nk_provider_key_id created of
        None \<Rightarrow> ret ()
      | Some key \<Rightarrow>
          andthen (on_db (set_field (fe_clock env) (rn_id rot) ''new_provider_key_id'' (Some key))) (\<lambda>_.
          on_db (change (cache_created_key (fe_clock env) (rn_provider rot) key created))))"

definition rotation_create_replacement ::
    "'x rotation_env \<Rightarrow> rotation \<Rightarrow> string \<Rightarrow> ('x rotation_world, string) op" where
  "rotation_create_replacement env rot pw =
     (if rn_new_version rot \<noteq> None then ret ''replacement already stored (recovered)''
      else
      andthen (admin_secret env (rn_provider rot)) (\<lambda>admin.
      andthen (db_read (credential_required (rn_credential_id rot))) (\<lambda>cred.
      andthen (connector_for env (rn_provider rot)) (\<lambda>_.
      andthen (recorded (CallCreate (rn_id rot) (rn_provider rot))
                (fe_create env (rn_provider rot) admin
                   (''api-tracker-rotation-'' @ take 8 (rn_id rot)) (rn_provider_project_id rot))) (\<lambda>created.
      andthen (remember_created_key env rot created) (\<lambda>_.
      andthen (rotation_store_replacement env rot pw (nk_value created)) (\<lambda>stored.
      andthen (case nk_provider_key_id created of
                 None \<Rightarrow> ret ()
               | Some key \<Rightarrow> andthen (attempt (provider_link_key env (rn_provider rot) key (cr_id cred)))
                               (\<lambda>_. ret ())) (\<lambda>_.
      ret (nk_detail created @ ''; '' @ stored)))))))))"

section \<open>Disabling and revoking the old key\<close>

definition rotation_disable_old ::
    "'x rotation_env \<Rightarrow> rotation \<Rightarrow> ('x rotation_world, bool) op" where
  "rotation_disable_old env rot =
     (let rid = rn_id rot in
      case (rn_old_provider_key_id rot, provider_can env cap_disable_credential (rn_provider rot)) of
        (Some old_key, True) \<Rightarrow>
          andthen (admin_secret env (rn_provider rot)) (\<lambda>admin.
          andthen (connector_for env (rn_provider rot)) (\<lambda>_.
          andthen (attempt (recorded (CallDisable rid old_key)
                    (fe_disable env (rn_provider rot) admin (rn_provider_project_id rot) old_key))) (\<lambda>result.
          case result of
            Inr detail \<Rightarrow>
              andthen (stamp_field env rid ''old_disabled_at'') (\<lambda>_.
              andthen (move env rid GRACE_PERIOD OLD_DISABLED (''old key disabled: '' @ detail)) (\<lambda>_.
              ret True))
          | Inl e \<Rightarrow> andthen (note_error env rid (display_error e)) (\<lambda>_. ret False))))
      | _ \<Rightarrow>
          andthen (move env rid GRACE_PERIOD OLD_DISABLED
            ''provider has no separate disable step (or no key id); proceeding to revocation'') (\<lambda>_.
          ret True))"

definition revoke_attempt_marker :: "string \<Rightarrow> string" where
  "revoke_attempt_marker old_key = ''attempting revocation of old key '' @ old_key"

definition revoke_was_attempted :: "string \<Rightarrow> string \<Rightarrow> vault_db \<Rightarrow> bool" where
  "revoke_was_attempted rid old_key db \<longleftrightarrow>
     (\<exists>e \<in> set (rotation_timeline rid db). ev_detail e = revoke_attempt_marker old_key)"

definition add_note :: "'x rotation_env \<Rightarrow> string \<Rightarrow> string \<Rightarrow> ('x rotation_world, unit) op" where
  "add_note env rid text = on_db (record_event_note (fe_clock env) rid text)"

text \<open>After a revocation that counts as done: the fields and the note.\<close>

definition revoked_fields ::
    "'x rotation_env \<Rightarrow> string \<Rightarrow> string \<Rightarrow> ('x rotation_world, bool) op" where
  "revoked_fields env rid detail =
     andthen (stamp_field env rid ''old_revoked_at'') (\<lambda>_.
     andthen (on_db (clear_error rid)) (\<lambda>_.
     andthen (add_note env rid (''old key revoked: '' @ detail)) (\<lambda>_.
     ret True)))"

definition revoke_outcome ::
    "'x rotation_env \<Rightarrow> rotation \<Rightarrow> string \<Rightarrow> bool \<Rightarrow> string res \<Rightarrow> ('x rotation_world, bool) op" where
  "revoke_outcome env rot old_key attempted_before result =
     (let rid = rn_id rot in
      case result of
        Inr detail \<Rightarrow> revoked_fields env rid detail
      | Inl (NotFound _ _) \<Rightarrow>
          if attempted_before
          then revoked_fields env rid (''the provider no longer knows key '' @ old_key @
                 ''; a prior recorded attempt on this exact key makes this a completed retry (the old key is gone either way)'')
          else andthen (move env rid OLD_DISABLED MANUAL_REQUIRED
                 (''the provider says key '' @ old_key @ '' does not exist '' @ em_dash @
                  '' a wrong key id or project would look exactly like this, so nothing was marked revoked. Verify at '' @
                  manage_url env (rn_provider rot) @
                  '' or with `provider list-keys`: if the old key is truly gone, run `rotation complete-manual '' @
                  rid @ ''`; if this is NOT this rotation's key, `rotation rollback`'')) (\<lambda>_. ret False)
      | Inl e \<Rightarrow> throw e)"

definition rotation_revoke_old ::
    "'x rotation_env \<Rightarrow> rotation \<Rightarrow> ('x rotation_world, bool) op" where
  "rotation_revoke_old env rot =
     (let rid = rn_id rot in
      if rn_old_revoked_at rot \<noteq> None
      then andthen (add_note env rid ''old key already revoked (recovered); completing rotation'') (\<lambda>_. ret True)
      else
      case (rn_old_provider_key_id rot, provider_can env cap_revoke_credential (rn_provider rot)) of
        (Some old_key, True) \<Rightarrow>
          andthen (admin_secret env (rn_provider rot)) (\<lambda>admin.
          andthen (connector_for env (rn_provider rot)) (\<lambda>_.
          andthen (db_read (\<lambda>db. Inr (revoke_was_attempted rid old_key db))) (\<lambda>attempted_before.
          andthen (add_note env rid (revoke_attempt_marker old_key)) (\<lambda>_.
          andthen (attempt (recorded (CallRevoke rid old_key)
                    (fe_revoke env (rn_provider rot) admin (rn_provider_project_id rot) old_key)))
            (revoke_outcome env rot old_key attempted_before)))))
      | _ \<Rightarrow>
          andthen (move env rid OLD_DISABLED MANUAL_REQUIRED
            (''revoke the old key yourself at '' @ manage_url env (rn_provider rot) @
             '', then run `rotation complete-manual '' @ rid @ ''`'')) (\<lambda>_. ret False))"

definition completed_tail ::
    "'x rotation_env \<Rightarrow> rotation \<Rightarrow> string \<Rightarrow> ('x rotation_world, unit) op" where
  "completed_tail env rot detail =
     andthen (on_db (schedule_mark_completed (fe_clock env) (rn_credential_id rot) (rn_id rot))) (\<lambda>_.
     andthen (db_read (\<lambda>db. Inr (credential_row_by_id (rn_credential_id rot) db))) (\<lambda>cred.
     audit_op env ''rotation_completed'' (map_option cr_project_id cred) (Some (rn_credential_id rot)) detail))"

definition rotation_complete :: "'x rotation_env \<Rightarrow> rotation \<Rightarrow> ('x rotation_world, unit) op" where
  "rotation_complete env rot =
     andthen (move env (rn_id rot) OLD_DISABLED COMPLETED ''rotation completed'') (\<lambda>_.
     completed_tail env rot (''rotation='' @ rn_id rot))"

section \<open>The arms of the loop\<close>

text \<open>
  An arm returns whether the loop goes on (\<open>True\<close>), or the view is returned, and what is left
  of the provided value, which an arm may take.
\<close>

type_synonym 'x arm = "('x rotation_world, bool \<times> string option) op"

definition stop_with_error :: "'x rotation_env \<Rightarrow> string \<Rightarrow> string \<Rightarrow> string option \<Rightarrow> 'x arm" where
  "stop_with_error env rid err value = andthen (note_error env rid err) (\<lambda>_. ret (False, value))"

definition advance_approved ::
    "'x rotation_env \<Rightarrow> rotation \<Rightarrow> string \<Rightarrow> string option \<Rightarrow> 'x arm" where
  "advance_approved env rot pw value =
     (let rid = rn_id rot in
      if rn_mode rot = MODE_API then
        (if value \<noteq> None
         then throw (InvalidInput ''this rotation creates the replacement via the provider API; a provided value is not applicable'')
         else andthen (move env rid APPROVED CREATING_REPLACEMENT ''claimed for provider-side key creation'')
                (\<lambda>_. ret (True, value)))
      else
        (case value of
           Some v \<Rightarrow>
             andthen (rotation_store_replacement env rot pw v) (\<lambda>detail.
             andthen (move env rid APPROVED REPLACEMENT_STORED detail) (\<lambda>_. ret (True, None)))
         | None \<Rightarrow>
             andthen (move env rid APPROVED AWAITING_MANUAL_KEY
               ''waiting for the manually created replacement key'') (\<lambda>_. ret (False, None))))"

definition orphaned :: "rotation \<Rightarrow> bool" where
  "orphaned rot \<longleftrightarrow> rn_new_provider_key_id rot \<noteq> None \<and> rn_new_version rot = None"

definition orphan_text :: "rotation \<Rightarrow> string" where
  "orphan_text rot =
     ''a provider key ('' @ option_text ''?'' (rn_new_provider_key_id rot) @
     '') was created but its value was never stored (it is shown only once, at creation). Revoke that key at the provider, clear it with `rotation cancel`, and plan again''"

definition advance_creating :: "'x rotation_env \<Rightarrow> rotation \<Rightarrow> string option \<Rightarrow> 'x arm" where
  "advance_creating env rot value =
     (if orphaned rot then stop_with_error env (rn_id rot) (orphan_text rot) value
      else andthen (move env (rn_id rot) CREATING_REPLACEMENT CREATING_IN_PROGRESS
             ''claimed the provider-side key creation'') (\<lambda>_. ret (True, value)))"

definition advance_in_progress ::
    "'x rotation_env \<Rightarrow> rotation \<Rightarrow> string \<Rightarrow> string option \<Rightarrow> 'x arm" where
  "advance_in_progress env rot pw value =
     (if orphaned rot then stop_with_error env (rn_id rot) (orphan_text rot) value
      else andthen (attempt (rotation_create_replacement env rot pw)) (\<lambda>result.
        case result of
          Inr detail \<Rightarrow>
            andthen (move env (rn_id rot) CREATING_IN_PROGRESS REPLACEMENT_STORED detail)
              (\<lambda>_. ret (True, value))
        | Inl e \<Rightarrow> stop_with_error env (rn_id rot) (display_error e) value))"

definition advance_awaiting ::
    "'x rotation_env \<Rightarrow> rotation \<Rightarrow> string \<Rightarrow> string option \<Rightarrow> 'x arm" where
  "advance_awaiting env rot pw value =
     (case value of
        None \<Rightarrow> ret (False, None)
      | Some v \<Rightarrow>
          andthen (rotation_store_replacement env rot pw v) (\<lambda>detail.
          andthen (move env (rn_id rot) AWAITING_MANUAL_KEY REPLACEMENT_STORED detail)
            (\<lambda>_. ret (True, None))))"

definition advance_stored :: "'x rotation_env \<Rightarrow> rotation \<Rightarrow> string option \<Rightarrow> 'x arm" where
  "advance_stored env rot value =
     (let rid = rn_id rot in
      andthen (external (fe_sync_create env (rn_credential_id rot) (''rotation '' @ rid))) (\<lambda>plan.
      andthen (on_db (set_field (fe_clock env) rid ''sync_plan_id'' (Some (fst plan)))) (\<lambda>_.
      andthen (move env rid REPLACEMENT_STORED UPDATING_DESTINATIONS
        (''sync plan '' @ fst plan @ '' created ('' @ dec_of_nat (snd plan) @ '' step(s))'')) (\<lambda>_.
      ret (True, value)))))"

definition advance_updating :: "'x rotation_env \<Rightarrow> rotation \<Rightarrow> string option \<Rightarrow> 'x arm" where
  "advance_updating env rot value =
     (let rid = rn_id rot in
      case rn_sync_plan_id rot of
        None \<Rightarrow> throw (VaultCorrupted ''rotation lost its sync plan id'')
      | Some plan_id \<Rightarrow>
          andthen (attempt (external (fe_sync_execute env plan_id))) (\<lambda>result.
          case result of
            Inr status \<Rightarrow>
              if status = ''executed''
              then andthen (move env rid UPDATING_DESTINATIONS DESTINATIONS_VERIFIED
                     ''every destination step executed and verified'') (\<lambda>_. ret (True, value))
              else stop_with_error env rid (''destination sync is '' @ quoted status @
                     ''; fix the failing destination and advance again (only failed steps re-run)'') value
          | Inl e \<Rightarrow> stop_with_error env rid (display_error e) value))"

text \<open>\<open>validate_credential\<close>: the current value, checked by the provider's connector.\<close>

definition decrypt_value :: "vault_env \<Rightarrow> string \<Rightarrow> vault_db \<Rightarrow> string res" where
  "decrypt_value env selector db =
     (case resolve_credential selector db of
        Inl e \<Rightarrow> Inl e
      | Inr requested \<Rightarrow>
        (case (case cr_linked_credential_id requested of
                 None \<Rightarrow> Inr requested
               | Some target \<Rightarrow>
                   (case credential_row_by_id target db of
                      None \<Rightarrow> Inl (VaultCorrupted ''reference target is missing'') | Some c \<Rightarrow> Inr c)) of
           Inl e \<Rightarrow> Inl e
         | Inr root \<Rightarrow>
           (case cr_value root of
              None \<Rightarrow> Inl (VaultCorrupted ''credential is missing its ciphertext'')
            | Some v \<Rightarrow>
              (case project_row_by_ident (cr_project_id root) db of Inl e \<Rightarrow> Inl e | Inr p \<Rightarrow>
              (case ve_project_key env (pj_id p) of Inl e \<Rightarrow> Inl e | Inr _ \<Rightarrow> Inr v)))))"

definition validate_credential ::
    "'x rotation_env \<Rightarrow> string \<Rightarrow> ('x rotation_world, validation_result) op" where
  "validate_credential env selector =
     andthen (db_read (resolve_credential selector)) (\<lambda>cred.
     andthen (connector_for env (cr_provider cred)) (\<lambda>_.
     andthen (db_read (decrypt_value (fe_vault env) selector)) (\<lambda>value.
     andthen (external (\<lambda>_. fe_validate env (cr_provider cred) value)) (\<lambda>result.
     andthen (on_db (change (\<lambda>db. case vl_provider_expires_at result of
         None \<Rightarrow> db
       | Some t \<Rightarrow> db\<lparr>vd_credentials := map (\<lambda>c. if cr_id c = cr_id cred
            then c\<lparr>cr_provider_expires_at := Some t\<rparr> else c) (vd_credentials db),
            vd_tick := vd_tick db + 1\<rparr>))) (\<lambda>_.
     andthen (audit_op env ''credential_validated'' (Some (cr_project_id cred)) (Some (cr_id cred))
       (''valid='' @ (if vl_valid result then ''true'' else ''false''))) (\<lambda>_.
     ret result))))))"

definition advance_verified :: "'x rotation_env \<Rightarrow> rotation \<Rightarrow> string option \<Rightarrow> 'x arm" where
  "advance_verified env rot value =
     (let rid = rn_id rot; clk = fe_clock env in
      andthen (db_read (value_version_of (rn_credential_id rot))) (\<lambda>current.
      if Some current \<noteq> rn_new_version rot
      then stop_with_error env rid
        (''the credential changed outside this rotation (now v'' @ dec_of_int current @
         '', the rotation stored v'' @ dec_of_int (case rn_new_version rot of None \<Rightarrow> - 1 | Some v \<Rightarrow> v) @
         ''); refusing to continue '' @ em_dash @ '' roll back or plan a fresh rotation'') value
      else
      andthen (attempt (validate_credential env (rn_credential_id rot))) (\<lambda>result.
      case result of
        Inl e \<Rightarrow> stop_with_error env rid (display_error e) value
      | Inr v \<Rightarrow>
          if vl_valid v then
            andthen (on_db (mark_new_value_validated clk rid)) (\<lambda>_.
            andthen (db_read (\<lambda>db. Inr (rfc3339_after clk (max 0 (rn_grace_minutes rot) * 60) db))) (\<lambda>ends.
            andthen (on_db (set_field clk rid ''grace_ends_at'' (Some ends))) (\<lambda>_.
            andthen (move env rid DESTINATIONS_VERIFIED GRACE_PERIOD
              (''new value validated ('' @ vl_detail v @ ''); grace/overlap until '' @ ends)) (\<lambda>_.
            ret (True, value)))))
          else stop_with_error env rid
            (''the NEW value failed validation ('' @ vl_detail v @ ''); the old key is untouched '' @
             em_dash @ '' retry, or roll back'') value)))"

text \<open>Usage rows of the old key since the approval: of any window from that day, and fresh ones.\<close>

definition old_key_rows :: "rotation \<Rightarrow> string \<Rightarrow> vault_db \<Rightarrow> usage_row list" where
  "old_key_rows rot key db = filter (\<lambda>u. us_provider u = rn_provider rot
     \<and> us_provider_api_key_id u = Some key \<and> us_source u \<noteq> ''manual'') (vd_usage db)"

definition since_approval :: "rotation \<Rightarrow> string" where
  "since_approval rot = option_text (rn_created_at rot) (rn_approved_at rot)"

definition old_key_used :: "clock \<Rightarrow> rotation \<Rightarrow> string \<Rightarrow> vault_db \<Rightarrow> bool" where
  "old_key_used clk rot key db \<longleftrightarrow>
     (\<exists>u \<in> set (old_key_rows rot key db). ck_date clk (since_approval rot) \<le> us_window_start u)"

definition old_key_assessed :: "rotation \<Rightarrow> string \<Rightarrow> vault_db \<Rightarrow> bool" where
  "old_key_assessed rot key db \<longleftrightarrow>
     (\<exists>u \<in> set (old_key_rows rot key db). since_approval rot \<le> us_collected_at u)"

definition grace_over :: "clock \<Rightarrow> rotation \<Rightarrow> vault_db \<Rightarrow> bool res" where
  "grace_over clk rot db =
     (case rn_grace_ends_at rot of
        None \<Rightarrow> Inr True
      | Some ends \<Rightarrow> (case ck_parse clk ends of Inl e \<Rightarrow> Inl e | Inr t \<Rightarrow> Inr (\<not> clock_now clk db < t)))"

definition advance_grace ::
    "'x rotation_env \<Rightarrow> rotation \<Rightarrow> bool \<Rightarrow> string option \<Rightarrow> 'x arm" where
  "advance_grace env rot acknowledged value =
     (let rid = rn_id rot; clk = fe_clock env;
          disable = andthen (rotation_disable_old env rot) (\<lambda>moved. ret (moved, value)) in
      andthen (db_read (grace_over clk rot)) (\<lambda>over.
      if \<not> over then ret (False, value)
      else
      case (rn_old_provider_key_id rot, acknowledged) of
        (Some old_key, False) \<Rightarrow>
          andthen (db_read (\<lambda>db. Inr (old_key_used clk rot old_key db, old_key_assessed rot old_key db))) (\<lambda>(used, fresh).
          if used then stop_with_error env rid
            (''provider usage data shows activity attributed to the OLD key on/after the approval day (daily buckets '' @ em_dash @
             '' same-day rows may predate the switch). Verify every consumer moved, run `provider sync` for fresh data, then advance with --acknowledge-continued-use'') value
          else if \<not> fresh then
            andthen (add_note env rid ''continued-use could not be assessed: no provider usage data was collected after approval (run `provider sync` for a real signal)'')
              (\<lambda>_. disable)
          else disable)
      | _ \<Rightarrow> disable))"

definition advance_disabled :: "'x rotation_env \<Rightarrow> rotation \<Rightarrow> string option \<Rightarrow> 'x arm" where
  "advance_disabled env rot value =
     (let rid = rn_id rot in
      if \<not> rn_new_value_validated rot
      then stop_with_error env rid ''refusing to revoke: the new value was never validated'' value
      else
      andthen (attempt (rotation_revoke_old env rot)) (\<lambda>result.
      case result of
        Inr True \<Rightarrow> andthen (rotation_complete env rot) (\<lambda>_. ret (False, value))
      | Inr False \<Rightarrow> ret (False, value)
      | Inl e \<Rightarrow> stop_with_error env rid (display_error e) value))"

section \<open>One iteration and the loop\<close>

text \<open>What one iteration does with the row it loaded, however long ago that was.\<close>

definition advance_with ::
    "'x rotation_env \<Rightarrow> rotation \<Rightarrow> string \<Rightarrow> bool \<Rightarrow> string option \<Rightarrow> 'x arm" where
  "advance_with env rot pw acknowledged value =
     (let s = rn_state rot in
      if s = PLANNED
      then throw (InvalidInput ''the rotation is a dry run; approve it first (`rotation approve`)'')
      else if s = APPROVED then advance_approved env rot pw value
      else if s = CREATING_REPLACEMENT then advance_creating env rot value
      else if s = CREATING_IN_PROGRESS then advance_in_progress env rot pw value
      else if s = AWAITING_MANUAL_KEY then advance_awaiting env rot pw value
      else if s = REPLACEMENT_STORED then advance_stored env rot value
      else if s = UPDATING_DESTINATIONS then advance_updating env rot value
      else if s = DESTINATIONS_VERIFIED then advance_verified env rot value
      else if s = GRACE_PERIOD then advance_grace env rot acknowledged value
      else if s = OLD_DISABLED then advance_disabled env rot value
      else ret (False, value))"

fun advance_loop ::
    "'x rotation_env \<Rightarrow> string \<Rightarrow> string \<Rightarrow> bool \<Rightarrow> nat \<Rightarrow> string option
       \<Rightarrow> ('x rotation_world, rotation_view) op" where
  "advance_loop env rid pw acknowledged 0 value = rotation_get env rid"
| "advance_loop env rid pw acknowledged (Suc n) value =
     andthen (db_read (load_rotation rid)) (\<lambda>rot.
     andthen (advance_with env rot pw acknowledged value) (\<lambda>(go, left).
     if go then advance_loop env rid pw acknowledged n left else rotation_get env rid))"

definition MAX_STEPS :: nat where "MAX_STEPS = 12"

definition rotation_advance ::
    "'x rotation_env \<Rightarrow> string \<Rightarrow> string \<Rightarrow> string option \<Rightarrow> bool \<Rightarrow> ('x rotation_world, rotation_view) op" where
  "rotation_advance env rid pw value acknowledged =
     andthen (verify_password env pw) (\<lambda>_. advance_loop env rid pw acknowledged MAX_STEPS value)"

end
