(* ===== verification/RotationFinish.thy ===== *)
theory RotationFinish
  imports RotationAdvance
begin

text \<open>
  The ends of a rotation other than advancing to completion, from crates/core/src/vault.rs:
  manual completion, cancelling, rolling back, and the listings and schedules around them.
\<close>

section \<open>Manual completion and cancelling\<close>

definition rotation_complete_manual ::
    "'x rotation_env \<Rightarrow> string \<Rightarrow> string \<Rightarrow> string \<Rightarrow> ('x rotation_world, rotation_view) op" where
  "rotation_complete_manual env rid pw confirmation =
     andthen (verify_password env pw) (\<lambda>_.
     andthen (db_read (load_rotation rid)) (\<lambda>rot.
     if rn_state rot \<notin> {MANUAL_REQUIRED, GRACE_PERIOD, OLD_DISABLED}
     then throw (InvalidInput (''rotation '' @ rid @ '' is '' @ quoted (rn_state rot) @
            ''; only manual-required, grace, or old-disabled rotations can be completed manually''))
     else if \<not> rn_new_value_validated rot
     then throw (InvalidInput ''refusing: the new value was never validated against the provider'')
     else
     andthen (move env rid (rn_state rot) COMPLETED
       (''completed after manual provider-side action: '' @ confirmation)) (\<lambda>_.
     andthen (completed_tail env rot (''rotation='' @ rid @ '' manual'')) (\<lambda>_.
     rotation_get env rid))))"

definition rotation_cancel ::
    "'x rotation_env \<Rightarrow> string \<Rightarrow> string \<Rightarrow> ('x rotation_world, rotation_view) op" where
  "rotation_cancel env rid pw =
     andthen (verify_password env pw) (\<lambda>_.
     andthen (db_read (load_rotation rid)) (\<lambda>rot.
     if rn_old_disabled_at rot \<noteq> None \<or> rn_old_revoked_at rot \<noteq> None
     then throw (InvalidInput ''the old key was already disabled/revoked; use rollback or complete manually'')
     else if rn_new_version rot \<noteq> None
     then throw (InvalidInput ''a replacement was already stored; roll back instead of cancelling'')
     else
     andthen (move env rid (rn_state rot) FAILED ''cancelled by the user before any change'') (\<lambda>_.
     rotation_get env rid)))"

section \<open>Rolling back\<close>

definition revoke_is_reversible :: "string \<Rightarrow> bool" where
  "revoke_is_reversible provider \<longleftrightarrow> provider = ''anthropic''"

text \<open>The refusals, in the order of the source; \<open>Inr\<close> is the version to go back to.\<close>

definition rollback_refusal :: "rotation \<Rightarrow> vault_db \<Rightarrow> int res" where
  "rollback_refusal rot db =
     (let rid = rn_id rot in
      if rn_old_revoked_at rot \<noteq> None
      then Inl (InvalidInput (''the old key was REVOKED '' @ em_dash @
         '' that is irreversible at every current provider. The new key must stay in service; treat this as forward-fix territory''))
      else if (case rn_old_provider_key_id rot of None \<Rightarrow> False
               | Some old_key \<Rightarrow> \<not> revoke_is_reversible (rn_provider rot) \<and> revoke_was_attempted rid old_key db)
      then Inl (InvalidInput (''a revocation of the old key was attempted at '' @ rn_provider rot @
         '', whose revoke permanently DELETES keys (no soft/disable state). The old key may already be gone, so a rollback that restored it could redeploy a dead credential. Refusing to roll back: verify with `provider list-keys` '' @
         em_dash @ '' if the old key is gone, forward-fix on the validated new key (`rotation complete-manual '' @ rid @
         ''`); if it is confirmed alive, re-plan a fresh rotation''))
      else if rn_state rot \<in> {COMPLETED, ROLLED_BACK}
      then Inl (InvalidInput (''rotation '' @ rid @ '' is '' @ quoted (rn_state rot) @
         ''; a finished rotation cannot be rolled back '' @ em_dash @ '' plan a fresh rotation instead''))
      else (case rn_old_version rot of
              None \<Rightarrow> Inl (InvalidInput ''nothing to roll back: no replacement was stored'')
            | Some v \<Rightarrow> Inr v))"

text \<open>A step of the rollback adds a note and, when it failed, counts.\<close>

type_synonym rollback_notes = "string list \<times> nat"

definition noted :: "string \<Rightarrow> rollback_notes \<Rightarrow> rollback_notes" where
  "noted text n = (fst n @ [text], snd n)"

definition failed_note :: "string \<Rightarrow> rollback_notes \<Rightarrow> rollback_notes" where
  "failed_note text n = (fst n @ [text], snd n + 1)"

definition noted_result :: "('a \<Rightarrow> string) \<Rightarrow> string \<Rightarrow> 'a res \<Rightarrow> rollback_notes \<Rightarrow> rollback_notes" where
  "noted_result good bad r n =
     (case r of Inr a \<Rightarrow> noted (good a) n | Inl e \<Rightarrow> failed_note (bad @ display_error e) n)"

definition reenable_old :: "'x rotation_env \<Rightarrow> rotation \<Rightarrow> rollback_notes \<Rightarrow> ('x rotation_world, rollback_notes) op" where
  "reenable_old env rot n =
     (case (rn_old_disabled_at rot, rn_old_provider_key_id rot) of
        (Some _, Some old_key) \<Rightarrow>
          andthen (admin_secret env (rn_provider rot)) (\<lambda>admin.
          if revoke_is_reversible (rn_provider rot)
          then andthen (attempt (recorded (CallEnable (rn_id rot) old_key) (fe_enable env admin old_key)))
                 (\<lambda>r. ret (noted_result (\<lambda>d. ''old key re-enabled: '' @ d) ''old key re-enable FAILED: '' r n))
          else ret n)
      | _ \<Rightarrow> ret n)"

definition restore_value ::
    "'x rotation_env \<Rightarrow> rotation \<Rightarrow> string \<Rightarrow> int \<Rightarrow> int \<Rightarrow> string option \<Rightarrow> rollback_notes \<Rightarrow> ('x rotation_world, rollback_notes) op" where
  "restore_value env rot pw old_version current old_value n =
     (case old_value of
        Some v \<Rightarrow>
          andthen (on_db (replace_credential_value (fe_vault env) (rn_credential_id rot) pw v))
            (\<lambda>_. ret (noted (''vault value restored from v'' @ dec_of_int old_version) n))
      | None \<Rightarrow>
          ret (noted (''vault value left as-is (v'' @ dec_of_int current @ '' is not the rotation's v'' @
                 dec_of_int (case rn_new_version rot of None \<Rightarrow> - 1 | Some v \<Rightarrow> v) @ '')'') n))"

definition rollback_destinations ::
    "'x rotation_env \<Rightarrow> rotation \<Rightarrow> rollback_notes \<Rightarrow> ('x rotation_world, rollback_notes) op" where
  "rollback_destinations env rot n =
     (case rn_sync_plan_id rot of
        None \<Rightarrow> ret n
      | Some plan_id \<Rightarrow>
          andthen (attempt (external (fe_sync_rollback env plan_id)))
            (\<lambda>r. ret (noted_result (\<lambda>_. ''destinations rolled back'') ''destination rollback FAILED: '' r n)))"

text \<open>Unlinking a provider key; the attribution of usage rows is not modelled.\<close>

definition provider_unlink_key ::
    "'x rotation_env \<Rightarrow> string \<Rightarrow> string \<Rightarrow> ('x rotation_world, unit) op" where
  "provider_unlink_key env provider_arg key =
     (let provider = normalize_provider (ve_lower (fe_vault env)) (fe_manifests env) provider_arg;
          here = (\<lambda>l. kl_provider l = provider \<and> kl_api_key_id l = key) in
      andthen (db_read (\<lambda>db. Inr (list_ex here (vd_key_links db)))) (\<lambda>hit.
      andthen (on_db (change (\<lambda>db. db\<lparr>vd_key_links := filter (\<lambda>l. \<not> here l) (vd_key_links db),
                 vd_tick := vd_tick db + 1\<rparr>))) (\<lambda>_.
      if \<not> hit then ret ()
      else
      andthen (db_read (\<lambda>db. Inr (attributed_rows provider key db))) (\<lambda>rows.
      audit_op env ''provider_key_unlinked'' None None
        (''provider='' @ provider @ '' api_key_id='' @ key @ '' rows='' @ dec_of_nat rows)))))"

definition revoke_created ::
    "'x rotation_env \<Rightarrow> rotation \<Rightarrow> bool \<Rightarrow> rollback_notes \<Rightarrow> ('x rotation_world, rollback_notes) op" where
  "revoke_created env rot wanted n =
     (case (wanted, rn_new_provider_key_id rot) of
        (True, Some new_key) \<Rightarrow>
          andthen (admin_secret env (rn_provider rot)) (\<lambda>admin.
          andthen (connector_for env (rn_provider rot)) (\<lambda>_.
          andthen (attempt (recorded (CallRevokeNew (rn_id rot) new_key)
                    (fe_revoke env (rn_provider rot) admin (rn_provider_project_id rot) new_key))) (\<lambda>r.
          andthen (if isl r then ret () else
                   andthen (attempt (provider_unlink_key env (rn_provider rot) new_key)) (\<lambda>_. ret ())) (\<lambda>_.
          ret (noted_result (\<lambda>d. ''new key revoked: '' @ d) ''new key revocation FAILED: '' r n)))))
      | _ \<Rightarrow> ret n)"

definition finish_rollback ::
    "'x rotation_env \<Rightarrow> rotation \<Rightarrow> rollback_notes \<Rightarrow> ('x rotation_world, unit) op" where
  "finish_rollback env rot n =
     (let rid = rn_id rot; text = join ''; '' (fst n); failures = snd n in
      andthen
        (if 0 < failures
         then andthen (move env rid ROLLING_BACK MANUAL_REQUIRED
                (''rollback PARTIALLY FAILED ('' @ dec_of_nat failures @ '' step(s)): '' @ text)) (\<lambda>_.
              note_error env rid (''rollback partially failed: '' @ text))
         else move env rid ROLLING_BACK ROLLED_BACK text) (\<lambda>_.
      andthen (db_read (\<lambda>db. Inr (credential_row_by_id (rn_credential_id rot) db))) (\<lambda>cred.
      audit_op env ''rotation_rolled_back'' (map_option cr_project_id cred) (Some (rn_credential_id rot))
        (''rotation='' @ rid @ '' failures='' @ dec_of_nat failures))))"

text \<open>The value to restore, read before the state changes.\<close>

definition rollback_value ::
    "'x rotation_env \<Rightarrow> rotation \<Rightarrow> int \<Rightarrow> int \<Rightarrow> vault_db \<Rightarrow> string option res" where
  "rollback_value env rot old_version current db =
     (if Some current = rn_new_version rot
      then map_sum id Some (decrypt_credential_version (fe_vault env) (rn_credential_id rot) old_version db)
      else Inr None)"

definition rotation_rollback ::
    "'x rotation_env \<Rightarrow> string \<Rightarrow> string \<Rightarrow> bool \<Rightarrow> ('x rotation_world, rotation_view) op" where
  "rotation_rollback env rid pw revoke_new_key =
     andthen (verify_password env pw) (\<lambda>_.
     andthen (db_read (load_rotation rid)) (\<lambda>rot.
     andthen (db_read (rollback_refusal rot)) (\<lambda>old_version.
     andthen (db_read (value_version_of (rn_credential_id rot))) (\<lambda>current.
     andthen (db_read (rollback_value env rot old_version current)) (\<lambda>old_value.
     andthen (move env rid (rn_state rot) ROLLING_BACK []) (\<lambda>_.
     andthen (reenable_old env rot ([], 0)) (\<lambda>n1.
     andthen (restore_value env rot pw old_version current old_value n1) (\<lambda>n2.
     andthen (rollback_destinations env rot n2) (\<lambda>n3.
     andthen (revoke_created env rot revoke_new_key n3) (\<lambda>n4.
     andthen (finish_rollback env rot n4) (\<lambda>_.
     rotation_get env rid)))))))))))"

section \<open>Listings and schedules\<close>

fun hydrate_all :: "clock \<Rightarrow> rotation list \<Rightarrow> vault_db \<Rightarrow> rotation_view list res" where
  "hydrate_all clk [] db = Inr []"
| "hydrate_all clk (r # rs) db =
     (case hydrate_rotation clk r db of
        Inl e \<Rightarrow> Inl e
      | Inr v \<Rightarrow> map_sum id (\<lambda>vs. v # vs) (hydrate_all clk rs db))"

definition rotations ::
    "'x rotation_env \<Rightarrow> string option \<Rightarrow> nat \<Rightarrow> ('x rotation_world, rotation_view list) op" where
  "rotations env credential limit =
     andthen (case credential of
                None \<Rightarrow> ret None
              | Some selector \<Rightarrow> andthen (db_read (resolve_credential selector)) (\<lambda>c. ret (Some (cr_id c)))) (\<lambda>cid.
     andthen (db_read (\<lambda>db. Inr (list_rotations cid limit db))) (\<lambda>rows.
     db_read (hydrate_all (fe_clock env) rows)))"

definition rotation_events ::
    "string \<Rightarrow> ('x rotation_world, rotation_event list) op" where
  "rotation_events rid =
     andthen (db_read (load_rotation rid)) (\<lambda>_. db_read (\<lambda>db. Inr (rotation_timeline rid db)))"

definition rotation_schedule_set ::
    "'x rotation_env \<Rightarrow> string \<Rightarrow> int \<Rightarrow> ('x rotation_world, unit) op" where
  "rotation_schedule_set env credential interval_days =
     andthen (db_read (resolve_credential credential)) (\<lambda>cred.
     andthen (db_read (\<lambda>db. Inr (list_ex (\<lambda>r. rn_credential_id r = cr_id cred \<and> rn_state r = COMPLETED)
                                     (vd_rotations db)))) (\<lambda>done_before.
     if \<not> done_before
     then throw (InvalidInput (''scheduling needs one manually approved, successfully COMPLETED rotation for this credential first '' @
            em_dash @ '' so the provider/destination combination is proven''))
     else
     andthen (on_db (schedule_set (fe_clock env) (cr_id cred) interval_days)) (\<lambda>_.
     audit_op env ''rotation_scheduled'' (Some (cr_project_id cred)) (Some (cr_id cred))
       (''every '' @ dec_of_int interval_days @ '' day(s)''))))"

definition rotation_schedule_remove :: "string \<Rightarrow> ('x rotation_world, bool) op" where
  "rotation_schedule_remove credential =
     andthen (db_read (resolve_credential credential)) (\<lambda>cred. on_db (schedule_remove (cr_id cred)))"

end
