(* ===== verification/RotationMachine.thy ===== *)
theory RotationMachine
  imports RotationFinish
begin

text \<open>
  The abstract machine a rotation's row follows, whatever process acts on it and however stale
  the row it acts for: the allowed transitions with what must be true of the row when they
  happen, the fields that are written at most once or only after validation, and the evolution
  of the whole vault that allows each row such steps, appends events and records justified calls.
\<close>

section \<open>States\<close>

text \<open>The states are pairwise different, as rewrite rules in both directions.\<close>

lemma states_distinct:
  "distinct [PLANNED, APPROVED, CREATING_REPLACEMENT, CREATING_IN_PROGRESS, AWAITING_MANUAL_KEY,
     REPLACEMENT_STORED, UPDATING_DESTINATIONS, DESTINATIONS_VERIFIED, GRACE_PERIOD, OLD_DISABLED,
     COMPLETED, FAILED, ROLLING_BACK, ROLLED_BACK, MANUAL_REQUIRED]"
  unfolding rotation_states by code_simp

lemma states_distinct_rev:
  "distinct [MANUAL_REQUIRED, ROLLED_BACK, ROLLING_BACK, FAILED, COMPLETED, OLD_DISABLED,
     GRACE_PERIOD, DESTINATIONS_VERIFIED, UPDATING_DESTINATIONS, REPLACEMENT_STORED,
     AWAITING_MANUAL_KEY, CREATING_IN_PROGRESS, CREATING_REPLACEMENT, APPROVED, PLANNED]"
  using states_distinct by (simp add: eq_commute)

lemmas state_neq = states_distinct [simplified] states_distinct_rev [simplified]

section \<open>A row\<close>

text \<open>States from which a rotation can still be cancelled; the others are late.\<close>

definition late :: "string \<Rightarrow> bool" where
  "late s \<longleftrightarrow> s \<notin> {PLANNED, APPROVED, CREATING_REPLACEMENT, CREATING_IN_PROGRESS,
     AWAITING_MANUAL_KEY, FAILED}"

definition allowed :: "rotation \<Rightarrow> string \<Rightarrow> bool" where
  "allowed r t \<longleftrightarrow> (let s = rn_state r in
      s = PLANNED \<and> t = APPROVED
    \<or> s = APPROVED \<and> t \<in> {CREATING_REPLACEMENT, AWAITING_MANUAL_KEY}
    \<or> s = CREATING_REPLACEMENT \<and> t = CREATING_IN_PROGRESS
    \<or> s \<in> {APPROVED, CREATING_IN_PROGRESS, AWAITING_MANUAL_KEY} \<and> t = REPLACEMENT_STORED
        \<and> rn_new_version r \<noteq> None
    \<or> s = REPLACEMENT_STORED \<and> t = UPDATING_DESTINATIONS
    \<or> s = UPDATING_DESTINATIONS \<and> t = DESTINATIONS_VERIFIED
    \<or> s = DESTINATIONS_VERIFIED \<and> t = GRACE_PERIOD \<and> rn_new_value_validated r
    \<or> s = GRACE_PERIOD \<and> t = OLD_DISABLED
    \<or> s = OLD_DISABLED \<and> t = MANUAL_REQUIRED
    \<or> s \<in> {GRACE_PERIOD, OLD_DISABLED, MANUAL_REQUIRED} \<and> t = COMPLETED \<and> rn_new_value_validated r
    \<or> \<not> late s \<and> t = FAILED
    \<or> s \<notin> {COMPLETED, ROLLED_BACK} \<and> t = ROLLING_BACK \<and> rn_new_version r \<noteq> None
    \<or> s = ROLLING_BACK \<and> t \<in> {MANUAL_REQUIRED, ROLLED_BACK})"

text \<open>The fields no step changes, and the fields a step may change freely.\<close>

definition same_core :: "rotation \<Rightarrow> rotation \<Rightarrow> bool" where
  "same_core r r' \<longleftrightarrow> rn_id r' = rn_id r \<and> rn_credential_id r' = rn_credential_id r
     \<and> rn_provider r' = rn_provider r \<and> rn_mode r' = rn_mode r
     \<and> rn_old_provider_key_id r' = rn_old_provider_key_id r"

definition same_progress :: "rotation \<Rightarrow> rotation \<Rightarrow> bool" where
  "same_progress r r' \<longleftrightarrow> rn_old_version r' = rn_old_version r \<and> rn_new_version r' = rn_new_version r
     \<and> rn_new_value_validated r' = rn_new_value_validated r
     \<and> rn_old_disabled_at r' = rn_old_disabled_at r \<and> rn_old_revoked_at r' = rn_old_revoked_at r"

inductive row_step :: "rotation \<Rightarrow> rotation \<Rightarrow> bool" where
  adorn: "same_core r r' \<Longrightarrow> same_progress r r' \<Longrightarrow> rn_state r' = rn_state r \<Longrightarrow> row_step r r'"
| store: "rn_new_version r = None \<Longrightarrow>
    row_step r (r\<lparr>rn_old_version := Some v, rn_new_version := Some n, rn_updated_at := t\<rparr>)"
| validate: "rn_new_version r \<noteq> None \<Longrightarrow> late (rn_state r) \<Longrightarrow>
    row_step r (r\<lparr>rn_new_value_validated := True, rn_updated_at := t\<rparr>)"
| disable: "rn_new_value_validated r \<Longrightarrow>
    row_step r (r\<lparr>rn_old_disabled_at := Some d, rn_updated_at := t\<rparr>)"
| revoke: "rn_new_value_validated r \<Longrightarrow>
    row_step r (r\<lparr>rn_old_revoked_at := Some d, rn_updated_at := t\<rparr>)"
| transition: "allowed r s \<Longrightarrow>
    row_step r (r\<lparr>rn_state := s, rn_updated_at := t, rn_last_error := e\<rparr>)"

definition row_run :: "rotation \<Rightarrow> rotation \<Rightarrow> bool" where
  "row_run = row_step\<^sup>*\<^sup>*"

definition row_ok :: "rotation \<Rightarrow> bool" where
  "row_ok r \<longleftrightarrow> (rn_old_version r = None \<longleftrightarrow> rn_new_version r = None)
     \<and> (late (rn_state r) \<longrightarrow> rn_new_version r \<noteq> None)
     \<and> (rn_new_value_validated r \<longrightarrow> late (rn_state r))
     \<and> (rn_state r \<in> {GRACE_PERIOD, OLD_DISABLED, COMPLETED} \<longrightarrow> rn_new_value_validated r)
     \<and> (rn_old_disabled_at r \<noteq> None \<or> rn_old_revoked_at r \<noteq> None \<longrightarrow> rn_new_value_validated r)"

lemma row_run_refl [simp]: "row_run r r"
  by (simp add: row_run_def)

lemma row_run_trans: "row_run r r' \<Longrightarrow> row_run r' r'' \<Longrightarrow> row_run r r''"
  by (simp add: row_run_def)

lemma row_run_step: "row_step r r' \<Longrightarrow> row_run r r'"
  by (simp add: row_run_def)

lemma row_run_adorn:
  "same_core r r' \<Longrightarrow> same_progress r r' \<Longrightarrow> rn_state r' = rn_state r \<Longrightarrow> row_run r r'"
  by (intro row_run_step row_step.adorn)

text \<open>A property of rows that one step keeps, a run keeps.\<close>

lemma row_run_keeps:
  "row_run r r' \<Longrightarrow> (\<And>a b. row_step a b \<Longrightarrow> K a \<Longrightarrow> K b) \<Longrightarrow> K r \<Longrightarrow> K r'"
  unfolding row_run_def by (induction rule: rtranclp_induct) blast+

lemma allowed_late: "allowed r t \<Longrightarrow> late (rn_state r) \<Longrightarrow> late t"
  unfolding allowed_def Let_def late_def by (elim disjE conjE insertE emptyE) (simp_all add: state_neq)

lemma allowed_version: "allowed r t \<Longrightarrow> late t \<Longrightarrow> late (rn_state r) \<or> rn_new_version r \<noteq> None"
  unfolding allowed_def Let_def late_def by (elim disjE conjE insertE emptyE) (simp_all add: state_neq)

lemma allowed_validated:
  "allowed r t \<Longrightarrow> t \<in> {GRACE_PERIOD, OLD_DISABLED, COMPLETED} \<Longrightarrow>
     rn_new_value_validated r \<or> rn_state r = GRACE_PERIOD"
  unfolding allowed_def Let_def by (elim disjE conjE insertE emptyE) (simp_all add: state_neq)

lemma row_step_ok: "row_step r r' \<Longrightarrow> row_ok r \<Longrightarrow> row_ok r'"
proof (induction rule: row_step.induct)
  case (transition r s t e)
  then show ?case
    using allowed_late [of r s] allowed_version [of r s] allowed_validated [of r s]
    by (simp add: row_ok_def) blast
qed (auto simp: row_ok_def same_progress_def)

lemma row_run_ok: "row_run r r' \<Longrightarrow> row_ok r \<Longrightarrow> row_ok r'"
  by (erule row_run_keeps) (rule row_step_ok)

lemma row_step_core: "row_step r r' \<Longrightarrow> same_core r r'"
  by (induction rule: row_step.induct) (auto simp: same_core_def)

lemma row_run_core: "row_run r r' \<Longrightarrow> same_core r r'"
  by (erule row_run_keeps) (auto simp: same_core_def dest!: row_step_core)

lemma row_run_version: "row_run r r' \<Longrightarrow> rn_new_version r = Some n \<Longrightarrow> rn_new_version r' = Some n"
  by (erule row_run_keeps) (auto elim!: row_step.cases simp: same_progress_def)

lemma row_run_validated: "row_run r r' \<Longrightarrow> rn_new_value_validated r \<Longrightarrow> rn_new_value_validated r'"
  by (erule row_run_keeps) (auto elim!: row_step.cases simp: same_progress_def)

lemma row_run_revoked: "row_run r r' \<Longrightarrow> rn_old_revoked_at r \<noteq> None \<Longrightarrow> rn_old_revoked_at r' \<noteq> None"
  by (erule row_run_keeps) (auto elim!: row_step.cases simp: same_progress_def)

lemma row_run_late: "row_run r r' \<Longrightarrow> late (rn_state r) \<Longrightarrow> late (rn_state r')"
  by (erule row_run_keeps)
    (auto elim!: row_step.cases simp: allowed_def late_def Let_def state_neq)

lemma row_run_terminal: "row_run r r' \<Longrightarrow> is_terminal (rn_state r) \<Longrightarrow> rn_state r' = rn_state r"
  by (erule row_run_keeps)
    (auto elim!: row_step.cases simp: allowed_def late_def is_terminal_def Let_def state_neq)

definition fresh_row :: "rotation \<Rightarrow> bool" where
  "fresh_row r \<longleftrightarrow> rn_state r = PLANNED \<and> rn_old_version r = None \<and> rn_new_version r = None
     \<and> \<not> rn_new_value_validated r \<and> rn_old_disabled_at r = None \<and> rn_old_revoked_at r = None"

lemma fresh_row_ok: "fresh_row r \<Longrightarrow> row_ok r"
  by (auto simp: fresh_row_def row_ok_def late_def state_neq)

section \<open>The timeline\<close>

text \<open>A timeline is a path from nothing to the current state.\<close>

fun timeline_path :: "string \<Rightarrow> rotation_event list \<Rightarrow> string \<Rightarrow> bool" where
  "timeline_path s [] t \<longleftrightarrow> s = t"
| "timeline_path s (e # es) t \<longleftrightarrow> ev_from_state e = s \<and> timeline_path (ev_to_state e) es t"

definition timeline_ok :: "vault_db \<Rightarrow> bool" where
  "timeline_ok db \<longleftrightarrow>
     (\<forall>rid r. find_rotation rid db = Some r \<longrightarrow> timeline_path [] (rotation_timeline rid db) (rn_state r))
   \<and> (\<forall>e \<in> set (vd_events db). find_rotation (ev_rotation_id e) db \<noteq> None)"

definition rows_ok :: "vault_db \<Rightarrow> bool" where
  "rows_ok db \<longleftrightarrow> (\<forall>rid r. find_rotation rid db = Some r \<longrightarrow> row_ok r)"

definition vault_ok :: "vault_db \<Rightarrow> bool" where
  "vault_ok db \<longleftrightarrow> distinct (map rn_id (vd_rotations db)) \<and> rows_ok db \<and> timeline_ok db"

lemma timeline_path_snoc:
  "timeline_path s (es @ [e]) t \<longleftrightarrow> timeline_path s es (ev_from_state e) \<and> ev_to_state e = t"
  by (induction es arbitrary: s) auto

section \<open>The vault\<close>

definition db_evolves :: "vault_db \<Rightarrow> vault_db \<Rightarrow> bool" where
  "db_evolves db db' \<longleftrightarrow>
     (\<forall>rid r. find_rotation rid db = Some r \<longrightarrow> (\<exists>r'. find_rotation rid db' = Some r' \<and> row_run r r'))
   \<and> (\<forall>rid r'. find_rotation rid db' = Some r' \<longrightarrow> find_rotation rid db = None \<longrightarrow>
        (\<exists>r. fresh_row r \<and> row_run r r'))
   \<and> (\<exists>es. vd_events db' = vd_events db @ es)
   \<and> (vault_ok db \<longrightarrow> vault_ok db')"

lemma db_evolves_refl [simp]: "db_evolves db db"
  by (auto simp: db_evolves_def)

lemma db_evolves_rotation:
  "db_evolves db db' \<Longrightarrow> find_rotation rid db = Some r \<Longrightarrow> \<exists>r'. find_rotation rid db' = Some r' \<and> row_run r r'"
  by (simp add: db_evolves_def)

lemma db_evolves_born:
  "db_evolves db db' \<Longrightarrow> find_rotation rid db' = Some r' \<Longrightarrow> find_rotation rid db = None \<Longrightarrow>
     \<exists>r. fresh_row r \<and> row_run r r'"
  by (simp add: db_evolves_def)

lemma db_evolves_events: "db_evolves db db' \<Longrightarrow> \<exists>es. vd_events db' = vd_events db @ es"
  by (simp add: db_evolves_def)

lemma db_evolves_ok: "db_evolves db db' \<Longrightarrow> vault_ok db \<Longrightarrow> vault_ok db'"
  by (simp add: db_evolves_def)

lemma db_evolves_trans:
  assumes ab: "db_evolves a b" and bc: "db_evolves b c"
  shows "db_evolves a c"
proof -
  have "\<exists>r''. find_rotation rid c = Some r'' \<and> row_run r r''" if "find_rotation rid a = Some r" for rid r
    using db_evolves_rotation [OF ab that] db_evolves_rotation [OF bc] by (blast intro: row_run_trans)
  moreover have "\<exists>r. fresh_row r \<and> row_run r r''"
    if c: "find_rotation rid c = Some r''" and a: "find_rotation rid a = None" for rid r''
  proof (cases "find_rotation rid b")
    case None
    with bc c show ?thesis by (blast dest: db_evolves_born)
  next
    case (Some r')
    then obtain r where r: "fresh_row r" "row_run r r'" using ab a by (blast dest: db_evolves_born)
    from db_evolves_rotation [OF bc Some] c have "row_run r' r''" by simp
    with r show ?thesis by (blast intro: row_run_trans)
  qed
  moreover have "\<exists>es. vd_events c = vd_events a @ es"
    using db_evolves_events [OF ab] db_evolves_events [OF bc] by force
  ultimately show ?thesis using ab bc by (simp add: db_evolves_def)
qed

lemma db_evolves_same:
  "vd_rotations db' = vd_rotations db \<Longrightarrow> vd_events db' = vd_events db \<Longrightarrow> db_evolves db db'"
  by (auto simp: db_evolves_def vault_ok_def rows_ok_def timeline_ok_def find_rotation_def rotation_timeline_def)

lemma find_map_same:
  "(\<And>r. rn_id (f r) = rn_id r) \<Longrightarrow>
     find (\<lambda>r. rn_id r = rid) (map (\<lambda>r. if rn_id r = i then f r else r) rs)
       = map_option (\<lambda>r. if rn_id r = i then f r else r) (find (\<lambda>r. rn_id r = rid) rs)"
  by (induction rs) auto

lemma find_rotation_id: "find_rotation rid db = Some r \<Longrightarrow> rn_id r = rid"
  by (auto simp: find_rotation_def find_Some_iff)

lemma find_rotation_update:
  "(\<And>r. rn_id (f r) = rn_id r) \<Longrightarrow>
     find_rotation rid (update_rotation i f db)
       = (if rid = i then map_option f (find_rotation i db) else find_rotation rid db)"
  by (auto simp: find_rotation_def update_rotation_def find_map_same find_Some_iff
      intro!: option.map_cong option.map_ident_strong)

lemma find_rotation_in: "find_rotation rid db = Some r \<Longrightarrow> r \<in> set (vd_rotations db)"
  by (auto simp: find_rotation_def find_Some_iff)

lemma find_rotation_unique:
  assumes "distinct (map rn_id (vd_rotations db))" "r \<in> set (vd_rotations db)"
  shows "find_rotation (rn_id r) db = Some r"
proof -
  have "find (\<lambda>q. rn_id q = rn_id r) rs = Some r" if "distinct (map rn_id rs)" "r \<in> set rs" for rs
    using that by (induction rs) auto
  with assms show ?thesis by (simp add: find_rotation_def)
qed

lemma rotation_timeline_event [simp]:
  "rotation_timeline rid (record_event clk i s t d db) = rotation_timeline rid db @
     (if i = rid then [\<lparr>ev_rotation_id = i, ev_at = now_rfc3339 clk db, ev_from_state = s,
        ev_to_state = t, ev_detail = d\<rparr>] else [])"
  by (simp add: rotation_timeline_def record_event_def)

lemma find_rotation_event [simp]: "find_rotation rid (record_event clk i s t d db) = find_rotation rid db"
  by (simp add: find_rotation_def record_event_def)

lemma record_event_tables [simp]:
  "vd_rotations (record_event clk i s t d db) = vd_rotations db"
  "vd_events (record_event clk i s t d db) = vd_events db @ [\<lparr>ev_rotation_id = i,
     ev_at = now_rfc3339 clk db, ev_from_state = s, ev_to_state = t, ev_detail = d\<rparr>]"
  by (simp_all add: record_event_def)

lemma rotation_timeline_update [simp]: "rotation_timeline rid (update_rotation i f db) = rotation_timeline rid db"
  by (simp add: rotation_timeline_def update_rotation_def)

lemma events_update [simp]: "vd_events (update_rotation i f db) = vd_events db"
  by (simp add: update_rotation_def)

lemma ids_update: "(\<And>r. rn_id (f r) = rn_id r) \<Longrightarrow>
    map rn_id (vd_rotations (update_rotation i f db)) = map rn_id (vd_rotations db)"
  by (auto simp: update_rotation_def)

text \<open>The three ways the tables of a rotation change: a row in place, an event, a new row.\<close>

lemma vault_ok_update:
  assumes id: "\<And>r. rn_id (f r) = rn_id r"
    and run: "\<And>r. find_rotation rid db = Some r \<Longrightarrow> row_run r (f r)"
    and st: "\<And>r. find_rotation rid db = Some r \<Longrightarrow> rn_state (f r) = rn_state r"
    and ok: "vault_ok db"
  shows "vault_ok (update_rotation rid f db)"
  using ok run st row_run_ok
  by (auto simp: vault_ok_def rows_ok_def timeline_ok_def find_rotation_update [OF id] ids_update [OF id]
      split: if_splits)

lemma evolves_update:
  assumes id: "\<And>r. rn_id (f r) = rn_id r"
    and run: "\<And>r. find_rotation rid db = Some r \<Longrightarrow> row_run r (f r)"
    and st: "\<And>r. find_rotation rid db = Some r \<Longrightarrow> rn_state (f r) = rn_state r"
  shows "db_evolves db (update_rotation rid f db)"
  using run vault_ok_update [of f rid db, OF id run st]
  by (auto simp: db_evolves_def find_rotation_update [OF id])

lemma evolves_note:
  assumes "find_rotation rid db = Some r"
  shows "db_evolves db (record_event clk rid (rn_state r) (rn_state r) d db)"
  using assms
  by (auto simp: db_evolves_def vault_ok_def rows_ok_def timeline_ok_def timeline_path_snoc)


text \<open>The compare-and-swap: the row moves along the machine and the timeline with it.\<close>

definition swap_row :: "string \<Rightarrow> string \<Rightarrow> string \<Rightarrow> rotation \<Rightarrow> rotation" where
  "swap_row now s t r = (if rn_state r = s then r\<lparr>rn_state := t, rn_updated_at := now, rn_last_error := []\<rparr> else r)"

lemma set_state_swap:
  "set_state clk rid s t d db =
     (if \<exists>r \<in> set (vd_rotations db). rn_id r = rid \<and> rn_state r = s
      then (Inr (), record_event clk rid s t d (update_rotation rid (swap_row (now_rfc3339 clk db) s t) db))
      else (Inl (case load_rotation rid db of Inl e \<Rightarrow> e | Inr current \<Rightarrow>
              InvalidInput (''rotation '' @ rid @ '' changed concurrently (expected '' @
                quoted s @ '', found '' @ quoted (rn_state current) @
                ''); re-check its state before acting'')), db\<lparr>vd_tick := vd_tick db + 1\<rparr>))"
proof -
  let ?hit = "\<lambda>r. rn_id r = rid \<and> rn_state r = s"
  have n: "fst (claim_state clk rid s t db) = 0 \<longleftrightarrow> \<not> (\<exists>r \<in> set (vd_rotations db). ?hit r)"
    by (simp add: claim_state_def filter_empty_conv)
  have claimed: "snd (claim_state clk rid s t db) = update_rotation rid (swap_row (now_rfc3339 clk db) s t) db"
    by (simp add: claim_state_def update_rotation_def swap_row_def Let_def)
  show ?thesis
  proof (cases "\<exists>r \<in> set (vd_rotations db). ?hit r")
    case True
    with n claimed show ?thesis by (simp add: set_state_def case_prod_beta)
  next
    case False
    then have "map (\<lambda>r. if ?hit r then f r else r) (vd_rotations db) = vd_rotations db" for f
      by (intro map_idI) auto
    then have same: "snd (claim_state clk rid s t db) = db\<lparr>vd_tick := vd_tick db + 1\<rparr>"
      by (simp add: claim_state_def Let_def)
    have "load_rotation rid (db\<lparr>vd_tick := vd_tick db + 1\<rparr>) = load_rotation rid db"
      by (simp add: load_rotation_def find_rotation_def)
    with False n same show ?thesis by (simp add: set_state_def case_prod_beta split: sum.split)
  qed
qed

lemma swap_row_run: "rn_state r = s \<Longrightarrow> allowed r t \<Longrightarrow> row_run r (swap_row now s t r)"
  by (auto simp: swap_row_def intro: row_run_step row_step.transition)

lemma swap_row_other: "rn_state r \<noteq> s \<Longrightarrow> swap_row now s t r = r"
  by (simp add: swap_row_def)

lemma swap_row_id [simp]: "rn_id (swap_row now s t r) = rn_id r"
  by (simp add: swap_row_def)

lemma swap_row_state: "rn_state r = s \<Longrightarrow> rn_state (swap_row now s t r) = t"
  by (simp add: swap_row_def)

lemma vault_ok_swap:
  assumes r: "r \<in> set (vd_rotations db)" "rn_id r = rid" "rn_state r = s"
    and al: "allowed r t" and ok: "vault_ok db"
  shows "vault_ok (record_event clk rid s t d (update_rotation rid (swap_row now s t) db))"
proof -
  from ok r have f: "find_rotation rid db = Some r"
    using find_rotation_unique by (auto simp: vault_ok_def)
  with r al ok show ?thesis
    using row_run_ok [OF swap_row_run [OF r(3) al]]
    by (auto simp: vault_ok_def rows_ok_def timeline_ok_def find_rotation_update ids_update
        timeline_path_snoc swap_row_state split: if_splits)
qed

lemma evolves_set_state:
  assumes al: "\<And>r. r \<in> set (vd_rotations db) \<Longrightarrow> rn_id r = rid \<Longrightarrow> rn_state r = s \<Longrightarrow> allowed r t"
  shows "db_evolves db (snd (set_state clk rid s t d db))"
proof (cases "\<exists>r \<in> set (vd_rotations db). rn_id r = rid \<and> rn_state r = s")
  case True
  have "row_run r (swap_row (now_rfc3339 clk db) s t r)" if "find_rotation rid db = Some r" for r
    using al [OF find_rotation_in [OF that] find_rotation_id [OF that]]
    by (cases "rn_state r = s") (simp_all add: swap_row_run swap_row_other)
  with True al show ?thesis
    by (auto simp: set_state_swap db_evolves_def find_rotation_update vault_ok_swap)
next
  case False
  then show ?thesis by (auto simp: set_state_swap intro: db_evolves_same)
qed

definition with_row :: "rotation \<Rightarrow> vault_db \<Rightarrow> vault_db" where
  "with_row r db = db\<lparr>vd_rotations := vd_rotations db @ [r], vd_tick := vd_tick db + 1\<rparr>"

lemma find_rotation_with_row:
  "find_rotation rid (with_row r db)
     = (case find_rotation rid db of Some q \<Rightarrow> Some q | None \<Rightarrow> if rn_id r = rid then Some r else None)"
proof -
  have "find p (xs @ [r]) = (case find p xs of Some q \<Rightarrow> Some q | None \<Rightarrow> if p r then Some r else None)"
    for p xs by (induction xs) auto
  then show ?thesis by (simp add: find_rotation_def with_row_def)
qed

lemma with_row_tables [simp]:
  "vd_rotations (with_row r db) = vd_rotations db @ [r]" "vd_events (with_row r db) = vd_events db"
  "rotation_timeline rid (with_row r db) = rotation_timeline rid db"
  by (simp_all add: with_row_def rotation_timeline_def)

lemma find_rotation_fresh: "rid \<notin> rn_id ` set (vd_rotations db) \<Longrightarrow> find_rotation rid db = None"
  by (auto simp: find_rotation_def find_None_iff)

lemma timeline_empty:
  "timeline_ok db \<Longrightarrow> find_rotation rid db = None \<Longrightarrow> rotation_timeline rid db = []"
  by (auto simp: timeline_ok_def rotation_timeline_def filter_empty_conv)

lemma vault_ok_with_row:
  assumes new: "rn_id r \<notin> rn_id ` set (vd_rotations db)" and fr: "fresh_row r" and ok: "vault_ok db"
  shows "vault_ok (record_event clk (rn_id r) [] PLANNED d (with_row r db))"
  using ok fresh_row_ok [OF fr] fr find_rotation_fresh [OF new] timeline_empty [of db "rn_id r"] new
  by (auto simp: vault_ok_def rows_ok_def timeline_ok_def find_rotation_with_row fresh_row_def
      split: option.splits if_splits)

lemma evolves_insert:
  "db_evolves db (snd (insert_rotation clk uuid cid p m n g k pr ins db))"
proof -
  obtain row where row: "rn_id row = uuid" "fresh_row row"
    and ins: "uuid \<notin> rn_id ` set (vd_rotations db) \<Longrightarrow> cid \<in> cr_id ` set (vd_credentials db) \<Longrightarrow>
      snd (insert_rotation clk uuid cid p m n g k pr ins db)
        = record_event clk uuid [] PLANNED ''rotation planned (dry run)'' (with_row row db)"
    by (rule that [of "\<lparr>rn_id = uuid, rn_credential_id = cid, rn_provider = p, rn_state = PLANNED,
        rn_mode = m, rn_note = n, rn_created_at = now_rfc3339 clk db, rn_updated_at = now_rfc3339 clk db,
        rn_approved_at = None, rn_old_version = None, rn_new_version = None, rn_sync_plan_id = None,
        rn_grace_minutes = g, rn_grace_ends_at = None, rn_old_provider_key_id = k,
        rn_new_provider_key_id = None, rn_provider_project_id = pr, rn_new_value_validated = False,
        rn_old_disabled_at = None, rn_old_revoked_at = None, rn_last_error = [],
        rn_manual_instructions = ins\<rparr>"]) (simp_all add: fresh_row_def insert_rotation_def with_row_def Let_def)
  have "db_evolves db (record_event clk uuid [] PLANNED d (with_row row db))"
    if new: "uuid \<notin> rn_id ` set (vd_rotations db)" for d
    using vault_ok_with_row [of row db clk d] find_rotation_fresh [OF new] new row
    by (auto simp: db_evolves_def find_rotation_with_row split: option.splits if_splits)
  with ins show ?thesis
    by (cases "uuid \<notin> rn_id ` set (vd_rotations db) \<and> cid \<in> cr_id ` set (vd_credentials db)")
      (auto simp: insert_rotation_def Let_def)
qed


end
