(* ===== verification/RotationRefine.thy ===== *)
theory RotationRefine
  imports RotationMachine
begin

text \<open>
  Every operation of the rotation workflow moves the vault along the abstract machine and makes
  only justified calls to the provider, whatever row it acts for: the rows other processes have
  moved on since it was read are covered, because all an operation may assume of its row is that
  the stored one is reached from it.
\<close>

section \<open>The world\<close>

text \<open>
  A call is justified by what the vault records: a key is disabled or revoked only for a rotation
  whose new value was validated, a revocation only after its marker, the old key of that rotation
  and no other; a key is enabled again, and the new one revoked, only after a rollback began. It
  is justified by the vault it found, and stays so in every later one.
\<close>

definition rolled :: "string \<Rightarrow> vault_db \<Rightarrow> bool" where
  "rolled rid db \<longleftrightarrow> (\<exists>e \<in> set (rotation_timeline rid db). ev_to_state e = ROLLING_BACK)"

definition validated_for :: "string \<Rightarrow> string \<Rightarrow> vault_db \<Rightarrow> bool" where
  "validated_for rid key db \<longleftrightarrow> (\<exists>r. find_rotation rid db = Some r \<and> rn_new_value_validated r
     \<and> rn_old_provider_key_id r = Some key)"

fun justified :: "vault_db \<Rightarrow> rotation_call \<Rightarrow> bool" where
  "justified db (CallCreate rid p) \<longleftrightarrow> (\<exists>r. find_rotation rid db = Some r \<and> rn_provider r = p)"
| "justified db (CallDisable rid key) \<longleftrightarrow> validated_for rid key db"
| "justified db (CallRevoke rid key) \<longleftrightarrow> validated_for rid key db \<and> revoke_was_attempted rid key db"
| "justified db (CallEnable rid key) \<longleftrightarrow> rolled rid db"
| "justified db (CallRevokeNew rid key) \<longleftrightarrow> rolled rid db"

definition calls_ok :: "'x rotation_world \<Rightarrow> bool" where
  "calls_ok w \<longleftrightarrow> (\<forall>c \<in> set (wd_calls w). justified (wd_db w) c)
     \<and> list_all2 (\<lambda>db c. vault_ok db \<and> justified db c) (wd_found w) (wd_calls w)"

definition world_evolves :: "'x rotation_world \<Rightarrow> 'x rotation_world \<Rightarrow> bool" where
  "world_evolves w w' \<longleftrightarrow> db_evolves (wd_db w) (wd_db w') \<and> (\<exists>cs. wd_calls w' = wd_calls w @ cs)
     \<and> (vault_ok (wd_db w) \<longrightarrow> calls_ok w \<longrightarrow> calls_ok w')"

lemma timeline_grows: "db_evolves db db' \<Longrightarrow> \<exists>es. rotation_timeline rid db' = rotation_timeline rid db @ es"
  using db_evolves_events [of db db'] by (auto simp: rotation_timeline_def)

lemma rolled_stays: "db_evolves db db' \<Longrightarrow> rolled rid db \<Longrightarrow> rolled rid db'"
  using timeline_grows [of db db' rid] by (auto simp: rolled_def)

lemma attempted_stays: "db_evolves db db' \<Longrightarrow> revoke_was_attempted rid key db \<Longrightarrow> revoke_was_attempted rid key db'"
  using timeline_grows [of db db' rid] by (auto simp: revoke_was_attempted_def)

lemma validated_stays:
  assumes "db_evolves db db'" "validated_for rid key db"
  shows "validated_for rid key db'"
proof -
  from assms obtain r where r: "find_rotation rid db = Some r" "rn_new_value_validated r"
    "rn_old_provider_key_id r = Some key" by (auto simp: validated_for_def)
  from db_evolves_rotation [OF assms(1) r(1)] obtain r' where
    r': "find_rotation rid db' = Some r'" "row_run r r'" by blast
  with r row_run_core [OF r'(2)] row_run_validated [OF r'(2)] show ?thesis
    by (simp add: validated_for_def same_core_def)
qed

lemma justified_stays: "db_evolves db db' \<Longrightarrow> justified db c \<Longrightarrow> justified db' c"
proof (cases c)
  case (CallCreate rid p)
  assume e: "db_evolves db db'" and j: "justified db c"
  from j CallCreate obtain r where r: "find_rotation rid db = Some r" "rn_provider r = p" by auto
  with db_evolves_rotation [OF e r(1)] CallCreate show ?thesis
    by (auto simp: same_core_def dest!: row_run_core)
qed (auto intro: rolled_stays attempted_stays validated_stays)

interpretation world: evolution world_evolves
proof unfold_locales
  fix w :: "'x rotation_world"
  show "world_evolves w w" by (simp add: world_evolves_def)
next
  fix w w' w'' :: "'x rotation_world"
  assume "world_evolves w w'" "world_evolves w' w''"
  then show "world_evolves w w''"
    by (auto simp: world_evolves_def intro: db_evolves_trans db_evolves_ok)
qed

lemma world_on_db:
  "db_evolves (wd_db w) db \<Longrightarrow> world_evolves w (w\<lparr>wd_db := db\<rparr>)"
  by (auto simp: world_evolves_def calls_ok_def intro: justified_stays)

lemma world_external: "world_evolves w (w\<lparr>wd_ext := x\<rparr>)"
  by (simp add: world_evolves_def calls_ok_def)

lemma world_call:
  "justified (wd_db w) c \<Longrightarrow>
     world_evolves w (w\<lparr>wd_ext := x, wd_calls := wd_calls w @ [c], wd_found := wd_found w @ [wd_db w]\<rparr>)"
  by (auto simp: world_evolves_def calls_ok_def list_all2_appendI)

section \<open>Safe operations\<close>

text \<open>
  \<open>safe K m\<close>: from a vault satisfying \<open>K\<close> the operation moves the world along its evolution.
  The conditions carried from statement to statement are kept by every evolution of the vault, so
  they survive what other processes do in between.
\<close>

definition kept :: "(vault_db \<Rightarrow> bool) \<Rightarrow> bool" where
  "kept K \<longleftrightarrow> (\<forall>db db'. db_evolves db db' \<longrightarrow> K db \<longrightarrow> K db')"

definition safe :: "(vault_db \<Rightarrow> bool) \<Rightarrow> ('x rotation_world, 'a) op \<Rightarrow> bool" where
  "safe K m \<longleftrightarrow> guards world_evolves (\<lambda>w. K (wd_db w)) m (\<lambda>_ _. True)"

definition leaves :: "(vault_db \<Rightarrow> bool) \<Rightarrow> ('x rotation_world, 'a) op \<Rightarrow> ('a \<Rightarrow> vault_db \<Rightarrow> bool) \<Rightarrow> bool" where
  "leaves K m J \<longleftrightarrow> guards world_evolves (\<lambda>w. K (wd_db w)) m (\<lambda>a w. J a (wd_db w))"

named_theorems safe_rules \<open>operations and the conditions under which they are safe\<close>

lemma kept_stable: "kept K \<Longrightarrow> stable world_evolves (\<lambda>w. K (wd_db w))"
  unfolding kept_def stable_def world_evolves_def by blast

lemma kept_conj [simp]: "kept K \<Longrightarrow> kept J \<Longrightarrow> kept (\<lambda>db. K db \<and> J db)"
  by (auto simp: kept_def)

lemma kept_const [simp]: "kept (\<lambda>_. c)"
  by (simp add: kept_def)

lemma leaves_safe: "leaves K m J \<Longrightarrow> safe K m"
  unfolding safe_def leaves_def by (erule guards_weaken) simp_all

lemma safe_weaken: "safe K' m \<Longrightarrow> (\<And>db. K db \<Longrightarrow> K' db) \<Longrightarrow> safe K m"
  unfolding safe_def by (erule guards_weaken) simp_all

lemma safe_after:
  assumes "leaves K m J" "kept K" "\<And>a. safe (\<lambda>db. K db \<and> J a db) (f a)"
  shows "safe K (andthen m f)"
  using assms unfolding safe_def leaves_def
  by (intro world.guards_andthen [where Q = "\<lambda>a w. J a (wd_db w)"] kept_stable) simp_all

lemma safe_then:
  assumes "safe K m" "kept K" "\<And>a. safe K (f a)"
  shows "safe K (andthen m f)"
  using assms unfolding safe_def
  by (intro world.guards_andthen [where Q = "\<lambda>_ _. True"] kept_stable) simp_all

lemma leaves_then:
  assumes "safe K m" "kept K" "\<And>a. leaves K (f a) J"
  shows "leaves K (andthen m f) J"
  using assms unfolding safe_def leaves_def
  by (intro world.guards_andthen [where Q = "\<lambda>_ _. True"] kept_stable) simp_all

lemma leaves_ret: "(\<And>db. K db \<Longrightarrow> J a db) \<Longrightarrow> leaves K (ret a) J"
  unfolding leaves_def by (rule world.guards_ret_any) simp

lemma safe_never: "(\<And>db. \<not> K db) \<Longrightarrow> safe K m"
  by (simp add: safe_def guards_def)

lemma safe_ret [safe_rules]: "safe K (ret a)"
  unfolding safe_def by (rule world.guards_ret_any) simp

lemma safe_throw [safe_rules]: "safe K (throw e)"
  unfolding safe_def by (rule world.guards_throw)

lemma safe_inspect [safe_rules]: "safe K (inspect f)"
  unfolding safe_def by (rule world.guards_look)

lemma safe_db_read [safe_rules]: "safe K (db_read f)"
  unfolding db_read_def by (rule safe_inspect)

lemma safe_attempt [safe_rules]: "safe K m \<Longrightarrow> safe K (attempt m)"
  unfolding safe_def by (erule guards_weaken [OF world.guards_attempt]) simp_all

lemma safe_if [safe_rules]: "(c \<Longrightarrow> safe K m) \<Longrightarrow> (\<not> c \<Longrightarrow> safe K m') \<Longrightarrow> safe K (if c then m else m')"
  by simp

lemma safe_option [safe_rules]:
  "(x = None \<Longrightarrow> safe K m) \<Longrightarrow> (\<And>a. x = Some a \<Longrightarrow> safe K (f a)) \<Longrightarrow>
     safe K (case x of None \<Rightarrow> m | Some a \<Rightarrow> f a)"
  unfolding safe_def by (rule world.guards_option)

lemma safe_sum [safe_rules]:
  "(\<And>e. x = Inl e \<Longrightarrow> safe K (g e)) \<Longrightarrow> (\<And>a. x = Inr a \<Longrightarrow> safe K (f a)) \<Longrightarrow>
     safe K (case x of Inl e \<Rightarrow> g e | Inr a \<Rightarrow> f a)"
  unfolding safe_def by (rule world.guards_sum)

lemma safe_pair [safe_rules]:
  "(\<And>a b. x = (a, b) \<Longrightarrow> safe K (f a b)) \<Longrightarrow> safe K (case x of (a, b) \<Rightarrow> f a b)"
  unfolding safe_def by (rule world.guards_pair)

lemma leaves_read:
  assumes "\<And>db a. K db \<Longrightarrow> f db = Inr a \<Longrightarrow> J a db"
  shows "leaves K (db_read f) J"
  unfolding leaves_def db_read_def
  by (rule guards_weaken [OF world.guards_inspect [where P = "\<lambda>w. K (wd_db w)"]]) (auto intro: assms)

lemma safe_external [safe_rules]: "safe K (external f)"
  unfolding safe_def by (rule guardsI) (auto simp: external_def world_external split: prod.split)

lemma safe_recorded:
  "(\<And>db. K db \<Longrightarrow> justified db c) \<Longrightarrow> safe K (recorded c f)"
  unfolding safe_def by (rule guardsI) (auto simp: recorded_def intro: world_call split: prod.split)

lemma leaves_on_db:
  assumes "\<And>db. K db \<Longrightarrow> db_evolves db (snd (m db))"
    and "\<And>db a. K db \<Longrightarrow> fst (m db) = Inr a \<Longrightarrow> J a (snd (m db))"
  shows "leaves K (on_db m) J"
  unfolding leaves_def
  by (rule guardsI) (use assms in \<open>fastforce simp: on_db_def intro: world_on_db split: prod.splits\<close>)+

lemma safe_on_db: "(\<And>db. K db \<Longrightarrow> db_evolves db (snd (m db))) \<Longrightarrow> safe K (on_db m)"
  by (rule leaves_safe [where J = "\<lambda>_ _. True"], rule leaves_on_db) simp_all

section \<open>The statements of the store\<close>

text \<open>What is true of a row that was read at some time: the stored one is reached from it.\<close>

definition seen :: "rotation \<Rightarrow> vault_db \<Rightarrow> bool" where
  "seen rot db \<longleftrightarrow> vault_ok db \<and> row_ok rot
     \<and> (\<exists>r. find_rotation (rn_id rot) db = Some r \<and> row_run rot r)"

definition stored :: "string \<Rightarrow> vault_db \<Rightarrow> bool" where
  "stored rid db \<longleftrightarrow> (\<exists>r. find_rotation rid db = Some r \<and> rn_new_version r \<noteq> None)"

definition validated :: "string \<Rightarrow> vault_db \<Rightarrow> bool" where
  "validated rid db \<longleftrightarrow> (\<exists>r. find_rotation rid db = Some r \<and> rn_new_value_validated r)"

lemma kept_vault_ok [simp]: "kept vault_ok"
  unfolding kept_def by (blast intro: db_evolves_ok)

lemma kept_seen [simp]: "kept (seen rot)"
  unfolding kept_def seen_def by (blast intro: db_evolves_ok row_run_trans dest: db_evolves_rotation)

lemma kept_stored [simp]: "kept (stored rid)"
  unfolding kept_def stored_def by (fastforce dest: db_evolves_rotation row_run_version)

lemma kept_validated [simp]: "kept (validated rid)"
  unfolding kept_def validated_def by (fastforce dest: db_evolves_rotation row_run_validated)

lemma kept_rolled [simp]: "kept (rolled rid)"
  unfolding kept_def by (blast intro: rolled_stays)

lemma kept_attempted [simp]: "kept (revoke_was_attempted rid key)"
  unfolding kept_def by (blast intro: attempted_stays)

lemma seen_loaded: "vault_ok db \<Longrightarrow> load_rotation rid db = Inr rot \<Longrightarrow> seen rot db"
  by (auto simp: seen_def load_rotation_def vault_ok_def rows_ok_def dest: find_rotation_id
      intro!: exI [of _ rot] split: option.splits)

lemma loaded_id: "load_rotation rid db = Inr rot \<Longrightarrow> rn_id rot = rid"
  by (auto simp: load_rotation_def dest: find_rotation_id split: option.splits)

lemma seen_ok: "seen rot db \<Longrightarrow> vault_ok db"
  by (simp add: seen_def)

lemma seen_stored: "seen rot db \<Longrightarrow> rn_new_version rot \<noteq> None \<Longrightarrow> stored (rn_id rot) db"
  unfolding seen_def stored_def by (fastforce dest: row_run_version)

lemma seen_late: "seen rot db \<Longrightarrow> late (rn_state rot) \<Longrightarrow> stored (rn_id rot) db"
  by (rule seen_stored) (auto simp: seen_def row_ok_def)

lemma seen_validated: "seen rot db \<Longrightarrow> rn_new_value_validated rot \<Longrightarrow> validated (rn_id rot) db"
  unfolding seen_def validated_def by (fastforce dest: row_run_validated)

lemma seen_core: "seen rot db \<Longrightarrow> find_rotation (rn_id rot) db = Some r \<Longrightarrow> same_core rot r"
  by (auto simp: seen_def dest: row_run_core)

lemma seen_validated_for:
  "seen rot db \<Longrightarrow> validated (rn_id rot) db \<Longrightarrow> rn_old_provider_key_id rot = Some key \<Longrightarrow>
     validated_for (rn_id rot) key db"
  by (auto simp: validated_def validated_for_def same_core_def dest: seen_core)

lemma seen_created: "seen rot db \<Longrightarrow> justified db (CallCreate (rn_id rot) (rn_provider rot))"
  by (auto simp: seen_def same_core_def dest: row_run_core)

text \<open>Operations that leave the rotation tables alone.\<close>

definition quiet :: "(vault_db, 'a) op \<Rightarrow> bool" where
  "quiet m \<longleftrightarrow> (\<forall>db. vd_rotations (snd (m db)) = vd_rotations db \<and> vd_events (snd (m db)) = vd_events db)"

lemma safe_quiet: "quiet m \<Longrightarrow> safe K (on_db m)"
  by (rule safe_on_db) (auto simp: quiet_def intro: db_evolves_same)

lemma quiet_change: "(\<And>db. vd_rotations (f db) = vd_rotations db \<and> vd_events (f db) = vd_events db) \<Longrightarrow> quiet (change f)"
  by (simp add: quiet_def change_def)

lemma quiet_andthen: "quiet m \<Longrightarrow> (\<And>a. quiet (f a)) \<Longrightarrow> quiet (andthen m f)"
  by (auto simp: quiet_def andthen_def split: prod.splits sum.splits) (metis snd_conv)+

lemma quiet_same: "quiet (ret a)" "quiet (throw e)" "quiet (inspect f)"
  by (simp_all add: quiet_def op_defs)

lemma quiet_txn: "quiet m \<Longrightarrow> quiet (in_txn m)"
  by (auto simp: quiet_def in_txn_def split: prod.splits sum.splits) (metis snd_conv)+

lemma quiet_audit: "quiet (change (audit_add clk e p c d))"
  by (rule quiet_change) (simp add: audit_add_def)

lemma quiet_retain: "quiet (retain_credential_version env row reason)"
  by (simp add: quiet_def retain_credential_version_def prune_by_age_def prune_versions_def Let_def
      split: sum.split option.split)

lemma quiet_replace: "quiet (replace_credential_value env sel pw v)"
proof -
  have "quiet (replace_in_txn env sel v)"
    unfolding replace_in_txn_def
    by (simp add: quiet_andthen quiet_same quiet_retain quiet_audit quiet_change store_value_def)
  then show ?thesis
    unfolding replace_credential_value_def by (simp add: quiet_andthen quiet_same quiet_txn)
qed

lemma quiet_schedules:
  "quiet (schedule_set clk c n)" "quiet (schedule_remove c)" "quiet (schedule_pause c reason)"
  "quiet (schedule_mark_completed clk c r)"
  by (simp_all add: quiet_def schedule_set_def schedule_remove_def schedule_pause_def
      schedule_mark_completed_def Let_def split: option.split)

lemma quiet_keys:
  "quiet (change (cache_created_key clk p k created))" "quiet (change (link_key clk p k c))"
  by (simp_all add: quiet_def change_def cache_created_key_def link_key_def Let_def)

lemmas safe_quiets [safe_rules] = quiet_audit [THEN safe_quiet] quiet_replace [THEN safe_quiet]
  quiet_schedules [THEN safe_quiet] quiet_keys [THEN safe_quiet]

text \<open>Operations that write a row or an event.\<close>

lemma update_evolves_adorn:
  assumes "\<And>r. same_core r (f r) \<and> same_progress r (f r) \<and> rn_state (f r) = rn_state r"
  shows "db_evolves db (update_rotation rid f db)"
  using assms by (intro evolves_update row_run_adorn) (auto simp: same_core_def)

lemma safe_clear_error [safe_rules]: "safe K (on_db (clear_error rid))"
  by (rule safe_on_db)
    (auto simp: clear_error_def same_core_def same_progress_def intro!: update_evolves_adorn)

lemma evolves_noted:
  assumes "find_rotation rid db = Some r" "rn_state (f r) = rn_state r"
    "\<And>q. same_core q (f q) \<and> same_progress q (f q) \<and> rn_state (f q) = rn_state q"
  shows "db_evolves db (record_event clk rid (rn_state r) (rn_state r) d (update_rotation rid f db))"
proof -
  have "find_rotation rid (update_rotation rid f db) = Some (f r)"
    using assms by (simp add: find_rotation_update same_core_def)
  from evolves_note [OF this] assms(2) update_evolves_adorn [OF assms(3)] show ?thesis
    by (metis db_evolves_trans)
qed

lemma safe_note_error [safe_rules]: "safe K (note_error env rid err)"
  unfolding note_error_def
  by (rule safe_on_db) (auto simp: record_error_def load_rotation_def Let_def same_core_def same_progress_def
      intro!: evolves_noted split: option.split)

lemma add_note_evolves: "db_evolves db (snd (record_event_note clk rid d db))"
  by (auto simp: record_event_note_def load_rotation_def intro: evolves_note split: option.split)

lemma safe_add_note [safe_rules]: "safe K (add_note env rid text)"
  unfolding add_note_def by (rule safe_on_db) (rule add_note_evolves)

lemma leaves_add_note: "leaves K (add_note env rid text) (\<lambda>_ db. \<exists>e \<in> set (rotation_timeline rid db). ev_detail e = text)"
  unfolding add_note_def
  by (rule leaves_on_db, rule add_note_evolves) (auto simp: record_event_note_def split: sum.splits)

text \<open>Columns that no invariant mentions may be set at any time.\<close>

lemma safe_set_field:
  assumes "field \<in> {''approved_at'', ''sync_plan_id'', ''grace_ends_at'', ''new_provider_key_id'', ''provider_project_id''}"
  shows "safe K (on_db (set_field clk rid field v))"
proof -
  have "same_core r ((set_column field v r)\<lparr>rn_updated_at := t\<rparr>)
      \<and> same_progress r ((set_column field v r)\<lparr>rn_updated_at := t\<rparr>)
      \<and> rn_state ((set_column field v r)\<lparr>rn_updated_at := t\<rparr>) = rn_state r" for r t
    using assms by (auto simp: set_column_def same_core_def same_progress_def)
  then show ?thesis
    by (intro safe_on_db) (auto simp: set_field_def Let_def intro!: update_evolves_adorn)
qed

lemma safe_stamp_approved: "safe K (stamp_field env rid ''approved_at'')"
  unfolding stamp_field_def
  by (rule safe_on_db)
    (auto simp: set_field_def set_column_def Let_def same_core_def same_progress_def intro!: update_evolves_adorn)

lemma stamp_old_run:
  assumes "rn_new_value_validated r" "field \<in> {''old_disabled_at'', ''old_revoked_at''}"
  shows "row_run r ((set_column field (Some v) r)\<lparr>rn_updated_at := t\<rparr>)"
  using assms by (auto simp: set_column_def intro: row_run_step row_step.disable row_step.revoke)

lemma safe_stamp_old:
  assumes K: "\<And>db. K db \<Longrightarrow> validated rid db" and f: "field \<in> {''old_disabled_at'', ''old_revoked_at''}"
  shows "safe K (stamp_field env rid field)"
  unfolding stamp_field_def
proof (rule safe_on_db)
  fix db
  assume "K db"
  with K have v: "rn_new_value_validated r" if "find_rotation rid db = Some r" for r
    using K [of db] that \<open>K db\<close> by (auto simp: validated_def)
  have "rn_id ((set_column field (Some v) r)\<lparr>rn_updated_at := t\<rparr>) = rn_id r
      \<and> rn_state ((set_column field (Some v) r)\<lparr>rn_updated_at := t\<rparr>) = rn_state r" for v t r
    using f by (auto simp: set_column_def)
  with v f stamp_old_run have "db_evolves db (update_rotation rid
      (\<lambda>r. (set_column field (Some (now_rfc3339 (fe_clock env) db)) r)\<lparr>rn_updated_at := now_rfc3339 (fe_clock env) db\<rparr>) db)"
    by (intro evolves_update) blast+
  then show "db_evolves db (snd (set_field (fe_clock env) rid field (Some (now_rfc3339 (fe_clock env) db)) db))"
    by (simp add: set_field_def Let_def)
qed

lemma safe_mark_validated:
  assumes K: "\<And>db r. K db \<Longrightarrow> find_rotation rid db = Some r \<Longrightarrow> rn_new_version r \<noteq> None \<and> late (rn_state r)"
    and found: "\<And>db. K db \<Longrightarrow> find_rotation rid db \<noteq> None"
  shows "leaves K (on_db (mark_new_value_validated clk rid)) (\<lambda>_. validated rid)"
proof (rule leaves_on_db)
  fix db
  assume "K db"
  with K show "db_evolves db (snd (mark_new_value_validated clk rid db))"
    by (auto simp: mark_new_value_validated_def Let_def intro!: evolves_update row_run_step row_step.validate)
next
  fix db a
  assume "K db"
  with found show "validated rid (snd (mark_new_value_validated clk rid db))"
    by (fastforce simp: mark_new_value_validated_def validated_def Let_def find_rotation_update)
qed

text \<open>The compare-and-swap, for a vault that satisfies the invariant.\<close>

lemma leaves_move:
  assumes ok: "\<And>db. K db \<Longrightarrow> vault_ok db"
    and al: "\<And>db r. K db \<Longrightarrow> find_rotation rid db = Some r \<Longrightarrow> rn_state r = s \<Longrightarrow> allowed r t"
  shows "leaves K (move env rid s t d) (\<lambda>_ db. \<exists>e \<in> set (rotation_timeline rid db). ev_to_state e = t)"
  unfolding move_def
proof (rule leaves_on_db)
  fix db
  assume "K db"
  with ok al find_rotation_unique show "db_evolves db (snd (set_state (fe_clock env) rid s t d db))"
    by (intro evolves_set_state) (auto simp: vault_ok_def)
qed (auto simp: set_state_swap split: if_splits)

lemmas safe_move = leaves_move [THEN leaves_safe]

section \<open>Sequencing with what a read showed\<close>

lemma leaves_after:
  assumes "leaves K m J" "kept K" "\<And>a. leaves (\<lambda>db. K db \<and> J a db) (f a) J'"
  shows "leaves K (andthen m f) J'"
  using assms unfolding leaves_def
  by (intro world.guards_andthen [where Q = "\<lambda>a w. J a (wd_db w)"] kept_stable) simp_all

lemma leaves_weaken:
  "leaves K' m J' \<Longrightarrow> (\<And>db. K db \<Longrightarrow> K' db) \<Longrightarrow> (\<And>a db. J' a db \<Longrightarrow> J a db) \<Longrightarrow> leaves K m J"
  unfolding leaves_def by (erule guards_weaken) simp_all

lemma leaves_throw: "leaves K (throw e) J"
  unfolding leaves_def by (rule world.guards_throw)

lemma leaves_attempt:
  "leaves K m J \<Longrightarrow> leaves K (attempt m) (\<lambda>r db. \<forall>a. r = Inr a \<longrightarrow> J a db)"
  unfolding leaves_def by (erule world.guards_attempt)

lemma leaves_seq:
  assumes "leaves K m J" "\<And>a. leaves (J a) (f a) J'"
  shows "leaves K (andthen m f) J'"
  using assms unfolding leaves_def by (rule world.guards_seq)

lemma leaves_look:
  assumes "\<And>a. leaves (\<lambda>db. K db \<and> g db = Inr a) (f a) J"
  shows "leaves K (andthen (db_read g) f) J"
proof (rule leaves_seq [OF _ assms])
  show "leaves K (db_read g) (\<lambda>a db. K db \<and> g db = Inr a)"
    unfolding leaves_def db_read_def
    by (rule guards_weaken [OF world.guards_inspect [where P = "\<lambda>w. K (wd_db w)"]]) auto
qed

lemma safe_look:
  assumes "\<And>a. safe (\<lambda>db. K db \<and> g db = Inr a) (f a)"
  shows "safe K (andthen (db_read g) f)"
  using leaves_look [of K g f "\<lambda>_ _. True"] assms by (simp add: safe_def leaves_def)

text \<open>A condition on the rotation tables, kept over an operation that leaves them alone.\<close>

definition frame :: "(vault_db \<Rightarrow> bool) \<Rightarrow> bool" where
  "frame K \<longleftrightarrow> (\<forall>db db'. vd_rotations db' = vd_rotations db \<longrightarrow> vd_events db' = vd_events db \<longrightarrow> K db \<longrightarrow> K db')"

lemma leaves_frame: "quiet m \<Longrightarrow> frame K \<Longrightarrow> leaves K (on_db m) (\<lambda>_. K)"
  by (rule leaves_on_db) (auto simp: quiet_def frame_def intro: db_evolves_same)

section \<open>Storing and creating the replacement\<close>

definition unstored :: "string \<Rightarrow> vault_db \<Rightarrow> bool" where
  "unstored rid db \<longleftrightarrow> (\<exists>r. find_rotation rid db = Some r \<and> rn_new_version r = None)"

lemma frame_unstored: "frame (unstored rid)"
  by (simp add: frame_def unstored_def find_rotation_def)

lemma leaves_set_versions: "leaves (unstored rid) (on_db (set_versions clk rid (Some old) new)) (\<lambda>_. stored rid)"
  by (rule leaves_on_db) (auto simp: unstored_def stored_def set_versions_def Let_def find_rotation_update
      intro!: evolves_update row_run_step row_step.store)

lemma leaves_unstored_look:
  "(\<And>a. leaves (unstored rid) (f a) J) \<Longrightarrow> leaves (unstored rid) (andthen (db_read g) f) J"
  by (rule leaves_look) (rule leaves_weaken, assumption, simp_all)

lemma leaves_pair:
  "(\<And>a b. x = (a, b) \<Longrightarrow> leaves K (f a b) J) \<Longrightarrow> leaves K (case x of (a, b) \<Rightarrow> f a b) J"
  by (cases x) simp

lemma leaves_if: "(c \<Longrightarrow> leaves K m J) \<Longrightarrow> (\<not> c \<Longrightarrow> leaves K m' J) \<Longrightarrow> leaves K (if c then m else m') J"
  by simp

lemma leaves_store:
  "leaves (seen rot) (rotation_store_replacement env rot pw value) (\<lambda>_. stored (rn_id rot))"
  unfolding rotation_store_replacement_def
proof (rule leaves_look, intro leaves_if leaves_throw)
  fix fresh
  let ?K = "\<lambda>db. seen rot db \<and> load_rotation (rn_id rot) db = Inr fresh"
  show "leaves ?K (ret t) (\<lambda>_. stored (rn_id rot))" if "rn_new_version fresh \<noteq> None" for t
    using that by (intro leaves_ret) (auto simp: stored_def load_rotation_def split: option.splits)
  show "leaves ?K (andthen (db_read g) (\<lambda>ov. andthen (on_db (replace_credential_value v c pw x))
      (\<lambda>(cid, _). andthen (db_read (value_version_of cid)) (\<lambda>nv.
         andthen (on_db (set_versions (fe_clock env) (rn_id rot) (Some ov) nv)) (\<lambda>_. ret (t ov nv))))))
      (\<lambda>_. stored (rn_id rot))" if new: "\<not> rn_new_version fresh \<noteq> None" for g v c x t
  proof (rule leaves_weaken [where K' = "unstored (rn_id rot)" and J' = "\<lambda>_. stored (rn_id rot)"])
    fix db
    assume "?K db"
    with new show "unstored (rn_id rot) db"
      by (auto simp: unstored_def load_rotation_def split: option.splits)
  qed (intro leaves_unstored_look leaves_pair leaves_seq [OF leaves_frame [OF quiet_replace frame_unstored]]
        leaves_seq [OF leaves_set_versions] leaves_ret)
qed

lemma safe_verify [safe_rules]: "safe K (verify_password env pw)"
  unfolding verify_password_def by (rule safe_inspect)

lemma safe_admin [safe_rules]: "safe K (admin_secret env p)"
  unfolding admin_secret_def by (rule safe_inspect)

lemma safe_connector [safe_rules]: "safe K (connector_for env p)"
  unfolding connector_for_def by (rule safe_inspect)

lemma safe_audit [safe_rules]: "safe K (audit_op env e p c d)"
  unfolding audit_op_def by (intro safe_rules)

lemma safe_get [safe_rules]: "kept K \<Longrightarrow> safe K (rotation_get env rid)"
  unfolding rotation_get_def by (intro safe_rules safe_then)

lemma safe_link [safe_rules]: "kept K \<Longrightarrow> safe K (provider_link_key env p k c)"
  unfolding provider_link_key_def Let_def by (intro safe_rules safe_then)

lemma safe_remember [safe_rules]: "kept K \<Longrightarrow> safe K (remember_created_key env rot created)"
  unfolding remember_created_key_def by (intro safe_rules safe_then safe_set_field) simp_all

lemma leaves_created:
  "leaves (seen rot) (rotation_create_replacement env rot pw) (\<lambda>_. stored (rn_id rot))"
  unfolding rotation_create_replacement_def
  by (intro leaves_if leaves_then [where K = "seen rot"] leaves_after [OF leaves_store] leaves_ret
      leaves_then [where K = "\<lambda>db. seen rot db \<and> stored (rn_id rot) db"] safe_rules safe_then safe_recorded)
    (simp_all add: seen_stored seen_created del: justified.simps)

section \<open>Disabling, revoking, completing\<close>

lemma seen_moves:
  assumes "seen rot db" "find_rotation (rn_id rot) db = Some r"
  shows "row_ok r" "vault_ok db" "validated (rn_id rot) db \<longleftrightarrow> rn_new_value_validated r"
    "stored (rn_id rot) db \<longleftrightarrow> rn_new_version r \<noteq> None"
  using assms by (auto simp: seen_def vault_ok_def rows_ok_def validated_def stored_def)

text \<open>A row in the grace period or disabled has been validated, so the old key may be acted on.\<close>

lemma seen_armed:
  "seen rot db \<Longrightarrow> rn_state rot \<in> {GRACE_PERIOD, OLD_DISABLED} \<Longrightarrow> validated (rn_id rot) db"
  by (rule seen_validated) (auto simp: seen_def row_ok_def)

lemma safe_disable_old:
  assumes st: "rn_state rot = GRACE_PERIOD"
  shows "safe (seen rot) (rotation_disable_old env rot)"
proof -
  have arm: "validated (rn_id rot) db" if "seen rot db" for db
    using that st by (simp add: seen_armed)
  have mv: "safe (seen rot) (move env (rn_id rot) GRACE_PERIOD OLD_DISABLED d)" for d
    by (rule safe_move) (auto simp: seen_ok allowed_def)
  show ?thesis
    unfolding rotation_disable_old_def Let_def
    by (intro safe_rules safe_then mv safe_recorded safe_stamp_old)
      (auto simp: arm seen_validated_for split: prod.split option.split bool.split
        intro!: safe_rules safe_then mv safe_recorded safe_stamp_old)
qed

lemma leaves_marker:
  "leaves K (add_note env rid (revoke_attempt_marker key)) (\<lambda>_ db. revoke_was_attempted rid key db)"
  by (rule leaves_weaken [OF leaves_add_note]) (auto simp: revoke_was_attempted_def)

lemma safe_manual_required:
  "rn_state rot = OLD_DISABLED \<Longrightarrow> safe (seen rot) (move env (rn_id rot) OLD_DISABLED MANUAL_REQUIRED d)"
  by (rule safe_move) (auto simp: seen_ok allowed_def)

lemma safe_revoked_fields:
  assumes "rn_state rot = OLD_DISABLED"
  shows "safe (seen rot) (revoked_fields env (rn_id rot) d)"
  unfolding revoked_fields_def using assms
  by (intro safe_rules safe_then safe_stamp_old) (auto simp: seen_armed)

lemma safe_revoke_outcome:
  assumes "rn_state rot = OLD_DISABLED"
  shows "safe (seen rot) (revoke_outcome env rot key before result)"
proof (cases result)
  case (Inl e)
  show ?thesis
    by (cases e; simp only: Inl revoke_outcome_def Let_def sum.case core_error.case;
        (rule safe_throw | intro safe_rules safe_then safe_revoked_fields safe_manual_required assms kept_seen))
next
  case (Inr d)
  with assms show ?thesis by (simp add: revoke_outcome_def safe_revoked_fields)
qed

lemma safe_revoke_old:
  assumes st: "rn_state rot = OLD_DISABLED"
  shows "safe (seen rot) (rotation_revoke_old env rot)"
proof -
  let ?K = "\<lambda>key db. seen rot db \<and> revoke_was_attempted (rn_id rot) key db"
  have call: "safe (?K key) (recorded (CallRevoke (rn_id rot) key) f)"
    if "rn_old_provider_key_id rot = Some key" for key f
    using that st by (intro safe_recorded) (auto intro!: seen_validated_for seen_armed)
  have outcome: "safe (?K key) (revoke_outcome env rot key' before result)" for key key' before result
    by (rule safe_weaken [OF safe_revoke_outcome [OF st]]) simp
  show ?thesis
    unfolding rotation_revoke_old_def Let_def
    by (intro safe_rules safe_then safe_manual_required st)
      (auto simp: st split: prod.split option.split bool.split
        intro!: safe_rules safe_then safe_after [OF leaves_marker] safe_manual_required outcome call)
qed

lemma safe_completed_tail [safe_rules]: "kept K \<Longrightarrow> safe K (completed_tail env rot d)"
  unfolding completed_tail_def by (intro safe_rules safe_then)

lemma safe_complete:
  assumes "rn_state rot = OLD_DISABLED"
  shows "safe (seen rot) (rotation_complete env rot)"
proof -
  have "safe (seen rot) (move env (rn_id rot) OLD_DISABLED COMPLETED d)" for d
  proof (rule safe_move)
    fix db r
    assume r: "seen rot db" "find_rotation (rn_id rot) db = Some r" "rn_state r = OLD_DISABLED"
    with assms seen_moves(3) [OF r(1,2)] seen_armed [OF r(1)] show "allowed r COMPLETED"
      by (simp add: allowed_def)
  qed (simp add: seen_ok)
  then show ?thesis unfolding rotation_complete_def by (intro safe_rules safe_then) simp_all
qed

section \<open>Advancing\<close>

lemma safe_stop [safe_rules]: "kept K \<Longrightarrow> safe K (stop_with_error env rid err value)"
  unfolding stop_with_error_def by (intro safe_rules safe_then)

lemma safe_stored_move:
  assumes "rn_state rot \<in> {APPROVED, CREATING_IN_PROGRESS, AWAITING_MANUAL_KEY}"
  shows "safe (\<lambda>db. seen rot db \<and> stored (rn_id rot) db) (move env (rn_id rot) (rn_state rot) REPLACEMENT_STORED d)"
  using assms by (intro safe_move) (auto simp: seen_ok allowed_def stored_def)

lemma safe_claim:
  assumes "t \<in> {CREATING_REPLACEMENT, AWAITING_MANUAL_KEY}"
  shows "safe (seen rot) (move env rid APPROVED t d)"
  using assms by (intro safe_move) (auto simp: seen_ok allowed_def)

lemma safe_advance_approved:
  assumes "rn_state rot = APPROVED"
  shows "safe (seen rot) (advance_approved env rot pw value)"
  unfolding advance_approved_def Let_def
  by (intro safe_rules safe_then safe_after [OF leaves_store] safe_claim
      safe_stored_move [of rot, unfolded assms]) simp_all

lemma safe_advance_creating: "safe (seen rot) (advance_creating env rot value)"
proof -
  have "safe (seen rot) (move env rid CREATING_REPLACEMENT CREATING_IN_PROGRESS d)" for rid d
    by (rule safe_move) (auto simp: seen_ok allowed_def)
  then show ?thesis unfolding advance_creating_def by (intro safe_rules safe_then) simp_all
qed

lemma safe_advance_in_progress:
  assumes "rn_state rot = CREATING_IN_PROGRESS"
  shows "safe (seen rot) (advance_in_progress env rot pw value)"
proof -
  have stored: "safe (\<lambda>db. seen rot db \<and> stored (rn_id rot) db)
      (andthen (move env (rn_id rot) CREATING_IN_PROGRESS REPLACEMENT_STORED d) (\<lambda>_. ret (True, value)))" for d
    by (intro safe_rules safe_then safe_stored_move [of rot, unfolded assms]) (simp_all add: assms)
  show ?thesis
    unfolding advance_in_progress_def
    by (intro safe_rules safe_after [OF leaves_attempt [OF leaves_created]] kept_seen)
      (erule_tac [2] ssubst, rule_tac [2] safe_weaken [OF stored], simp_all)
qed

lemma safe_advance_awaiting:
  assumes "rn_state rot = AWAITING_MANUAL_KEY"
  shows "safe (seen rot) (advance_awaiting env rot pw value)"
  unfolding advance_awaiting_def
  by (intro safe_rules safe_then safe_after [OF leaves_store] safe_stored_move [of rot, unfolded assms]) simp_all

lemma safe_advance_stored: "safe (seen rot) (advance_stored env rot value)"
proof -
  have "safe (seen rot) (move env rid REPLACEMENT_STORED UPDATING_DESTINATIONS d)" for rid d
    by (rule safe_move) (auto simp: seen_ok allowed_def)
  then show ?thesis
    unfolding advance_stored_def Let_def by (intro safe_rules safe_then safe_set_field) simp_all
qed

lemma safe_advance_updating: "safe (seen rot) (advance_updating env rot value)"
proof -
  have "safe (seen rot) (move env rid UPDATING_DESTINATIONS DESTINATIONS_VERIFIED d)" for rid d
    by (rule safe_move) (auto simp: seen_ok allowed_def)
  then show ?thesis
    unfolding advance_updating_def Let_def by (intro safe_rules safe_then) simp_all
qed

lemma safe_validate [safe_rules]: "kept K \<Longrightarrow> safe K (validate_credential env selector)"
  unfolding validate_credential_def
  by (intro safe_rules safe_then safe_quiet quiet_change) (simp_all split: option.split)

lemma safe_advance_verified:
  assumes st: "rn_state rot = DESTINATIONS_VERIFIED"
  shows "safe (seen rot) (advance_verified env rot value)"
proof -
  have late: "late (rn_state rot)" by (simp add: st late_def state_neq)
  have mark: "leaves (seen rot) (on_db (mark_new_value_validated clk (rn_id rot))) (\<lambda>_. validated (rn_id rot))" for clk
    using late seen_late
    by (intro safe_mark_validated) (fastforce simp: seen_def stored_def dest: row_run_late)+
  have mv: "safe (\<lambda>db. seen rot db \<and> validated (rn_id rot) db)
      (move env (rn_id rot) DESTINATIONS_VERIFIED GRACE_PERIOD d)" for d
    by (rule safe_move) (auto simp: seen_ok allowed_def validated_def)
  show ?thesis
    unfolding advance_verified_def Let_def
    by (intro safe_rules safe_then safe_after [OF mark] mv safe_set_field) simp_all
qed

lemma safe_advance_grace:
  assumes "rn_state rot = GRACE_PERIOD"
  shows "safe (seen rot) (advance_grace env rot acknowledged value)"
  unfolding advance_grace_def Let_def
  by (intro safe_rules safe_then safe_disable_old assms)
    (auto split: prod.split option.split bool.split intro!: safe_rules safe_then safe_disable_old assms)

lemma safe_advance_disabled:
  assumes "rn_state rot = OLD_DISABLED"
  shows "safe (seen rot) (advance_disabled env rot value)"
  unfolding advance_disabled_def Let_def
  by (intro safe_rules safe_then safe_revoke_old safe_complete assms)
    (auto split: sum.split bool.split intro!: safe_rules safe_then safe_complete assms)

lemma safe_advance_with: "safe (seen rot) (advance_with env rot pw acknowledged value)"
  unfolding advance_with_def Let_def
  by (intro safe_rules safe_advance_approved safe_advance_creating safe_advance_in_progress
      safe_advance_awaiting safe_advance_stored safe_advance_updating safe_advance_verified
      safe_advance_grace safe_advance_disabled) simp_all

section \<open>The operations\<close>

lemma safe_loaded:
  assumes "\<And>rot. rn_id rot = rid \<Longrightarrow> safe (seen rot) (f rot)"
  shows "safe vault_ok (andthen (db_read (load_rotation rid)) f)"
proof (rule safe_look)
  fix rot
  show "safe (\<lambda>db. vault_ok db \<and> load_rotation rid db = Inr rot) (f rot)"
  proof (cases "rn_id rot = rid")
    case True
    then show ?thesis by (intro safe_weaken [OF assms]) (auto intro: seen_loaded)
  next
    case False
    then have "load_rotation rid db \<noteq> Inr rot" for db by (auto dest: loaded_id)
    then show ?thesis by (intro safe_never) simp
  qed
qed

lemma safe_advance_loop: "safe vault_ok (advance_loop env rid pw acknowledged n v)"
proof (induction n arbitrary: v)
  case 0
  show ?case by (auto intro: safe_get)
next
  case (Suc n)
  have "safe (seen rot) (advance_loop env rid pw acknowledged n left)" for rot left
    by (rule safe_weaken [OF Suc.IH]) (rule seen_ok)
  then show ?case
    unfolding advance_loop.simps
    by (intro safe_loaded safe_rules safe_then safe_advance_with) simp_all
qed

lemma safe_rotation_advance: "safe vault_ok (rotation_advance env rid pw value acknowledged)"
  unfolding rotation_advance_def by (intro safe_rules safe_then safe_advance_loop) simp

lemma safe_rotation_plan: "safe vault_ok (rotation_plan env uuid c g p k n)"
proof -
  have "safe vault_ok (on_db (insert_rotation clk uuid cid pr m nt gr ok pj ins))" for clk cid pr m nt gr ok pj ins
    by (rule safe_on_db) (rule evolves_insert)
  then show ?thesis unfolding rotation_plan_def Let_def by (intro safe_rules safe_then) simp_all
qed

lemma safe_rotation_approve: "safe vault_ok (rotation_approve env rid pw)"
proof -
  have "safe (seen rot) (move env rid PLANNED APPROVED d)" for rot rid d
    by (rule safe_move) (auto simp: seen_ok allowed_def)
  then show ?thesis
    unfolding rotation_approve_def
    by (intro safe_then [OF safe_verify] safe_loaded safe_rules safe_then safe_stamp_approved) simp_all
qed

text \<open>From the states the user may complete from, a validated row may move to completion.\<close>

lemma safe_rotation_complete_manual: "safe vault_ok (rotation_complete_manual env rid pw confirmation)"
proof -
  have mv: "safe (seen rot) (move env rid (rn_state rot) COMPLETED d)"
    if "rn_id rot = rid" "rn_state rot \<in> {MANUAL_REQUIRED, GRACE_PERIOD, OLD_DISABLED}" "rn_new_value_validated rot" for rot d
  proof (rule safe_move)
    fix db r
    assume r: "seen rot db" "find_rotation rid db = Some r" "rn_state r = rn_state rot"
    with that seen_validated [of rot db] seen_moves(3) [of rot db r] show "allowed r COMPLETED"
      by (auto simp: allowed_def)
  qed (rule seen_ok)
  then show ?thesis
    unfolding rotation_complete_manual_def
    by (intro safe_then [OF safe_verify] safe_loaded safe_rules safe_then) simp_all
qed

lemma safe_rotation_cancel: "safe vault_ok (rotation_cancel env rid pw)"
proof -
  have mv: "safe (seen rot) (move env rid (rn_state rot) FAILED d)"
    if "rn_id rot = rid" "rn_new_version rot = None" for rot d
    using that by (intro safe_move) (auto simp: seen_ok allowed_def seen_def row_ok_def)
  then show ?thesis
    unfolding rotation_cancel_def
    by (intro safe_then [OF safe_verify] safe_loaded safe_rules safe_then) simp_all
qed

section \<open>Rolling back\<close>

lemma safe_unlink [safe_rules]: "kept K \<Longrightarrow> safe K (provider_unlink_key env p k)"
  unfolding provider_unlink_key_def Let_def by (intro safe_rules safe_then safe_quiet quiet_change) simp_all

lemma safe_rolled_call:
  "(\<And>db. K db \<Longrightarrow> rolled rid db) \<Longrightarrow> safe K (recorded (CallEnable rid key) f)"
  "(\<And>db. K db \<Longrightarrow> rolled rid db) \<Longrightarrow> safe K (recorded (CallRevokeNew rid key) f)"
  by (intro safe_recorded; simp)+

lemma refusal_ok:
  assumes "rollback_refusal rot db = Inr v" "row_ok rot"
  shows "rn_state rot \<notin> {COMPLETED, ROLLED_BACK}" "rn_new_version rot \<noteq> None"
  using assms by (auto simp: rollback_refusal_def row_ok_def Let_def split: if_splits option.splits)

lemma safe_rollback_steps:
  fixes rot :: rotation
  defines "K \<equiv> \<lambda>db. seen rot db \<and> rolled (rn_id rot) db"
  assumes st: "rn_new_version rot \<noteq> None"
  shows "safe K (reenable_old env rot n)" "safe K (restore_value env rot pw v c x n)"
    "safe K (rollback_destinations env rot n)" "safe K (revoke_created env rot wanted n)"
    "safe K (finish_rollback env rot n)"
proof -
  have K [simp]: "kept K" by (simp add: K_def)
  have mv: "safe K (move env (rn_id rot) ROLLING_BACK t d)" if "t \<in> {MANUAL_REQUIRED, ROLLED_BACK}" for t d
    using that by (intro safe_move) (auto simp: K_def seen_ok allowed_def)
  show "safe K (reenable_old env rot n)"
    unfolding reenable_old_def
    by (auto split: prod.split option.split intro!: safe_rules safe_then safe_rolled_call) (simp add: K_def)
  show "safe K (restore_value env rot pw v c x n)"
    unfolding restore_value_def by (intro safe_rules safe_then) simp_all
  show "safe K (rollback_destinations env rot n)"
    unfolding rollback_destinations_def by (intro safe_rules safe_then) simp_all
  show "safe K (revoke_created env rot wanted n)"
    unfolding revoke_created_def
    by (auto split: prod.split option.split bool.split intro!: safe_rules safe_then safe_rolled_call) (simp add: K_def)
  show "safe K (finish_rollback env rot n)"
    unfolding finish_rollback_def Let_def by (intro safe_rules safe_then mv) simp_all
qed

lemma safe_rotation_rollback: "safe vault_ok (rotation_rollback env rid pw revoke_new_key)"
proof -
  have main: "safe (seen rot) (andthen (db_read (rollback_refusal rot)) (\<lambda>old_version.
     andthen (db_read (value_version_of (rn_credential_id rot))) (\<lambda>current.
     andthen (db_read (rollback_value env rot old_version current)) (\<lambda>old_value.
     andthen (move env rid (rn_state rot) ROLLING_BACK []) (\<lambda>_.
     andthen (reenable_old env rot ([], 0)) (\<lambda>n1.
     andthen (restore_value env rot pw old_version current old_value n1) (\<lambda>n2.
     andthen (rollback_destinations env rot n2) (\<lambda>n3.
     andthen (revoke_created env rot revoke_new_key n3) (\<lambda>n4.
     andthen (finish_rollback env rot n4) (\<lambda>_.
     rotation_get env rid))))))))))" (is "safe _ (andthen _ ?rest)") if id: "rn_id rot = rid" for rot
  proof (rule safe_look)
    fix old_version
    let ?K = "\<lambda>db. seen rot db \<and> rolled (rn_id rot) db"
    show "safe (\<lambda>db. seen rot db \<and> rollback_refusal rot db = Inr old_version) (?rest old_version)"
    proof (cases "rn_state rot \<notin> {COMPLETED, ROLLED_BACK} \<and> rn_new_version rot \<noteq> None")
      case True
      have mv: "leaves (seen rot) (move env rid (rn_state rot) ROLLING_BACK []) (\<lambda>_. rolled (rn_id rot))"
      proof (rule leaves_weaken [OF leaves_move])
        fix db r
        assume "seen rot db" "find_rotation rid db = Some r" "rn_state r = rn_state rot"
        with True id seen_moves(4) [of rot db r] seen_stored [of rot db] show "allowed r ROLLING_BACK"
          by (auto simp: allowed_def)
      qed (auto simp: rolled_def id seen_ok)
      have "safe (seen rot) (?rest old_version)"
        by (intro safe_then [OF safe_db_read kept_seen] safe_after [OF mv kept_seen]
            safe_then [where K = ?K] safe_rollback_steps safe_get conjunct2 [OF True]) simp_all
      then show ?thesis by (rule safe_weaken) simp
    next
      case False
      have "\<not> (seen rot db \<and> rollback_refusal rot db = Inr old_version)" for db
        using False refusal_ok [of rot db old_version] by (auto simp: seen_def)
      then show ?thesis by (rule safe_never)
    qed
  qed
  then show ?thesis
    unfolding rotation_rollback_def by (intro safe_then [OF safe_verify] safe_loaded) simp_all
qed

lemma safe_schedule_set: "safe vault_ok (rotation_schedule_set env c n)"
  unfolding rotation_schedule_set_def by (intro safe_rules safe_then) simp_all

lemma safe_schedule_remove: "safe vault_ok (rotation_schedule_remove c)"
  unfolding rotation_schedule_remove_def by (intro safe_rules safe_then) simp_all

lemma safe_step: "safe K m \<Longrightarrow> K (wd_db w) \<Longrightarrow> world_evolves w (snd (m w))"
  by (simp add: safe_def guards_def)

end
