(* ===== verification/RotationHistory.thy ===== *)
theory RotationHistory
  imports RotationRefine
begin

text \<open>
  Histories of the rotation workflow: any number of processes plan, approve, advance, complete,
  cancel and roll back over one vault. An advance is interleaved at the granularity of its loop:
  a process may load a row at one time and act for it at any later time. What is not a rotation's
  business may change freely between the steps.
\<close>

section \<open>Steps\<close>

type_synonym 'x history_state = "rotation set \<times> 'x rotation_world"

inductive rotation_step :: "'x history_state \<Rightarrow> 'x history_state \<Rightarrow> bool" where
  load: "load_rotation rid (wd_db w) = Inr rot \<Longrightarrow> rotation_step (R, w) (insert rot R, w)"
| iterate: "rot \<in> R \<Longrightarrow> rotation_step (R, w) (R, snd (advance_with env rot pw acknowledged v w))"
| plan: "rotation_step (R, w) (R, snd (rotation_plan env uuid c grace project key n w))"
| approve: "rotation_step (R, w) (R, snd (rotation_approve env rid pw w))"
| advance: "rotation_step (R, w) (R, snd (rotation_advance env rid pw v acknowledged w))"
| complete_manual: "rotation_step (R, w) (R, snd (rotation_complete_manual env rid pw confirmation w))"
| cancel: "rotation_step (R, w) (R, snd (rotation_cancel env rid pw w))"
| rollback: "rotation_step (R, w) (R, snd (rotation_rollback env rid pw revoke_new_key w))"
| schedule: "rotation_step (R, w) (R, snd (rotation_schedule_set env c n w))"
| unschedule: "rotation_step (R, w) (R, snd (rotation_schedule_remove c w))"
| elsewhere: "vd_rotations db = vd_rotations (wd_db w) \<Longrightarrow> vd_events db = vd_events (wd_db w) \<Longrightarrow>
    rotation_step (R, w) (R, w\<lparr>wd_db := db, wd_ext := x\<rparr>)"

definition no_rotations :: "'x rotation_world \<Rightarrow> bool" where
  "no_rotations w \<longleftrightarrow> vd_rotations (wd_db w) = [] \<and> vd_events (wd_db w) = []
     \<and> wd_calls w = [] \<and> wd_found w = []"

inductive history :: "rotation set \<Rightarrow> 'x rotation_world \<Rightarrow> bool" where
  start: "no_rotations w \<Longrightarrow> history {} w"
| step: "history R w \<Longrightarrow> rotation_step (R, w) (R', w') \<Longrightarrow> history R' w'"

section \<open>The invariant\<close>

definition history_ok :: "rotation set \<Rightarrow> 'x rotation_world \<Rightarrow> bool" where
  "history_ok R w \<longleftrightarrow> vault_ok (wd_db w) \<and> calls_ok w \<and> (\<forall>rot \<in> R. seen rot (wd_db w))"

lemma world_evolves_parts:
  "world_evolves w w' \<Longrightarrow> db_evolves (wd_db w) (wd_db w')"
  "world_evolves w w' \<Longrightarrow> vault_ok (wd_db w) \<Longrightarrow> calls_ok w \<Longrightarrow> calls_ok w'"
  "world_evolves w w' \<Longrightarrow> \<exists>cs. wd_calls w' = wd_calls w @ cs"
  by (simp_all add: world_evolves_def)

lemma step_evolves:
  assumes "rotation_step (R, w) (R', w')" "history_ok R w"
  shows "world_evolves w w'"
proof -
  from assms(2) have ok: "vault_ok (wd_db w)" and seen: "\<And>rot. rot \<in> R \<Longrightarrow> seen rot (wd_db w)"
    by (simp_all add: history_ok_def)
  from assms(1) show ?thesis
  proof (cases rule: rotation_step.cases)
    case (elsewhere db x)
    have "world_evolves w (w\<lparr>wd_db := db\<rparr>)"
      using elsewhere by (intro world_on_db db_evolves_same) simp_all
    moreover have "w' = (w\<lparr>wd_db := db\<rparr>)\<lparr>wd_ext := x\<rparr>" using elsewhere by simp
    ultimately show ?thesis using world_external world.later by metis
  qed (use ok seen in \<open>auto simp: world.same intro: safe_step safe_advance_with safe_rotation_plan
      safe_rotation_approve safe_rotation_advance safe_rotation_complete_manual safe_rotation_cancel
      safe_rotation_rollback safe_schedule_set safe_schedule_remove\<close>)
qed

lemma step_ok:
  assumes st: "rotation_step (R, w) (R', w')" and ok: "history_ok R w"
  shows "history_ok R' w'"
proof -
  from step_evolves [OF st ok] have e: "world_evolves w w'" .
  then have db: "db_evolves (wd_db w) (wd_db w')" by (rule world_evolves_parts)
  from ok have "vault_ok (wd_db w')" "calls_ok w'"
    using db_evolves_ok [OF db] world_evolves_parts(2) [OF e] by (auto simp: history_ok_def)
  moreover have kept: "seen rot (wd_db w')" if "rot \<in> R" for rot
    using ok db that kept_seen [of rot] by (auto simp: history_ok_def kept_def)
  moreover have "seen rot (wd_db w')" if "rot \<in> R'" for rot
    using st ok kept that by (cases rule: rotation_step.cases) (auto simp: history_ok_def intro: seen_loaded)
  ultimately show ?thesis by (simp add: history_ok_def)
qed

lemma start_ok: "no_rotations w \<Longrightarrow> history_ok {} w"
  by (auto simp: no_rotations_def history_ok_def vault_ok_def rows_ok_def timeline_ok_def
      find_rotation_def calls_ok_def)

lemma history_invariant: "history R w \<Longrightarrow> history_ok R w"
  by (induction rule: history.induct) (auto intro: start_ok step_ok)

text \<open>What holds between two points of a history.\<close>

inductive later_history :: "rotation set \<Rightarrow> 'x rotation_world \<Rightarrow> rotation set \<Rightarrow> 'x rotation_world \<Rightarrow> bool" where
  now: "later_history R w R w"
| next_step: "later_history R w R' w' \<Longrightarrow> rotation_step (R', w') (R'', w'') \<Longrightarrow> later_history R w R'' w''"

lemma later_history_history: "later_history R w R' w' \<Longrightarrow> history R w \<Longrightarrow> history R' w'"
  by (induction rule: later_history.induct) (auto intro: history.step)

lemma later_history_evolves: "later_history R w R' w' \<Longrightarrow> history R w \<Longrightarrow> world_evolves w w'"
proof (induction rule: later_history.induct)
  case (now R w)
  show ?case by (rule world.same)
next
  case (next_step R w R' w' R'' w'')
  then have "history R' w'" by (blast intro: later_history_history)
  then have "world_evolves w' w''"
    by (rule step_evolves [OF next_step.hyps(2) history_invariant])
  with next_step show ?case by (blast intro: world.later)
qed

lemma later_row:
  assumes "history R w" "later_history R w R' w'" "find_rotation rid (wd_db w) = Some r"
  shows "\<exists>r'. find_rotation rid (wd_db w') = Some r' \<and> row_run r r'"
  using world_evolves_parts(1) [OF later_history_evolves [OF assms(2,1)]] assms(3) by (rule db_evolves_rotation)

lemma history_row: "history R w \<Longrightarrow> find_rotation rid (wd_db w) = Some r \<Longrightarrow> row_ok r"
  by (auto dest!: history_invariant simp: history_ok_def vault_ok_def rows_ok_def)

lemma history_call: "history R w \<Longrightarrow> c \<in> set (wd_calls w) \<Longrightarrow> justified (wd_db w) c"
  by (auto dest!: history_invariant simp: history_ok_def calls_ok_def)

text \<open>What a call found when it was made.\<close>

lemma history_found:
  assumes "history R w"
  shows "length (wd_found w) = length (wd_calls w)"
    and "i < length (wd_calls w) \<Longrightarrow> vault_ok (wd_found w ! i) \<and> justified (wd_found w ! i) (wd_calls w ! i)"
proof -
  from history_invariant [OF assms]
  have "list_all2 (\<lambda>db c. vault_ok db \<and> justified db c) (wd_found w) (wd_calls w)"
    by (simp add: history_ok_def calls_ok_def)
  then show "length (wd_found w) = length (wd_calls w)"
    and "i < length (wd_calls w) \<Longrightarrow> vault_ok (wd_found w ! i) \<and> justified (wd_found w ! i) (wd_calls w ! i)"
    by (simp_all add: list_all2_conv_all_nth)
qed

lemma history_timeline:
  "history R w \<Longrightarrow> find_rotation rid (wd_db w) = Some r \<Longrightarrow>
     timeline_path [] (rotation_timeline rid (wd_db w)) (rn_state r)"
  by (auto dest!: history_invariant simp: history_ok_def vault_ok_def timeline_ok_def)

end
