(* ===== verification/RotationDemo.thy ===== *)
theory RotationDemo
  imports RotationHistory
begin

text \<open>
  A concrete vault, and a provider that creates and disables keys and loses the answer to a
  revocation: one rotation planned, approved and advanced over it. The theorems about histories
  are applied to this one.
\<close>

definition demo_entry :: capability_entry where
  "demo_entry = \<lparr>ce_support = Implemented, ce_requires_admin_credential = True,
     ce_attribution = NotApplicable, ce_note = []\<rparr>"

definition demo_manifest :: provider_manifest where
  "demo_manifest = \<lparr>pm_id = ''p'', pm_name = ''p'', pm_description = [], pm_website = [],
     pm_api_docs_url = [], pm_auth_docs_url = [], pm_manage_url = ''u'', pm_env_vars = [],
     pm_credential_types = [], pm_expiration = [], pm_changelog_url = [], pm_pricing_url = [],
     pm_permissions_docs_url = [], pm_login_url = [], pm_billing_url = [], pm_watch_docs = [],
     pm_detection = [], pm_gateway = None,
     pm_capabilities = \<lparr>cap_validate_credential = demo_entry, cap_fetch_metadata = demo_entry,
       cap_fetch_usage = demo_entry, cap_read_permissions = demo_entry, cap_change_permissions = demo_entry,
       cap_create_credential = demo_entry, cap_disable_credential = demo_entry,
       cap_revoke_credential = demo_entry, cap_rotate_credential = demo_entry,
       cap_fetch_pricing = demo_entry\<rparr>\<rparr>"

definition demo_clock :: clock where
  "demo_clock = \<lparr>ck_at = int, ck_text = dec_of_int, ck_parse = (\<lambda>_. Inr 0), ck_date = id\<rparr>"

definition demo_env :: "unit rotation_env" where
  "demo_env = \<lparr>fe_vault = \<lparr>ve_clock = demo_clock, ve_password = (\<lambda>_. Inr ()),
       ve_project_key = (\<lambda>_. Inr ()), ve_rollback_window_days = 0, ve_lower = id,
       ve_keyed_hash = (\<lambda>_ v. v), ve_fingerprint_key = replicate 32 CHR 0x00\<rparr>,
     fe_manifests = [demo_manifest], fe_has_connector = (\<lambda>_. True),
     fe_admin_secret = (\<lambda>_ _. Inr ''adm''),
     fe_create = (\<lambda>_ _ _ _ x. (Inr \<lparr>nk_value = ''new'', nk_provider_key_id = Some ''k2'',
       nk_provider_project_id = None, nk_detail = ''made''\<rparr>, x)),
     fe_disable = (\<lambda>_ _ _ _ x. (Inr ''off'', x)),
     fe_revoke = (\<lambda>_ _ _ _ x. (Inl (NetworkErr ''lost''), x)),
     fe_enable = (\<lambda>_ _ x. (Inr ''on'', x)),
     fe_validate = (\<lambda>_ _ x. (Inr \<lparr>vl_valid = True, vl_detail = ''ok'', vl_provider_expires_at = None\<rparr>, x)),
     fe_sync_create = (\<lambda>_ _ _ x. (Inr (''s'', 1), x)),
     fe_sync_execute = (\<lambda>_ _ x. (Inr ''executed'', x)),
     fe_sync_rollback = (\<lambda>_ _ x. (Inr (), x))\<rparr>"

definition demo_credential :: credential_row where
  "demo_credential = \<lparr>cr_id = ''c'', cr_project_id = ''j'', cr_name = ''key'', cr_environment = ''dev'', cr_provider = ''p'',
     cr_linked_credential_id = None, cr_value = Some ''old'', cr_value_version = 1, cr_fingerprint = [],
     cr_masked_value = [], cr_updated_at = [], cr_provider_expires_at = None\<rparr>"

definition demo_start :: "unit rotation_world" where
  "demo_start = \<lparr>wd_db = \<lparr>vd_rotations = [], vd_events = [], vd_schedules = [],
       vd_credentials = [demo_credential], vd_versions = [],
       vd_projects = [\<lparr>pj_id = ''j'', pj_name = ''proj''\<rparr>], vd_key_links = [], vd_side_keys = [],
       vd_usage = [], vd_audit = [], vd_tick = 0\<rparr>, wd_ext = (), wd_calls = [], wd_found = []\<rparr>"

definition demo_approved :: "unit rotation_world" where
  "demo_approved = snd (rotation_approve demo_env ''r'' [] (snd (rotation_plan demo_env ''r'' ''c'' 0 None (Some ''k1'') [] demo_start)))"

definition demo_disabled :: "unit rotation_world" where
  "demo_disabled = snd (rotation_advance demo_env ''r'' [] None False demo_approved)"

definition demo_completed :: "unit rotation_world" where
  "demo_completed = snd (rotation_complete_manual demo_env ''r'' [] ''checked'' demo_disabled)"

text \<open>The row and the calls, evaluated.\<close>

lemma demo_disabled_facts:
  "map_option (\<lambda>r. (rn_state r, rn_new_value_validated r, rn_new_version r, rn_provider r, rn_old_provider_key_id r))
      (find_rotation ''r'' (wd_db demo_disabled)) = Some (OLD_DISABLED, True, Some 2, ''p'', Some ''k1'')
   \<and> wd_calls demo_disabled = [CallCreate ''r'' ''p'', CallDisable ''r'' ''k1'', CallRevoke ''r'' ''k1'']"
  by code_simp

lemma demo_completed_facts:
  "map_option (\<lambda>r. (rn_state r, rn_new_version r)) (find_rotation ''r'' (wd_db demo_completed)) = Some (COMPLETED, Some 2)"
  by code_simp

lemma demo_history: "history {} demo_start" "history {} demo_approved" "history {} demo_disabled"
proof -
  show s: "history {} demo_start"
    by (rule history.start) (simp add: no_rotations_def demo_start_def)
  then show a: "history {} demo_approved"
    unfolding demo_approved_def by (rule history.step [OF history.step, OF _ plan approve])
  then show "history {} demo_disabled"
    unfolding demo_disabled_def by (rule history.step) (rule advance)
qed

lemma demo_later: "later_history {} demo_disabled {} demo_completed"
  unfolding demo_completed_def by (rule next_step [OF now complete_manual])

text \<open>Two processes that loaded the row while the first created the key.\<close>

definition demo_row :: "unit rotation_world \<Rightarrow> rotation" where
  "demo_row w = hd (vd_rotations (wd_db w))"

definition demo_iterate :: "rotation \<Rightarrow> unit rotation_world \<Rightarrow> unit rotation_world" where
  "demo_iterate rot w = snd (advance_with demo_env rot [] False None w)"

definition demo_claimed :: "unit rotation_world" where
  "demo_claimed = (let w = demo_iterate (demo_row demo_approved) demo_approved in demo_iterate (demo_row w) w)"

definition demo_created :: "unit rotation_world" where
  "demo_created = demo_iterate (demo_row demo_claimed) demo_claimed"

lemma demo_claimed_facts:
  "(\<lambda>r. (rn_id r, rn_state r, rn_new_provider_key_id r, rn_new_version r, rn_provider r, rn_credential_id r))
      (demo_row demo_claimed) = (''r'', CREATING_IN_PROGRESS, None, None, ''p'', ''c'')
   \<and> load_rotation ''r'' (wd_db demo_claimed) = Inr (demo_row demo_claimed)"
  by code_simp

lemma demo_created_facts:
  "wd_calls demo_created = [CallCreate ''r'' ''p''] \<and> map cr_id (vd_credentials (wd_db demo_created)) = [''c'']
   \<and> map rn_state (vd_rotations (wd_db demo_created)) = [REPLACEMENT_STORED]"
  by code_simp

lemma demo_race: "\<exists>R. demo_row demo_claimed \<in> R \<and> history R demo_created"
proof -
  let ?a = "demo_row demo_approved" and ?w = "demo_iterate (demo_row demo_approved) demo_approved"
  have "load_rotation ''r'' (wd_db demo_approved) = Inr ?a \<and> load_rotation ''r'' (wd_db ?w) = Inr (demo_row ?w)"
    by code_simp
  then have "history {?a} demo_approved" and l: "load_rotation ''r'' (wd_db ?w) = Inr (demo_row ?w)"
    by (auto intro: history.step [OF demo_history(2) load])
  then have "history {?a} ?w"
    unfolding demo_iterate_def by (blast intro: history.step iterate)
  then have "history {demo_row ?w, ?a} ?w" using l by (blast intro: history.step load)
  then have "history {demo_row ?w, ?a} demo_claimed"
    unfolding demo_claimed_def Let_def demo_iterate_def by (blast intro: history.step iterate)
  then have "history {demo_row demo_claimed, demo_row ?w, ?a} demo_claimed"
    using demo_claimed_facts by (blast intro: history.step load)
  then have "history {demo_row demo_claimed, demo_row ?w, ?a} demo_created"
    unfolding demo_created_def demo_iterate_def by (blast intro: history.step iterate)
  then show ?thesis by blast
qed

end
