(* ===== verification/RotationLoop.thy ===== *)
theory RotationLoop
  imports RotationDemo
begin

text \<open>
  The loop of \<open>rotation_advance\<close>: an iteration that goes on has moved its row strictly closer to
  the end, so the bound of twelve iterations is never what stops it.
\<close>

definition rank :: "string \<Rightarrow> nat" where
  "rank s = (if s = APPROVED then 7 else if s = CREATING_REPLACEMENT then 6
     else if s \<in> {CREATING_IN_PROGRESS, AWAITING_MANUAL_KEY} then 5
     else if s = REPLACEMENT_STORED then 4 else if s = UPDATING_DESTINATIONS then 3
     else if s = DESTINATIONS_VERIFIED then 2 else if s = GRACE_PERIOD then 1 else 0)"

definition ends :: "('x rotation_world, 'a) op \<Rightarrow> ('a \<Rightarrow> vault_db \<Rightarrow> bool) \<Rightarrow> bool" where
  "ends m J \<longleftrightarrow> (\<forall>w a. fst (m w) = Inr a \<longrightarrow> J a (wd_db (snd (m w))))"

named_theorems ends_rules \<open>what an operation ends with\<close>

lemma ends_seq [ends_rules]: "(\<And>a. ends (f a) J) \<Longrightarrow> ends (andthen m f) J"
  by (fastforce simp: ends_def andthen_def split: prod.splits sum.splits)

lemma ends_throw [ends_rules]: "ends (throw e) J"
  by (simp add: ends_def throw_def)

lemma ends_if [ends_rules]: "(c \<Longrightarrow> ends m J) \<Longrightarrow> (\<not> c \<Longrightarrow> ends m' J) \<Longrightarrow> ends (if c then m else m') J"
  by simp

lemma ends_option [ends_rules]:
  "(x = None \<Longrightarrow> ends m J) \<Longrightarrow> (\<And>a. x = Some a \<Longrightarrow> ends (f a) J) \<Longrightarrow> ends (case x of None \<Rightarrow> m | Some a \<Rightarrow> f a) J"
  by (cases x) simp_all

lemma ends_sum [ends_rules]:
  "(\<And>e. x = Inl e \<Longrightarrow> ends (g e) J) \<Longrightarrow> (\<And>a. x = Inr a \<Longrightarrow> ends (f a) J) \<Longrightarrow>
     ends (case x of Inl e \<Rightarrow> g e | Inr a \<Rightarrow> f a) J"
  by (cases x) simp_all

lemma ends_pair [ends_rules]:
  "(\<And>a b. x = (a, b) \<Longrightarrow> ends (f a b) J) \<Longrightarrow> ends (case x of (a, b) \<Rightarrow> f a b) J"
  by (cases x) simp

lemma ends_bool [ends_rules]:
  "(x \<Longrightarrow> ends m J) \<Longrightarrow> (\<not> x \<Longrightarrow> ends m' J) \<Longrightarrow> ends (case x of True \<Rightarrow> m | False \<Rightarrow> m') J"
  by (cases x) simp_all

text \<open>The row is in a state of lower rank, for an iteration that goes on.\<close>

definition lower :: "rotation \<Rightarrow> bool \<times> string option \<Rightarrow> vault_db \<Rightarrow> bool" where
  "lower rot gl db \<longleftrightarrow> fst gl \<longrightarrow> vault_ok db \<longrightarrow>
     (\<exists>r. find_rotation (rn_id rot) db = Some r \<and> rank (rn_state r) < rank (rn_state rot))"

lemma lower_stop [ends_rules]: "ends (ret (False, v)) (lower rot)"
  by (simp add: ends_def ret_def lower_def)

lemma lower_stop_with_error [ends_rules]: "ends (stop_with_error env rid err v) (lower rot)"
  unfolding stop_with_error_def by (intro ends_rules)

lemma swapped_state:
  assumes "fst (set_state clk rid s t d db) = Inr u" "vault_ok (snd (set_state clk rid s t d db))"
  shows "\<exists>r. find_rotation rid (snd (set_state clk rid s t d db)) = Some r \<and> rn_state r = t"
proof -
  from assms(1) obtain r where r: "r \<in> set (vd_rotations db)" "rn_id r = rid" "rn_state r = s"
    and eq: "snd (set_state clk rid s t d db)
      = record_event clk rid s t d (update_rotation rid (swap_row (now_rfc3339 clk db) s t) db)"
    by (auto simp: set_state_swap split: if_splits)
  from assms(2) have "distinct (map rn_id (vd_rotations db))"
    by (simp add: eq vault_ok_def ids_update)
  then have "find_rotation rid db = Some r" using find_rotation_unique [of db r] r by simp
  then show ?thesis by (simp add: eq find_rotation_update swap_row_state r)
qed

lemma lower_move:
  assumes "rank t < rank (rn_state rot)" "rid = rn_id rot"
  shows "ends (andthen (move env rid s t d) (\<lambda>_. ret (go, v))) (lower rot)"
  using assms
  by (auto simp: ends_def lower_def andthen_def move_def on_db_def ret_def split: prod.splits sum.splits)
    (metis swapped_state fst_conv snd_conv)

text \<open>Disabling the old key ends in a later state when it says that the loop may go on.\<close>

lemma lower_disable:
  assumes "rn_state rot = GRACE_PERIOD"
  shows "ends (andthen (rotation_disable_old env rot) (\<lambda>moved. ret (moved, v))) (lower rot)"
proof -
  have r: "rank OLD_DISABLED < rank (rn_state rot)"
    by (simp add: assms rank_def state_neq)
  let ?J = "\<lambda>moved. lower rot (moved, v)"
  have mv: "ends (andthen (move env rid s OLD_DISABLED d) (\<lambda>_. ret True)) ?J" if "rid = rn_id rot" for rid s d
    using lower_move [OF r that, of env s d True v]
    by (auto simp: ends_def andthen_def ret_def split: prod.splits sum.splits)
  have no: "ends (ret False) ?J" by (simp add: ends_def ret_def lower_def)
  have "ends (rotation_disable_old env rot) ?J"
    unfolding rotation_disable_old_def Let_def
    by (rule mv no refl | rule ends_rules)+
  then show ?thesis
    by (auto simp: ends_def andthen_def ret_def split: prod.splits sum.splits) (metis fst_conv snd_conv)
qed

lemmas arm_defs = advance_approved_def advance_creating_def advance_in_progress_def
  advance_awaiting_def advance_stored_def advance_updating_def advance_verified_def
  advance_grace_def advance_disabled_def

lemma lower_advance: "ends (advance_with env rot pw acknowledged v) (lower rot)"
  unfolding advance_with_def arm_defs Let_def
  by ((rule lower_move, simp add: rank_def state_neq, rule refl) | (rule lower_disable, assumption)
      | rule ends_rules)+

section \<open>The bound\<close>

lemma advance_lower:
  assumes ok: "vault_ok (wd_db w)" and rot: "load_rotation rid (wd_db w) = Inr rot"
    and step: "advance_with env rot pw acknowledged v w = (Inr (True, left), w')"
  shows "vault_ok (wd_db w')
     \<and> (\<exists>r. find_rotation rid (wd_db w') = Some r \<and> rank (rn_state r) < rank (rn_state rot))"
proof -
  have "world_evolves w w'"
    using safe_step [OF safe_advance_with seen_loaded [OF ok rot], of env pw acknowledged v] step by simp
  then have ok': "vault_ok (wd_db w')" using ok by (blast dest: world_evolves_parts(1) db_evolves_ok)
  moreover have "lower rot (True, left) (wd_db w')"
    using lower_advance [of env rot pw acknowledged v] step by (simp add: ends_def) (metis fst_conv snd_conv)
  ultimately show ?thesis using loaded_id [OF rot] by (simp add: lower_def)
qed

lemma advance_loop_enough:
  assumes "vault_ok (wd_db w)" "0 < n" "0 < m"
    and "\<And>r. find_rotation rid (wd_db w) = Some r \<Longrightarrow> rank (rn_state r) < n \<and> rank (rn_state r) < m"
  shows "advance_loop env rid pw acknowledged n v w = advance_loop env rid pw acknowledged m v w"
  using assms
proof (induction n arbitrary: m v w)
  case 0
  then show ?case by simp
next
  case (Suc n)
  then obtain m' where m: "m = Suc m'" by (cases m) simp_all
  show ?case
  proof (cases "load_rotation rid (wd_db w)")
    case (Inl e)
    then show ?thesis by (simp add: m andthen_def db_read_def inspect_def)
  next
    case (Inr rot)
    obtain res w' where step: "advance_with env rot pw acknowledged v w = (res, w')" by fastforce
    have "advance_loop env rid pw acknowledged n left w' = advance_loop env rid pw acknowledged m' left w'"
      if "res = Inr (True, left)" for left
    proof -
      from advance_lower [OF Suc.prems(1) Inr] step that
      obtain r where r: "vault_ok (wd_db w')" "find_rotation rid (wd_db w') = Some r" "rank (rn_state r) < rank (rn_state rot)"
        by blast
      moreover have "rank (rn_state rot) < Suc n \<and> rank (rn_state rot) < Suc m'"
        using Suc.prems(4) [of rot] Inr m by (auto simp: load_rotation_def split: option.splits)
      ultimately show ?thesis using Suc.IH [of w' m' left] by auto
    qed
    then show ?thesis
      by (simp add: m andthen_def db_read_def inspect_def Inr step split: sum.split)
  qed
qed

lemma rank_bound: "rank s < 8"
  by (simp add: rank_def)

section \<open>Calls\<close>

definition silent :: "('x rotation_world, 'a) op \<Rightarrow> bool" where
  "silent m \<longleftrightarrow> (\<forall>w. wd_calls (snd (m w)) = wd_calls w)"

named_theorems silent_rules \<open>operations that call no provider\<close>

lemma silent_andthen [silent_rules]: "silent m \<Longrightarrow> (\<And>a. silent (f a)) \<Longrightarrow> silent (andthen m f)"
  by (auto simp: silent_def andthen_def split: prod.splits sum.splits) (metis snd_conv)+

lemma silent_basic [silent_rules]:
  "silent (ret a)" "silent (throw e)" "silent (inspect f)" "silent (on_db d)" "silent (external g)"
  by (simp_all add: silent_def op_defs on_db_def external_def split: prod.split)

lemma silent_attempt [silent_rules]: "silent m \<Longrightarrow> silent (attempt m)"
  by (simp add: silent_def attempt_def split: prod.split) (metis snd_conv)

lemma silent_if [silent_rules]: "silent m \<Longrightarrow> silent m' \<Longrightarrow> silent (if c then m else m')"
  by simp

lemma silent_option [silent_rules]:
  "silent m \<Longrightarrow> (\<And>a. silent (f a)) \<Longrightarrow> silent (case x of None \<Rightarrow> m | Some a \<Rightarrow> f a)"
  by (cases x) simp_all

lemma silent_sum [silent_rules]:
  "(\<And>e. silent (g e)) \<Longrightarrow> (\<And>a. silent (f a)) \<Longrightarrow> silent (case x of Inl e \<Rightarrow> g e | Inr a \<Rightarrow> f a)"
  by (cases x) simp_all

lemma silent_pair [silent_rules]: "(\<And>a b. silent (f a b)) \<Longrightarrow> silent (case x of (a, b) \<Rightarrow> f a b)"
  by (cases x) simp

lemmas silent_unfold = db_read_def move_def note_error_def audit_op_def add_note_def stop_with_error_def
  remember_created_key_def rotation_store_replacement_def provider_link_key_def Let_def

lemma inspect_then: "f w = Inr a \<Longrightarrow> andthen (inspect f) g w = g a w"
  by (simp add: andthen_def inspect_def)

lemma silent_calls: "silent m \<Longrightarrow> wd_calls (snd (m w)) = wd_calls w"
  by (simp add: silent_def)

lemma recorded_then:
  assumes "\<And>a. silent (f a)"
  shows "wd_calls (snd (andthen (recorded c g) f w)) = wd_calls w @ [c]"
  using assms by (auto simp: andthen_def recorded_def silent_def split: prod.split sum.split)

lemma attempt_then:
  assumes "\<And>r. silent (f r)"
  shows "wd_calls (snd (andthen (attempt m) f w)) = wd_calls (snd (m w))"
  using assms by (simp add: andthen_def attempt_def silent_def split: prod.split)

end
