(* ===== verification/RotationProps.thy ===== *)
theory RotationProps
  imports RotationLoop
begin

text \<open>
  The properties of the rotation workflow over all histories: refinement of the abstract machine,
  when the old key may be acted on, the timeline, what never changes again, when a rollback is
  refused, and the bound of the loop.
\<close>

text \<open>
  C30. Refinement: whatever operation any process performs, with a row it loaded at any earlier
  time, every row of the vault makes steps of the abstract rotation machine (allowed transitions
  only, versions set once, the old key's fields only after validation), and a row that was not
  there starts out fresh.
\<close>

theorem operations_refine_machine:
  assumes "history R w" "rotation_step (R, w) (R', w')"
  shows "(\<forall>rid r. find_rotation rid (wd_db w) = Some r \<longrightarrow>
            (\<exists>r'. find_rotation rid (wd_db w') = Some r' \<and> row_step\<^sup>*\<^sup>* r r'))
       \<and> (\<forall>rid r'. find_rotation rid (wd_db w') = Some r' \<longrightarrow> find_rotation rid (wd_db w) = None \<longrightarrow>
            (\<exists>r. fresh_row r \<and> row_step\<^sup>*\<^sup>* r r'))"
  using world_evolves_parts(1) [OF step_evolves [OF assms(2) history_invariant [OF assms(1)]]]
  by (auto simp: db_evolves_def row_run_def)

theorem operations_refine_machine_witness:
  "\<exists>r r'. find_rotation ''r'' (wd_db demo_disabled) = Some r
     \<and> find_rotation ''r'' (wd_db demo_completed) = Some r' \<and> row_step\<^sup>*\<^sup>* r r'"
  using operations_refine_machine [OF demo_history(3) complete_manual [where env = demo_env and rid = "''r''"
      and pw = "[]" and confirmation = "''checked''"]] demo_disabled_facts
  by (auto simp: demo_completed_def)

text \<open>
  C31. Safety of the old key: in every history, when a call that disables or revokes a key is made,
  the vault it finds already has the rotation with a replacement that was stored and validated
  against the provider, and the key is that rotation's old key; and when the call revokes, its
  durable marker is already in the rotation's timeline. Both stay in the vault for good.
\<close>

theorem old_key_touched_after_validation:
  assumes "history R w" "i < length (wd_calls w)" "wd_calls w ! i = c"
    and "c = CallDisable rid key \<or> c = CallRevoke rid key"
  shows "length (wd_found w) = length (wd_calls w)
    \<and> (\<forall>db \<in> {wd_found w ! i, wd_db w}. \<exists>r. find_rotation rid db = Some r \<and> rn_old_provider_key_id r = Some key
       \<and> rn_new_value_validated r \<and> rn_new_version r \<noteq> None
       \<and> (c = CallRevoke rid key \<longrightarrow>
            (\<exists>e \<in> set (rotation_timeline rid db). ev_detail e = revoke_attempt_marker key)))"
proof -
  have "\<exists>r. find_rotation rid db = Some r \<and> rn_old_provider_key_id r = Some key
       \<and> rn_new_value_validated r \<and> rn_new_version r \<noteq> None
       \<and> (c = CallRevoke rid key \<longrightarrow>
            (\<exists>e \<in> set (rotation_timeline rid db). ev_detail e = revoke_attempt_marker key))"
    if ok: "vault_ok db" and j: "justified db c" for db
  proof -
    from j assms(4) obtain r
      where r: "find_rotation rid db = Some r" "rn_new_value_validated r" "rn_old_provider_key_id r = Some key"
        and mark: "c = CallRevoke rid key \<longrightarrow> revoke_was_attempted rid key db"
      by (auto simp: validated_for_def)
    from ok r(1,2) have "rn_new_version r \<noteq> None" by (auto simp: vault_ok_def rows_ok_def row_ok_def)
    with r mark show ?thesis by (auto simp: revoke_was_attempted_def)
  qed
  moreover have "c \<in> set (wd_calls w)" using assms(2,3) by auto
  ultimately show ?thesis
    using history_found [OF assms(1)] history_call [OF assms(1)] history_invariant [OF assms(1)] assms(2,3)
    by (auto simp: history_ok_def)
qed

theorem old_key_touched_after_validation_witness:
  "wd_calls demo_disabled ! 2 = CallRevoke ''r'' ''k1'' \<and>
   (\<exists>e \<in> set (rotation_timeline ''r'' (wd_found demo_disabled ! 2)). ev_detail e = revoke_attempt_marker ''k1'')"
  using old_key_touched_after_validation [OF demo_history(3), of 2 "CallRevoke ''r'' ''k1''" "''r''" "''k1''"]
    demo_disabled_facts by auto

text \<open>
  C32. In every history a row's timeline is an unbroken path of recorded transitions from nothing
  to its current state; a row in the grace period or later, or with its old key disabled or
  revoked, has a validated replacement, and versions are recorded together.
\<close>

theorem timeline_explains_state:
  assumes "history R w" "find_rotation rid (wd_db w) = Some r"
  shows "timeline_path [] (rotation_timeline rid (wd_db w)) (rn_state r)
     \<and> (rn_new_value_validated r \<or> \<not> (rn_state r \<in> {GRACE_PERIOD, OLD_DISABLED, COMPLETED}
          \<or> rn_old_disabled_at r \<noteq> None \<or> rn_old_revoked_at r \<noteq> None))
     \<and> (rn_old_version r \<noteq> None \<and> rn_new_version r \<noteq> None \<or> \<not> rn_new_value_validated r)"
  using history_timeline [OF assms] history_row [OF assms] by (auto simp: row_ok_def)

theorem timeline_explains_state_witness:
  "\<exists>r. find_rotation ''r'' (wd_db demo_disabled) = Some r
     \<and> timeline_path [] (rotation_timeline ''r'' (wd_db demo_disabled)) OLD_DISABLED
     \<and> rn_new_value_validated r"
  using timeline_explains_state [OF demo_history(3), of "''r''"] demo_disabled_facts by auto

text \<open>
  The histories above take the two statements of a transition as one step. After the first one
  alone, which is what a process that dies between them leaves, the row is in a state that its
  timeline does not lead to.
\<close>

lemma timeline_path_end: "timeline_path s es t \<Longrightarrow> timeline_path s es t' \<Longrightarrow> t = t'"
  by (induction es arbitrary: s) auto

lemma claim_unrecorded:
  fixes clk :: clock
  assumes "history R w" "find_rotation rid (wd_db w) = Some r" "rn_state r \<noteq> t"
  defines "db \<equiv> snd (claim_state clk rid (rn_state r) t (wd_db w))"
  shows "map_option rn_state (find_rotation rid db) = Some t" "\<not> timeline_path [] (rotation_timeline rid db) t"
proof -
  have "find (\<lambda>x. rn_id x = rid) (map (\<lambda>x. if rn_id x = rid \<and> rn_state x = rn_state r
      then x\<lparr>rn_state := t, rn_updated_at := now, rn_last_error := []\<rparr> else x) rows)
    = map_option (\<lambda>x. if rn_id x = rid \<and> rn_state x = rn_state r
      then x\<lparr>rn_state := t, rn_updated_at := now, rn_last_error := []\<rparr> else x) (find (\<lambda>x. rn_id x = rid) rows)" for now and rows :: "rotation list"
    by (induction rows) auto
  then show "map_option rn_state (find_rotation rid db) = Some t"
    using assms(2) find_rotation_id [OF assms(2)] by (simp add: db_def claim_state_def find_rotation_def Let_def)
  have "rotation_timeline rid db = rotation_timeline rid (wd_db w)"
    by (simp add: db_def claim_state_def rotation_timeline_def Let_def)
  with history_timeline [OF assms(1,2)] timeline_path_end assms(3)
  show "\<not> timeline_path [] (rotation_timeline rid db) t" by metis
qed

text \<open>
  Between any two points of a history a row keeps its identity, credential, provider and old
  key; a stored version and a validation are never undone; and a completed or rolled-back
  rotation stays exactly that.
\<close>

theorem rotations_only_move_forward:
  assumes "history R w" "later_history R w R' w'" "find_rotation rid (wd_db w) = Some r"
  shows "\<exists>r'. find_rotation rid (wd_db w') = Some r' \<and> same_core r r'
     \<and> (rn_new_version r = None \<or> rn_new_version r' = rn_new_version r)
     \<and> (rn_new_value_validated r' \<or> \<not> rn_new_value_validated r)
     \<and> (rn_state r' = rn_state r \<or> \<not> is_terminal (rn_state r))"
proof -
  from later_row [OF assms] obtain r' where r': "find_rotation rid (wd_db w') = Some r'" "row_run r r'" by blast
  with row_run_core [OF r'(2)] row_run_version [OF r'(2)] row_run_validated [OF r'(2)]
    row_run_terminal [OF r'(2)] show ?thesis
    by (cases "rn_new_version r") auto
qed

theorem rotations_only_move_forward_witness:
  "\<exists>r r'. find_rotation ''r'' (wd_db demo_disabled) = Some r
     \<and> find_rotation ''r'' (wd_db demo_completed) = Some r' \<and> rn_new_version r' = rn_new_version r
     \<and> rn_state r' = COMPLETED"
  using rotations_only_move_forward [OF demo_history(3) demo_later, of "''r''"] demo_disabled_facts
    demo_completed_facts by auto

text \<open>
  C34. Once a revocation call has been made for a rotation at a provider whose revocation deletes
  keys, a rollback of it is refused in every later state, whatever the call returned, and
  changes nothing.
\<close>

theorem rollback_refused_after_revocation:
  assumes hist: "history R w" and call: "CallRevoke rid key \<in> set (wd_calls w)"
    and row: "find_rotation rid (wd_db w) = Some r" and prov: "\<not> revoke_is_reversible (rn_provider r)"
    and pw: "ve_password (fe_vault env) pw = Inr ()"
  shows "\<exists>why. rotation_rollback env rid pw revoke_new_key w = (Inl (InvalidInput why), w)"
proof -
  from history_call [OF hist call] row
  have key: "rn_old_provider_key_id r = Some key" and mark: "revoke_was_attempted rid key (wd_db w)"
    by (auto simp: validated_for_def)
  have id: "rn_id r = rid" using row by (rule find_rotation_id)
  obtain why where "rollback_refusal r (wd_db w) = Inl (InvalidInput why)"
    by (cases "rn_old_revoked_at r = None") (auto simp: rollback_refusal_def Let_def key mark id prov)
  then show ?thesis
    by (simp add: rotation_rollback_def andthen_def verify_password_def inspect_def db_read_def
        load_rotation_def pw row)
qed

theorem rollback_refused_after_revocation_witness:
  "\<exists>why. rotation_rollback demo_env ''r'' [] True demo_disabled = (Inl (InvalidInput why), demo_disabled)"
proof -
  from demo_disabled_facts obtain r where r: "find_rotation ''r'' (wd_db demo_disabled) = Some r"
    "rn_provider r = ''p''" by auto
  then have "\<not> revoke_is_reversible (rn_provider r)" by (simp add: revoke_is_reversible_def)
  moreover have "ve_password (fe_vault demo_env) [] = Inr ()" by (simp add: demo_env_def)
  ultimately show ?thesis
    using rollback_refused_after_revocation [OF demo_history(3) _ r(1)] demo_disabled_facts by simp
qed

text \<open>
  C35. Bound: eight iterations are enough for an advance from any state of any history. Every
  larger bound, the source's twelve among them, gives the same result and the same world, so the
  loop never stops for want of iterations.
\<close>

theorem eight_iterations_suffice:
  assumes "history R w" "8 \<le> n"
  shows "rotation_advance env rid pw v acknowledged w
     = andthen (verify_password env pw) (\<lambda>_. advance_loop env rid pw acknowledged n v) w"
proof -
  have "vault_ok (wd_db w)" using history_invariant [OF assms(1)] by (simp add: history_ok_def)
  then have "advance_loop env rid pw acknowledged MAX_STEPS v w = advance_loop env rid pw acknowledged n v w"
    using assms(2) by (intro advance_loop_enough)
      (auto simp: MAX_STEPS_def intro: less_le_trans [OF rank_bound])
  then show ?thesis
    by (simp add: rotation_advance_def andthen_def verify_password_def inspect_def split: sum.split)
qed

theorem eight_iterations_suffice_witness:
  "rotation_advance demo_env ''r'' [] None False demo_approved
     = andthen (verify_password demo_env []) (\<lambda>_. advance_loop demo_env ''r'' [] False 8 None) demo_approved"
  by (rule eight_iterations_suffice [OF demo_history(2)]) simp

text \<open>
  A snapshot of a row in \<open>CREATING_IN_PROGRESS\<close> makes a create call whatever the row has
  become since: the claim guards the transition into the state, not the call made in it. A second
  process that loaded the row in that state creates a second key at the provider.
\<close>

theorem snapshot_creates_again:
  assumes "rn_state rot = CREATING_IN_PROGRESS" "rn_new_provider_key_id rot = None" "rn_new_version rot = None"
    and "fe_admin_secret env (rn_provider rot) (wd_ext w) = Inr admin" "fe_has_connector env (rn_provider rot)"
    and "credential_row_by_id (rn_credential_id rot) (wd_db w) = Some cred"
  shows "wd_calls (snd (advance_with env rot pw acknowledged v w))
     = wd_calls w @ [CallCreate (rn_id rot) (rn_provider rot)]"
proof -
  have "wd_calls (snd (rotation_create_replacement env rot pw w)) = wd_calls w @ [CallCreate (rn_id rot) (rn_provider rot)]"
    unfolding rotation_create_replacement_def admin_secret_def connector_for_def db_read_def
    using assms
    by (simp add: inspect_then credential_required_def)
      (rule recorded_then, unfold silent_unfold, intro silent_rules)
  moreover have "advance_with env rot pw acknowledged v = advance_in_progress env rot pw v"
    using assms(1) by (simp add: advance_with_def state_neq)
  ultimately show ?thesis
    unfolding advance_in_progress_def orphaned_def
    by (simp add: assms(2)) (subst attempt_then, unfold silent_unfold, intro silent_rules, simp)
qed

theorem snapshot_creates_again_witness:
  "(\<exists>R. demo_row demo_claimed \<in> R \<and> history R demo_created)
   \<and> wd_calls (demo_iterate (demo_row demo_claimed) demo_created) = [CallCreate ''r'' ''p'', CallCreate ''r'' ''p'']"
proof -
  have "credential_row_by_id ''c'' (wd_db demo_created) \<noteq> None"
    using demo_created_facts by (auto simp: credential_row_by_id_def find_None_iff)
  then show ?thesis
    using demo_race demo_claimed_facts demo_created_facts
      snapshot_creates_again [of "demo_row demo_claimed" demo_env demo_created]
    by (auto simp: demo_iterate_def demo_env_def)
qed

end
