(* ===== verification/DestCatalog.thy ===== *)
theory DestCatalog
  imports Base
begin

text \<open>
  The catalogue of destination kinds of crates/core/src/destinations.rs: for every kind what it
  is, what it needs, and the capability matrix. The operating system the program was built for is
  an argument.
\<close>

datatype dest_support = DestImplemented | DestSupportedNotImplemented | DestUnsupported | PlatformUnavailable

record dest_capabilities =
  dcap_read :: dest_support
  dcap_write :: dest_support
  dcap_delete :: dest_support
  dcap_versioning :: dest_support
  dcap_rollback :: dest_support
  dcap_validation :: dest_support

record destination_kind_info =
  dk_kind :: string
  dk_name :: string
  dk_description :: string
  dk_auth :: string
  dk_platforms :: string
  dk_status :: string
  dk_capabilities :: dest_capabilities
  dk_verify_method :: string
  dk_required_plan :: string
  dk_charges :: string
  dk_testing :: string
  dk_config_help :: string

datatype host_os = MacOs | Linux | Windows

definition on_platform :: "host_os \<Rightarrow> host_os \<Rightarrow> dest_support" where
  "on_platform os wanted = (if os = wanted then DestImplemented else PlatformUnavailable)"

definition kind_vault :: "host_os \<Rightarrow> destination_kind_info" where
  "kind_vault os = \<lparr>dk_kind = ''vault'',
     dk_name = ''Tethra local vault'',
     dk_description = ''The encrypted local vault itself '' @ em_dash @ '' the source of truth every plan starts from.'',
     dk_auth = ''master password (already required)'',
     dk_platforms = ''all'',
     dk_status = ''always present; not configurable as a target'',
     dk_capabilities = \<lparr>dcap_read = DestImplemented, dcap_write = DestImplemented, dcap_delete = DestImplemented,
       dcap_versioning = DestImplemented, dcap_rollback = DestImplemented, dcap_validation = DestImplemented\<rparr>,
     dk_verify_method = ''value read-back (it is the source of truth)'',
     dk_required_plan = ''none'',
     dk_charges = ''none'',
     dk_testing = ''covered by the full core test suite'',
     dk_config_help = ''none '' @ em_dash @ '' the vault is implicit''\<rparr>"

definition kind_env_mapping :: "host_os \<Rightarrow> destination_kind_info" where
  "kind_env_mapping os = \<lparr>dk_kind = ''env_mapping'',
     dk_name = ''Local environment mappings'',
     dk_description = ''Injection mappings used by `tethra run`. They reference the vault at run time, so a value change needs no write here.'',
     dk_auth = ''none (local)'',
     dk_platforms = ''all'',
     dk_status = ''implemented; value changes propagate automatically at injection time'',
     dk_capabilities = \<lparr>dcap_read = DestUnsupported, dcap_write = DestImplemented, dcap_delete = DestImplemented,
       dcap_versioning = DestUnsupported, dcap_rollback = DestUnsupported, dcap_validation = DestImplemented\<rparr>,
     dk_verify_method = ''n/a '' @ em_dash @ '' resolved from the vault at injection time'',
     dk_required_plan = ''none'',
     dk_charges = ''none'',
     dk_testing = ''covered by injection tests'',
     dk_config_help = ''none '' @ em_dash @ '' managed via `tethra mapping`''\<rparr>"

definition kind_env_export :: "host_os \<Rightarrow> destination_kind_info" where
  "kind_env_export os = \<lparr>dk_kind = ''env_export'',
     dk_name = ''Exported .env file'',
     dk_description = ''A plaintext .env file previously written by `tethra env export`. Value changes require an explicit re-export.'',
     dk_auth = ''master password reauthentication per export'',
     dk_platforms = ''all'',
     dk_status = ''implemented; tracked per exported file with drift detection'',
     dk_capabilities = \<lparr>dcap_read = DestImplemented, dcap_write = DestImplemented, dcap_delete = DestImplemented,
       dcap_versioning = DestUnsupported, dcap_rollback = DestImplemented, dcap_validation = DestImplemented\<rparr>,
     dk_verify_method = ''value read-back (file re-read + fingerprint compare)'',
     dk_required_plan = ''none'',
     dk_charges = ''none'',
     dk_testing = ''covered by env-governance tests'',
     dk_config_help = ''none '' @ em_dash @ '' created by `tethra env export`''\<rparr>"

definition kind_macos_keychain :: "host_os \<Rightarrow> destination_kind_info" where
  "kind_macos_keychain os = \<lparr>dk_kind = ''macos_keychain'',
     dk_name = ''macOS Keychain'',
     dk_description = ''Generic passwords in the login keychain via the system `security` tool.'',
     dk_auth = ''none beyond the OS session (Keychain may prompt)'',
     dk_platforms = ''macOS only'',
     dk_status = (if os = MacOs then ''implemented on this platform'' else ''implemented, but unavailable on this platform''),
     dk_capabilities = \<lparr>dcap_read = (on_platform os MacOs), dcap_write = (on_platform os MacOs), dcap_delete = (on_platform os MacOs),
       dcap_versioning = DestUnsupported, dcap_rollback = DestImplemented, dcap_validation = (on_platform os MacOs)\<rparr>,
     dk_verify_method = ''value read-back via the security tool'',
     dk_required_plan = ''none'',
     dk_charges = ''none'',
     dk_testing = ''fixture-tested through a scripted runner; exercised on macOS'',
     dk_config_help = ''optional: account (default '' @ quoted ''api-tracker'' @ '')''\<rparr>"

definition kind_linux_secret_service :: "host_os \<Rightarrow> destination_kind_info" where
  "kind_linux_secret_service os = \<lparr>dk_kind = ''linux_secret_service'',
     dk_name = ''Linux Secret Service'',
     dk_description = ''Items in the session Secret Service (GNOME Keyring / KWallet) via libsecret's secret-tool; the value is passed on stdin, never as an argument.'',
     dk_auth = ''none beyond the OS session (the keyring may prompt to unlock)'',
     dk_platforms = ''Linux only (needs secret-tool and a session Secret Service)'',
     dk_status = (if os = Linux then ''implemented on this platform (needs the libsecret-tools package)'' else ''implemented, but unavailable on this platform''),
     dk_capabilities = \<lparr>dcap_read = (on_platform os Linux), dcap_write = (on_platform os Linux), dcap_delete = (on_platform os Linux),
       dcap_versioning = DestUnsupported, dcap_rollback = DestImplemented, dcap_validation = (on_platform os Linux)\<rparr>,
     dk_verify_method = ''value read-back via secret-tool lookup'',
     dk_required_plan = ''none'',
     dk_charges = ''none'',
     dk_testing = ''fixture-tested through a scripted runner; not yet exercised against a live Secret Service'',
     dk_config_help = ''optional: service (default '' @ quoted ''api-tracker'' @ '')''\<rparr>"

definition kind_windows_credential_manager :: "host_os \<Rightarrow> destination_kind_info" where
  "kind_windows_credential_manager os = \<lparr>dk_kind = ''windows_credential_manager'',
     dk_name = ''Windows Credential Manager'',
     dk_description = ''Generic credentials for the current user via the Win32 credential API (CredWrite/CredRead/CredDelete).'',
     dk_auth = ''none beyond the Windows session (current-user store)'',
     dk_platforms = ''Windows only'',
     dk_status = (if os = Windows then ''implemented on this platform (compile-verified; not yet exercised by CI on Windows)'' else ''implemented, but unavailable on this platform''),
     dk_capabilities = \<lparr>dcap_read = (on_platform os Windows), dcap_write = (on_platform os Windows), dcap_delete = (on_platform os Windows),
       dcap_versioning = DestUnsupported, dcap_rollback = DestImplemented, dcap_validation = (on_platform os Windows)\<rparr>,
     dk_verify_method = ''value read-back via CredRead'',
     dk_required_plan = ''none'',
     dk_charges = ''none'',
     dk_testing = ''portable naming logic unit-tested; the keyring-backed adapter compiles and core tests run on Windows in CI, not yet exercised against a live Credential Manager by CI'',
     dk_config_help = ''none''\<rparr>"

definition kind_aws_secrets_manager :: "host_os \<Rightarrow> destination_kind_info" where
  "kind_aws_secrets_manager os = \<lparr>dk_kind = ''aws_secrets_manager'',
     dk_name = ''AWS Secrets Manager'',
     dk_description = ''Secrets in AWS Secrets Manager via the official API (SigV4-signed, direct from this machine).'',
     dk_auth = ''IAM access key id + secret access key (stored encrypted in the vault); needs secretsmanager:GetSecretValue/PutSecretValue/CreateSecret/DescribeSecret'',
     dk_platforms = ''all'',
     dk_status = ''implemented (delete schedules the 30-day recovery window; RestoreSecret can cancel); verified against recorded API fixtures, not yet against a live AWS account'',
     dk_capabilities = \<lparr>dcap_read = DestImplemented, dcap_write = DestImplemented, dcap_delete = DestImplemented,
       dcap_versioning = DestImplemented, dcap_rollback = DestImplemented, dcap_validation = DestImplemented\<rparr>,
     dk_verify_method = ''value read-back (GetSecretValue + fingerprint compare)'',
     dk_required_plan = ''any AWS account'',
     dk_charges = ''AWS Secrets Manager bills ~$0.40/secret/month (prorated) + $0.05 per 10k API calls'',
     dk_testing = ''fixture-tested incl. the official SigV4 vector; live verification via scripts/live_verify_aws.sh (opt-in)'',
     dk_config_help = ''region (e.g. us-east-1)''\<rparr>"

definition kind_github_actions :: "host_os \<Rightarrow> destination_kind_info" where
  "kind_github_actions os = \<lparr>dk_kind = ''github_actions'',
     dk_name = ''GitHub Actions repository secrets'',
     dk_description = ''Repository secrets via the official REST API (libsodium sealed-box encryption to the repository public key).'',
     dk_auth = ''fine-grained PAT or classic token with repo admin:secrets access (stored encrypted in the vault)'',
     dk_platforms = ''all'',
     dk_status = ''implemented; GitHub never returns secret values, so verification is existence-only'',
     dk_capabilities = \<lparr>dcap_read = DestUnsupported, dcap_write = DestImplemented, dcap_delete = DestImplemented,
       dcap_versioning = DestUnsupported, dcap_rollback = DestImplemented, dcap_validation = DestImplemented\<rparr>,
     dk_verify_method = ''existence only (GitHub never returns secret values)'',
     dk_required_plan = ''any plan (private repos need admin access to the repo)'',
     dk_charges = ''none'',
     dk_testing = ''fixture-tested; live verification via scripts/live_verify_github_actions.sh (opt-in)'',
     dk_config_help = ''owner, repo''\<rparr>"

definition kind_vercel :: "host_os \<Rightarrow> destination_kind_info" where
  "kind_vercel os = \<lparr>dk_kind = ''vercel'',
     dk_name = ''Vercel environment variables'',
     dk_description = ''Project environment variables via the official Vercel REST API.'',
     dk_auth = ''Vercel access token (stored encrypted in the vault)'',
     dk_platforms = ''all'',
     dk_status = ''implemented; encrypted variables are write-only at Vercel, so verification is existence-only'',
     dk_capabilities = \<lparr>dcap_read = DestUnsupported, dcap_write = DestImplemented, dcap_delete = DestImplemented,
       dcap_versioning = DestUnsupported, dcap_rollback = DestImplemented, dcap_validation = DestImplemented\<rparr>,
     dk_verify_method = ''existence only (encrypted variables are write-only at Vercel)'',
     dk_required_plan = ''any plan'',
     dk_charges = ''none'',
     dk_testing = ''fixture-tested; live verification via scripts/live_verify_vercel.sh (opt-in)'',
     dk_config_help = ''project_id; optional: team_id, targets (default production,preview,development)''\<rparr>"

definition destination_catalog :: "host_os \<Rightarrow> destination_kind_info list" where
  "destination_catalog os = map (\<lambda>k. k os) [kind_vault,
     kind_env_mapping,
     kind_env_export,
     kind_macos_keychain,
     kind_linux_secret_service,
     kind_windows_credential_manager,
     kind_aws_secrets_manager,
     kind_github_actions,
     kind_vercel]"

definition kind_info :: "host_os \<Rightarrow> string \<Rightarrow> destination_kind_info res" where
  "kind_info os kind =
     (case find (\<lambda>k. dk_kind k = kind) (destination_catalog os) of
        None \<Rightarrow> Inl (InvalidInput (''unknown destination kind '' @ quoted kind)) | Some k \<Rightarrow> Inr k)"

text \<open>Kinds the user can configure.\<close>

definition configurable_kinds :: "host_os \<Rightarrow> string list" where
  "configurable_kinds os =
     map dk_kind (filter (\<lambda>k. dk_kind k \<notin> {''vault'', ''env_mapping'', ''env_export''}) (destination_catalog os))"

end
