(* ===== verification/SyncStore.thy ===== *)
theory SyncStore
  imports CredValues DestCatalog
begin

text \<open>
  The tables of destinations and synchronization plans: the row operations of
  crates/core/src/destinations.rs and all of crates/core/src/syncplan.rs. The world holds the
  vault's tables, these tables, the exported files and, as a state of type \<open>'d\<close>, what the
  destinations hold.
\<close>

section \<open>Rows\<close>

record destination =
  ds_id :: string
  ds_kind :: string
  ds_name :: string
  ds_config :: string
  ds_auth :: "string option"
  ds_auth_masked :: "string option"
  ds_created_at :: string
  ds_updated_at :: string
  ds_last_verified_at :: "string option"
  ds_last_error :: string

record attachment_row =
  at_credential_id :: string
  at_destination_id :: string
  at_secret_name :: string
  at_environment :: string
  at_last_synced_version :: "int option"
  at_last_synced_at :: "string option"
  at_last_verified_at :: "string option"
  at_drift :: string

record attachment =
  am_row :: attachment_row
  am_credential_name :: string
  am_project_name :: string
  am_destination_name :: string
  am_destination_kind :: string

record stored_step =
  ss_destination_id :: string
  ss_secret_name :: string
  ss_environment :: string
  ss_action :: string
  ss_status :: string
  ss_detail :: string
  ss_executed_at :: "string option"
  ss_verified_at :: "string option"
  ss_rolled_back_at :: "string option"

record stored_plan =
  sp_id :: string
  sp_credential_id :: string
  sp_from_version :: "int option"
  sp_to_version :: int
  sp_created_at :: string
  sp_status :: string
  sp_note :: string
  sp_steps :: "stored_step list"

record export_row =
  ex_id :: string
  ex_project_id :: string
  ex_path :: string
  ex_var_names :: string
  ex_content_hash :: string
  ex_created_at :: string
  ex_cleaned_at :: "string option"

record mapping_row =
  mp_credential_id :: string
  mp_project_id :: string
  mp_env_var :: string

text \<open>Plans are held with their steps; a step's key in its plan is destination and secret name.\<close>

record 'd sync_world =
  sw_vault :: vault_db
  sw_destinations :: "destination list"
  sw_attachments :: "attachment_row list"
  sw_plans :: "stored_plan list"
  sw_exports :: "export_row list"
  sw_mappings :: "mapping_row list"
  sw_files :: "string \<Rightarrow> string option"
  sw_remote :: 'd

definition sw_now :: "clock \<Rightarrow> 'd sync_world \<Rightarrow> string" where
  "sw_now clk w = now_rfc3339 clk (sw_vault w)"

definition ticked :: "'d sync_world \<Rightarrow> 'd sync_world" where
  "ticked w = w\<lparr>sw_vault := (sw_vault w)\<lparr>vd_tick := vd_tick (sw_vault w) + 1\<rparr>\<rparr>"

definition on_vault :: "(vault_db, 'a) op \<Rightarrow> ('d sync_world, 'a) op" where
  "on_vault m w = (case m (sw_vault w) of (r, db) \<Rightarrow> (r, w\<lparr>sw_vault := db\<rparr>))"

definition vault_read :: "(vault_db \<Rightarrow> 'a res) \<Rightarrow> ('d sync_world, 'a) op" where
  "vault_read f = inspect (\<lambda>w. f (sw_vault w))"

section \<open>Destinations\<close>

definition dest_insert ::
    "clock \<Rightarrow> host_os \<Rightarrow> string \<Rightarrow> string \<Rightarrow> string \<Rightarrow> string \<Rightarrow> string option \<Rightarrow> string option
       \<Rightarrow> ('d sync_world, string) op" where
  "dest_insert clk os uuid kind name config auth masked w =
     (case kind_info os kind of
        Inl e \<Rightarrow> (Inl e, w)
      | Inr _ \<Rightarrow>
        if kind \<notin> set (configurable_kinds os)
        then (Inl (InvalidInput (quoted kind @ '' is a built-in local destination and cannot be added manually'')), w)
        else if \<exists>d \<in> set (sw_destinations w). ds_id d = uuid \<or> eq_ignore_ascii_case (ds_name d) name
        then (Inl (AlreadyExists ''destination'' name), w)
        else
          (let now = sw_now clk w in
           (Inr uuid, ticked (w\<lparr>sw_destinations := sw_destinations w @
              [\<lparr>ds_id = uuid, ds_kind = kind, ds_name = name, ds_config = config, ds_auth = auth,
                ds_auth_masked = masked, ds_created_at = now, ds_updated_at = now,
                ds_last_verified_at = None, ds_last_error = []\<rparr>]\<rparr>))))"

text \<open>The name column collates without case, in comparisons and in the order.\<close>

definition dest_list :: "'d sync_world \<Rightarrow> destination list" where
  "dest_list w = sort_key (\<lambda>d. to_ascii_lowercase (ds_name d)) (sw_destinations w)"

text \<open>\<open>WHERE id = .. OR name = ..\<close>: the search by id comes first.\<close>

definition dest_get :: "string \<Rightarrow> 'd sync_world \<Rightarrow> destination res" where
  "dest_get ident w =
     (case find (\<lambda>d. ds_id d = ident) (sw_destinations w) of
        Some d \<Rightarrow> Inr d
      | None \<Rightarrow>
          (case find (\<lambda>d. eq_ignore_ascii_case (ds_name d) ident) (sw_destinations w) of
             Some d \<Rightarrow> Inr d | None \<Rightarrow> Inl (NotFound ''destination'' ident)))"

definition dest_auth :: "string \<Rightarrow> 'd sync_world \<Rightarrow> string option res" where
  "dest_auth did w =
     (case find (\<lambda>d. ds_id d = did) (sw_destinations w) of
        None \<Rightarrow> Inl (DbErr ''Query returned no rows'') | Some d \<Rightarrow> Inr (ds_auth d))"

text \<open>Removing a destination cascades to its attachments.\<close>

definition dest_remove :: "string \<Rightarrow> ('d sync_world, unit) op" where
  "dest_remove did w =
     (Inr (), ticked (w\<lparr>sw_destinations := filter (\<lambda>d. ds_id d \<noteq> did) (sw_destinations w),
        sw_attachments := filter (\<lambda>a. at_destination_id a \<noteq> did) (sw_attachments w)\<rparr>))"

definition record_test :: "clock \<Rightarrow> string \<Rightarrow> string option \<Rightarrow> ('d sync_world, unit) op" where
  "record_test clk did err w =
     (let now = sw_now clk w in
      (Inr (), ticked (w\<lparr>sw_destinations := map (\<lambda>d. if ds_id d = did
         then (case err of
                 None \<Rightarrow> d\<lparr>ds_last_verified_at := Some now, ds_last_error := [], ds_updated_at := now\<rparr>
               | Some e \<Rightarrow> d\<lparr>ds_last_error := e, ds_updated_at := now\<rparr>)
         else d) (sw_destinations w)\<rparr>)))"

definition valid_secret_name :: "string \<Rightarrow> bool" where
  "valid_secret_name name \<longleftrightarrow> name \<noteq> [] \<and> length name \<le> 200
     \<and> (case name of [] \<Rightarrow> False | c # _ \<Rightarrow> is_ascii_alphabetic c \<or> c = CHR ''_'')
     \<and> list_all (\<lambda>c. is_ascii_alphanumeric c \<or> c = CHR ''_'') name"

definition at_key :: "attachment_row \<Rightarrow> string \<times> string \<times> string" where
  "at_key a = (at_credential_id a, at_destination_id a, at_secret_name a)"

definition attach :: "string \<Rightarrow> string \<Rightarrow> string \<Rightarrow> string \<Rightarrow> ('d sync_world, unit) op" where
  "attach cid did name environment w =
     (if \<not> valid_secret_name name
      then (Inl (InvalidInput (quoted name @ '' is not a valid secret name (letters, digits, '' @ quoted ''_'' @
              '', starting with a letter or '' @ quoted ''_'' @ '')'')), w)
      else if cid \<notin> cr_id ` set (vd_credentials (sw_vault w)) \<or> did \<notin> ds_id ` set (sw_destinations w)
      then (Inl (DbErr ''FOREIGN KEY constraint failed''), w)
      else (Inr (), ticked (w\<lparr>sw_attachments :=
        (if (cid, did, name) \<in> at_key ` set (sw_attachments w)
         then map (\<lambda>a. if at_key a = (cid, did, name) then a\<lparr>at_environment := environment\<rparr> else a) (sw_attachments w)
         else sw_attachments w @ [\<lparr>at_credential_id = cid, at_destination_id = did, at_secret_name = name,
                at_environment = environment, at_last_synced_version = None, at_last_synced_at = None,
                at_last_verified_at = None, at_drift = ''unknown''\<rparr>])\<rparr>)))"

definition detach :: "string \<Rightarrow> string \<Rightarrow> string option \<Rightarrow> ('d sync_world, nat) op" where
  "detach cid did name w =
     (let gone = (\<lambda>a. at_credential_id a = cid \<and> at_destination_id a = did
            \<and> (case name of None \<Rightarrow> True | Some n \<Rightarrow> at_secret_name a = n)) in
      (Inr (length (filter gone (sw_attachments w))),
       ticked (w\<lparr>sw_attachments := filter (\<lambda>a. \<not> gone a) (sw_attachments w)\<rparr>)))"

text \<open>The join of an attachment with its credential, project and destination, one row at most each.\<close>

definition attachment_view :: "'d sync_world \<Rightarrow> attachment_row \<Rightarrow> attachment option" where
  "attachment_view w a =
     (case find (\<lambda>c. cr_id c = at_credential_id a) (vd_credentials (sw_vault w)) of
        None \<Rightarrow> None
      | Some c \<Rightarrow>
        (case find (\<lambda>p. pj_id p = cr_project_id c) (vd_projects (sw_vault w)) of
           None \<Rightarrow> None
         | Some p \<Rightarrow>
           (case find (\<lambda>d. ds_id d = at_destination_id a) (sw_destinations w) of
              None \<Rightarrow> None
            | Some d \<Rightarrow> Some \<lparr>am_row = a, am_credential_name = cr_name c, am_project_name = pj_name p,
                am_destination_name = ds_name d, am_destination_kind = ds_kind d\<rparr>)))"

definition all_attachments :: "'d sync_world \<Rightarrow> attachment list" where
  "all_attachments w =
     sort_key (\<lambda>a. to_ascii_lowercase (am_destination_name a)) (sort_key (\<lambda>a. at_secret_name (am_row a))
       (List.map_filter (attachment_view w) (sw_attachments w)))"

definition attachments_for_credential :: "string \<Rightarrow> 'd sync_world \<Rightarrow> attachment list" where
  "attachments_for_credential cid w =
     filter (\<lambda>a. at_credential_id (am_row a) = cid) (all_attachments w)"

definition update_attachment ::
    "string \<times> string \<times> string \<Rightarrow> (attachment_row \<Rightarrow> attachment_row) \<Rightarrow> 'd sync_world \<Rightarrow> 'd sync_world" where
  "update_attachment key f w =
     ticked (w\<lparr>sw_attachments := map (\<lambda>a. if at_key a = key then f a else a) (sw_attachments w)\<rparr>)"

definition record_sync ::
    "clock \<Rightarrow> string \<Rightarrow> string \<Rightarrow> string \<Rightarrow> int \<Rightarrow> string \<Rightarrow> ('d sync_world, unit) op" where
  "record_sync clk cid did name version drift w =
     (let now = sw_now clk w in
      (Inr (), update_attachment (cid, did, name) (\<lambda>a. a\<lparr>at_last_synced_version := Some version,
         at_last_synced_at := Some now, at_drift := drift\<rparr>) w))"

definition record_verify ::
    "clock \<Rightarrow> string \<Rightarrow> string \<Rightarrow> string \<Rightarrow> string \<Rightarrow> ('d sync_world, unit) op" where
  "record_verify clk cid did name drift w =
     (let now = sw_now clk w in
      (Inr (), update_attachment (cid, did, name) (\<lambda>a.
         if drift = ''unknown'' then a\<lparr>at_drift := drift\<rparr>
         else a\<lparr>at_last_verified_at := Some now, at_drift := drift\<rparr>) w))"

section \<open>Plans\<close>

definition ACTION_WRITE :: string where "ACTION_WRITE = ''write''"
definition ACTION_REEXPORT :: string where "ACTION_REEXPORT = ''reexport''"
definition ACTION_NONE :: string where "ACTION_NONE = ''none''"
definition ACTION_MANUAL :: string where "ACTION_MANUAL = ''manual''"
definition STEP_PLANNED :: string where "STEP_PLANNED = ''planned''"
definition STEP_EXECUTED :: string where "STEP_EXECUTED = ''executed''"
definition STEP_FAILED :: string where "STEP_FAILED = ''failed''"
definition STEP_SKIPPED :: string where "STEP_SKIPPED = ''skipped''"
definition STEP_ROLLED_BACK :: string where "STEP_ROLLED_BACK = ''rolled_back''"
definition PLAN_PLANNED :: string where "PLAN_PLANNED = ''planned''"
definition PLAN_EXECUTED :: string where "PLAN_EXECUTED = ''executed''"
definition PLAN_PARTIAL :: string where "PLAN_PARTIAL = ''partially_failed''"
definition PLAN_ROLLED_BACK :: string where "PLAN_ROLLED_BACK = ''rolled_back''"
definition PLAN_STALE :: string where "PLAN_STALE = ''stale''"

lemmas plan_constants = ACTION_WRITE_def ACTION_REEXPORT_def ACTION_NONE_def ACTION_MANUAL_def
  STEP_PLANNED_def STEP_EXECUTED_def STEP_FAILED_def STEP_SKIPPED_def STEP_ROLLED_BACK_def
  PLAN_PLANNED_def PLAN_EXECUTED_def PLAN_PARTIAL_def PLAN_ROLLED_BACK_def PLAN_STALE_def

definition step_key :: "stored_step \<Rightarrow> string \<times> string" where
  "step_key s = (ss_destination_id s, ss_secret_name s)"

text \<open>The rows are inserted one statement at a time; a repeated key stops there, the plan stays.\<close>

fun insertable :: "stored_step list \<Rightarrow> stored_step list \<Rightarrow> stored_step list \<times> bool" where
  "insertable done [] = (done, True)"
| "insertable done (s # steps) =
     (if step_key s \<in> step_key ` set done then (done, False) else insertable (done @ [s]) steps)"

definition insert_plan ::
    "clock \<Rightarrow> string \<Rightarrow> string \<Rightarrow> int option \<Rightarrow> int \<Rightarrow> string \<Rightarrow> stored_step list \<Rightarrow> ('d sync_world, string) op" where
  "insert_plan clk uuid cid from_version to_version note steps w =
     (if uuid \<in> sp_id ` set (sw_plans w)
      then (Inl (DbErr ''UNIQUE constraint failed: sync_plans.id''), w)
      else if cid \<notin> cr_id ` set (vd_credentials (sw_vault w))
      then (Inl (DbErr ''FOREIGN KEY constraint failed''), w)
      else
        (let (rows, ok) = insertable [] (map (\<lambda>s. s\<lparr>ss_executed_at := None, ss_verified_at := None,
                 ss_rolled_back_at := None\<rparr>) steps);
             w' = ticked (w\<lparr>sw_plans := sw_plans w @ [\<lparr>sp_id = uuid, sp_credential_id = cid,
                 sp_from_version = from_version, sp_to_version = to_version, sp_created_at = sw_now clk w,
                 sp_status = PLAN_PLANNED, sp_note = note, sp_steps = rows\<rparr>]\<rparr>)
         in if ok then (Inr uuid, w')
            else (Inl (DbErr ''UNIQUE constraint failed: sync_plan_steps.plan_id, sync_plan_steps.destination_id, sync_plan_steps.secret_name''), w')))"

definition load_plan :: "string \<Rightarrow> 'd sync_world \<Rightarrow> stored_plan res" where
  "load_plan pid w =
     (case find (\<lambda>p. sp_id p = pid) (sw_plans w) of
        None \<Rightarrow> Inl (NotFound ''sync plan'' pid)
      | Some p \<Rightarrow> Inr (p\<lparr>sp_steps := sort_key ss_destination_id (sort_key ss_secret_name (sp_steps p))\<rparr>))"

text \<open>A listing carries no steps.\<close>

definition list_plans :: "string option \<Rightarrow> nat \<Rightarrow> 'd sync_world \<Rightarrow> stored_plan list" where
  "list_plans cid limit w =
     map (\<lambda>p. p\<lparr>sp_steps := []\<rparr>) (take limit (sort_desc sp_created_at
       (case cid of Some c \<Rightarrow> filter (\<lambda>p. sp_credential_id p = c) (sw_plans w) | None \<Rightarrow> sw_plans w)))"

definition change_step ::
    "string \<Rightarrow> string \<times> string \<Rightarrow> (stored_step \<Rightarrow> stored_step) \<Rightarrow> 'd sync_world \<Rightarrow> 'd sync_world" where
  "change_step pid key f w =
     ticked (w\<lparr>sw_plans := map (\<lambda>p. if sp_id p = pid
        then p\<lparr>sp_steps := map (\<lambda>s. if step_key s = key then f s else s) (sp_steps p)\<rparr> else p) (sw_plans w)\<rparr>)"

definition update_step ::
    "clock \<Rightarrow> string \<Rightarrow> string \<Rightarrow> string \<Rightarrow> string \<Rightarrow> string \<Rightarrow> ('d sync_world, unit) op" where
  "update_step clk pid did name status detail w =
     (let now = sw_now clk w in
      (Inr (), change_step pid (did, name) (\<lambda>s. s\<lparr>ss_status := status, ss_detail := detail,
         ss_executed_at := (if status = STEP_EXECUTED then Some now else ss_executed_at s),
         ss_rolled_back_at := (if status = STEP_ROLLED_BACK then Some now else ss_rolled_back_at s)\<rparr>) w))"

definition mark_step_verified :: "clock \<Rightarrow> string \<Rightarrow> string \<Rightarrow> string \<Rightarrow> ('d sync_world, unit) op" where
  "mark_step_verified clk pid did name w =
     (let now = sw_now clk w in
      (Inr (), change_step pid (did, name) (\<lambda>s. s\<lparr>ss_verified_at := Some now\<rparr>) w))"

definition update_plan_status :: "string \<Rightarrow> string \<Rightarrow> ('d sync_world, unit) op" where
  "update_plan_status pid status w =
     (Inr (), ticked (w\<lparr>sw_plans := map (\<lambda>p. if sp_id p = pid then p\<lparr>sp_status := status\<rparr> else p) (sw_plans w)\<rparr>))"

end
