(* ===== verification/SyncEngine.thy ===== *)
theory SyncEngine
  imports SyncStore
begin

text \<open>
  The synchronization engine of crates/core/src/vault.rs: configuring destinations, planning a
  rollout of a credential's value, executing it step by step with verification, rolling it back,
  rewriting exported files, and the drift check. An adapter (a provider or operating system
  behind the trait \<open>DestinationAdapter\<close>) is a parameter that reads and changes the remote state.
\<close>

record 'd sync_env =
  se_vault :: vault_env
  se_os :: host_os
  se_adapter :: "destination \<Rightarrow> string option \<Rightarrow> unit res"
  se_write :: "destination \<Rightarrow> string \<Rightarrow> string \<Rightarrow> 'd \<Rightarrow> string res \<times> 'd"
  se_read :: "destination \<Rightarrow> string \<Rightarrow> 'd \<Rightarrow> string option res \<times> 'd"
  se_exists :: "destination \<Rightarrow> string \<Rightarrow> 'd \<Rightarrow> bool option res \<times> 'd"
  se_delete :: "destination \<Rightarrow> string \<Rightarrow> 'd \<Rightarrow> unit res \<times> 'd"
  se_test :: "destination \<Rightarrow> 'd \<Rightarrow> string res \<times> 'd"
  se_hash :: "string \<Rightarrow> string"
  se_write_file :: "string \<Rightarrow> string \<Rightarrow> unit res"

abbreviation se_clock :: "'d sync_env \<Rightarrow> clock" where
  "se_clock env \<equiv> ve_clock (se_vault env)"

definition remote :: "('d \<Rightarrow> 'a res \<times> 'd) \<Rightarrow> ('d sync_world, 'a) op" where
  "remote f w = (case f (sw_remote w) of (r, d) \<Rightarrow> (r, w\<lparr>sw_remote := d\<rparr>))"

definition sw_look :: "('d sync_world \<Rightarrow> 'a res) \<Rightarrow> ('d sync_world, 'a) op" where
  "sw_look f = inspect f"

definition sw_password :: "'d sync_env \<Rightarrow> string \<Rightarrow> ('d sync_world, unit) op" where
  "sw_password env pw = inspect (\<lambda>_. ve_password (se_vault env) pw)"

definition sw_audit ::
    "'d sync_env \<Rightarrow> string \<Rightarrow> string option \<Rightarrow> string option \<Rightarrow> string \<Rightarrow> ('d sync_world, unit) op" where
  "sw_audit env event pid cid detail = on_vault (change (audit_add (se_clock env) event pid cid detail))"

definition cred_required :: "string \<Rightarrow> ('d sync_world, credential_row) op" where
  "cred_required cid = vault_read (\<lambda>db. case credential_row_by_id cid db of
     None \<Rightarrow> Inl (NotFound ''credential'' cid) | Some c \<Rightarrow> Inr c)"

section \<open>Destinations\<close>

definition destination_adapter :: "'d sync_env \<Rightarrow> destination \<Rightarrow> ('d sync_world, unit) op" where
  "destination_adapter env dest =
     andthen (sw_look (dest_auth (ds_id dest))) (\<lambda>auth. inspect (\<lambda>_. se_adapter env dest auth))"

definition destination_add ::
    "'d sync_env \<Rightarrow> string \<Rightarrow> string \<Rightarrow> string \<Rightarrow> string \<Rightarrow> string option \<Rightarrow> ('d sync_world, destination) op" where
  "destination_add env uuid kind name_arg config auth =
     andthen (inspect (\<lambda>_. kind_info (se_os env) kind)) (\<lambda>info.
     if dcap_write (dk_capabilities info) = PlatformUnavailable
     then throw (Unsupported kind ''destination'' (dk_name info @ '' is not available on this platform''))
     else let name = trim name_arg in
     if name = [] then throw (InvalidInput ''destination name must not be empty'')
     else
     andthen (dest_insert (se_clock env) (se_os env) uuid kind name config None None) (\<lambda>did.
     andthen (case auth of
         None \<Rightarrow> ret ()
       | Some a \<Rightarrow>
           if trim a = [] then throw (InvalidInput ''the destination credential must not be empty'')
           else change (\<lambda>w. ticked (w\<lparr>sw_destinations := map (\<lambda>d. if ds_id d = did
                  then d\<lparr>ds_auth := Some a, ds_auth_masked := Some (mask_value a)\<rparr> else d) (sw_destinations w)\<rparr>))) (\<lambda>_.
     andthen (sw_audit env ''destination_added'' None None (''kind='' @ kind @ '' name='' @ name)) (\<lambda>_.
     sw_look (dest_get did)))))"

definition destination_remove ::
    "'d sync_env \<Rightarrow> string \<Rightarrow> string \<Rightarrow> ('d sync_world, destination) op" where
  "destination_remove env ident pw =
     andthen (sw_password env pw) (\<lambda>_.
     andthen (sw_look (dest_get ident)) (\<lambda>dest.
     andthen (dest_remove (ds_id dest)) (\<lambda>_.
     andthen (sw_audit env ''destination_removed'' None None (''kind='' @ ds_kind dest @ '' name='' @ ds_name dest)) (\<lambda>_.
     ret dest))))"

definition destination_test :: "'d sync_env \<Rightarrow> string \<Rightarrow> ('d sync_world, string) op" where
  "destination_test env ident =
     andthen (sw_look (dest_get ident)) (\<lambda>dest.
     andthen (destination_adapter env dest) (\<lambda>_.
     andthen (attempt (remote (se_test env dest))) (\<lambda>result.
     case result of
       Inr detail \<Rightarrow> andthen (record_test (se_clock env) (ds_id dest) None) (\<lambda>_. ret detail)
     | Inl e \<Rightarrow> andthen (record_test (se_clock env) (ds_id dest) (Some (display_error e))) (\<lambda>_. throw e))))"

definition destination_delete_secret ::
    "'d sync_env \<Rightarrow> string \<Rightarrow> string \<Rightarrow> string \<Rightarrow> ('d sync_world, string) op" where
  "destination_delete_secret env ident name pw =
     andthen (sw_password env pw) (\<lambda>_.
     andthen (sw_look (dest_get ident)) (\<lambda>dest.
     andthen (destination_adapter env dest) (\<lambda>_.
     andthen (remote (se_delete env dest name)) (\<lambda>_.
     andthen (sw_audit env ''destination_secret_deleted'' None None
                (''destination '' @ ds_name dest @ '' secret '' @ name)) (\<lambda>_.
     ret (if ds_kind dest = ''aws_secrets_manager''
          then ''scheduled deletion of '' @ quoted name @
               '' with the 30-day recovery window (RestoreSecret in AWS can cancel until the deletion date)''
          else ''deleted '' @ quoted name @ '' at destination '' @ quoted (ds_name dest)))))))"

definition destination_attach ::
    "'d sync_env \<Rightarrow> string \<Rightarrow> string \<Rightarrow> string \<Rightarrow> string \<Rightarrow> ('d sync_world, unit) op" where
  "destination_attach env credential ident name environment =
     andthen (vault_read (resolve_credential credential)) (\<lambda>cred.
     andthen (sw_look (dest_get ident)) (\<lambda>dest.
     andthen (attach (cr_id cred) (ds_id dest) name environment) (\<lambda>_.
     sw_audit env ''destination_attached'' (Some (cr_project_id cred)) (Some (cr_id cred))
       (''destination='' @ ds_name dest @ '' secret='' @ name))))"

definition destination_detach ::
    "'d sync_env \<Rightarrow> string \<Rightarrow> string \<Rightarrow> string option \<Rightarrow> ('d sync_world, nat) op" where
  "destination_detach env credential ident name =
     andthen (vault_read (resolve_credential credential)) (\<lambda>cred.
     andthen (sw_look (dest_get ident)) (\<lambda>dest.
     andthen (detach (cr_id cred) (ds_id dest) name) (\<lambda>n.
     andthen (if 0 < n
              then sw_audit env ''destination_detached'' (Some (cr_project_id cred)) (Some (cr_id cred))
                     (''destination='' @ ds_name dest)
              else ret ()) (\<lambda>_.
     ret n))))"

definition destination_attachments :: "string option \<Rightarrow> ('d sync_world, attachment list) op" where
  "destination_attachments credential =
     (case credential of
        None \<Rightarrow> sw_look (\<lambda>w. Inr (all_attachments w))
      | Some selector \<Rightarrow>
          andthen (vault_read (resolve_credential selector)) (\<lambda>cred.
          sw_look (\<lambda>w. Inr (attachments_for_credential (cr_id cred) w))))"

section \<open>Planning\<close>

definition validation_for_kind :: "host_os \<Rightarrow> string \<Rightarrow> string \<times> bool" where
  "validation_for_kind os kind =
     (case kind_info os kind of
        Inl _ \<Rightarrow> (''none available'', False)
      | Inr info \<Rightarrow>
          (if dcap_read (dk_capabilities info) = DestImplemented
           then ''value read-back and fingerprint comparison''
           else if dcap_validation (dk_capabilities info) = DestImplemented
           then ''existence check (the destination never returns values)''
           else ''none available'',
           dcap_write (dk_capabilities info) = DestImplemented))"

definition list_exports :: "bool \<Rightarrow> 'd sync_world \<Rightarrow> export_row list" where
  "list_exports include_cleaned w =
     sort_desc ex_created_at (if include_cleaned then sw_exports w
       else filter (\<lambda>e. ex_cleaned_at e = None) (sw_exports w))"

definition planned_step :: "string \<Rightarrow> string \<Rightarrow> string \<Rightarrow> string \<Rightarrow> string \<Rightarrow> stored_step" where
  "planned_step did name environment action detail =
     \<lparr>ss_destination_id = did, ss_secret_name = name, ss_environment = environment, ss_action = action,
      ss_status = STEP_PLANNED, ss_detail = detail, ss_executed_at = None, ss_verified_at = None,
      ss_rolled_back_at = None\<rparr>"

definition mapped_vars :: "string \<Rightarrow> string \<Rightarrow> 'd sync_world \<Rightarrow> string list" where
  "mapped_vars cid pid w =
     map mp_env_var (filter (\<lambda>m. mp_credential_id m = cid \<and> mp_project_id m = pid) (sw_mappings w))"

definition attachment_steps :: "host_os \<Rightarrow> string \<Rightarrow> 'd sync_world \<Rightarrow> stored_step list" where
  "attachment_steps os cid w =
     map (\<lambda>a. planned_step (at_destination_id (am_row a)) (at_secret_name (am_row a)) (at_environment (am_row a))
            (if snd (validation_for_kind os (am_destination_kind a)) then ACTION_WRITE else ACTION_MANUAL) [])
       (attachments_for_credential cid w)"

definition mapping_steps :: "string \<Rightarrow> 'd sync_world \<Rightarrow> stored_step list" where
  "mapping_steps cid w =
     (let n = length (filter (\<lambda>m. mp_credential_id m = cid) (sw_mappings w)) in
      if 0 < n
      then [planned_step ''env_mapping'' (dec_of_nat n @ '' mapping(s)'') [] ACTION_NONE
              ''`tethra run` always injects the current vault value'']
      else [])"

definition export_steps :: "string \<Rightarrow> 'd sync_world \<Rightarrow> stored_step list" where
  "export_steps cid w =
     concat (map (\<lambda>e. let vars = split_on CHR '','' (ex_var_names e); mapped = mapped_vars cid (ex_project_id e) w in
       if list_ex (\<lambda>v. v \<in> set vars) mapped
       then [planned_step (''env_export:'' @ ex_id e) (join '','' mapped) [] ACTION_REEXPORT
               ''re-write the exported file with the new value'']
       else []) (list_exports False w))"

definition newest_version :: "string \<Rightarrow> vault_db \<Rightarrow> int option" where
  "newest_version cid db =
     (case map vr_version (filter (\<lambda>v. vr_credential_id v = cid) (vd_versions db)) of
        [] \<Rightarrow> None | v # vs \<Rightarrow> Some (fold max vs v))"

section \<open>The view of a plan\<close>

record sync_step =
  vs_step :: stored_step
  vs_destination_name :: string
  vs_destination_kind :: string
  vs_validation :: string
  vs_rollback_available :: bool

record sync_plan =
  vp_plan :: stored_plan
  vp_credential_name :: string
  vp_project_name :: string
  vp_from_masked :: "string option"
  vp_to_masked :: string
  vp_status :: string
  vp_affected_projects :: "string list"
  vp_manual_steps :: "string list"
  vp_steps :: "sync_step list"

definition step_place :: "'d sync_world \<Rightarrow> stored_step \<Rightarrow> string \<times> string" where
  "step_place w s =
     (case strip_prefix ''env_export:'' (ss_destination_id s) of
        Some export_id \<Rightarrow>
          (case find (\<lambda>e. ex_id e = export_id) (sw_exports w) of
             Some e \<Rightarrow> ex_path e | None \<Rightarrow> ss_destination_id s, ''env_export'')
      | None \<Rightarrow>
          if ss_destination_id s = ''env_mapping'' then (''local environment mappings'', ''env_mapping'')
          else (case dest_get (ss_destination_id s) w of
                  Inr d \<Rightarrow> (ds_name d, ds_kind d)
                | Inl _ \<Rightarrow> (ss_destination_id s @ '' (removed)'', ''removed'')))"

definition step_view :: "host_os \<Rightarrow> int option \<Rightarrow> 'd sync_world \<Rightarrow> stored_step \<Rightarrow> sync_step" where
  "step_view os from_version w s =
     (let place = step_place w s; v = validation_for_kind os (snd place) in
      \<lparr>vs_step = s, vs_destination_name = fst place, vs_destination_kind = snd place,
       vs_validation = (if ss_action s = ''none'' then ''not needed (resolved at injection time)''
          else if ss_action s = ''reexport'' then ''file content hash comparison'' else fst v),
       vs_rollback_available = (from_version \<noteq> None \<and> snd v \<and> ss_action s = ACTION_WRITE
          \<or> ss_action s = ACTION_REEXPORT \<and> from_version \<noteq> None)\<rparr>)"

text \<open>Names already listed are not repeated.\<close>

definition affected_projects :: "credential_row \<Rightarrow> project_row \<Rightarrow> vault_db \<Rightarrow> string list" where
  "affected_projects cred project db =
     fold (\<lambda>n acc. if n \<in> set acc then acc else acc @ [n])
       (concat (map (\<lambda>c. map pj_name (filter (\<lambda>p. pj_id p = cr_project_id c) (vd_projects db)))
          (filter (\<lambda>c. cr_linked_credential_id c = Some (cr_id cred)) (vd_credentials db))))
       [pj_name project]"

definition masked_version :: "string \<Rightarrow> int option \<Rightarrow> vault_db \<Rightarrow> string option" where
  "masked_version cid version db =
     Option.bind version (\<lambda>v. map_option vr_masked_value
       (find (\<lambda>r. vr_credential_id r = cid \<and> vr_version r = v) (vd_versions db)))"

definition hydrate_plan :: "'d sync_env \<Rightarrow> stored_plan \<Rightarrow> ('d sync_world, sync_plan) op" where
  "hydrate_plan env stored =
     andthen (cred_required (sp_credential_id stored)) (\<lambda>cred.
     andthen (vault_read (project_row_by_ident (cr_project_id cred))) (\<lambda>project.
     andthen (sw_look (\<lambda>w. Inr w)) (\<lambda>w.
     andthen (vault_read (value_version_of (sp_credential_id stored))) (\<lambda>current.
     ret \<lparr>vp_plan = stored, vp_credential_name = cr_name cred, vp_project_name = pj_name project,
          vp_from_masked = masked_version (sp_credential_id stored) (sp_from_version stored) (sw_vault w),
          vp_to_masked = cr_masked_value cred,
          vp_status = (if sp_status stored = PLAN_PLANNED \<and> current \<noteq> sp_to_version stored
             then PLAN_STALE else sp_status stored),
          vp_affected_projects = affected_projects cred project (sw_vault w),
          vp_manual_steps = map (\<lambda>s. ''update '' @ quoted (ss_secret_name s) @ '' at destination '' @
               quoted (fst (step_place w s)) @ '' by hand'')
             (filter (\<lambda>s. ss_action s = ACTION_MANUAL) (sp_steps stored)),
          vp_steps = map (step_view (se_os env) (sp_from_version stored) w) (sp_steps stored)\<rparr>))))"

definition sync_plan_get :: "'d sync_env \<Rightarrow> string \<Rightarrow> ('d sync_world, sync_plan) op" where
  "sync_plan_get env pid = andthen (sw_look (load_plan pid)) (hydrate_plan env)"

fun hydrate_plans :: "'d sync_env \<Rightarrow> stored_plan list \<Rightarrow> ('d sync_world, sync_plan list) op" where
  "hydrate_plans env [] = ret []"
| "hydrate_plans env (p # ps) =
     andthen (hydrate_plan env p) (\<lambda>v. andthen (hydrate_plans env ps) (\<lambda>vs. ret (v # vs)))"

definition sync_plans :: "'d sync_env \<Rightarrow> string option \<Rightarrow> nat \<Rightarrow> ('d sync_world, sync_plan list) op" where
  "sync_plans env credential limit =
     andthen (case credential of
                None \<Rightarrow> ret None
              | Some selector \<Rightarrow> andthen (vault_read (resolve_credential selector)) (\<lambda>c. ret (Some (cr_id c)))) (\<lambda>cid.
     andthen (sw_look (\<lambda>w. Inr (list_plans cid limit w))) (hydrate_plans env))"

definition sync_plan_create ::
    "'d sync_env \<Rightarrow> string \<Rightarrow> string \<Rightarrow> string \<Rightarrow> ('d sync_world, sync_plan) op" where
  "sync_plan_create env uuid credential note =
     andthen (vault_read (resolve_credential credential)) (\<lambda>cred.
     if cr_linked_credential_id cred \<noteq> None
     then throw (InvalidInput ''this record is a reference; plan against the credential it points to'')
     else
     andthen (vault_read (value_version_of (cr_id cred))) (\<lambda>to_version.
     andthen (sw_look (\<lambda>w. Inr w)) (\<lambda>w.
     let steps = attachment_steps (se_os env) (cr_id cred) w @ mapping_steps (cr_id cred) w @ export_steps (cr_id cred) w in
     andthen (insert_plan (se_clock env) uuid (cr_id cred) (newest_version (cr_id cred) (sw_vault w)) to_version note steps) (\<lambda>pid.
     andthen (sw_audit env ''sync_plan_created'' (Some (cr_project_id cred)) (Some (cr_id cred))
                (''plan='' @ pid @ '' steps='' @ dec_of_nat (length steps))) (\<lambda>_.
     sync_plan_get env pid)))))"

end
