(* ===== verification/SyncRun.thy ===== *)
theory SyncRun
  imports SyncEngine
begin

text \<open>
  Executing and rolling back a synchronization plan, rewriting an exported file, and the drift
  check, from crates/core/src/vault.rs. The steps run in the order of the loaded plan; the
  outcome of one is recorded before the next starts.
\<close>

section \<open>One step\<close>

text \<open>How a value is verified at its destination: read back, or else its existence.\<close>

definition drift_of :: "'d sync_env \<Rightarrow> destination \<Rightarrow> string \<Rightarrow> string \<Rightarrow> ('d sync_world, string) op" where
  "drift_of env dest name cred_fp =
     andthen (attempt (remote (se_read env dest name))) (\<lambda>result.
     case result of
       Inl _ \<Rightarrow> ret ''unknown''
     | Inr found \<Rightarrow>
         (if (case found of None \<Rightarrow> False | Some v \<Rightarrow> v \<noteq> [])
          then andthen (inspect (\<lambda>_. fingerprint (ve_keyed_hash (se_vault env)) (ve_fingerprint_key (se_vault env))
                          (case found of None \<Rightarrow> [] | Some v \<Rightarrow> v))) (\<lambda>fp.
               ret (if fp = cred_fp then ''in_sync'' else ''drifted''))
          else andthen (attempt (remote (se_exists env dest name))) (\<lambda>there.
               ret (case there of
                      Inr (Some True) \<Rightarrow> ''present_unverifiable''
                    | Inr (Some False) \<Rightarrow> ''missing''
                    | _ \<Rightarrow> ''unknown''))))"

text \<open>The decision on the verdict: only a match or a confirmed existence is verified.\<close>

definition write_verdict ::
    "'d sync_env \<Rightarrow> string \<Rightarrow> stored_step \<Rightarrow> string \<Rightarrow> string \<Rightarrow> ('d sync_world, string) op" where
  "write_verdict env pid step receipt drift =
     (if drift = ''in_sync'' \<or> drift = ''present_unverifiable''
      then andthen (mark_step_verified (se_clock env) pid (ss_destination_id step) (ss_secret_name step))
             (\<lambda>_. ret (receipt @ ''; verification: '' @ drift))
      else if drift = ''drifted''
      then throw (ProviderErr (''wrote '' @ quoted (ss_secret_name step) @ '' but the read-back value does not match''))
      else if drift = ''missing''
      then throw (ProviderErr (''wrote '' @ quoted (ss_secret_name step) @
             '' but the destination now reports it absent; the write did not verify''))
      else throw (ProviderErr (''wrote '' @ quoted (ss_secret_name step) @
             '' but verification could not be completed; the destination's state is UNKNOWN, not verified'')))"

text \<open>Rewriting an exported file with a value for this credential's variables.\<close>

definition rewrite_vars :: "string list \<Rightarrow> string \<Rightarrow> env_document \<Rightarrow> nat \<times> env_document" where
  "rewrite_vars vars v doc =
     fold (\<lambda>var (n, d). if document_get var d \<noteq> None then (n + 1, document_set var v d) else (n, d)) vars (0, doc)"

definition rewrite_export ::
    "'d sync_env \<Rightarrow> string \<Rightarrow> string \<Rightarrow> string \<Rightarrow> ('d sync_world, string) op" where
  "rewrite_export env export_id cid v =
     andthen (sw_look (\<lambda>w. case find (\<lambda>e. ex_id e = export_id \<and> ex_cleaned_at e = None) (sw_exports w) of
         None \<Rightarrow> Inl (NotFound ''export'' export_id) | Some e \<Rightarrow> Inr e)) (\<lambda>export.
     let path = ex_path export in
     andthen (sw_look (\<lambda>w. case sw_files w path of
         None \<Rightarrow> Inl (InvalidInput (path @ '' no longer exists; clean up the export record''))
       | Some content \<Rightarrow> Inr content)) (\<lambda>content.
     if se_hash env content \<noteq> ex_content_hash export
     then throw (InvalidInput (path @ '' changed since it was exported; refusing to rewrite it '' @ em_dash @
            '' re-export explicitly (`env export --overwrite`) if intended''))
     else
     andthen (sw_look (\<lambda>w. Inr (mapped_vars cid (ex_project_id export) w))) (\<lambda>vars.
     let (updated, doc) = rewrite_vars vars v (document_parse content); rendered = document_render doc in
     andthen (inspect (\<lambda>_. se_write_file env path rendered)) (\<lambda>_.
     andthen (change (\<lambda>w. ticked (w\<lparr>sw_files := (sw_files w)(path \<mapsto> rendered),
         sw_exports := map (\<lambda>e. if ex_id e = export_id then e\<lparr>ex_content_hash := se_hash env rendered\<rparr> else e)
           (sw_exports w)\<rparr>))) (\<lambda>_.
     ret (''re-exported '' @ dec_of_nat updated @ '' variable(s) into '' @ path))))))"

definition reexport_step ::
    "'d sync_env \<Rightarrow> stored_step \<Rightarrow> string \<Rightarrow> string \<Rightarrow> ('d sync_world, string) op" where
  "reexport_step env step cid v =
     (case strip_prefix ''env_export:'' (ss_destination_id step) of
        None \<Rightarrow> throw (VaultCorrupted ''malformed re-export step'')
      | Some export_id \<Rightarrow> rewrite_export env export_id cid v)"

definition execute_step ::
    "'d sync_env \<Rightarrow> stored_plan \<Rightarrow> stored_step \<Rightarrow> credential_row \<Rightarrow> string \<Rightarrow> ('d sync_world, string) op" where
  "execute_step env plan step cred v =
     (if ss_action step = ACTION_NONE then ret ''no write needed; mappings resolve the current value''
      else if ss_action step = ACTION_MANUAL
      then throw (Unsupported (ss_destination_id step) ''write'' ''this step must be performed by hand'')
      else if ss_action step = ACTION_REEXPORT then reexport_step env step (cr_id cred) v
      else if ss_action step = ACTION_WRITE then
        andthen (sw_look (dest_get (ss_destination_id step))) (\<lambda>dest.
        andthen (destination_adapter env dest) (\<lambda>_.
        andthen (remote (se_write env dest (ss_secret_name step) v)) (\<lambda>receipt.
        andthen (drift_of env dest (ss_secret_name step) (cr_fingerprint cred)) (\<lambda>drift.
        andthen (record_sync (se_clock env) (cr_id cred) (ds_id dest) (ss_secret_name step) (sp_to_version plan) drift) (\<lambda>_.
        write_verdict env (sp_id plan) step receipt drift)))))
      else throw (InvalidInput (''unknown step action '' @ quoted (ss_action step))))"

section \<open>Executing a plan\<close>

definition step_selected :: "string option \<Rightarrow> stored_step \<Rightarrow> 'd sync_world \<Rightarrow> bool" where
  "step_selected only step w \<longleftrightarrow>
     (case only of
        None \<Rightarrow> True
      | Some o1 \<Rightarrow> ss_destination_id step = o1
          \<or> (case dest_get (ss_destination_id step) w of
               Inr d \<Rightarrow> eq_ignore_ascii_case (ds_name d) o1 | Inl _ \<Rightarrow> False))"

definition note_step :: "'d sync_env \<Rightarrow> string \<Rightarrow> stored_step \<Rightarrow> string \<Rightarrow> string \<Rightarrow> ('d sync_world, unit) op" where
  "note_step env pid step status detail =
     update_step (se_clock env) pid (ss_destination_id step) (ss_secret_name step) status detail"

definition run_step ::
    "'d sync_env \<Rightarrow> stored_plan \<Rightarrow> string option \<Rightarrow> credential_row \<Rightarrow> string \<Rightarrow> stored_step \<Rightarrow> ('d sync_world, unit) op" where
  "run_step env plan only cred v step =
     andthen (sw_look (\<lambda>w. Inr (step_selected only step w))) (\<lambda>selected.
     if \<not> selected then ret ()
     else if ss_status step \<noteq> STEP_PLANNED \<and> ss_status step \<noteq> STEP_FAILED then ret ()
     else if ss_action step = ACTION_MANUAL
     then note_step env (sp_id plan) step STEP_SKIPPED
            (''manual step '' @ em_dash @ '' perform it by hand, then verify with `destination drift`'')
     else
     andthen (attempt (execute_step env plan step cred v)) (\<lambda>outcome.
     case outcome of
       Inr detail \<Rightarrow> note_step env (sp_id plan) step STEP_EXECUTED detail
     | Inl e \<Rightarrow> note_step env (sp_id plan) step STEP_FAILED (display_error e)))"

fun each_step :: "(stored_step \<Rightarrow> ('d sync_world, unit) op) \<Rightarrow> stored_step list \<Rightarrow> ('d sync_world, unit) op" where
  "each_step f [] = ret ()"
| "each_step f (s # steps) = andthen (f s) (\<lambda>_. each_step f steps)"

definition executed_status :: "stored_plan \<Rightarrow> string" where
  "executed_status plan =
     (if list_ex (\<lambda>s. ss_status s = STEP_FAILED) (sp_steps plan) then PLAN_PARTIAL
      else if list_all (\<lambda>s. ss_status s = STEP_EXECUTED \<or> ss_status s = STEP_SKIPPED) (sp_steps plan)
      then PLAN_EXECUTED else PLAN_PLANNED)"

definition sync_plan_execute ::
    "'d sync_env \<Rightarrow> string \<Rightarrow> string option \<Rightarrow> string \<Rightarrow> ('d sync_world, sync_plan) op" where
  "sync_plan_execute env pid only pw =
     andthen (sw_password env pw) (\<lambda>_.
     andthen (sw_look (load_plan pid)) (\<lambda>stored.
     andthen (vault_read (value_version_of (sp_credential_id stored))) (\<lambda>current.
     if current \<noteq> sp_to_version stored
     then andthen (update_plan_status pid PLAN_STALE) (\<lambda>_.
          throw (InvalidInput (''the credential changed since this plan was created (now v'' @ dec_of_int current @
            '', plan targets v'' @ dec_of_int (sp_to_version stored) @ ''); generate a new plan'')))
     else
     andthen (vault_read (decrypt_credential_version (se_vault env) (sp_credential_id stored) (sp_to_version stored))) (\<lambda>v.
     andthen (cred_required (sp_credential_id stored)) (\<lambda>cred.
     andthen (each_step (run_step env stored only cred v) (sp_steps stored)) (\<lambda>_.
     andthen (sw_look (load_plan pid)) (\<lambda>refreshed.
     let status = executed_status refreshed in
     andthen (update_plan_status pid status) (\<lambda>_.
     andthen (sw_audit env ''sync_plan_executed'' (Some (cr_project_id cred)) (Some (cr_id cred))
                (''plan='' @ pid @ '' status='' @ status)) (\<lambda>_.
     sync_plan_get env pid)))))))))"

section \<open>Rolling a plan back\<close>

text \<open>
  The action of one executed step, as a result that is recorded (the outer result is an error
  that ends the whole rollback, as the question marks of the write arm do).
\<close>

definition undo_step ::
    "'d sync_env \<Rightarrow> stored_step \<Rightarrow> credential_row \<Rightarrow> int \<Rightarrow> string \<Rightarrow> ('d sync_world, string res) op" where
  "undo_step env step cred from_version old_value =
     (if ss_action step = ACTION_WRITE then
        andthen (sw_look (dest_get (ss_destination_id step))) (\<lambda>dest.
        andthen (destination_adapter env dest) (\<lambda>_.
        andthen (remote (se_write env dest (ss_secret_name step) old_value)) (\<lambda>receipt.
        andthen (record_sync (se_clock env) (cr_id cred) (ds_id dest) (ss_secret_name step) from_version ''rolled_back'') (\<lambda>_.
        ret (Inr receipt)))))
      else if ss_action step = ACTION_REEXPORT then
        (case strip_prefix ''env_export:'' (ss_destination_id step) of
           None \<Rightarrow> throw (VaultCorrupted ''malformed re-export step'')
         | Some export_id \<Rightarrow> attempt (rewrite_export env export_id (cr_id cred) old_value))
      else ret (Inr ''nothing to roll back''))"

fun undo_steps ::
    "'d sync_env \<Rightarrow> stored_plan \<Rightarrow> string option \<Rightarrow> credential_row \<Rightarrow> int \<Rightarrow> string \<Rightarrow> stored_step list \<Rightarrow> bool
       \<Rightarrow> ('d sync_world, bool) op" where
  "undo_steps env plan only cred from_version old_value [] any = ret any"
| "undo_steps env plan only cred from_version old_value (step # steps) any =
     andthen (sw_look (\<lambda>w. Inr (step_selected only step w))) (\<lambda>selected.
     if \<not> selected \<or> ss_status step \<noteq> STEP_EXECUTED
     then undo_steps env plan only cred from_version old_value steps any
     else
     andthen (undo_step env step cred from_version old_value) (\<lambda>outcome.
     andthen (case outcome of
         Inr detail \<Rightarrow> note_step env (sp_id plan) step STEP_ROLLED_BACK
           (''rolled back to v'' @ dec_of_int from_version @ '': '' @ detail)
       | Inl e \<Rightarrow> note_step env (sp_id plan) step STEP_FAILED (''rollback failed: '' @ display_error e)) (\<lambda>_.
     undo_steps env plan only cred from_version old_value steps (any \<or> \<not> isl outcome))))"

definition sync_plan_rollback ::
    "'d sync_env \<Rightarrow> string \<Rightarrow> string option \<Rightarrow> string \<Rightarrow> ('d sync_world, sync_plan) op" where
  "sync_plan_rollback env pid only pw =
     andthen (sw_password env pw) (\<lambda>_.
     andthen (sw_look (load_plan pid)) (\<lambda>stored.
     case sp_from_version stored of
       None \<Rightarrow> throw (InvalidInput ''this plan has no previous version to roll back to'')
     | Some from_version \<Rightarrow>
     andthen (vault_read (decrypt_credential_version (se_vault env) (sp_credential_id stored) from_version)) (\<lambda>old_value.
     andthen (cred_required (sp_credential_id stored)) (\<lambda>cred.
     andthen (undo_steps env stored only cred from_version old_value (sp_steps stored) False) (\<lambda>any.
     if \<not> any
     then throw (InvalidInput (''no executed step matched '' @ em_dash @
            '' nothing was rolled back (check the --destination filter and step statuses)''))
     else
     andthen (update_plan_status pid PLAN_ROLLED_BACK) (\<lambda>_.
     andthen (sw_audit env ''sync_plan_rolled_back'' (Some (cr_project_id cred)) (Some (cr_id cred))
                (''plan='' @ pid @ '' to_version='' @ dec_of_int from_version)) (\<lambda>_.
     sync_plan_get env pid)))))))"

section \<open>The drift check\<close>

text \<open>What is known of the attachments that could not be checked, by key.\<close>

definition check_one ::
    "'d sync_env \<Rightarrow> attachment \<Rightarrow> ('d sync_world, string option) op" where
  "check_one env a =
     (let row = am_row a in
      andthen (attempt (sw_look (dest_get (at_destination_id row)))) (\<lambda>found.
      case found of
        Inl e \<Rightarrow> ret (Some (''destination unavailable: '' @ display_error e))
      | Inr dest \<Rightarrow>
        andthen (attempt (destination_adapter env dest)) (\<lambda>adapter.
        case adapter of
          Inl e \<Rightarrow> ret (Some (''cannot construct adapter: '' @ display_error e))
        | Inr _ \<Rightarrow>
          andthen (vault_read (\<lambda>db. case credential_row_by_id (at_credential_id row) db of
              None \<Rightarrow> Inl (DbErr ''Query returned no rows'') | Some c \<Rightarrow> Inr (cr_fingerprint c))) (\<lambda>fp.
          andthen (drift_of env dest (at_secret_name row) fp) (\<lambda>drift.
          andthen (record_verify (se_clock env) (at_credential_id row) (at_destination_id row) (at_secret_name row) drift) (\<lambda>_.
          ret None))))))"

fun check_each ::
    "'d sync_env \<Rightarrow> attachment list \<Rightarrow> ('d sync_world, ((string \<times> string \<times> string) \<times> string) list) op" where
  "check_each env [] = ret []"
| "check_each env (a # as) =
     andthen (check_one env a) (\<lambda>skipped.
     andthen (check_each env as) (\<lambda>rest.
     ret ((case skipped of None \<Rightarrow> [] | Some why \<Rightarrow> [(at_key (am_row a), why)]) @ rest)))"

record drift_outcome =
  do_attachment :: attachment
  do_checked :: bool
  do_check_error :: "string option"

definition destination_drift_check ::
    "'d sync_env \<Rightarrow> string option \<Rightarrow> ('d sync_world, drift_outcome list) op" where
  "destination_drift_check env credential =
     andthen (destination_attachments credential) (\<lambda>attachments.
     andthen (check_each env attachments) (\<lambda>skipped.
     andthen (destination_attachments credential) (\<lambda>refreshed.
     ret (map (\<lambda>a. let err = map_of (rev skipped) (at_key (am_row a)) in
       \<lparr>do_attachment = a, do_checked = (err = None), do_check_error = err\<rparr>) refreshed))))"

end
