(* ===== verification/SyncSound.thy ===== *)
theory SyncSound
  imports SyncRun "HOL-Library.Sublist"
begin

text \<open>
  What the operations of the synchronization engine keep of the stored plans: a plan's identity,
  versions and the keys and actions of its steps never change, and a write step is recorded as
  executed only once its verification has confirmed the write. The statements are carried by the
  interface of evolutions, with the conditions that only look at the stored plans.
\<close>

section \<open>The invariant\<close>

definition step_shape :: "stored_step \<Rightarrow> (string \<times> string) \<times> string" where
  "step_shape s = (step_key s, ss_action s)"

definition plan_shape :: "stored_plan \<Rightarrow> string \<times> string \<times> int option \<times> int \<times> ((string \<times> string) \<times> string) list" where
  "plan_shape p = (sp_id p, sp_credential_id p, sp_from_version p, sp_to_version p, map step_shape (sp_steps p))"

definition confirmed_detail :: "string \<Rightarrow> bool" where
  "confirmed_detail d \<longleftrightarrow> suffix ''; verification: in_sync'' d \<or> suffix ''; verification: present_unverifiable'' d"

definition step_confirmed :: "stored_step \<Rightarrow> bool" where
  "step_confirmed s \<longleftrightarrow> (ss_action s = ACTION_WRITE \<longrightarrow> ss_status s = STEP_EXECUTED \<longrightarrow>
     ss_verified_at s \<noteq> None \<and> confirmed_detail (ss_detail s))"

definition plans_sound :: "stored_plan list \<Rightarrow> bool" where
  "plans_sound ps \<longleftrightarrow> distinct (map sp_id ps)
     \<and> (\<forall>p \<in> set ps. distinct (map step_key (sp_steps p)) \<and> (\<forall>s \<in> set (sp_steps p). step_confirmed s))"

definition plans_evolve :: "'d sync_world \<Rightarrow> 'd sync_world \<Rightarrow> bool" where
  "plans_evolve w w' \<longleftrightarrow> prefix (map plan_shape (sw_plans w)) (map plan_shape (sw_plans w'))
     \<and> (plans_sound (sw_plans w) \<longrightarrow> plans_sound (sw_plans w'))"

interpretation plans: evolution plans_evolve
  by unfold_locales (auto simp: plans_evolve_def intro: prefix_order.trans)

lemma plans_evolve_same: "sw_plans w' = sw_plans w \<Longrightarrow> plans_evolve w w'"
  by (simp add: plans_evolve_def)

section \<open>Operations that leave the plans alone\<close>

definition plan_free :: "('d sync_world, 'a) op \<Rightarrow> bool" where
  "plan_free m \<longleftrightarrow> (\<forall>w. sw_plans (snd (m w)) = sw_plans w)"

named_theorems plan_rules \<open>operations that leave the stored plans alone\<close>

lemma plan_free_basic [plan_rules]:
  "plan_free (ret a)" "plan_free (throw e)" "plan_free (inspect f)" "plan_free (sw_look g)"
  "plan_free (vault_read h)" "plan_free (on_vault m)" "plan_free (remote k)" "plan_free (sw_password env pw)"
  by (auto simp: plan_free_def ret_def throw_def inspect_def sw_look_def vault_read_def on_vault_def
      remote_def sw_password_def split: prod.split)

lemma plan_free_andthen [plan_rules]:
  "plan_free m \<Longrightarrow> (\<And>a. plan_free (f a)) \<Longrightarrow> plan_free (andthen m f)"
  by (simp add: plan_free_def andthen_def split: prod.split sum.split) (metis snd_conv)

lemma plan_free_attempt [plan_rules]: "plan_free m \<Longrightarrow> plan_free (attempt m)"
  by (simp add: plan_free_def attempt_def split: prod.split) (metis snd_conv)

lemma plan_free_change [plan_rules]: "(\<And>w. sw_plans (f w) = sw_plans w) \<Longrightarrow> plan_free (change f)"
  by (simp add: plan_free_def change_def)

lemma plan_free_if [plan_rules]: "plan_free m \<Longrightarrow> plan_free m' \<Longrightarrow> plan_free (if c then m else m')"
  by simp

lemma plan_free_option [plan_rules]:
  "plan_free m \<Longrightarrow> (\<And>a. plan_free (f a)) \<Longrightarrow> plan_free (case x of None \<Rightarrow> m | Some a \<Rightarrow> f a)"
  by (cases x) simp_all

lemma plan_free_sum [plan_rules]:
  "(\<And>e. plan_free (g e)) \<Longrightarrow> (\<And>a. plan_free (f a)) \<Longrightarrow> plan_free (case x of Inl e \<Rightarrow> g e | Inr a \<Rightarrow> f a)"
  by (cases x) simp_all

lemma plan_free_pair [plan_rules]:
  "(\<And>a b. plan_free (f a b)) \<Longrightarrow> plan_free (case x of (a, b) \<Rightarrow> f a b)"
  by (cases x) simp

lemma plan_free_rows [plan_rules]:
  "plan_free (dest_insert clk os uuid kind name config auth masked)" "plan_free (dest_remove did)"
  "plan_free (record_test clk did err)" "plan_free (attach cid did name environment)"
  "plan_free (detach cid did nm)" "plan_free (record_sync clk cid did name version drift)"
  "plan_free (record_verify clk cid did name drift)" "plan_free (sw_audit env event pid cid' detail)"
  by (auto simp: plan_free_def dest_insert_def dest_remove_def record_test_def attach_def detach_def
      record_sync_def record_verify_def sw_audit_def on_vault_def update_attachment_def ticked_def Let_def
      split: sum.split prod.split)

lemma plan_free_ticked [simp]: "sw_plans (ticked w) = sw_plans w"
  by (simp add: ticked_def)

lemma plan_free_cred_required [plan_rules]: "plan_free (cred_required cid)"
  unfolding cred_required_def by (intro plan_rules)

lemma plan_free_destination_adapter [plan_rules]: "plan_free (destination_adapter env dest)"
  unfolding destination_adapter_def by (intro plan_rules)

lemma plan_free_drift_of [plan_rules]: "plan_free (drift_of env dest name fp)"
  unfolding drift_of_def by (intro plan_rules)

lemma plan_free_rewrite_export [plan_rules]: "plan_free (rewrite_export env export_id cid v)"
  unfolding rewrite_export_def Let_def by (intro plan_rules) simp

lemma plan_free_destination_attachments [plan_rules]: "plan_free (destination_attachments credential)"
  unfolding destination_attachments_def by (intro plan_rules)

lemma plan_free_hydrate [plan_rules]: "plan_free (hydrate_plan env p)" "plan_free (sync_plan_get env pid)"
  unfolding hydrate_plan_def sync_plan_get_def by (intro plan_rules)+

lemma plan_free_destination_operations [plan_rules]:
  "plan_free (destination_add env uuid kind name config auth)" "plan_free (destination_remove env ident pw)"
  "plan_free (destination_test env ident)" "plan_free (destination_delete_secret env ident name pw)"
  "plan_free (destination_attach env credential ident name environment)"
  "plan_free (destination_detach env credential ident nm)"
  unfolding destination_add_def destination_remove_def destination_test_def destination_delete_secret_def
    destination_attach_def destination_detach_def Let_def
  by (intro plan_rules; simp)+

lemma plan_free_check_each: "plan_free (check_each env as)"
  by (induction as) (auto simp: check_one_def Let_def intro!: plan_rules)

lemma plan_free_drift_check [plan_rules]: "plan_free (destination_drift_check env credential)"
  unfolding destination_drift_check_def by (intro plan_rules plan_free_check_each)

section \<open>Operations on the plans\<close>

text \<open>The conditions carried from statement to statement look at the stored plans only.\<close>

definition upholds ::
    "(stored_plan list \<Rightarrow> bool) \<Rightarrow> ('d sync_world, 'a) op \<Rightarrow> ('a \<Rightarrow> stored_plan list \<Rightarrow> bool) \<Rightarrow> bool" where
  "upholds K m J \<longleftrightarrow> guards plans_evolve (\<lambda>w. K (sw_plans w)) m (\<lambda>a w. J a (sw_plans w))"

abbreviation harmless :: "(stored_plan list \<Rightarrow> bool) \<Rightarrow> ('d sync_world, 'a) op \<Rightarrow> bool" where
  "harmless K m \<equiv> upholds K m (\<lambda>_. K)"

lemma upholds_free: "plan_free m \<Longrightarrow> harmless K m"
  unfolding upholds_def by (rule guardsI) (simp_all add: plan_free_def plans_evolve_same)

lemma upholds_seq: "upholds K m Q \<Longrightarrow> (\<And>a. upholds (Q a) (f a) J) \<Longrightarrow> upholds K (andthen m f) J"
  unfolding upholds_def by (rule plans.guards_seq [where Q = "\<lambda>a w. Q a (sw_plans w)"])

lemma upholds_weaken:
  "upholds K' m J' \<Longrightarrow> (\<And>ps. K ps \<Longrightarrow> K' ps) \<Longrightarrow> (\<And>a ps. J' a ps \<Longrightarrow> J a ps) \<Longrightarrow> upholds K m J"
  unfolding upholds_def by (erule guards_weaken) simp_all

lemma upholds_first: "plan_free m \<Longrightarrow> (\<And>a. upholds K (f a) J) \<Longrightarrow> upholds K (andthen m f) J"
  by (rule upholds_seq [OF upholds_free])

lemma upholds_throw: "upholds K (throw e) J"
  unfolding upholds_def by (rule plans.guards_throw)

lemma upholds_ret: "(\<And>ps. K ps \<Longrightarrow> J a ps) \<Longrightarrow> upholds K (ret a) J"
  unfolding upholds_def by (rule plans.guards_ret_any) simp

lemma upholds_if: "(c \<Longrightarrow> upholds K m J) \<Longrightarrow> (\<not> c \<Longrightarrow> upholds K m' J) \<Longrightarrow> upholds K (if c then m else m') J"
  by simp

lemma upholds_evolves: "upholds K m J \<Longrightarrow> K (sw_plans w) \<Longrightarrow> plans_evolve w (snd (m w))"
  unfolding upholds_def by (erule guards_step)

text \<open>What is known of a step that was read from a stored plan.\<close>

definition in_plan :: "string \<Rightarrow> stored_step \<Rightarrow> stored_plan list \<Rightarrow> bool" where
  "in_plan pid step ps \<longleftrightarrow> (\<exists>p \<in> set ps. sp_id p = pid \<and> step_shape step \<in> step_shape ` set (sp_steps p))"

definition marked :: "string \<Rightarrow> stored_step \<Rightarrow> stored_plan list \<Rightarrow> bool" where
  "marked pid step ps \<longleftrightarrow> (\<forall>p \<in> set ps. sp_id p = pid \<longrightarrow>
     (\<forall>s \<in> set (sp_steps p). step_key s = step_key step \<longrightarrow> ss_verified_at s \<noteq> None))"

lemma in_plan_shape:
  "in_plan pid step ps \<longleftrightarrow>
     (\<exists>q \<in> set (map plan_shape ps). fst q = pid \<and> step_shape step \<in> set (snd (snd (snd (snd q)))))"
  by (auto simp: in_plan_def plan_shape_def)

lemma in_plan_stays: "plans_evolve w w' \<Longrightarrow> in_plan pid step (sw_plans w) \<Longrightarrow> in_plan pid step (sw_plans w')"
  unfolding in_plan_shape plans_evolve_def by (meson set_mono_prefix subsetD)

lemma upholds_in_plan:
  assumes "upholds K m (\<lambda>_ _. True)"
  shows "upholds (\<lambda>ps. K ps \<and> list_all (\<lambda>s. in_plan pid s ps) steps) m (\<lambda>_ ps. list_all (\<lambda>s. in_plan pid s ps) steps)"
  using assms unfolding upholds_def guards_def list_all_iff by (blast intro: in_plan_stays)

text \<open>The key of a step determines its action, in a sound list of plans.\<close>

lemma same_action:
  assumes "plans_sound ps" "in_plan pid step ps" "p \<in> set ps" "sp_id p = pid" "s \<in> set (sp_steps p)"
    and "step_key s = step_key step"
  shows "ss_action s = ss_action step"
proof -
  from assms(2) obtain q t where q: "q \<in> set ps" "sp_id q = pid" "t \<in> set (sp_steps q)"
    and t: "step_key t = step_key step" "ss_action t = ss_action step" by (auto simp: in_plan_def step_shape_def)
  from assms(1,3,4) q have "q = p" by (auto simp: plans_sound_def distinct_map dest: inj_onD)
  from assms(1,3) have "inj_on step_key (set (sp_steps p))" by (simp add: plans_sound_def distinct_map)
  then have "t = s" by (rule inj_onD) (use assms(5,6) q t \<open>q = p\<close> in simp_all)
  with t show ?thesis by simp
qed

lemma change_step_evolves:
  assumes shape: "\<And>s. step_shape (f s) = step_shape s"
    and ok: "\<And>p s. \<lbrakk>plans_sound (sw_plans w); p \<in> set (sw_plans w); sp_id p = pid; s \<in> set (sp_steps p);
      step_key s = key\<rbrakk> \<Longrightarrow> step_confirmed (f s)"
  shows "plans_evolve w (change_step pid key f w)"
proof -
  define g where "g p = (if sp_id p = pid
    then p\<lparr>sp_steps := map (\<lambda>s. if step_key s = key then f s else s) (sp_steps p)\<rparr> else p)" for p :: stored_plan
  have plans: "sw_plans (change_step pid key f w) = map g (sw_plans w)"
    by (simp add: change_step_def ticked_def g_def)
  have keys: "step_key (f s) = step_key s" for s using shape [of s] by (simp add: step_shape_def)
  have same: "plan_shape (g p) = plan_shape p" for p by (auto simp: plan_shape_def g_def shape)
  have ids: "sp_id (g p) = sp_id p" for p by (simp add: g_def)
  have step_keys: "map step_key (sp_steps (g p)) = map step_key (sp_steps p)" for p
    by (auto simp: g_def keys)
  have "step_confirmed s" if "plans_sound (sw_plans w)" "p \<in> set (sw_plans w)" "s \<in> set (sp_steps (g p))" for p s
    using that ok [of p] by (auto simp: plans_sound_def g_def split: if_splits)
  then have "plans_sound (sw_plans w) \<Longrightarrow> plans_sound (map g (sw_plans w))"
    by (auto simp: plans_sound_def o_def ids step_keys)
  then show ?thesis by (simp add: plans_evolve_def plans o_def same)
qed

text \<open>The statements that write a plan.\<close>

lemma upholds_note_unexecuted:
  assumes "status \<noteq> STEP_EXECUTED"
  shows "upholds K (note_step env pid step status detail) (\<lambda>_ _. True)"
  unfolding upholds_def
  by (rule guardsI) (auto simp: note_step_def update_step_def Let_def step_shape_def step_key_def
      step_confirmed_def assms intro!: change_step_evolves)

lemma upholds_note_executed:
  fixes env :: "'d sync_env"
  assumes "ss_action step = ACTION_WRITE \<Longrightarrow> confirmed_detail detail"
  shows "upholds (\<lambda>ps. in_plan pid step ps \<and> (ss_action step = ACTION_WRITE \<longrightarrow> marked pid step ps))
     (note_step env pid step STEP_EXECUTED detail) (\<lambda>_ _. True)"
  unfolding upholds_def
proof (rule guardsI)
  fix w :: "'d sync_world"
  assume P: "in_plan pid step (sw_plans w) \<and> (ss_action step = ACTION_WRITE \<longrightarrow> marked pid step (sw_plans w))"
  have "step_confirmed (s\<lparr>ss_status := STEP_EXECUTED, ss_detail := detail, ss_executed_at := t\<rparr>)"
    if "plans_sound (sw_plans w)" "p \<in> set (sw_plans w)" "sp_id p = pid" "s \<in> set (sp_steps p)"
      "step_key s = step_key step" for p s t
    using same_action [OF that(1) _ that(2-5)] P that assms by (auto simp: step_confirmed_def marked_def)
  then show "plans_evolve w (snd (note_step env pid step STEP_EXECUTED detail w))"
    by (auto simp: note_step_def update_step_def Let_def step_shape_def step_key_def plan_constants
        intro!: change_step_evolves)
qed simp

lemma marked_change:
  "marked pid step (sw_plans (change_step pid (step_key step) (\<lambda>s. s\<lparr>ss_verified_at := Some t\<rparr>) w))"
proof -
  define h where "h s = (if step_key s = step_key step then s\<lparr>ss_verified_at := Some t\<rparr> else s)" for s :: stored_step
  define g where "g p = (if sp_id p = pid then p\<lparr>sp_steps := map h (sp_steps p)\<rparr> else p)" for p :: stored_plan
  have ids: "sp_id (g p) = sp_id p" for p by (simp add: g_def)
  have keys: "step_key (h s) = step_key s" for s by (simp add: h_def step_key_def)
  have "ss_verified_at (h s) \<noteq> None" if "step_key s = step_key step" for s using that by (simp add: h_def)
  then have "marked pid step (map g (sw_plans w))"
    by (simp add: marked_def ids) (simp add: g_def keys)
  moreover have "sw_plans (change_step pid (step_key step) (\<lambda>s. s\<lparr>ss_verified_at := Some t\<rparr>) w) = map g (sw_plans w)"
    by (simp add: change_step_def g_def h_def)
  ultimately show ?thesis by (simp only:)
qed

lemma upholds_mark_verified:
  "upholds K (mark_step_verified clk pid (ss_destination_id step) (ss_secret_name step)) (\<lambda>_. marked pid step)"
  unfolding upholds_def mark_step_verified_def Let_def
proof (rule guardsI, unfold step_key_def [symmetric])
  fix w :: "'a sync_world"
  show "plans_evolve w (snd (Inr (), change_step pid (step_key step) (\<lambda>s. s\<lparr>ss_verified_at := Some (sw_now clk w)\<rparr>) w))"
    by (auto simp: step_shape_def step_key_def step_confirmed_def plans_sound_def intro!: change_step_evolves)
  show "marked pid step (sw_plans (snd (Inr (), change_step pid (step_key step) (\<lambda>s. s\<lparr>ss_verified_at := Some (sw_now clk w)\<rparr>) w)))"
    using marked_change by simp
qed

lemma upholds_plan_status: "upholds K (update_plan_status pid status) (\<lambda>_ _. True)"
  unfolding upholds_def
proof (rule guardsI)
  fix w :: "'a sync_world"
  define g where "g p = (if sp_id p = pid then p\<lparr>sp_status := status\<rparr> else p)" for p :: stored_plan
  have "plan_shape (g p) = plan_shape p" "sp_id (g p) = sp_id p" "sp_steps (g p) = sp_steps p" for p
    by (simp_all add: g_def plan_shape_def)
  moreover have "sw_plans (snd (update_plan_status pid status w)) = map g (sw_plans w)"
    by (simp add: update_plan_status_def ticked_def g_def)
  ultimately show "plans_evolve w (snd (update_plan_status pid status w))"
    by (simp add: plans_evolve_def plans_sound_def o_def)
qed simp

lemma action_neq: "ACTION_WRITE \<noteq> ACTION_NONE" "ACTION_WRITE \<noteq> ACTION_MANUAL" "ACTION_WRITE \<noteq> ACTION_REEXPORT"
  by (simp_all add: plan_constants)

text \<open>Executing one step: a write that returns has its step marked, and says how it was confirmed.\<close>

lemma confirmed_detail_verdict:
  "drift = ''in_sync'' \<or> drift = ''present_unverifiable'' \<Longrightarrow> confirmed_detail (receipt @ ''; verification: '' @ drift)"
  by (auto simp: confirmed_detail_def suffix_def)

lemma upholds_write_verdict:
  "upholds K (write_verdict env pid step receipt drift) (\<lambda>detail ps. confirmed_detail detail \<and> marked pid step ps)"
  unfolding write_verdict_def
  by (intro upholds_if upholds_throw upholds_seq [OF upholds_mark_verified] upholds_ret conjI
      confirmed_detail_verdict)

lemma upholds_execute_step:
  "upholds K (execute_step env plan step cred v)
     (\<lambda>detail ps. ss_action step = ACTION_WRITE \<longrightarrow> confirmed_detail detail \<and> marked (sp_id plan) step ps)"
proof (cases "ss_action step = ACTION_WRITE")
  case True
  have "upholds K (execute_step env plan step cred v) (\<lambda>detail ps. confirmed_detail detail \<and> marked (sp_id plan) step ps)"
    unfolding execute_step_def
    by (intro upholds_if upholds_first upholds_write_verdict plan_rules upholds_throw)
      (simp_all add: True action_neq)
  then show ?thesis by (rule upholds_weaken) simp_all
next
  case False
  have "harmless K (execute_step env plan step cred v)"
    unfolding execute_step_def reexport_step_def if_not_P [OF False] by (intro upholds_free plan_rules)
  then show ?thesis by (rule upholds_weaken) (simp_all add: False)
qed

section \<open>The operations\<close>

abbreviation known :: "string \<Rightarrow> stored_step list \<Rightarrow> stored_plan list \<Rightarrow> bool" where
  "known pid steps ps \<equiv> list_all (\<lambda>s. in_plan pid s ps) steps"

lemma known_stays: "plans_evolve w w' \<Longrightarrow> known pid steps (sw_plans w) \<Longrightarrow> known pid steps (sw_plans w')"
  by (auto simp: list_all_iff intro: in_plan_stays)

lemma upholds_known: "upholds (known pid steps) m (\<lambda>_ _. True) \<Longrightarrow> harmless (known pid steps) m"
  unfolding upholds_def guards_def by (blast intro: known_stays)

lemma upholds_run_step:
  "upholds (\<lambda>ps. in_plan (sp_id plan) step ps) (run_step env plan only cred v step) (\<lambda>_ _. True)"
proof -
  let ?K = "\<lambda>ps. in_plan (sp_id plan) step ps"
  have run: "upholds ?K (attempt (execute_step env plan step cred v)) (\<lambda>r ps. ?K ps \<and>
      (\<forall>detail. r = Inr detail \<longrightarrow> ss_action step = ACTION_WRITE \<longrightarrow> confirmed_detail detail \<and> marked (sp_id plan) step ps))"
    using plans.guards_attempt [OF upholds_execute_step [unfolded upholds_def], of ?K]
    unfolding upholds_def guards_def by (blast intro: in_plan_stays)
  have written: "upholds (\<lambda>ps. ?K ps \<and> (\<forall>detail. r = Inr detail \<longrightarrow> ss_action step = ACTION_WRITE \<longrightarrow>
        confirmed_detail detail \<and> marked (sp_id plan) step ps))
      (case r of Inr detail \<Rightarrow> note_step env (sp_id plan) step STEP_EXECUTED detail
        | Inl e \<Rightarrow> note_step env (sp_id plan) step STEP_FAILED (display_error e)) (\<lambda>_ _. True)" for r
  proof (cases r)
    case (Inl e)
    then show ?thesis by (simp add: upholds_note_unexecuted plan_constants)
  next
    case (Inr detail)
    show ?thesis
    proof (cases "ss_action step = ACTION_WRITE \<and> \<not> confirmed_detail detail")
      case True
      with Inr show ?thesis by (simp add: upholds_def guards_def)
    next
      case False
      then have "ss_action step = ACTION_WRITE \<Longrightarrow> confirmed_detail detail" by simp
      from upholds_note_executed [OF this] Inr show ?thesis
        by simp (rule upholds_weaken, assumption, simp_all)
    qed
  qed
  show ?thesis
    unfolding run_step_def
    by (intro upholds_first plan_rules upholds_if upholds_note_unexecuted upholds_seq [OF run] written upholds_ret)
      (simp_all add: plan_constants)
qed

lemma upholds_each_step:
  assumes "\<And>s. s \<in> set steps \<Longrightarrow> upholds (known pid all) (f s) (\<lambda>_ _. True)"
  shows "harmless (known pid all) (each_step f steps)"
  using assms
proof (induction steps)
  case (Cons s steps)
  then show ?case by (auto intro!: upholds_seq [OF upholds_known])
qed (simp add: upholds_ret)

lemma upholds_load: "upholds K (sw_look (load_plan pid)) (\<lambda>stored ps. sp_id stored = pid \<and> known pid (sp_steps stored) ps)"
  unfolding upholds_def sw_look_def
  by (rule guards_weaken [OF plans.guards_inspect [where P = "\<lambda>_. True"]])
    (auto simp: load_plan_def list_all_iff in_plan_def find_Some_iff split: option.splits)

end
