(* ===== verification/SyncHistory.thy ===== *)
theory SyncHistory
  imports SyncSound
begin

text \<open>
  Histories of the synchronization engine: plans are made, executed and rolled back, destinations
  come and go, and everything that is not a stored plan may change between the steps. Each step
  moves the plans along their evolution.
\<close>

section \<open>Plan operations\<close>

lemma upholds_any: "upholds K m J \<Longrightarrow> upholds K m (\<lambda>_ _. True)"
  by (erule upholds_weaken) simp_all

lemma upholds_known_one: "s \<in> set steps \<Longrightarrow> upholds (in_plan pid s) m J \<Longrightarrow> upholds (known pid steps) m J"
  by (erule upholds_weaken [where K' = "in_plan pid s"]) (simp_all add: list_all_iff)

lemma upholds_next: "upholds K m (\<lambda>_ _. True) \<Longrightarrow> (\<And>a. upholds (\<lambda>_. True) (f a) J) \<Longrightarrow> upholds K (andthen m f) J"
  by (rule upholds_seq)

lemma upholds_plan_get: "upholds K (sync_plan_get env pid) (\<lambda>_ _. True)"
  by (rule upholds_any [OF upholds_free [OF plan_free_hydrate(2)]])

text \<open>Sequences that begin with an operation which leaves the plans alone.\<close>

lemma plan_free_undo_step [plan_rules]: "plan_free (undo_step env step cred from_version old_value)"
  unfolding undo_step_def by (intro plan_rules)

lemmas firsts = upholds_first [OF plan_free_basic(4)] upholds_first [OF plan_free_basic(5)]
  upholds_first [OF plan_free_basic(8)] upholds_first [OF plan_free_cred_required]
  upholds_first [OF plan_free_rows(8)] upholds_first [OF plan_free_undo_step]

lemma upholds_sync_plan_execute: "upholds (\<lambda>_. True) (sync_plan_execute env pid only pw) (\<lambda>_ _. True)"
proof -
  have run: "harmless (known pid steps) (each_step (run_step env stored only cred v) steps)"
    if "sp_id stored = pid" for stored steps cred v
    using that by (intro upholds_each_step upholds_known_one) (auto intro: upholds_run_step)
  have go: "upholds (\<lambda>ps. sp_id stored = pid \<and> known pid (sp_steps stored) ps)
      (each_step (run_step env stored only cred v) (sp_steps stored)) (\<lambda>_ _. True)" for stored cred v
  proof (cases "sp_id stored = pid")
    case True
    with upholds_any [OF run [OF True]] show ?thesis by simp
  qed (simp add: upholds_def guards_def)
  show ?thesis
    unfolding sync_plan_execute_def Let_def
    by (rule upholds_first [OF plan_free_basic(8)], rule upholds_seq [OF upholds_load])
      (intro firsts upholds_if upholds_next [OF upholds_plan_status] upholds_throw upholds_next [OF go]
        upholds_plan_get)
qed

lemma upholds_undo_steps:
  "upholds K (undo_steps env plan only cred from_version old_value steps any) (\<lambda>_ _. True)"
proof (induction steps arbitrary: K any)
  case Nil
  show ?case by (simp add: upholds_ret)
next
  case (Cons step steps)
  have "upholds J (case r of Inr detail \<Rightarrow> note_step env pid step STEP_ROLLED_BACK (f detail)
      | Inl e \<Rightarrow> note_step env pid step STEP_FAILED (g e)) (\<lambda>_ _. True)" for J pid f g and r :: "core_error + string"
    by (cases r) (simp_all add: upholds_note_unexecuted plan_constants)
  then show ?case
    unfolding undo_steps.simps
    by (intro firsts upholds_if Cons.IH upholds_next)
qed

lemma upholds_option:
  "upholds K m J \<Longrightarrow> (\<And>a. upholds K (f a) J) \<Longrightarrow> upholds K (case x of None \<Rightarrow> m | Some a \<Rightarrow> f a) J"
  by (cases x) simp_all

lemma upholds_sync_plan_rollback: "upholds (\<lambda>_. True) (sync_plan_rollback env pid only pw) (\<lambda>_ _. True)"
  unfolding sync_plan_rollback_def
  by (intro firsts upholds_option upholds_next [OF upholds_undo_steps] upholds_if upholds_throw
      upholds_next [OF upholds_plan_status] upholds_plan_get)

section \<open>Making a plan\<close>

lemma insertable_rows:
  assumes "insertable done steps = (rows, ok)" "distinct (map step_key done)"
  shows "distinct (map step_key rows) \<and> set rows \<subseteq> set done \<union> set steps"
  using assms
proof (induction "done" steps rule: insertable.induct)
  case (2 "done" s steps)
  then show ?case by (cases "step_key s \<in> step_key ` set done") auto
qed simp

definition new_step :: "stored_step \<Rightarrow> bool" where
  "new_step s \<longleftrightarrow> ss_status s = STEP_PLANNED"

lemma planned_step_new: "new_step (planned_step did name environment action detail)"
  by (simp add: new_step_def planned_step_def)

lemma created_steps_new:
  "list_all new_step (attachment_steps os cid w @ mapping_steps cid w @ export_steps cid w)"
  by (auto simp: attachment_steps_def mapping_steps_def export_steps_def list_all_iff Let_def planned_step_new
      split: if_splits)

lemma upholds_insert_plan:
  assumes "list_all new_step steps"
  shows "upholds K (insert_plan clk uuid cid from_version to_version note steps) (\<lambda>_ _. True)"
  unfolding upholds_def
proof (rule guardsI)
  fix w :: "'a sync_world"
  let ?fresh = "map (\<lambda>s. s\<lparr>ss_executed_at := None, ss_verified_at := None, ss_rolled_back_at := None\<rparr>) steps"
  obtain rows ok where rows: "insertable [] ?fresh = (rows, ok)" by (cases "insertable [] ?fresh") auto
  from insertable_rows [OF rows] have d: "distinct (map step_key rows)" and "set rows \<subseteq> set ?fresh" by auto
  with assms have c: "step_confirmed s" if "s \<in> set rows" for s
    using that by (auto simp: list_all_iff new_step_def step_confirmed_def plan_constants)
  show "plans_evolve w (snd (insert_plan clk uuid cid from_version to_version note steps w))"
    by (auto simp: insert_plan_def rows plans_evolve_def plans_sound_def Let_def d c)
qed simp

lemma upholds_sync_plan_create: "upholds (\<lambda>_. True) (sync_plan_create env uuid credential note) (\<lambda>_ _. True)"
  unfolding sync_plan_create_def Let_def
  by (intro firsts upholds_if upholds_throw upholds_next [OF upholds_insert_plan]
      created_steps_new upholds_plan_get)

section \<open>Histories\<close>

inductive sync_step :: "'d sync_world \<Rightarrow> 'd sync_world \<Rightarrow> bool" where
  create: "sync_step w (snd (sync_plan_create env uuid credential note w))"
| execute: "sync_step w (snd (sync_plan_execute env pid only pw w))"
| rollback: "sync_step w (snd (sync_plan_rollback env pid only pw w))"
| add_destination: "sync_step w (snd (destination_add env uuid kind name config auth w))"
| remove_destination: "sync_step w (snd (destination_remove env ident pw w))"
| test_destination: "sync_step w (snd (destination_test env ident w))"
| delete_secret: "sync_step w (snd (destination_delete_secret env ident name pw w))"
| attach_credential: "sync_step w (snd (destination_attach env credential ident name environment w))"
| detach_credential: "sync_step w (snd (destination_detach env credential ident nm w))"
| drift_check: "sync_step w (snd (destination_drift_check env credential w))"
| elsewhere: "sw_plans w' = sw_plans w \<Longrightarrow> sync_step w w'"

inductive sync_history :: "'d sync_world \<Rightarrow> 'd sync_world \<Rightarrow> bool" where
  start: "sync_history w w"
| later: "sync_history w w' \<Longrightarrow> sync_step w' w'' \<Longrightarrow> sync_history w w''"

lemma plan_free_evolves: "plan_free m \<Longrightarrow> plans_evolve w (snd (m w))"
  by (simp add: plan_free_def plans_evolve_same)

lemma sync_step_evolves: "sync_step w w' \<Longrightarrow> plans_evolve w w'"
  by (induction rule: sync_step.induct)
    (auto intro: upholds_evolves [OF upholds_sync_plan_create] upholds_evolves [OF upholds_sync_plan_execute]
      upholds_evolves [OF upholds_sync_plan_rollback] plan_free_evolves plan_free_destination_operations
      plan_free_drift_check plans_evolve_same)

lemma sync_history_evolves: "sync_history w w' \<Longrightarrow> plans_evolve w w'"
  by (induction rule: sync_history.induct) (auto intro: plans.same plans.later sync_step_evolves)

end
