(* ===== verification/SyncUndo.thy ===== *)
theory SyncUndo
  imports SyncHistory
begin

text \<open>
  What a rollback leaves of each step. The steps of a plan are looked up by key, which no
  operation changes; the steps of one plan have distinct keys, so recording the outcome of one
  does not disturb another.
\<close>

definition stored_at :: "string \<Rightarrow> string \<times> string \<Rightarrow> stored_plan list \<Rightarrow> stored_step option" where
  "stored_at pid key ps =
     Option.bind (find (\<lambda>p. sp_id p = pid) ps) (\<lambda>p. find (\<lambda>s. step_key s = key) (sp_steps p))"

lemma stored_at_key: "stored_at pid key ps = Some s \<Longrightarrow> step_key s = key"
  by (auto simp: stored_at_def bind_eq_Some_conv find_Some_iff)

lemma find_map_invariant:
  assumes "\<And>x. P (f x) = P x"
  shows "find P (map f xs) = map_option f (find P xs)"
  using assms by (induction xs) auto

lemma stored_at_change:
  assumes "\<And>s. step_key (f s) = step_key s"
  shows "stored_at pid k (sw_plans (change_step pid key f w))
    = (if k = key then map_option f (stored_at pid k (sw_plans w)) else stored_at pid k (sw_plans w))"
proof -
  define g where "g p = (if sp_id p = pid
    then p\<lparr>sp_steps := map (\<lambda>s. if step_key s = key then f s else s) (sp_steps p)\<rparr> else p)" for p :: stored_plan
  have plans: "sw_plans (change_step pid key f w) = map g (sw_plans w)"
    by (simp add: change_step_def g_def)
  have ids: "find (\<lambda>p. sp_id p = pid) (map g ps) = map_option g (find (\<lambda>p. sp_id p = pid) ps)" for ps :: "stored_plan list"
    by (rule find_map_invariant) (simp add: g_def)
  have steps: "find (\<lambda>s. step_key s = k) (map (\<lambda>s. if step_key s = key then f s else s) ss)
      = (if k = key then map_option f (find (\<lambda>s. step_key s = k) ss) else find (\<lambda>s. step_key s = k) ss)" for ss
    by (induction ss) (auto simp: assms)
  show ?thesis
  proof (cases "find (\<lambda>p. sp_id p = pid) (sw_plans w)")
    case (Some p)
    then have "sp_id p = pid" by (auto simp: find_Some_iff)
    with Some show ?thesis by (simp add: stored_at_def plans ids g_def steps)
  qed (simp add: stored_at_def plans ids)
qed

lemma stored_at_note:
  "stored_at pid k (sw_plans (snd (note_step env pid step status detail w)))
     = (if k = step_key step then map_option (\<lambda>s. s\<lparr>ss_status := status, ss_detail := detail,
           ss_executed_at := (if status = STEP_EXECUTED then Some (sw_now (se_clock env) w) else ss_executed_at s),
           ss_rolled_back_at := (if status = STEP_ROLLED_BACK then Some (sw_now (se_clock env) w) else ss_rolled_back_at s)\<rparr>)
         (stored_at pid k (sw_plans w))
       else stored_at pid k (sw_plans w))"
  unfolding note_step_def update_step_def Let_def snd_conv step_key_def [symmetric]
  by (rule stored_at_change) (simp add: step_key_def)

lemma note_step_ok: "fst (note_step env pid step status detail w) = Inr ()"
  by (simp add: note_step_def update_step_def Let_def)

lemma plan_freeD: "plan_free m \<Longrightarrow> m w = (r, w') \<Longrightarrow> sw_plans w' = sw_plans w"
  unfolding plan_free_def by (metis snd_conv)

text \<open>The steps in the order they are taken, each with the outcome recorded for it.\<close>

definition undone :: "string \<Rightarrow> stored_step \<Rightarrow> stored_plan list \<Rightarrow> string \<Rightarrow> bool" where
  "undone pid step ps status \<longleftrightarrow>
     (\<exists>s. stored_at pid (step_key step) ps = Some s \<and> ss_action s = ss_action step \<and> ss_status s = status)"

definition present :: "string \<Rightarrow> stored_plan list \<Rightarrow> stored_step \<Rightarrow> bool" where
  "present pid ps step \<longleftrightarrow> (\<exists>s. stored_at pid (step_key step) ps = Some s \<and> ss_action s = ss_action step)"

lemma undo_one:
  assumes "undo_step env step cred from_version old_value w = (Inr outcome, w1)"
    and "(case outcome of
         Inr detail \<Rightarrow> note_step env pid step STEP_ROLLED_BACK (f detail)
       | Inl e \<Rightarrow> note_step env pid step STEP_FAILED (g e)) w1 = (r, w2)"
  shows "k \<noteq> step_key step \<Longrightarrow> stored_at pid k (sw_plans w2) = stored_at pid k (sw_plans w)"
    and "present pid (sw_plans w) step \<Longrightarrow>
       undone pid step (sw_plans w2) (if isl outcome then STEP_FAILED else STEP_ROLLED_BACK)"
    and "r = Inr ()"
proof -
  have same: "sw_plans w1 = sw_plans w" using plan_freeD [OF plan_free_undo_step assms(1)] .
  let ?status = "if isl outcome then STEP_FAILED else STEP_ROLLED_BACK"
  obtain d where "note_step env pid step ?status d w1 = (r, w2)"
    using assms(2) by (cases outcome) auto
  then have r: "r = fst (note_step env pid step ?status d w1)" and w2: "w2 = snd (note_step env pid step ?status d w1)"
    by simp_all
  show "r = Inr ()" by (simp only: r note_step_ok)
  show "stored_at pid k (sw_plans w2) = stored_at pid k (sw_plans w)" if "k \<noteq> step_key step"
    using that by (simp only: w2 stored_at_note same if_False)
  show "undone pid step (sw_plans w2) ?status" if "present pid (sw_plans w) step"
    using that unfolding present_def by (elim exE conjE) (simp add: w2 stored_at_note same undone_def)
qed


section \<open>The filter\<close>

text \<open>
  Undoing a step and recording its outcome leave the destinations alone, so a filter selects the
  same steps throughout.
\<close>

definition dest_free :: "('d sync_world, 'a) op \<Rightarrow> bool" where
  "dest_free m \<longleftrightarrow> (\<forall>w. sw_destinations (snd (m w)) = sw_destinations w)"

named_theorems dest_rules \<open>operations that leave the destinations alone\<close>

lemma dest_free_basic [dest_rules]:
  "dest_free (ret a)" "dest_free (throw e)" "dest_free (inspect f)" "dest_free (sw_look g)" "dest_free (remote k)"
  "dest_free (record_sync clk cid did name version drift)"
  by (auto simp: dest_free_def ret_def throw_def inspect_def sw_look_def remote_def record_sync_def
      update_attachment_def ticked_def Let_def split: prod.split)

lemma dest_free_andthen [dest_rules]:
  "dest_free m \<Longrightarrow> (\<And>a. dest_free (f a)) \<Longrightarrow> dest_free (andthen m f)"
  by (simp add: dest_free_def andthen_def split: prod.split sum.split) (metis snd_conv)

lemma dest_free_attempt [dest_rules]: "dest_free m \<Longrightarrow> dest_free (attempt m)"
  by (simp add: dest_free_def attempt_def split: prod.split) (metis snd_conv)

lemma dest_free_change [dest_rules]: "(\<And>w. sw_destinations (f w) = sw_destinations w) \<Longrightarrow> dest_free (change f)"
  by (simp add: dest_free_def change_def)

lemma dest_free_cases [dest_rules]:
  "dest_free m \<Longrightarrow> dest_free m' \<Longrightarrow> dest_free (if c then m else m')"
  "dest_free m \<Longrightarrow> (\<And>a. dest_free (f a)) \<Longrightarrow> dest_free (case x of None \<Rightarrow> m | Some a \<Rightarrow> f a)"
  "(\<And>e. dest_free (g e)) \<Longrightarrow> (\<And>a. dest_free (h a)) \<Longrightarrow> dest_free (case y of Inl e \<Rightarrow> g e | Inr a \<Rightarrow> h a)"
  "(\<And>a b. dest_free (k a b)) \<Longrightarrow> dest_free (case z of (a, b) \<Rightarrow> k a b)"
  by (cases x; cases y; cases z; simp)+

lemma dest_free_undo_step: "dest_free (undo_step env step cred from_version old_value)"
  unfolding undo_step_def destination_adapter_def rewrite_export_def Let_def
  by (intro dest_rules) (simp add: ticked_def)

lemma undo_destinations:
  assumes "undo_step env step cred from_version old_value w = (r, w1)" "note_step env pid step status detail w1 = (r', w2)"
  shows "sw_destinations w2 = sw_destinations w"
proof -
  have "sw_destinations w1 = sw_destinations w"
    using dest_free_undo_step [of env step cred from_version old_value] assms(1) unfolding dest_free_def by (metis snd_conv)
  moreover have "sw_destinations (snd (note_step env pid step status detail w1)) = sw_destinations w1"
    by (simp add: note_step_def update_step_def change_step_def ticked_def Let_def)
  ultimately show ?thesis using assms(2) by simp
qed

lemma step_selected_same: "sw_destinations w' = sw_destinations w \<Longrightarrow> step_selected only s w' = step_selected only s w"
proof -
  assume "sw_destinations w' = sw_destinations w"
  then have "dest_get i w' = dest_get i w" for i
    by (simp only: dest_get_def)
  then show "step_selected only s w' = step_selected only s w"
    by (cases only) (simp_all add: step_selected_def)
qed

lemma look_then: "andthen (sw_look f) g w = (case f w of Inl e \<Rightarrow> (Inl e, w) | Inr a \<Rightarrow> g a w)"
  by (simp add: sw_look_def andthen_def inspect_def)

text \<open>The steps to undo are the executed ones that the filter selects.\<close>

definition to_undo :: "string option \<Rightarrow> 'd sync_world \<Rightarrow> stored_step list \<Rightarrow> stored_step set" where
  "to_undo only w steps = {s \<in> set steps. ss_status s = STEP_EXECUTED \<and> step_selected only s w}"

lemma undo_steps_outcome:
  assumes "undo_steps env plan only cred from_version old_value steps any w = (Inr any', w')"
    and "distinct (map step_key steps)" "list_all (present (sp_id plan) (sw_plans w)) steps"
  shows "(\<forall>s \<in> to_undo only w steps.
       undone (sp_id plan) s (sw_plans w') STEP_ROLLED_BACK \<or> undone (sp_id plan) s (sw_plans w') STEP_FAILED)
     \<and> (any' \<longrightarrow> any \<or> (\<exists>s \<in> to_undo only w steps. undone (sp_id plan) s (sw_plans w') STEP_ROLLED_BACK))
     \<and> (\<forall>k. k \<notin> step_key ` to_undo only w steps \<longrightarrow>
          stored_at (sp_id plan) k (sw_plans w') = stored_at (sp_id plan) k (sw_plans w))"
  using assms
proof (induction steps arbitrary: any w)
  case Nil
  then show ?case by (simp add: ret_def to_undo_def)
next
  case (Cons step steps)
  let ?pid = "sp_id plan"
  show ?case
  proof (cases "step_selected only step w \<and> ss_status step = STEP_EXECUTED")
    case False
    with Cons.prems(1) have "undo_steps env plan only cred from_version old_value steps any w = (Inr any', w')"
      by (auto simp: look_then split: if_splits)
    note ih = Cons.IH [OF this]
    have "to_undo only w (step # steps) = to_undo only w steps"
      using False by (auto simp: to_undo_def)
    then show ?thesis using ih Cons.prems(2,3) by simp
  next
    case True
    let ?note = "\<lambda>outcome. case outcome of
         Inr detail \<Rightarrow> note_step env ?pid step STEP_ROLLED_BACK (''rolled back to v'' @ dec_of_int from_version @ '': '' @ detail)
       | Inl e \<Rightarrow> note_step env ?pid step STEP_FAILED (''rollback failed: '' @ display_error e)"
    have "andthen (undo_step env step cred from_version old_value) (\<lambda>outcome. andthen (?note outcome) (\<lambda>_.
        undo_steps env plan only cred from_version old_value steps (any \<or> \<not> isl outcome))) w = (Inr any', w')"
      using Cons.prems(1) True by (simp only: undo_steps.simps look_then simp_thms sum.case if_False)
    then obtain outcome w1 r w2 where
      undo: "undo_step env step cred from_version old_value w = (Inr outcome, w1)"
      and noted: "?note outcome w1 = (Inr r, w2)"
      and rest: "undo_steps env plan only cred from_version old_value steps (any \<or> \<not> isl outcome) w2 = (Inr any', w')"
      by (elim andthen_InrE)
    note one = undo_one [OF undo noted]
    have "sw_destinations w2 = sw_destinations w"
      using noted undo_destinations [OF undo] by (cases outcome) simp_all
    then have same: "to_undo only w2 steps = to_undo only w steps"
      by (simp add: to_undo_def step_selected_same [of w2 w])
    have insert: "to_undo only w (step # steps) = insert step (to_undo only w steps)"
      using True by (auto simp: to_undo_def)
    have fresh: "step_key step \<notin> step_key ` set steps" using Cons.prems(2) by simp
    then have fresh': "step_key step \<notin> step_key ` to_undo only w steps" by (auto simp: to_undo_def)
    have "list_all (present ?pid (sw_plans w2)) steps"
      unfolding list_all_iff
    proof
      fix s assume s: "s \<in> set steps"
      then have "step_key s \<noteq> step_key step" using fresh by (metis imageI)
      moreover have "present ?pid (sw_plans w) s" using s Cons.prems(3) by (simp add: list_all_iff)
      ultimately show "present ?pid (sw_plans w2) s" by (simp add: present_def one(1))
    qed
    with rest Cons.prems(2) have ih: "(\<forall>s \<in> to_undo only w2 steps.
         undone ?pid s (sw_plans w') STEP_ROLLED_BACK \<or> undone ?pid s (sw_plans w') STEP_FAILED)
       \<and> (any' \<longrightarrow> (any \<or> \<not> isl outcome) \<or> (\<exists>s \<in> to_undo only w2 steps. undone ?pid s (sw_plans w') STEP_ROLLED_BACK))
       \<and> (\<forall>k. k \<notin> step_key ` to_undo only w2 steps \<longrightarrow>
          stored_at ?pid k (sw_plans w') = stored_at ?pid k (sw_plans w2))"
      by (intro Cons.IH) simp_all
    note ih = ih [unfolded same]
    have "stored_at ?pid (step_key step) (sw_plans w') = stored_at ?pid (step_key step) (sw_plans w2)"
      using ih fresh' by blast
    then have here: "undone ?pid step (sw_plans w') (if isl outcome then STEP_FAILED else STEP_ROLLED_BACK)"
      using one(2) Cons.prems(3) by (simp add: undone_def)
    have kept: "stored_at ?pid k (sw_plans w') = stored_at ?pid k (sw_plans w)"
      if "k \<notin> step_key ` to_undo only w (step # steps)" for k
    proof -
      have "k \<noteq> step_key step" "k \<notin> step_key ` to_undo only w steps"
        using that by (auto simp: insert)
      then show ?thesis using ih one(1) [of k] by (metis (no_types))
    qed
    show ?thesis using ih here kept by (cases "isl outcome") (auto simp: insert)
  qed
qed

section \<open>The whole rollback\<close>

lemma find_by_key: "distinct (map f xs) \<Longrightarrow> x \<in> set xs \<Longrightarrow> find (\<lambda>y. f y = f x) xs = Some x"
  by (induction xs) auto

text \<open>A loaded plan is the stored one with its steps in order.\<close>

lemma load_plan_steps:
  assumes "load_plan pid w = Inr stored"
  shows "sp_id stored = pid"
    and "stored_at pid k (sw_plans w) = Some s \<Longrightarrow> s \<in> set (sp_steps stored)"
    and "plans_sound (sw_plans w) \<Longrightarrow> distinct (map step_key (sp_steps stored))"
    and "plans_sound (sw_plans w) \<Longrightarrow> s \<in> set (sp_steps stored) \<Longrightarrow> stored_at pid (step_key s) (sw_plans w) = Some s"
proof -
  from assms obtain p where p: "find (\<lambda>p. sp_id p = pid) (sw_plans w) = Some p"
    and st: "stored = p\<lparr>sp_steps := sort_key ss_destination_id (sort_key ss_secret_name (sp_steps p))\<rparr>"
    by (auto simp: load_plan_def split: option.splits)
  from p have pin: "p \<in> set (sw_plans w)" "sp_id p = pid" by (auto simp: find_Some_iff)
  have same: "set (sp_steps stored) = set (sp_steps p)" using st by simp
  show "sp_id stored = pid" using st pin by simp
  show "s \<in> set (sp_steps stored)" if "stored_at pid k (sw_plans w) = Some s"
    using that p by (auto simp: stored_at_def same find_Some_iff)
  assume sound: "plans_sound (sw_plans w)"
  then have d: "distinct (map step_key (sp_steps p))" using pin by (simp add: plans_sound_def)
  then show "distinct (map step_key (sp_steps stored))" using st by (simp add: distinct_map)
  assume "s \<in> set (sp_steps stored)"
  then have "s \<in> set (sp_steps p)" by (simp only: same)
  with d have "find (\<lambda>t. step_key t = step_key s) (sp_steps p) = Some s" by (rule find_by_key)
  with p show "stored_at pid (step_key s) (sw_plans w) = Some s" by (simp add: stored_at_def)
qed

lemma stored_at_status: "stored_at pid k (sw_plans (snd (update_plan_status pid' status w))) = stored_at pid k (sw_plans w)"
proof -
  have "find (\<lambda>p. sp_id p = pid) (map (\<lambda>p. if sp_id p = pid' then p\<lparr>sp_status := status\<rparr> else p) ps)
    = map_option (\<lambda>p. if sp_id p = pid' then p\<lparr>sp_status := status\<rparr> else p) (find (\<lambda>p. sp_id p = pid) ps)" for ps :: "stored_plan list"
    by (rule find_map_invariant) simp
  then show ?thesis
    by (cases "find (\<lambda>p. sp_id p = pid) (sw_plans w)") (simp_all add: stored_at_def update_plan_status_def)
qed

lemma load_after_status:
  "load_plan pid (snd (update_plan_status pid status w)) = Inr stored \<Longrightarrow> sp_status stored = status"
proof -
  have "find (\<lambda>p. sp_id p = pid) (map (\<lambda>p. if sp_id p = pid then p\<lparr>sp_status := status\<rparr> else p) ps)
    = map_option (\<lambda>p. if sp_id p = pid then p\<lparr>sp_status := status\<rparr> else p) (find (\<lambda>p. sp_id p = pid) ps)" for ps :: "stored_plan list"
    by (rule find_map_invariant) simp
  then show "load_plan pid (snd (update_plan_status pid status w)) = Inr stored \<Longrightarrow> sp_status stored = status"
    by (auto simp: load_plan_def update_plan_status_def find_Some_iff split: option.splits)
qed

lemma load_same_plans: "sw_plans w' = sw_plans w \<Longrightarrow> load_plan pid w' = load_plan pid w"
  by (simp add: load_plan_def)

lemma hydrated: "hydrate_plan env stored w = (Inr view, w') \<Longrightarrow> vp_plan view = stored"
  by (auto simp: hydrate_plan_def andthen_def ret_def split: prod.splits sum.splits)

text \<open>The statements after the loop: the status, the audit entry, and the view that is returned.\<close>

lemma finished_view:
  assumes status: "update_plan_status pid status w = (Inr (), w1)"
    and audit: "sw_audit env event pid' cid detail w1 = (Inr (), w2)"
    and get: "sync_plan_get env pid w2 = (Inr view, w')"
  shows "sp_status (vp_plan view) = status"
    and "stored_at pid k (sw_plans w) = Some s \<Longrightarrow> s \<in> set (sp_steps (vp_plan view))"
proof -
  from status have w1: "w1 = snd (update_plan_status pid status w)" by simp
  have same: "sw_plans w2 = sw_plans w1" using plan_freeD [OF plan_free_rows(8) audit] .
  from get obtain stored where "load_plan pid w2 = Inr stored" and view: "vp_plan view = stored"
    unfolding sync_plan_get_def by (auto simp: look_then dest: hydrated split: sum.splits)
  with load_same_plans [OF same, of pid] have stored: "load_plan pid w1 = Inr stored" by simp
  show "sp_status (vp_plan view) = status"
    using load_after_status [OF stored [unfolded w1]] view by simp
  show "s \<in> set (sp_steps (vp_plan view))" if "stored_at pid k (sw_plans w) = Some s"
    using load_plan_steps(2) [OF stored [unfolded w1]] that view by (simp add: stored_at_status)
qed

lemma rollback_phases:
  assumes "sync_plan_rollback env pid only pw w = (Inr view, w')" "load_plan pid w = Inr stored"
  obtains cred v old w1 w2 w3 event pid' cid detail where
    "undo_steps env stored only cred v old (sp_steps stored) False w = (Inr True, w2)"
    and "update_plan_status pid PLAN_ROLLED_BACK w2 = (Inr (), w1)"
    and "sw_audit env event pid' cid detail w1 = (Inr (), w3)"
    and "sync_plan_get env pid w3 = (Inr view, w')"
  using assms unfolding sync_plan_rollback_def
  by (auto simp: sw_look_def sw_password_def vault_read_def cred_required_def inspect_def throw_def
      elim!: andthen_InrE intro: that split: option.splits if_splits)

end
