(* ===== verification/SyncProps.thy ===== *)
theory SyncProps
  imports SyncUndo RotationDemo
begin

text \<open>
  The properties of the synchronization engine, and a concrete vault whose plan writes to one
  destination and rewrites one exported file; the file is edited before the plan is rolled back.
\<close>

definition demo_sync_env :: "unit sync_env" where
  "demo_sync_env = \<lparr>se_vault = fe_vault demo_env, se_os = Linux, se_adapter = (\<lambda>_ _. Inr ()),
     se_write = (\<lambda>_ _ _ x. (Inr ''written'', x)), se_read = (\<lambda>_ _ x. (Inr None, x)),
     se_exists = (\<lambda>_ _ x. (Inr (Some True), x)), se_delete = (\<lambda>_ _ x. (Inr (), x)),
     se_test = (\<lambda>_ x. (Inr ''ok'', x)), se_hash = id, se_write_file = (\<lambda>_ _. Inr ())\<rparr>"

definition demo_vault :: vault_db where
  "demo_vault = (wd_db demo_start)\<lparr>
     vd_credentials := [demo_credential\<lparr>cr_value := Some ''new'', cr_value_version := 2\<rparr>],
     vd_versions := [\<lparr>vr_credential_id = ''c'', vr_version = 1, vr_value = ''old'', vr_masked_value = [],
       vr_created_at = [], vr_reason = []\<rparr>]\<rparr>"

definition demo_synced :: "unit sync_world" where
  "demo_synced = \<lparr>sw_vault = demo_vault,
     sw_destinations = [\<lparr>ds_id = ''d'', ds_kind = ''vercel'', ds_name = ''web'', ds_config = [], ds_auth = None,
       ds_auth_masked = None, ds_created_at = [], ds_updated_at = [], ds_last_verified_at = None, ds_last_error = []\<rparr>],
     sw_attachments = [\<lparr>at_credential_id = ''c'', at_destination_id = ''d'', at_secret_name = ''K'',
       at_environment = [], at_last_synced_version = None, at_last_synced_at = None, at_last_verified_at = None,
       at_drift = ''unknown''\<rparr>],
     sw_plans = [],
     sw_exports = [\<lparr>ex_id = ''e'', ex_project_id = ''j'', ex_path = ''f'', ex_var_names = ''K'',
       ex_content_hash = ''K=old'', ex_created_at = [], ex_cleaned_at = None\<rparr>],
     sw_mappings = [\<lparr>mp_credential_id = ''c'', mp_project_id = ''j'', mp_env_var = ''K''\<rparr>],
     sw_files = (\<lambda>path. if path = ''f'' then Some ''K=old'' else None),
     sw_remote = ()\<rparr>"

definition demo_planned :: "unit sync_world \<Rightarrow> unit sync_world" where
  "demo_planned w = snd (sync_plan_create demo_sync_env ''p'' ''c'' [] w)"

definition demo_executed :: "unit sync_world \<Rightarrow> unit sync_world" where
  "demo_executed w = snd (sync_plan_execute demo_sync_env ''p'' None [] (demo_planned w))"

definition demo_edited :: "unit sync_world" where
  "demo_edited = (demo_executed (demo_synced\<lparr>sw_attachments := []\<rparr>))
     \<lparr>sw_files := (\<lambda>path. if path = ''f'' then Some ''edited'' else None)\<rparr>"

lemma demo_sync_history: "sync_history w (demo_executed w)"
  unfolding demo_executed_def demo_planned_def
  by (intro sync_history.later [OF _ execute] sync_history.later [OF _ create] sync_history.start)

section \<open>Properties\<close>

text \<open>
  C39. Through every history of the engine a stored plan keeps its identity, its versions and the
  keys and actions of its steps, and a write step recorded as executed carries the time its
  verification succeeded and the verdict: the value read back matched, or the destination confirmed
  that the secret exists.
\<close>

theorem executed_writes_confirmed:
  assumes "sync_history w w'" "plans_sound (sw_plans w)"
  shows "(\<forall>p \<in> set (sw_plans w). \<exists>p' \<in> set (sw_plans w'). plan_shape p' = plan_shape p)
    \<and> (\<forall>p \<in> set (sw_plans w'). \<forall>s \<in> set (sp_steps p).
        ss_action s = ACTION_WRITE \<longrightarrow> ss_status s = STEP_EXECUTED \<longrightarrow>
        ss_verified_at s \<noteq> None \<and> confirmed_detail (ss_detail s))"
proof -
  from sync_history_evolves [OF assms(1)] assms(2)
  have "prefix (map plan_shape (sw_plans w)) (map plan_shape (sw_plans w'))" "plans_sound (sw_plans w')"
    by (simp_all add: plans_evolve_def)
  from set_mono_prefix [OF this(1)] this(2)
  have "plan_shape ` set (sw_plans w) \<subseteq> plan_shape ` set (sw_plans w')"
    and "\<forall>p \<in> set (sw_plans w'). \<forall>s \<in> set (sp_steps p). step_confirmed s"
    by (simp_all add: plans_sound_def)
  then show ?thesis unfolding step_confirmed_def by (auto simp: image_subset_iff image_iff eq_commute)
qed

theorem executed_writes_confirmed_witness:
  "\<exists>p \<in> set (sw_plans (demo_executed demo_synced)). \<exists>s \<in> set (sp_steps p).
     (ss_action s, ss_status s) = (ACTION_WRITE, STEP_EXECUTED)
     \<and> ss_verified_at s \<noteq> None \<and> confirmed_detail (ss_detail s)"
proof -
  have "plans_sound (sw_plans demo_synced)" by (simp add: plans_sound_def demo_synced_def)
  from executed_writes_confirmed [OF demo_sync_history this]
  have "\<forall>p \<in> set (sw_plans (demo_executed demo_synced)). \<forall>s \<in> set (sp_steps p).
     ss_action s = ACTION_WRITE \<longrightarrow> ss_status s = STEP_EXECUTED \<longrightarrow>
     ss_verified_at s \<noteq> None \<and> confirmed_detail (ss_detail s)" by blast
  moreover have "list_ex (\<lambda>p. list_ex (\<lambda>s. ss_action s = ACTION_WRITE \<and> ss_status s = STEP_EXECUTED) (sp_steps p))
    (sw_plans (demo_executed demo_synced))" by code_simp
  ultimately show ?thesis by (fastforce simp: list_ex_iff)
qed

text \<open>
  C40. A rollback that returns, with or without a destination filter, has marked the plan as rolled
  back. Each step that had been executed and that the filter selects is now rolled back or
  failed, and every other step is as it was: an executed step of another destination stays
  executed although the plan presents as rolled back. At least one selected step is rolled back,
  though a step with nothing to undo counts: in the first instance below the only step that
  changed anything failed to be undone, and the plan still presents as rolled back.
\<close>

theorem rollback_outcome:
  assumes "plans_sound (sw_plans w)" "load_plan pid w = Inr before"
    and "sync_plan_rollback env pid only pw w = (Inr view, w')"
  shows "sp_status (vp_plan view) = PLAN_ROLLED_BACK
    \<and> (\<exists>s \<in> set (sp_steps before). ss_status s = STEP_EXECUTED \<and> step_selected only s w
        \<and> (\<exists>s' \<in> set (sp_steps (vp_plan view)). step_key s' = step_key s \<and> ss_status s' = STEP_ROLLED_BACK))
    \<and> (\<forall>s \<in> set (sp_steps before). \<exists>s' \<in> set (sp_steps (vp_plan view)). step_key s' = step_key s
        \<and> (if ss_status s = STEP_EXECUTED \<and> step_selected only s w
           then ss_status s' \<in> {STEP_ROLLED_BACK, STEP_FAILED} else s' = s))"
proof -
  note before = load_plan_steps [OF assms(2)]
  obtain cred v old w1 w2 w3 event pid' cid detail where
    undo: "undo_steps env before only cred v old (sp_steps before) False w = (Inr True, w2)"
    and finish: "update_plan_status pid PLAN_ROLLED_BACK w2 = (Inr (), w1)"
      "sw_audit env event pid' cid detail w1 = (Inr (), w3)" "sync_plan_get env pid w3 = (Inr view, w')"
    by (rule rollback_phases [OF assms(3,2)])
  note view = finished_view [OF finish]
  have at: "stored_at pid (step_key s) (sw_plans w) = Some s" if "s \<in> set (sp_steps before)" for s
    using before(4) [OF assms(1) that] .
  then have "list_all (present (sp_id before) (sw_plans w)) (sp_steps before)"
    by (simp add: list_all_iff present_def before(1))
  note outcome = undo_steps_outcome [OF undo before(3) [OF assms(1)] this, unfolded before(1)]
  have found: "\<exists>s' \<in> set (sp_steps (vp_plan view)). step_key s' = step_key s \<and> ss_status s' = status"
    if "undone pid s (sw_plans w2) status" for s status
  proof -
    from that obtain s' where "stored_at pid (step_key s) (sw_plans w2) = Some s'" "ss_status s' = status"
      by (auto simp: undone_def)
    with view(2) stored_at_key show ?thesis by (metis (no_types))
  qed
  have "\<exists>s' \<in> set (sp_steps (vp_plan view)). step_key s' = step_key s
      \<and> (if ss_status s = STEP_EXECUTED \<and> step_selected only s w
         then ss_status s' \<in> {STEP_ROLLED_BACK, STEP_FAILED} else s' = s)"
    if s: "s \<in> set (sp_steps before)" for s
  proof (cases "s \<in> to_undo only w (sp_steps before)")
    case True
    with outcome have "undone pid s (sw_plans w2) STEP_ROLLED_BACK \<or> undone pid s (sw_plans w2) STEP_FAILED"
      by blast
    moreover have "ss_status s = STEP_EXECUTED \<and> step_selected only s w" using True by (simp add: to_undo_def)
    ultimately show ?thesis by (elim disjE) (drule found, force)+
  next
    case False
    have "step_key s \<notin> step_key ` to_undo only w (sp_steps before)"
    proof
      assume "step_key s \<in> step_key ` to_undo only w (sp_steps before)"
      then obtain t where t: "t \<in> to_undo only w (sp_steps before)" "step_key s = step_key t" by blast
      then have "t \<in> set (sp_steps before)" by (simp add: to_undo_def)
      with at [of t] at [OF s] t False show False by simp
    qed
    with outcome at [OF s] have "stored_at pid (step_key s) (sw_plans w2) = Some s" by (metis (no_types))
    with False s view(2) show ?thesis by (auto simp: to_undo_def)
  qed
  moreover have "\<exists>s \<in> to_undo only w (sp_steps before). undone pid s (sw_plans w2) STEP_ROLLED_BACK"
    using outcome by blast
  ultimately show ?thesis using view(1) found by (auto simp: to_undo_def)
qed

theorem rollback_outcome_witness:
  "\<exists>view w'. sync_plan_rollback demo_sync_env ''p'' None [] demo_edited = (Inr view, w')
     \<and> sp_status (vp_plan view) = PLAN_ROLLED_BACK
     \<and> map (\<lambda>s. (ss_action s, ss_status s)) (sp_steps (vp_plan view))
         = [(ACTION_REEXPORT, STEP_FAILED), (ACTION_NONE, STEP_ROLLED_BACK)]"
proof -
  let ?run = "sync_plan_rollback demo_sync_env ''p'' None [] demo_edited"
  let ?start = "demo_synced\<lparr>sw_attachments := []\<rparr>"
  have "sw_plans ?start = []" by (simp add: demo_synced_def)
  then have sound: "plans_sound (sw_plans demo_edited)"
    using sync_history_evolves [OF demo_sync_history [of ?start]] by (simp add: plans_evolve_def plans_sound_def demo_edited_def)
  have run: "case fst ?run of Inl e \<Rightarrow> False | Inr view \<Rightarrow>
      map (\<lambda>s. (ss_action s, ss_status s)) (sp_steps (vp_plan view))
        = [(ACTION_REEXPORT, STEP_FAILED), (ACTION_NONE, STEP_ROLLED_BACK)]" by code_simp
  have "\<not> isl (load_plan ''p'' demo_edited)" by code_simp
  then obtain before where "load_plan ''p'' demo_edited = Inr before" by (cases "load_plan ''p'' demo_edited") auto
  with sound run show ?thesis
    using rollback_outcome [of demo_edited "''p''" before demo_sync_env None "[]"]
    by (cases "fst ?run"; cases ?run) auto
qed

text \<open>
  A rollback of the mapping's step alone leaves the step that wrote to the destination executed,
  and marks the plan as rolled back.
\<close>

lemma filtered_rollback_leaves_executed:
  "case fst (sync_plan_rollback demo_sync_env ''p'' (Some ''env_export:e'') [] (demo_executed demo_synced)) of
     Inl e \<Rightarrow> False
   | Inr view \<Rightarrow> sp_status (vp_plan view) = PLAN_ROLLED_BACK
       \<and> list_ex (\<lambda>s. ss_action s = ACTION_WRITE \<and> ss_status s = STEP_EXECUTED) (sp_steps (vp_plan view))"
  by code_simp

end
