(* ===== verification/Sanitize.thy ===== *)
theory Sanitize
  imports Strings Providers
begin

text \<open>
  crates/core/src/runtime/sanitize.rs: the templates stored for observed request targets, and the
  redaction of command labels. Strings are byte lists, so the byte counts and the byte classes are
  those of the source. The vowel ratio is compared as whole numbers: a quotient of two counts
  below two to the fifty rounds to a double under 0.20 exactly when the quotient is under a fifth.
\<close>

definition MAX_LEN :: nat where "MAX_LEN = 512"
definition MAX_PARTS :: nat where "MAX_PARTS = 20"

section \<open>Classes of segments\<close>

definition is_uuid_bytes :: "string \<Rightarrow> bool" where
  "is_uuid_bytes b \<longleftrightarrow> length b = 36
     \<and> list_all (\<lambda>(i, c). if i \<in> {8, 13, 18, 23} then c = CHR ''-'' else is_ascii_hexdigit c) (zip [0..<36] b)"

definition is_all_digits :: "string \<Rightarrow> bool" where
  "is_all_digits s \<longleftrightarrow> s \<noteq> [] \<and> list_all is_ascii_digit s"

definition is_long_hex :: "string \<Rightarrow> bool" where
  "is_long_hex s \<longleftrightarrow> 16 \<le> length s \<and> list_all is_ascii_hexdigit s"

definition is_email :: "string \<Rightarrow> bool" where
  "is_email s =
     (case split_once CHR ''@'' s of
        Some (local_part, domain) \<Rightarrow> local_part \<noteq> [] \<and> CHR ''.'' \<in> set domain \<and> \<not> starts_with ''.'' domain
      | None \<Rightarrow> False)"

definition CREDENTIAL_PREFIXES :: "string list" where
  "CREDENTIAL_PREFIXES = [''sk-'', ''sk_'', ''pk_live'', ''pk_test'', ''rk_live'', ''rk_test'', ''whsec_'',
     ''ghp_'', ''gho_'', ''ghu_'', ''ghs_'', ''ghr_'', ''github_pat_'', ''xoxb-'', ''xoxp-'', ''xoxa-'', ''xoxr-'',
     ''xoxs-'', ''AKIA'', ''ASIA'', ''AIza'', ''ya29.'', ''glpat-'', ''shpat_'', ''shpss_'', ''shpca_'', ''Bearer'', ''eyJ'']"

definition is_credential_shaped :: "string \<Rightarrow> bool" where
  "is_credential_shaped s \<longleftrightarrow> list_ex (\<lambda>p. starts_with p s) CREDENTIAL_PREFIXES \<and> 8 \<le> length s"

definition is_base64url_charset :: "string \<Rightarrow> bool" where
  "is_base64url_charset s \<longleftrightarrow> s \<noteq> []
     \<and> list_all (\<lambda>c. is_ascii_alphanumeric c \<or> c = CHR ''-'' \<or> c = CHR ''_'' \<or> c = CHR ''='') s"

definition is_jwt :: "string \<Rightarrow> bool" where
  "is_jwt s =
     (let parts = split_on CHR ''.'' s in
      length parts = 3 \<and> starts_with ''eyJ'' (hd parts)
      \<and> list_all (\<lambda>p. 8 \<le> length p \<and> is_base64url_charset p) parts)"

definition is_vowel :: "char \<Rightarrow> bool" where
  "is_vowel c \<longleftrightarrow> c \<in> set ''aeiouAEIOU''"

definition vowel_ratio_under_fifth :: "string \<Rightarrow> bool" where
  "vowel_ratio_under_fifth s =
     (let letters = length (filter is_ascii_alphabetic s); vowels = length (filter is_vowel s)
      in letters = 0 \<or> 5 * vowels < letters)"

definition max_consonant_run :: "string \<Rightarrow> nat" where
  "max_consonant_run s = run_scan (\<lambda>c. is_ascii_alphabetic c \<and> \<not> is_vowel c) 0 0 s"

definition max_digit_run :: "string \<Rightarrow> nat" where
  "max_digit_run s = run_scan is_ascii_digit 0 0 s"

definition max_hex_run :: "string \<Rightarrow> nat" where
  "max_hex_run s = run_scan is_ascii_hexdigit 0 0 s"

definition is_high_entropy :: "string \<Rightarrow> bool" where
  "is_high_entropy s =
     (let n = length s;
          lower = list_ex is_ascii_lowercase s; upper = list_ex is_ascii_uppercase s;
          digit = list_ex is_ascii_digit s; other = list_ex (\<lambda>c. \<not> is_ascii_alphanumeric c) s;
          classes = length (filter id [lower, upper, digit, other])
      in if n < 16 then False
         else if 3 \<le> classes then True
         else if is_base64url_charset s \<and> digit \<and> (lower \<or> upper) \<and> 20 \<le> n then True
         else if classes = 1 \<and> (lower \<or> upper) \<and> 16 \<le> n
                 \<and> (24 \<le> n \<or> vowel_ratio_under_fifth s \<or> 6 \<le> max_consonant_run s) then True
         else classes = 2 \<and> lower \<and> upper \<and> \<not> digit \<and> \<not> other \<and> 20 \<le> n)"

fun has_encoded_control :: "string \<Rightarrow> bool" where
  "has_encoded_control (c # h # l # s) =
     ((c = CHR 0x25 \<and>
       (case (to_digit 16 h, to_digit 16 l) of
          (Some x, Some y) \<Rightarrow> x * 16 + y < 32 \<or> x * 16 + y = 127
        | _ \<Rightarrow> False)) \<or> has_encoded_control (h # l # s))"
| "has_encoded_control _ = False"

definition contains_uuid_substring :: "string \<Rightarrow> bool" where
  "contains_uuid_substring s \<longleftrightarrow> 36 \<le> length s
     \<and> list_ex (\<lambda>i. is_uuid_bytes (take 36 (drop i s))) [0..<length s - 36 + 1]"

definition has_embedded_sensitive :: "string \<Rightarrow> bool" where
  "has_embedded_sensitive s \<longleftrightarrow>
     CHR ''@'' \<in> set s \<or> 5 \<le> max_digit_run s \<or> 16 \<le> max_hex_run s \<or> contains_uuid_substring s"

definition looks_like_filename :: "string \<Rightarrow> bool" where
  "looks_like_filename s =
     (case rsplit_once CHR ''.'' s of
        Some (stem, ext) \<Rightarrow> stem \<noteq> [] \<and> 1 \<le> length ext \<and> length ext \<le> 5 \<and> list_all is_ascii_alphanumeric ext
      | None \<Rightarrow> False)"

definition has_unprintable :: "string \<Rightarrow> bool" where
  "has_unprintable s \<longleftrightarrow> list_ex (\<lambda>c. byte c < 32 \<or> byte c = 127) s"

text \<open>The first matching rule wins.\<close>

definition classify_segment :: "string \<Rightarrow> string \<times> confidence" where
  "classify_segment seg =
     (if is_uuid_bytes seg then ('':uuid'', CHigh)
      else if is_jwt seg then ('':jwt'', CHigh)
      else if is_email seg then ('':email'', CHigh)
      else if is_credential_shaped seg then ('':token'', CHigh)
      else if is_all_digits seg \<and> 2 \<le> length seg then ('':id'', CHigh)
      else if is_long_hex seg then ('':hash'', CHigh)
      else if looks_like_filename seg \<and> has_embedded_sensitive seg then ('':file'', CMedium)
      else if is_high_entropy seg then ('':token'', CMedium)
      else if has_embedded_sensitive seg then ('':redacted'', CLow)
      else if 40 < length seg \<or> has_unprintable seg \<or> has_encoded_control seg then ('':redacted'', CLow)
      else (seg, CHigh))"

section \<open>Paths\<close>

definition sever :: "string \<Rightarrow> string" where
  "sever raw =
     (case find_byte (\<lambda>c. c = CHR ''?'' \<or> c = CHR 0x23) raw of None \<Rightarrow> raw | Some i \<Rightarrow> take i raw)"

text \<open>The loop over the segments: position, parts so far, output so far, confidence.\<close>

fun sanitize_loop :: "nat \<Rightarrow> nat \<Rightarrow> string \<Rightarrow> confidence \<Rightarrow> string list \<Rightarrow> string \<times> confidence \<times> bool" where
  "sanitize_loop idx parts out conf [] = (out, conf, False)"
| "sanitize_loop idx parts out conf (seg # segs) =
     (let out = (if 0 < idx then out @ ''/'' else out) in
      if MAX_PARTS \<le> parts \<or> MAX_LEN \<le> length out then (out @ '':truncated'', conf, True)
      else if seg = [] then sanitize_loop (idx + 1) parts out conf segs
      else sanitize_loop (idx + 1) (parts + 1) (out @ fst (classify_segment seg))
             (min conf (snd (classify_segment seg))) segs)"

definition sanitize_path :: "string \<Rightarrow> string \<times> confidence" where
  "sanitize_path raw =
     (let cut = sever raw in
      if cut = ''*'' then (''*'', CHigh)
      else if cut = [] \<or> \<not> starts_with ''/'' cut then (''/:redacted'', CLow)
      else
        (let (out, conf, truncated) = sanitize_loop 0 0 [] CHigh (split_on CHR ''/'' cut)
         in (if out = [] then ''/'' else out, if truncated then CLow else conf)))"

section \<open>Command labels\<close>

definition is_secretish :: "string \<Rightarrow> bool" where
  "is_secretish s \<longleftrightarrow> is_credential_shaped s \<or> is_jwt s \<or> 20 \<le> length s \<and> is_high_entropy s"

definition label_separator :: "char \<Rightarrow> bool" where
  "label_separator c \<longleftrightarrow> c \<in> {CHR '' '', CHR '':'', CHR ''='', CHR 0x22, CHR 0x27, CHR ''&'', CHR ''?'', CHR ''@'',
     CHR ''/'', CHR ''.'', CHR '','', CHR '';''}"

definition redact_arg_token :: "string \<Rightarrow> string" where
  "redact_arg_token arg = (if list_ex is_secretish (split_by label_separator arg) then '':redacted'' else arg)"

definition SECRET_FLAGS :: "string list" where
  "SECRET_FLAGS = [''-h'', ''--header'', ''-u'', ''--user'', ''--api-key'', ''--apikey'', ''--token'', ''--password'',
     ''--secret'', ''--auth'']"

fun redact_args :: "bool \<Rightarrow> string list \<Rightarrow> string list" where
  "redact_args redact_next [] = []"
| "redact_args redact_next (arg # args) =
     (if redact_next then '':redacted'' # redact_args False args
      else if to_ascii_lowercase arg \<in> set SECRET_FLAGS then arg # redact_args True args
      else redact_arg_token arg # redact_args False args)"

definition redact_command :: "string list \<Rightarrow> string" where
  "redact_command args = join '' '' (redact_args False args)"

end
