(* ===== verification/SanitizeProps.thy ===== *)
theory SanitizeProps
  imports Sanitize
begin

text \<open>
  What a stored path template cannot contain, that templating is idempotent, how long a template
  can be, and what a command label keeps.
\<close>

section \<open>Runs and windows\<close>

lemma run_scan_best: "run_scan P best cur s = max best (run_scan P 0 cur s)"
proof (induction s arbitrary: best cur)
  case (Cons c s)
  show ?case
    using Cons.IH [of "max best (cur + 1)" "cur + 1"] Cons.IH [of "max 0 (cur + 1)" "cur + 1"] Cons.IH [of best 0] by auto
qed simp

lemma has_run_Cons:
  assumes "0 < n"
  shows "has_run P n (c # s) \<longleftrightarrow> has_run P n s \<or> n \<le> length (takeWhile P (c # s))"
proof -
  have "prefix b (c # s) \<and> list_all P b \<longleftrightarrow> b = take (length b) (takeWhile P (c # s))" for b :: string
  proof
    assume b: "prefix b (c # s) \<and> list_all P b"
    then obtain r where r: "c # s = b @ r" by (auto simp: prefix_def)
    have "takeWhile P (b @ r) = b @ takeWhile P r" using b by (simp add: list_all_iff takeWhile_append2)
    then show "b = take (length b) (takeWhile P (c # s))" by (simp add: r)
  next
    assume b: "b = take (length b) (takeWhile P (c # s))"
    then have "prefix b (takeWhile P (c # s))" by (metis take_is_prefix)
    then show "prefix b (c # s) \<and> list_all P b"
      by (metis list_all_iff set_takeWhileD set_mono_prefix subsetD prefix_order.trans takeWhile_is_prefix)
  qed
  then have shape: "prefix b (c # s) \<and> length b = n \<and> list_all P b \<longleftrightarrow> b = take n (takeWhile P (c # s)) \<and> length b = n" for b
    by metis
  have "(\<exists>b. prefix b (c # s) \<and> length b = n \<and> list_all P b) \<longleftrightarrow> n \<le> length (takeWhile P (c # s))"
    unfolding shape by auto
  then show ?thesis by (auto simp: has_run_def sublist_Cons_right)
qed

lemma has_run_front: "n \<le> length (takeWhile P s) \<Longrightarrow> has_run P n s"
  unfolding has_run_def
  by (rule exI [of _ "take n (takeWhile P s)"])
    (auto simp: list_all_iff dest: in_set_takeD set_takeWhileD
      intro: prefix_imp_sublist prefix_order.trans [OF take_is_prefix takeWhile_is_prefix])

lemma run_scan_spec:
  "0 < n \<Longrightarrow> n \<le> run_scan P 0 cur s \<longleftrightarrow> has_run P n s \<or> n \<le> cur + length (takeWhile P s) \<and> takeWhile P s \<noteq> []"
proof (induction s arbitrary: cur)
  case Nil
  then show ?case by (auto simp: has_run_def)
next
  case (Cons c s)
  show ?case
  proof (cases "P c")
    case True
    have "n \<le> run_scan P 0 cur (c # s) \<longleftrightarrow> n \<le> cur + 1 \<or> n \<le> run_scan P 0 (cur + 1) s"
      using True run_scan_best [of P "cur + 1" "cur + 1" s] by (simp add: le_max_iff_disj)
    then show ?thesis using Cons True by (auto simp: has_run_Cons)
  next
    case False
    with Cons show ?thesis by (auto simp: has_run_Cons intro: has_run_front)
  qed
qed

lemma longest_run: "0 < n \<Longrightarrow> n \<le> run_scan P 0 0 s \<longleftrightarrow> has_run P n s"
  using run_scan_spec [of n P 0 s] by (cases s) (auto simp: has_run_Cons)

lemma window: "contains_uuid_substring s \<longleftrightarrow> (\<exists>u. sublist u s \<and> is_uuid_bytes u)"
proof
  assume "contains_uuid_substring s"
  then obtain i where i: "is_uuid_bytes (take 36 (drop i s))"
    unfolding contains_uuid_substring_def list_ex_iff by blast
  have "sublist (take 36 (drop i s)) s" by (metis append_take_drop_id sublist_appendI)
  with i show "\<exists>u. sublist u s \<and> is_uuid_bytes u" by blast
next
  assume "\<exists>u. sublist u s \<and> is_uuid_bytes u"
  then obtain a u b where s: "s = a @ u @ b" and u: "is_uuid_bytes u" by (auto simp: sublist_def)
  then have "length u = 36" by (simp add: is_uuid_bytes_def)
  with s u have "is_uuid_bytes (take 36 (drop (length a) s))" "length a < length s - 36 + 1" "36 \<le> length s" by simp_all
  then show "contains_uuid_substring s"
    unfolding contains_uuid_substring_def list_ex_iff set_upt by (metis atLeastLessThan_iff zero_le)
qed

section \<open>Segments\<close>

definition PLACEHOLDERS :: "string list" where
  "PLACEHOLDERS = ['':uuid'', '':jwt'', '':email'', '':token'', '':id'', '':hash'', '':file'', '':redacted'', '':truncated'']"

text \<open>What a kept segment is not.\<close>

definition kept_segment :: "string \<Rightarrow> bool" where
  "kept_segment w \<longleftrightarrow> \<not> is_uuid_bytes w \<and> \<not> is_jwt w \<and> \<not> is_email w \<and> \<not> is_credential_shaped w
     \<and> \<not> is_long_hex w \<and> \<not> is_high_entropy w \<and> \<not> has_embedded_sensitive w \<and> length w \<le> 40
     \<and> \<not> has_unprintable w \<and> \<not> has_encoded_control w"

lemma classify_cases:
  "fst (classify_segment seg) = seg \<and> kept_segment seg \<or> fst (classify_segment seg) \<in> set PLACEHOLDERS"
  by (simp add: classify_segment_def kept_segment_def PLACEHOLDERS_def)

lemma placeholders_kept:
  "list_all (\<lambda>w. kept_segment w \<and> fst (classify_segment w) = w \<and> CHR ''?'' \<notin> set w \<and> CHR 0x23 \<notin> set w
     \<and> CHR ''/'' \<notin> set w \<and> w \<noteq> []) PLACEHOLDERS"
  by code_simp

lemma classify_again: "fst (classify_segment (fst (classify_segment seg))) = fst (classify_segment seg)"
  using classify_cases [of seg] placeholders_kept by (auto simp: list_all_iff)

lemma classify_kept: "kept_segment (fst (classify_segment seg))"
  using classify_cases [of seg] placeholders_kept by (auto simp: list_all_iff)

lemma classify_bytes:
  "c \<in> set (fst (classify_segment seg)) \<Longrightarrow> c \<in> {CHR ''?'', CHR 0x23, CHR ''/''} \<Longrightarrow> c \<in> set seg"
  using classify_cases [of seg] placeholders_kept by (auto simp: list_all_iff)

lemma classify_not_Nil: "seg \<noteq> [] \<Longrightarrow> fst (classify_segment seg) \<noteq> []"
  using classify_cases [of seg] placeholders_kept by (auto simp: list_all_iff)

text \<open>The segments the loop writes.\<close>

fun rendered :: "nat \<Rightarrow> nat \<Rightarrow> nat \<Rightarrow> string list \<Rightarrow> string list" where
  "rendered idx parts len [] = []"
| "rendered idx parts len (seg # segs) =
     (let len = (if 0 < idx then len + 1 else len) in
      if MAX_PARTS \<le> parts \<or> MAX_LEN \<le> len then ['':truncated'']
      else if seg = [] then [] # rendered (idx + 1) parts len segs
      else fst (classify_segment seg)
             # rendered (idx + 1) (parts + 1) (len + length (fst (classify_segment seg))) segs)"

lemma join_step: "join ''/'' (ws @ [w]) = (if 0 < length ws then join ''/'' ws @ ''/'' else join ''/'' ws) @ w"
  by (cases "ws = []") (simp_all add: join_append_one)

lemma sanitize_loop_rendered:
  "fst (sanitize_loop (length ws) parts (join ''/'' ws) conf segs)
     = join ''/'' (ws @ rendered (length ws) parts (length (join ''/'' ws)) segs)"
proof (induction segs arbitrary: ws parts conf)
  case (Cons seg segs)
  have "fst (sanitize_loop (length ws + 1) parts' (join ''/'' (ws @ [w])) conf' segs)
      = join ''/'' (ws @ w # rendered (length ws + 1) parts' (length (join ''/'' (ws @ [w]))) segs)" for parts' w conf'
    using Cons.IH [of "ws @ [w]" parts' conf'] by simp
  note step = this [unfolded join_step]
  show ?case
    using step [where w = "[]"] step [where w = "fst (classify_segment seg)"] join_step [of ws "'':truncated''"]
    by (auto simp: Let_def)
qed simp

lemma rendered_again: "rendered idx parts len (rendered idx parts len segs) = rendered idx parts len segs"
  by (induction idx parts len segs rule: rendered.induct) (auto simp: Let_def classify_again classify_not_Nil)

lemma rendered_parts:
  "w \<in> set (rendered idx parts len segs) \<Longrightarrow>
     w = [] \<or> w = '':truncated'' \<or> (\<exists>seg \<in> set segs. w = fst (classify_segment seg))"
  by (induction idx parts len segs rule: rendered.induct) (auto simp: Let_def split: if_splits)

section \<open>Whole paths\<close>

lemma set_part: "w \<in> set ws \<Longrightarrow> set w \<subseteq> set (join sep ws)"
  by (induction sep ws rule: join.induct) auto

lemma find_byte_front:
  "list_all (\<lambda>c. \<not> P c) (case find_byte P s of None \<Rightarrow> s | Some i \<Rightarrow> take i s)"
  by (induction s) (auto split: option.splits)

lemma sever_free: "c \<in> {CHR ''?'', CHR 0x23} \<Longrightarrow> c \<notin> set (sever raw)"
  using find_byte_front [of "\<lambda>c. c = CHR ''?'' \<or> c = CHR 0x23" raw] unfolding sever_def list_all_iff by blast

lemma sever_same: "list_all (\<lambda>c. c \<noteq> CHR ''?'' \<and> c \<noteq> CHR 0x23) s \<Longrightarrow> sever s = s"
proof -
  have "list_all (\<lambda>c. \<not> P c) s \<Longrightarrow> find_byte P s = None" for P by (induction s) auto
  then show "list_all (\<lambda>c. c \<noteq> CHR ''?'' \<and> c \<noteq> CHR 0x23) s \<Longrightarrow> sever s = s" by (simp add: sever_def)
qed

definition template_segment :: "string \<Rightarrow> bool" where
  "template_segment w \<longleftrightarrow> kept_segment w \<and> CHR ''?'' \<notin> set w \<and> CHR 0x23 \<notin> set w \<and> CHR ''/'' \<notin> set w"

lemma special_segments: "list_all template_segment [[], ''*'', '':redacted'', '':truncated'']"
  by code_simp

lemma path_loop:
  assumes "sever raw = ''/'' @ t"
  shows "fst (sanitize_path raw) = ''/'' @ join ''/'' (rendered 1 0 0 (split_on CHR ''/'' t))"
    and "rendered 1 0 0 (split_on CHR ''/'' t) \<noteq> []"
    and "list_all template_segment (rendered 1 0 0 (split_on CHR ''/'' t))"
proof -
  let ?segs = "split_on CHR ''/'' t" and ?ws = "rendered 1 0 0 (split_on CHR ''/'' t)"
  show ne: "?ws \<noteq> []"
    using split_by_not_Nil [of "\<lambda>c. c = CHR ''/''" t] by (cases ?segs) (auto simp: Let_def)
  have "fst (sanitize_loop 0 0 [] CHigh ([] # ?segs)) = join ''/'' (rendered 0 0 0 ([] # ?segs))"
    using sanitize_loop_rendered [of "[]" 0 CHigh "[] # ?segs"] by simp
  then have "fst (sanitize_loop 0 0 [] CHigh ([] # ?segs)) = join ''/'' ([] # ?ws)" by (simp add: MAX_PARTS_def MAX_LEN_def)
  moreover have "join ''/'' ([] # ?ws) = ''/'' @ join ''/'' ?ws" using ne by (cases ?ws) simp_all
  ultimately have "fst (sanitize_loop 0 0 [] CHigh (split_on CHR ''/'' (sever raw))) = ''/'' @ join ''/'' ?ws"
    by (simp add: assms)
  moreover obtain out conf truncated
    where loop: "sanitize_loop 0 0 [] CHigh (split_on CHR ''/'' (sever raw)) = (out, conf, truncated)"
    by (cases "sanitize_loop 0 0 [] CHigh (split_on CHR ''/'' (sever raw))") auto
  moreover have "starts_with ''/'' (sever raw)" "sever raw \<noteq> ''*''" "sever raw \<noteq> []"
    by (simp_all add: assms starts_with_def)
  ultimately show "fst (sanitize_path raw) = ''/'' @ join ''/'' ?ws"
    by (simp add: sanitize_path_def)
  have "CHR ''/'' \<notin> set seg \<and> CHR ''?'' \<notin> set seg \<and> CHR 0x23 \<notin> set seg" if "seg \<in> set ?segs" for seg
  proof -
    have "set seg \<subseteq> set (sever raw)"
    proof -
      have "join ''/'' ?segs = t" by (rule join_split)
      moreover have "set seg \<subseteq> set (join ''/'' ?segs)"
        using that by (rule set_part)
      ultimately show ?thesis by (auto simp: assms)
    qed
    then show ?thesis using sever_free [of "CHR ''?''" raw] sever_free [of "CHR 0x23" raw] split_by_parts [OF that]
      by (auto simp: list_all_iff)
  qed
  then show "list_all template_segment ?ws"
    using special_segments by (fastforce simp: list_all_iff template_segment_def classify_kept
        dest: rendered_parts classify_bytes)
qed

lemma template_shape:
  "\<exists>ws. fst (sanitize_path raw) = join ''/'' ws \<and> ws \<noteq> [] \<and> list_all template_segment ws"
proof -
  consider "sever raw = ''*''" | "sever raw \<noteq> ''*''" "\<not> starts_with ''/'' (sever raw)"
    | t where "sever raw = ''/'' @ t"
    by (cases "sever raw") (auto simp: starts_with_def)
  then show ?thesis
  proof cases
    case 1
    then have "fst (sanitize_path raw) = join ''/'' [''*'']" by (simp add: sanitize_path_def)
    then show ?thesis using special_segments by (intro exI [of _ "[''*'']"]) simp
  next
    case 2
    then have "fst (sanitize_path raw) = join ''/'' [[], '':redacted'']" by (simp add: sanitize_path_def)
    then show ?thesis using special_segments by (intro exI [of _ "[[], '':redacted'']"]) simp
  next
    case 3
    have "''/'' @ join ''/'' ws = join ''/'' ([] # ws)" if "ws \<noteq> []" for ws using that by (cases ws) simp_all
    with path_loop [OF 3] special_segments show ?thesis
      by (intro exI [of _ "[] # rendered 1 0 0 (split_on CHR ''/'' t)"]) simp
  qed
qed

lemma no_run_join:
  assumes "0 < n" "\<not> P d" "\<forall>w \<in> set ws. \<not> has_run P n w"
  shows "\<not> has_run P n (join [d] ws)"
proof
  assume "has_run P n (join [d] ws)"
  then obtain b where b: "sublist b (join [d] ws)" "length b = n" "list_all P b" by (auto simp: has_run_def)
  with assms(1,2) have "d \<notin> set b" "b \<noteq> []" by (auto simp: list_all_iff)
  with sublist_join [OF b(1)] b(2,3) assms(3) show False by (auto simp: has_run_def)
qed

lemma uuid_plain: "is_uuid_bytes u \<Longrightarrow> u \<noteq> [] \<and> CHR ''/'' \<notin> set u"
proof -
  assume u: "is_uuid_bytes u"
  then have n: "length u = 36" by (simp add: is_uuid_bytes_def)
  have "u ! i \<noteq> CHR ''/''" if "i < 36" for i
  proof -
    have "(i, u ! i) \<in> set (zip [0..<36] u)" using that n by (auto simp: set_zip intro!: exI [of _ i])
    with u have "if i \<in> {8, 13, 18, 23} then u ! i = CHR ''-'' else is_ascii_hexdigit (u ! i)"
      by (fastforce simp: is_uuid_bytes_def list_all_iff)
    then show ?thesis by (auto simp: byte_defs split: if_splits)
  qed
  with n show ?thesis by (auto simp: in_set_conv_nth)
qed

lemma joined_length: "ws \<noteq> [] \<Longrightarrow> length (''/'' @ join ''/'' ws) = length (concat (map ((#) CHR ''/'') ws))"
  by (induction "''/''" ws rule: join.induct) auto

lemma rendered_length:
  "len \<le> 551 \<Longrightarrow> 0 < idx \<Longrightarrow>
     len + length (concat (map ((#) CHR ''/'') (rendered idx parts len segs))) \<le> 562"
proof (induction idx parts len segs rule: rendered.induct)
  case (2 idx parts len seg segs)
  have "length (fst (classify_segment seg)) \<le> 40" using classify_kept [of seg] by (simp add: kept_segment_def)
  moreover have "MAX_LEN = 512" by (simp add: MAX_LEN_def)
  ultimately show ?case using 2 by (auto simp: Let_def)
qed simp

section \<open>A template as a function of its target\<close>

text \<open>A segment that is kept as it is; any other is replaced by a fixed word.\<close>

definition harmless :: "string \<Rightarrow> bool" where
  "harmless w \<longleftrightarrow> kept_segment w \<and> \<not> (is_all_digits w \<and> 2 \<le> length w)"

definition segment_template :: "string \<Rightarrow> string \<Rightarrow> bool" where
  "segment_template seg w \<longleftrightarrow> (if seg = [] \<or> harmless seg then w = seg else w \<in> set PLACEHOLDERS)"

text \<open>
  Where a template ends early: before the segment that would follow twenty segments that are not
  empty, or 512 bytes counting its own slash. \<open>before\<close> holds the segments already written.
\<close>

definition full :: "string list \<Rightarrow> bool" where
  "full ws \<longleftrightarrow> 20 \<le> length (filter (\<lambda>w. w \<noteq> []) ws) \<or> 512 \<le> length (concat (map ((#) CHR ''/'') ws)) + 1"

definition templated_segments :: "string list \<Rightarrow> string list \<Rightarrow> string list \<Rightarrow> bool" where
  "templated_segments before segs ws \<longleftrightarrow>
     (\<exists>kept. list_all2 segment_template (take (length kept) segs) kept
       \<and> (\<forall>k < length kept. \<not> full (before @ take k kept))
       \<and> (if length kept = length segs then ws = kept
          else full (before @ kept) \<and> ws = kept @ ['':truncated'']))"

text \<open>The template of a target without query and fragment.\<close>

definition template_of :: "string \<Rightarrow> string \<Rightarrow> bool" where
  "template_of target out \<longleftrightarrow>
     (if target = ''*'' then out = ''*''
      else if take 1 target = ''/''
      then \<exists>ws. templated_segments [] (split_on CHR ''/'' (drop 1 target)) ws \<and> out = concat (map ((#) CHR ''/'') ws)
      else out = ''/:redacted'')"

lemma classify_harmless: "segment_template seg (if seg = [] then [] else fst (classify_segment seg))"
  by (auto simp: segment_template_def harmless_def classify_segment_def kept_segment_def PLACEHOLDERS_def)

lemma templated_Cons:
  assumes "segment_template seg w" "\<not> full before" "templated_segments (before @ [w]) segs ws"
  shows "templated_segments before (seg # segs) (w # ws)"
proof -
  from assms(3) obtain kept where kept: "list_all2 segment_template (take (length kept) segs) kept"
    "\<forall>k < length kept. \<not> full (before @ w # take k kept)"
    "if length kept = length segs then ws = kept else full (before @ w # kept) \<and> ws = kept @ ['':truncated'']"
    by (simp only: templated_segments_def append_assoc append_Cons append_Nil) blast
  have "\<not> full (before @ take k (w # kept))" if "k < length (w # kept)" for k
    using that kept(2) assms(2) by (cases k) auto
  with kept(1,3) assms(1) show ?thesis
    unfolding templated_segments_def by (intro exI [of _ "w # kept"]) (auto split: if_splits)
qed

lemma rendered_templated:
  "0 < idx \<Longrightarrow> parts = length (filter (\<lambda>w. w \<noteq> []) before) \<Longrightarrow>
     len = length (concat (map ((#) CHR ''/'') before)) \<Longrightarrow>
     templated_segments before segs (rendered idx parts len segs)"
proof (induction segs arbitrary: idx parts len before)
  case Nil
  show ?case by (simp add: templated_segments_def)
next
  case (Cons seg segs)
  have stop: "MAX_PARTS \<le> parts \<or> MAX_LEN \<le> len + 1 \<longleftrightarrow> full before"
    by (simp add: full_def Cons.prems MAX_PARTS_def MAX_LEN_def)
  show ?case
  proof (cases "full before")
    case True
    then show ?thesis using stop Cons.prems(1) by (auto simp: templated_segments_def intro!: exI [of _ "[]"])
  next
    case False
    define w where "w = (if seg = [] then [] else fst (classify_segment seg))"
    define parts' where "parts' = (if w = [] then parts else parts + 1)"
    have w: "segment_template seg w" unfolding w_def by (rule classify_harmless)
    have "rendered idx parts len (seg # segs) = w # rendered (idx + 1) parts' (len + 1 + length w) segs"
      using stop False Cons.prems(1) classify_not_Nil [of seg] by (auto simp: w_def parts'_def Let_def)
    moreover have "templated_segments (before @ [w]) segs (rendered (idx + 1) parts' (len + 1 + length w) segs)"
      by (rule Cons.IH) (simp_all add: Cons.prems parts'_def)
    ultimately show ?thesis using templated_Cons [OF w False] by simp
  qed
qed

lemma sever_takeWhile: "sever raw = takeWhile (\<lambda>c. c \<noteq> CHR ''?'' \<and> c \<noteq> CHR 0x23) raw"
proof -
  have "(case find_byte P s of None \<Rightarrow> s | Some i \<Rightarrow> take i s) = takeWhile (\<lambda>c. \<not> P c) s" for P and s :: string
    by (induction s) (auto split: option.splits)
  from this [where P = "\<lambda>c. c = CHR ''?'' \<or> c = CHR 0x23" and s = raw] show ?thesis by (simp add: sever_def)
qed

lemma template_of_sanitized: "template_of (sever raw) (fst (sanitize_path raw))"
proof -
  consider "sever raw = ''*''" | "sever raw \<noteq> ''*''" "\<not> starts_with ''/'' (sever raw)"
    | t where "sever raw = ''/'' @ t"
    by (cases "sever raw") (auto simp: starts_with_def)
  then show ?thesis
  proof cases
    case 3
    have "''/'' @ join ''/'' ws = concat (map ((#) CHR ''/'') ws)" if "ws \<noteq> []" for ws
      using that by (induction "''/''" ws rule: join.induct) auto
    from this [OF path_loop(2) [OF 3]] path_loop(1) [OF 3]
    have "fst (sanitize_path raw) = concat (map ((#) CHR ''/'') (rendered 1 0 0 (split_on CHR ''/'' t)))" by simp
    moreover have "templated_segments [] (split_on CHR ''/'' t) (rendered 1 0 0 (split_on CHR ''/'' t))"
      by (rule rendered_templated) simp_all
    ultimately show ?thesis unfolding template_of_def 3 by auto
  qed (auto simp: template_of_def sanitize_path_def starts_with_def)
qed

section \<open>Properties\<close>

text \<open>
  C15. A stored template is the target cut at its first question mark or number sign, segment by
  segment: a harmless segment is kept byte for byte, every other one is one of nine fixed words,
  and the only segments missing are those after the point where the template is full, which is
  marked. The template has no question mark, number sign or at sign, no run of five digits or
  of sixteen hexadecimal digits and no UUID anywhere, also across segments. The shapes of
  credentials, tokens and opaque blobs are judged for whole segments: none of the segments has
  one, but the middle of a kept segment may look like a credential prefix.
\<close>

theorem sanitized_path_safe:
  fixes raw :: string
  defines "out \<equiv> fst (sanitize_path raw)"
  shows "sanitize_path raw = sanitize_path (sever raw)
    \<and> set out \<inter> {CHR ''?'', CHR 0x23, CHR ''@''} = {}
    \<and> \<not> has_run is_ascii_digit 5 out \<and> \<not> has_run is_ascii_hexdigit 16 out
    \<and> \<not> (\<exists>u. sublist u out \<and> is_uuid_bytes u)
    \<and> list_all kept_segment (split_on CHR ''/'' out)
    \<and> template_of (takeWhile (\<lambda>c. c \<noteq> CHR ''?'' \<and> c \<noteq> CHR 0x23) raw) out"
proof -
  obtain ws where ws: "out = join ''/'' ws" "ws \<noteq> []" and safe: "list_all template_segment ws"
    using template_shape [of raw] unfolding out_def by blast
  have inside: "\<exists>w \<in> set ws. sublist b w" if "sublist b out" "b \<noteq> []" "CHR ''/'' \<notin> set b" for b
    using sublist_join that unfolding ws(1) by blast
  have kept: "CHR ''@'' \<notin> set w \<and> \<not> has_run is_ascii_digit 5 w \<and> \<not> has_run is_ascii_hexdigit 16 w
      \<and> \<not> (\<exists>u. sublist u w \<and> is_uuid_bytes u)" if "w \<in> set ws" for w
    using safe that longest_run [of 5 is_ascii_digit w] longest_run [of 16 is_ascii_hexdigit w] window [of w]
    by (simp add: list_all_iff template_segment_def kept_segment_def has_embedded_sensitive_def
        max_digit_run_def max_hex_run_def)
  have "sever (sever raw) = sever raw"
    using sever_free [of "CHR ''?''" raw] sever_free [of "CHR 0x23" raw] by (intro sever_same) (auto simp: list_all_iff)
  moreover have "\<not> has_run is_ascii_digit 5 out" "\<not> has_run is_ascii_hexdigit 16 out"
    unfolding ws(1) by (rule no_run_join; use kept in \<open>simp add: byte_defs\<close>)+
  moreover have "\<not> (\<exists>u. sublist u out \<and> is_uuid_bytes u)"
  proof
    assume "\<exists>u. sublist u out \<and> is_uuid_bytes u"
    then obtain u where u: "sublist u out" "is_uuid_bytes u" by blast
    then have "u \<noteq> []" "CHR ''/'' \<notin> set u" by (auto simp: uuid_plain)
    with inside [OF u(1)] kept u(2) show False by blast
  qed
  moreover have "set out \<inter> {CHR ''?'', CHR 0x23, CHR ''@''} = {}"
    using set_join [of "''/''" ws] safe kept by (auto simp: ws(1) list_all_iff template_segment_def)
  moreover have "split_on CHR ''/'' out = ws"
    unfolding ws(1) using safe by (intro split_join_free ws) (auto simp: list_all_iff template_segment_def)
  moreover have "template_of (takeWhile (\<lambda>c. c \<noteq> CHR ''?'' \<and> c \<noteq> CHR 0x23) raw) out"
    using template_of_sanitized [of raw] unfolding out_def sever_takeWhile .
  ultimately show ?thesis using safe by (simp add: sanitize_path_def list_all_iff template_segment_def)
qed

text \<open>The middle of a kept segment is not judged.\<close>

lemma credential_inside_kept: "fst (sanitize_path ''/x-sk-abcdefgh'') = ''/x-sk-abcdefgh''"
  by code_simp

text \<open>
  C18. Templating a template changes nothing. A template is never empty and has at most 562 bytes;
  the instance below shows that the documented bound of 512 bytes is not kept.
\<close>

theorem sanitize_idempotent:
  "fst (sanitize_path (fst (sanitize_path raw))) = fst (sanitize_path raw)
     \<and> fst (sanitize_path raw) \<noteq> [] \<and> length (fst (sanitize_path raw)) \<le> 562"
proof -
  consider "sever raw = ''*''" | "sever raw \<noteq> ''*''" "\<not> starts_with ''/'' (sever raw)"
    | t where "sever raw = ''/'' @ t"
    by (cases "sever raw") (auto simp: starts_with_def)
  then show ?thesis
  proof cases
    case 1
    then have "fst (sanitize_path raw) = ''*''" by (simp add: sanitize_path_def)
    moreover have "fst (sanitize_path ''*'') = ''*''" by code_simp
    ultimately show ?thesis by simp
  next
    case 2
    then have "fst (sanitize_path raw) = ''/:redacted''" by (simp add: sanitize_path_def)
    moreover have "fst (sanitize_path ''/:redacted'') = ''/:redacted''" by code_simp
    ultimately show ?thesis by simp
  next
    case 3
    note loop = path_loop [OF 3]
    let ?ws = "rendered 1 0 0 (split_on CHR ''/'' t)"
    let ?out = "''/'' @ join ''/'' ?ws"
    have "set (join ''/'' ?ws) \<inter> {CHR ''?'', CHR 0x23} = {}"
      using set_join [of "''/''" ?ws] loop(3) by (auto simp: list_all_iff template_segment_def)
    then have "sever ?out = ?out" by (intro sever_same) (auto simp: list_all_iff)
    from path_loop(1) [OF this] have "fst (sanitize_path ?out) = ''/'' @ join ''/'' (rendered 1 0 0 (split_on CHR ''/'' (join ''/'' ?ws)))" .
    moreover have "split_on CHR ''/'' (join ''/'' ?ws) = ?ws"
      using loop(2,3) by (intro split_join_free) (auto simp: list_all_iff template_segment_def)
    ultimately have "fst (sanitize_path ?out) = ?out" by (simp only: rendered_again)
    moreover have "length ?out \<le> 562"
      using rendered_length [of 0 1 0 "split_on CHR ''/'' t"] joined_length [OF loop(2)] by simp
    ultimately show ?thesis by (simp only: loop(1)) simp
  qed
qed

lemma template_bound_exceeded:
  "512 < length (fst (sanitize_path (concat (replicate 16 ''/ab-cd-ef-gh-ab-cd-ef-gh-ab-cd-ef-gh''))))"
  by code_simp

section \<open>Command labels\<close>

text \<open>
  Every argument of a label is the given one or redacted, and none has a part shaped like a
  secret. A secret without that shape is redacted after a known flag, not when it is attached to
  the flag with an equals sign.
\<close>

lemma redacted_label_clean:
  "list_all (\<lambda>a. \<not> list_ex is_secretish (split_by label_separator a)) (redact_args redact_next args)
     \<and> list_all2 (\<lambda>a b. b = a \<or> b = '':redacted'') args (redact_args redact_next args)"
proof -
  have "list_all (\<lambda>f. \<not> list_ex is_secretish (split_by label_separator f)) ('':redacted'' # SECRET_FLAGS)"
    by code_simp
  moreover have "\<not> list_ex is_secretish (split_by label_separator arg)"
    if flag: "to_ascii_lowercase arg \<in> set SECRET_FLAGS" for arg
  proof -
    have shape: "list_all (\<lambda>f. length f \<le> 10 \<and> take 1 f = ''-'' \<and> list_all (\<lambda>c. \<not> label_separator c) f) SECRET_FLAGS"
      by code_simp
    have same: "to_ascii_lower_char c = c" if "label_separator c \<or> c = CHR ''-''" for c
      using that by (auto simp: label_separator_def byte_defs)
    have "\<not> label_separator c" if "c \<in> set arg" for c
    proof
      assume c: "label_separator c"
      have "to_ascii_lower_char c \<in> set (to_ascii_lowercase arg)" using that by (simp add: to_ascii_lowercase_def)
      with c same flag shape show False by (auto simp: list_all_iff)
    qed
    then have parts: "split_by label_separator arg = [arg]" by (intro split_by_free) (simp add: list_all_iff)
    have n: "length arg \<le> 10" using flag shape by (auto simp: list_all_iff to_ascii_lowercase_def)
    obtain rest where arg: "arg = CHR ''-'' # rest"
    proof (cases arg)
      case (Cons c rest)
      with flag shape have lower: "to_ascii_lower_char c = CHR ''-''" by (auto simp: list_all_iff to_ascii_lowercase_def)
      have "\<not> is_ascii_uppercase c"
      proof
        assume up: "is_ascii_uppercase c"
        then have "byte (to_ascii_lower_char c) = byte c + 32"
          by (simp add: to_ascii_lower_char_def is_ascii_uppercase_def)
        moreover have "byte CHR ''-'' = 45" by (simp add: byte_def)
        ultimately show False using up unfolding lower is_ascii_uppercase_def by linarith
      qed
      with lower have "c = CHR ''-''" by (simp add: to_ascii_lower_char_def)
      with Cons that show ?thesis by blast
    qed (use flag shape in \<open>auto simp: list_all_iff to_ascii_lowercase_def\<close>)
    have "\<not> starts_with ''eyJ'' (hd (split_on CHR ''.'' arg))"
      by (simp add: arg starts_with_def split: list.split)
    moreover have "\<not> list_ex (\<lambda>p. starts_with p arg) CREDENTIAL_PREFIXES"
      by (simp add: arg CREDENTIAL_PREFIXES_def starts_with_def)
    ultimately show ?thesis using n by (simp add: parts is_secretish_def is_jwt_def is_credential_shaped_def Let_def)
  qed
  ultimately show ?thesis
    by (induction redact_next args rule: redact_args.induct) (auto simp: redact_arg_token_def)
qed

lemma attached_password_kept:
  "redact_command [''psql'', ''--password=hunter2''] = ''psql --password=hunter2''"
  by code_simp

end
