(* ===== verification/ClientHello.thy ===== *)
theory ClientHello
  imports Strings
begin

text \<open>
  crates/observe/src/clienthello.rs: the sniffer that reads the server name and the offered
  protocols from the first bytes of a TLS connection. A reader is the bytes it has not read yet;
  a short read is None.
\<close>

record client_hello_info =
  ch_is_tls_handshake :: bool
  ch_sni :: "string option"
  ch_alpn :: "string list"

definition empty_hello :: client_hello_info where
  "empty_hello = \<lparr>ch_is_tls_handshake = False, ch_sni = None, ch_alpn = []\<rparr>"

definition wants_http1 :: "client_hello_info \<Rightarrow> bool" where
  "wants_http1 info \<longleftrightarrow> ch_alpn info = [] \<or> list_ex (\<lambda>p. p = ''http/1.1'') (ch_alpn info)"

definition is_h2_only :: "client_hello_info \<Rightarrow> bool" where
  "is_h2_only info \<longleftrightarrow> ch_alpn info \<noteq> [] \<and> \<not> list_ex (\<lambda>p. p = ''http/1.1'') (ch_alpn info)"

section \<open>The reader\<close>

fun rd_u8 :: "string \<Rightarrow> (nat \<times> string) option" where
  "rd_u8 [] = None"
| "rd_u8 (c # r) = Some (byte c, r)"

definition rd_u16 :: "string \<Rightarrow> (nat \<times> string) option" where
  "rd_u16 r = Option.bind (rd_u8 r) (\<lambda>(hi, r). Option.bind (rd_u8 r) (\<lambda>(lo, r). Some (hi * 256 + lo, r)))"

definition rd_take :: "nat \<Rightarrow> string \<Rightarrow> (string \<times> string) option" where
  "rd_take n r = (if n \<le> length r then Some (take n r, drop n r) else None)"

definition rd_skip :: "nat \<Rightarrow> string \<Rightarrow> string option" where
  "rd_skip n r = map_option snd (rd_take n r)"

section \<open>Extensions\<close>

lemma rd_shorter:
  "rd_u8 r = Some (n, r') \<Longrightarrow> length r' < length r"
  "rd_u16 r = Some (n, r') \<Longrightarrow> length r' < length r"
  "rd_take k r = Some (s, r') \<Longrightarrow> length r' \<le> length r"
  by (cases r; auto simp: rd_u16_def bind_eq_Some_conv elim!: rd_u8.elims; fail)+
    (auto simp: rd_take_def split: if_splits)

text \<open>The entries of a server name list: the first host name that is text.\<close>

function sni_entries :: "string \<Rightarrow> string option" where
  "sni_entries r =
     (if length r < 3 then None
      else case rd_u8 r of
        None \<Rightarrow> None
      | Some (name_type, r1) \<Rightarrow>
          (case rd_u16 r1 of
             None \<Rightarrow> None
           | Some (name_len, r2) \<Rightarrow>
               (case rd_take name_len r2 of
                  None \<Rightarrow> None
                | Some (name, r3) \<Rightarrow>
                    if name_type = 0 \<and> valid_utf8 name then Some (to_ascii_lowercase name) else sni_entries r3)))"
  by pat_completeness auto
termination
  by (relation "measure length") (auto dest!: rd_shorter)

declare sni_entries.simps [simp del]

definition parse_sni :: "string \<Rightarrow> string option" where
  "parse_sni data = Option.bind (rd_u16 data) (\<lambda>(list_len, r). sni_entries r)"

function alpn_entries :: "string list \<Rightarrow> string \<Rightarrow> string list" where
  "alpn_entries out r =
     (case rd_u8 r of
        None \<Rightarrow> out
      | Some (n, r1) \<Rightarrow>
          (case rd_take n r1 of
             None \<Rightarrow> out
           | Some (name, r2) \<Rightarrow> alpn_entries (if name \<noteq> [] then out @ [name] else out) r2))"
  by pat_completeness auto
termination
  by (relation "measure (\<lambda>(out, r). length r)") (auto dest!: rd_shorter)

declare alpn_entries.simps [simp del]

definition parse_alpn :: "string \<Rightarrow> string list" where
  "parse_alpn data = (case rd_u16 data of None \<Rightarrow> [] | Some (_, r) \<Rightarrow> alpn_entries [] r)"

definition take_extension :: "nat \<Rightarrow> string \<Rightarrow> client_hello_info \<Rightarrow> client_hello_info" where
  "take_extension ext_type data info =
     (if ext_type = 0 then (case parse_sni data of Some name \<Rightarrow> info\<lparr>ch_sni := Some name\<rparr> | None \<Rightarrow> info)
      else if ext_type = 16 then info\<lparr>ch_alpn := parse_alpn data\<rparr>
      else info)"

function parse_extensions :: "string \<Rightarrow> client_hello_info \<Rightarrow> client_hello_info" where
  "parse_extensions e info =
     (if length e < 4 then info
      else case rd_u16 e of
        None \<Rightarrow> info
      | Some (ext_type, e1) \<Rightarrow>
          (case rd_u16 e1 of
             None \<Rightarrow> info
           | Some (ext_len, e2) \<Rightarrow>
               (case rd_take ext_len e2 of
                  None \<Rightarrow> info
                | Some (data, e3) \<Rightarrow> parse_extensions e3 (take_extension ext_type data info))))"
  by pat_completeness auto
termination
  by (relation "measure (\<lambda>(e, info). length e)") (auto dest!: rd_shorter)

declare parse_extensions.simps [simp del]

section \<open>The handshake and the record\<close>

text \<open>A failure anywhere keeps what was found before it, which is nothing until the extensions.\<close>

definition parse_handshake :: "string \<Rightarrow> client_hello_info \<Rightarrow> client_hello_info" where
  "parse_handshake record_bytes info =
     (let fields =
        Option.bind (rd_u8 record_bytes) (\<lambda>(t, r).
        if t \<noteq> 1 then None
        else Option.bind (rd_skip 3 r) (\<lambda>r.
        Option.bind (rd_skip (2 + 32) r) (\<lambda>r.
        Option.bind (rd_u8 r) (\<lambda>(sid, r).
        Option.bind (rd_skip sid r) (\<lambda>r.
        Option.bind (rd_u16 r) (\<lambda>(cs, r).
        Option.bind (rd_skip cs r) (\<lambda>r.
        Option.bind (rd_u8 r) (\<lambda>(comp, r).
        Option.bind (rd_skip comp r) (\<lambda>r.
        Option.bind (rd_u16 r) (\<lambda>(ext_total, r).
        map_option fst (rd_take (min ext_total (length r)) r)))))))))))
      in case fields of None \<Rightarrow> info | Some ext_bytes \<Rightarrow> parse_extensions ext_bytes info)"

definition parse_hello :: "string \<Rightarrow> client_hello_info" where
  "parse_hello buf =
     (case rd_u8 buf of
        None \<Rightarrow> empty_hello
      | Some (t, r) \<Rightarrow>
        if t \<noteq> 22 then empty_hello
        else
          (let info = empty_hello\<lparr>ch_is_tls_handshake := True\<rparr> in
           case Option.bind (rd_skip 2 r) rd_u16 of
             None \<Rightarrow> info
           | Some (rec_len, r) \<Rightarrow>
               (case rd_take (min rec_len (length r)) r of
                  None \<Rightarrow> info
                | Some (record_bytes, _) \<Rightarrow> parse_handshake record_bytes info)))"

end
