(* ===== verification/ClientHelloProps.thy ===== *)
theory ClientHelloProps
  imports ClientHello
begin

text \<open>
  The sniffer against the encoding of a ClientHello (RFC 8446, sections 4.1.2, 4.2 and 5.1): it
  reads back what was offered, and a peek that ends anywhere reports only whole extensions.
\<close>

section \<open>Encoding\<close>

definition be16 :: "nat \<Rightarrow> string" where
  "be16 n = [char_of (n div 256), char_of (n mod 256)]"

definition vec8 :: "string \<Rightarrow> string" where "vec8 s = char_of (length s) # s"
definition vec16 :: "string \<Rightarrow> string" where "vec16 s = be16 (length s) @ s"

datatype hello_extension = ServerName string | Protocols "string list" | OtherExtension nat string

fun extension_type :: "hello_extension \<Rightarrow> nat" where
  "extension_type (ServerName host) = 0"
| "extension_type (Protocols names) = 16"
| "extension_type (OtherExtension t d) = t"

fun extension_data :: "hello_extension \<Rightarrow> string" where
  "extension_data (ServerName host) = vec16 (CHR 0x00 # vec16 host)"
| "extension_data (Protocols names) = vec16 (concat (map vec8 names))"
| "extension_data (OtherExtension t d) = d"

definition encode_extension :: "hello_extension \<Rightarrow> string" where
  "encode_extension e = be16 (extension_type e) @ vec16 (extension_data e)"

record client_hello =
  hl_record_version :: string
  hl_length :: string
  hl_version_random :: string
  hl_session_id :: string
  hl_cipher_suites :: string
  hl_compression :: string
  hl_extensions :: "hello_extension list"

definition handshake_bytes :: "client_hello \<Rightarrow> string" where
  "handshake_bytes h = CHR 0x01 # hl_length h @ hl_version_random h @ vec8 (hl_session_id h)
     @ vec16 (hl_cipher_suites h) @ vec8 (hl_compression h) @ vec16 (concat (map encode_extension (hl_extensions h)))"

definition encode_hello :: "client_hello \<Rightarrow> string" where
  "encode_hello h = CHR 0x16 # hl_record_version h @ vec16 (handshake_bytes h)"

fun extension_ok :: "hello_extension \<Rightarrow> bool" where
  "extension_ok (ServerName host) \<longleftrightarrow> valid_utf8 host \<and> length host < 65531"
| "extension_ok (Protocols names) \<longleftrightarrow> list_all (\<lambda>p. p \<noteq> [] \<and> length p < 256) names
     \<and> length (concat (map vec8 names)) < 65534"
| "extension_ok (OtherExtension t d) \<longleftrightarrow> t < 65536 \<and> t \<notin> {0, 16} \<and> length d < 65536"

definition hello_ok :: "client_hello \<Rightarrow> bool" where
  "hello_ok h \<longleftrightarrow> length (hl_record_version h) = 2 \<and> length (hl_length h) = 3 \<and> length (hl_version_random h) = 34
     \<and> length (hl_session_id h) < 256 \<and> length (hl_cipher_suites h) < 65536 \<and> length (hl_compression h) < 256
     \<and> list_all extension_ok (hl_extensions h) \<and> length (handshake_bytes h) < 65536"

text \<open>What a list of extensions offers: a later extension of a kind replaces an earlier one.\<close>

fun offer :: "client_hello_info \<Rightarrow> hello_extension list \<Rightarrow> client_hello_info" where
  "offer info [] = info"
| "offer info (ServerName host # es) = offer (info\<lparr>ch_sni := Some (to_ascii_lowercase host)\<rparr>) es"
| "offer info (Protocols names # es) = offer (info\<lparr>ch_alpn := names\<rparr>) es"
| "offer info (OtherExtension t d # es) = offer info es"

definition offered :: "hello_extension list \<Rightarrow> client_hello_info" where
  "offered es = offer \<lparr>ch_is_tls_handshake = True, ch_sni = None, ch_alpn = []\<rparr> es"

section \<open>Reading what was written, up to a cut\<close>

lemma byte_of_nat [simp]: "byte (char_of n) = n mod 256"
  by (simp add: byte_def)

lemma be16_value: "n < 65536 \<Longrightarrow> n div 256 mod 256 * 256 + n mod 256 = (n :: nat)"
proof -
  assume "n < 65536"
  then have "n div 256 < 256" by (intro less_mult_imp_div_less) simp
  then show ?thesis by (simp only: mod_less div_mult_mod_eq)
qed

lemma length_be16 [simp]: "length (be16 n) = 2"
  by (simp add: be16_def)

lemma cut_u8: "rd_u8 (take n (c # s)) = (if 0 < n then Some (byte c, take (n - 1) s) else None)"
  by (cases n) simp_all

lemma cut_u16:
  "m < 65536 \<Longrightarrow> rd_u16 (take n (be16 m @ s)) = (if 2 \<le> n then Some (m, take (n - 2) s) else None)"
  by (simp add: be16_def rd_u16_def cut_u8 be16_value numeral_2_eq_2)

lemma cut_take:
  "rd_take (length a) (take n (a @ s)) = (if length a \<le> n then Some (a, take (n - length a) s) else None)"
  by (auto simp: rd_take_def)

lemma cut_skip:
  "rd_skip (length a) (take n (a @ s)) = (if length a \<le> n then Some (take (n - length a) s) else None)"
  unfolding rd_skip_def cut_take by simp

lemma whole_u16: "m < 65536 \<Longrightarrow> rd_u16 (be16 m @ s) = Some (m, s)"
  using cut_u16 [of m "length (be16 m @ s)" s] by (simp add: be16_def)

lemma whole_take: "rd_take (length a) (a @ s) = Some (a, s)"
  by (simp add: rd_take_def)

lemma sni_back: "valid_utf8 host \<Longrightarrow> length host < 65531 \<Longrightarrow>
    parse_sni (vec16 (CHR 0x00 # vec16 host)) = Some (to_ascii_lowercase host)"
  using whole_take [of host "[]"]
  by (simp add: parse_sni_def vec16_def whole_u16 sni_entries.simps [of "CHR 0x00 # _"] byte_def)

lemma alpn_back_entries:
  "list_all (\<lambda>p. p \<noteq> [] \<and> length p < 256) names \<Longrightarrow> alpn_entries out (concat (map vec8 names)) = out @ names"
proof (induction names arbitrary: out)
  case Nil
  then show ?case by (simp add: alpn_entries.simps)
next
  case (Cons p names)
  then show ?case by (simp add: alpn_entries.simps [of out "_ # _"] vec8_def whole_take)
qed

lemma alpn_back: "extension_ok (Protocols names) \<Longrightarrow> parse_alpn (vec16 (concat (map vec8 names))) = names"
  by (simp add: parse_alpn_def vec16_def whole_u16 alpn_back_entries)

lemma take_back: "extension_ok e \<Longrightarrow> take_extension (extension_type e) (extension_data e) info = offer info [e]"
  by (cases e) (auto simp: take_extension_def sni_back alpn_back simp del: extension_ok.simps,
      auto simp: sni_back)

lemma type_ok: "extension_ok e \<Longrightarrow> extension_type e < 65536 \<and> length (extension_data e) < 65536"
  by (cases e) (auto simp: vec16_def)

lemma offer_step: "offer (offer info [e]) es = offer info (e # es)"
  by (cases e) simp_all

lemma extensions_step:
  "\<not> length x < 4 \<Longrightarrow> rd_u16 x = Some (t, x1) \<Longrightarrow> rd_u16 x1 = Some (m, x2) \<Longrightarrow> parse_extensions x info =
    (case rd_take m x2 of None \<Rightarrow> info | Some (data, x3) \<Rightarrow> parse_extensions x3 (take_extension t data info))"
  by (subst parse_extensions.simps) simp

text \<open>One extension of a cut list is read whole or ends the parse.\<close>

lemma cut_extension:
  assumes "extension_ok e"
  shows "parse_extensions (take n (encode_extension e @ s)) info =
    (if length (encode_extension e) \<le> n
     then parse_extensions (take (n - length (encode_extension e)) s) (offer info [e]) else info)"
proof -
  let ?d = "extension_data e"
  note ok = type_ok [OF assms]
  have shape: "encode_extension e @ s = be16 (extension_type e) @ be16 (length ?d) @ ?d @ s"
    by (simp add: encode_extension_def vec16_def)
  have len: "length (encode_extension e) = 4 + length ?d" by (simp add: encode_extension_def vec16_def)
  show ?thesis
  proof (cases "4 \<le> n")
    case False
    then have "length (take n (encode_extension e @ s)) < 4" by simp
    with False show ?thesis by (simp add: parse_extensions.simps [of "take n _"] len)
  next
    case True
    then have n: "2 \<le> n" "2 \<le> n - 2" "\<not> length (take n (encode_extension e @ s)) < 4" by (auto simp: len)
    have ty: "rd_u16 (take n (encode_extension e @ s)) = Some (extension_type e, take (n - 2) (be16 (length ?d) @ ?d @ s))"
      unfolding shape using ok n by (simp only: cut_u16 if_True)
    have ln: "rd_u16 (take (n - 2) (be16 (length ?d) @ ?d @ s)) = Some (length ?d, take (n - 2 - 2) (?d @ s))"
      using ok n by (simp only: cut_u16 if_True)
    have da: "rd_take (length ?d) (take (n - 2 - 2) (?d @ s))
      = (if length ?d \<le> n - 2 - 2 then Some (?d, take (n - 2 - 2 - length ?d) s) else None)" by (rule cut_take)
    have "n - 2 - 2 - length ?d = n - length (encode_extension e)" "length ?d \<le> n - 2 - 2 \<longleftrightarrow> length (encode_extension e) \<le> n"
      using True by (auto simp: len)
    then show ?thesis
      unfolding extensions_step [OF n(3) ty ln] da take_back [OF assms, symmetric]
      by (cases "length ?d \<le> n - 2 - 2") (simp_all del: take_append)
  qed
qed

lemma cut_extensions:
  "list_all extension_ok es \<Longrightarrow> \<exists>k. parse_extensions (take n (concat (map encode_extension es))) info = offer info (take k es)
     \<and> (length (concat (map encode_extension es)) \<le> n \<longrightarrow> take k es = es)"
proof (induction es arbitrary: n info)
  case Nil
  then show ?case by (auto simp: parse_extensions.simps)
next
  case (Cons e es)
  show ?case
  proof (cases "length (encode_extension e) \<le> n")
    case True
    from Cons.prems have "list_all extension_ok es" by simp
    from Cons.IH [OF this] obtain k where
      "parse_extensions (take (n - length (encode_extension e)) (concat (map encode_extension es))) (offer info [e])
        = offer (offer info [e]) (take k es)"
      "length (concat (map encode_extension es)) \<le> n - length (encode_extension e) \<longrightarrow> take k es = es"
      by metis
    with True Cons.prems show ?thesis
      by (intro exI [of _ "Suc k"]) (auto simp: cut_extension offer_step simp del: take_append)
  next
    case False
    with Cons.prems show ?thesis by (intro exI [of _ 0]) (simp add: cut_extension del: take_append)
  qed
qed

text \<open>The fields before the extensions, then the record.\<close>

lemma cut_vec8:
  "length a < 256 \<Longrightarrow> Option.bind (rd_u8 (take n (vec8 a @ s))) (\<lambda>(k, r). Option.bind (rd_skip k r) f)
     = (if 1 + length a \<le> n then f (take (n - (1 + length a)) s) else None)"
  by (auto simp: vec8_def cut_u8 cut_skip simp del: take_append)

lemma cut_vec16:
  "length a < 65536 \<Longrightarrow> Option.bind (rd_u16 (take n (vec16 a @ s))) (\<lambda>(k, r). Option.bind (rd_skip k r) f)
     = (if 2 + length a \<le> n then f (take (n - (2 + length a)) s) else None)"
  by (auto simp: vec16_def cut_u16 cut_skip simp del: take_append)

lemma cut_tail:
  "length a < 65536 \<Longrightarrow> Option.bind (rd_u16 (take n (vec16 a))) (\<lambda>(k, r). map_option fst (rd_take (min k (length r)) r))
     = (if 2 \<le> n then Some (take (n - 2) a) else None)"
  by (auto simp: vec16_def cut_u16 rd_take_def min_def simp del: take_append)

lemma cut_handshake:
  assumes "hello_ok h"
  shows "\<exists>k. parse_handshake (take n (handshake_bytes h)) \<lparr>ch_is_tls_handshake = True, ch_sni = None, ch_alpn = []\<rparr>
      = offered (take k (hl_extensions h)) \<and> (length (handshake_bytes h) \<le> n \<longrightarrow> take k (hl_extensions h) = hl_extensions h)"
proof -
  let ?E = "concat (map encode_extension (hl_extensions h))"
  let ?off = "1 + length (hl_length h) + length (hl_version_random h) + (1 + length (hl_session_id h))
      + (2 + length (hl_cipher_suites h)) + (1 + length (hl_compression h)) + 2"
  have E: "length ?E < 65536" "length (handshake_bytes h) = ?off + length ?E"
    using assms by (auto simp: hello_ok_def handshake_bytes_def vec8_def vec16_def)
  have skips: "rd_skip 3 (take m (hl_length h @ s)) = (if 3 \<le> m then Some (take (m - 3) s) else None)"
    "rd_skip 34 (take m (hl_version_random h @ s)) = (if 34 \<le> m then Some (take (m - 34) s) else None)" for m s
    using cut_skip [of "hl_length h" m s] cut_skip [of "hl_version_random h" m s] assms by (simp_all add: hello_ok_def)
  have lens: "length (hl_session_id h) < 256" "length (hl_cipher_suites h) < 65536" "length (hl_compression h) < 256"
    "length (hl_length h) = 3" "length (hl_version_random h) = 34"
    using assms by (auto simp: hello_ok_def)
  have parsed: "parse_handshake (take n (handshake_bytes h)) info =
      (if ?off \<le> n then parse_extensions (take (n - ?off) ?E) info else info)" for info
    unfolding handshake_bytes_def parse_handshake_def
    by (auto simp: cut_u8 skips cut_vec8 cut_vec16 cut_tail lens E(1) byte_def Let_def simp del: take_append
        split: if_splits)
  obtain k where k: "parse_extensions (take (n - ?off) ?E) \<lparr>ch_is_tls_handshake = True, ch_sni = None, ch_alpn = []\<rparr>
      = offered (take k (hl_extensions h))" "length ?E \<le> n - ?off \<longrightarrow> take k (hl_extensions h) = hl_extensions h"
    using cut_extensions [of "hl_extensions h"] assms unfolding offered_def hello_ok_def by blast
  show ?thesis
  proof (cases "?off \<le> n")
    case True
    with k E(2) show ?thesis by (intro exI [of _ k]) (simp add: parsed)
  next
    case False
    then show ?thesis using E(2) by (intro exI [of _ 0]) (simp add: parsed offered_def)
  qed
qed

section \<open>Property\<close>

text \<open>
  C24. Whatever follows it, an encoded ClientHello is read back as exactly what it offers, and when
  the peek ends early, at any byte, what is reported is what a prefix of its extensions offers: no
  name or protocol is ever made up or cut short.
\<close>

theorem hello_reads_back:
  assumes "hello_ok h"
  shows "parse_hello (encode_hello h @ rest) = offered (hl_extensions h)
    \<and> (0 < n \<longrightarrow> (\<exists>k. parse_hello (take n (encode_hello h)) = offered (take k (hl_extensions h))))"
proof -
  have cut: "\<exists>k. parse_hello (take n (encode_hello h @ rest)) = offered (take k (hl_extensions h))
      \<and> (length (encode_hello h) \<le> n \<longrightarrow> take k (hl_extensions h) = hl_extensions h)" if "0 < n" for n rest
  proof -
    let ?H = "handshake_bytes h"
    have len: "length (hl_record_version h) = 2" "length ?H < 65536" using assms by (auto simp: hello_ok_def)
    have skip: "rd_skip 2 (take m (hl_record_version h @ s)) = (if 2 \<le> m then Some (take (m - 2) s) else None)" for m s
      using cut_skip [of "hl_record_version h" m s] len by simp
    have record_cut: "rd_take (min (length ?H) (min (length ?H + length rest) m)) (take m (?H @ rest))
        = Some (take m ?H, take (m - length ?H) rest)" for m
      by (auto simp: rd_take_def min_def)
    have parsed: "parse_hello (take n (encode_hello h @ rest)) = (if 5 \<le> n
        then parse_handshake (take (n - 5) ?H) \<lparr>ch_is_tls_handshake = True, ch_sni = None, ch_alpn = []\<rparr>
        else offered [])"
      using that unfolding encode_hello_def parse_hello_def vec16_def
      by (simp add: cut_u8 skip cut_u16 len record_cut byte_def empty_hello_def offered_def Let_def del: take_append)
        (auto simp: eval_nat_numeral)
    have "length (encode_hello h) = 5 + length ?H" using len by (simp add: encode_hello_def vec16_def)
    with parsed cut_handshake [OF assms, of "n - 5"] show ?thesis
      by (cases "5 \<le> n") (auto intro: exI [of _ 0])
  qed
  from cut [of "length (encode_hello h @ rest)" rest] cut [of n "[]"] show ?thesis
    by (auto simp: encode_hello_def)
qed

definition demo_hello :: client_hello where
  "demo_hello = \<lparr>hl_record_version = replicate 2 CHR 0x03, hl_length = replicate 3 CHR 0x00,
     hl_version_random = replicate 34 CHR 0x07, hl_session_id = [], hl_cipher_suites = replicate 2 CHR 0x13,
     hl_compression = [CHR 0x00], hl_extensions = [ServerName ''API.test'', Protocols [''h2'']]\<rparr>"

theorem hello_reads_back_witness:
  "ch_sni (parse_hello (encode_hello demo_hello @ ''next'')) = Some ''api.test''
   \<and> is_h2_only (parse_hello (encode_hello demo_hello @ ''next''))
   \<and> (\<exists>k. parse_hello (take 70 (encode_hello demo_hello)) = offered (take k (hl_extensions demo_hello)))"
proof -
  have "hello_ok demo_hello" by code_simp
  note reads = hello_reads_back [OF this, of "''next''" 70]
  have "ch_sni (offered (hl_extensions demo_hello)) = Some ''api.test'' \<and> is_h2_only (offered (hl_extensions demo_hello))"
    by code_simp
  with reads show ?thesis by simp
qed

end
