(* ===== verification/Ints.thy ===== *)
theory Ints
  imports Base "HOL-Library.Signed_Division"
begin

text \<open>
  Arithmetic of the 64 bit signed integers the program counts money and tokens in. The release
  build wraps on overflow; \<open>saturating_add\<close> and \<open>saturating_mul\<close> stop at the ends of the type;
  division truncates towards zero.
\<close>

definition i64_range :: "int \<Rightarrow> bool" where
  "i64_range n \<longleftrightarrow> - (2 ^ 63) \<le> n \<and> n < 2 ^ 63"

definition wrap64 :: "int \<Rightarrow> int" where
  "wrap64 n = (n + 2 ^ 63) mod 2 ^ 64 - 2 ^ 63"

definition add64 :: "int \<Rightarrow> int \<Rightarrow> int" where
  "add64 a b = wrap64 (a + b)"

definition sub64 :: "int \<Rightarrow> int \<Rightarrow> int" where
  "sub64 a b = wrap64 (a - b)"

definition clamp64 :: "int \<Rightarrow> int" where
  "clamp64 n = max (- (2 ^ 63)) (min (2 ^ 63 - 1) n)"

definition saturating_add :: "int \<Rightarrow> int \<Rightarrow> int" where
  "saturating_add a b = clamp64 (a + b)"

definition saturating_mul :: "int \<Rightarrow> int \<Rightarrow> int" where
  "saturating_mul a b = clamp64 (a * b)"

lemma wrap64_id: "i64_range n \<Longrightarrow> wrap64 n = n"
  by (simp add: i64_range_def wrap64_def)

lemma wrap64_range: "i64_range (wrap64 n)"
  using pos_mod_bound [of "2 ^ 64" "n + 2 ^ 63"] pos_mod_sign [of "2 ^ 64" "n + 2 ^ 63"]
  by (auto simp: i64_range_def wrap64_def)

lemma wrap64_left [simp]: "wrap64 (wrap64 a + b) = wrap64 (a + b)"
  and wrap64_right [simp]: "wrap64 (a + wrap64 b) = wrap64 (a + b)"
  by (simp_all add: wrap64_def mod_simps algebra_simps)

lemma clamp64_id: "i64_range n \<Longrightarrow> clamp64 n = n"
  by (auto simp: i64_range_def clamp64_def)

lemma clamp64_range: "i64_range (clamp64 n)"
  by (auto simp: i64_range_def clamp64_def)

lemma clamp64_mono: "a \<le> b \<Longrightarrow> clamp64 a \<le> clamp64 b"
  by (auto simp: clamp64_def)

lemma clamp64_zero [simp]: "clamp64 0 = 0"
  by (simp add: clamp64_def)

lemma clamp64_nonneg: "0 \<le> n \<Longrightarrow> 0 \<le> clamp64 n \<and> clamp64 n \<le> n"
  by (auto simp: clamp64_def)

text \<open>Truncating division by a positive number.\<close>

lemma trunc_div_nonneg: "0 \<le> a \<Longrightarrow> 0 < b \<Longrightarrow> a sdiv b = a div (b :: int)"
  by (cases "a = 0") (auto simp: signed_divide_int_def)

text \<open>Sums of columns: a wrapping fold is the wrapped sum.\<close>

lemma fold_add64: "fold (\<lambda>x acc. add64 acc (f x)) xs (wrap64 a) = wrap64 (a + (\<Sum>x\<leftarrow>xs. f x))"
proof (induction xs arbitrary: a)
  case (Cons x xs)
  have "add64 (wrap64 a) (f x) = wrap64 (a + f x)" by (simp add: add64_def)
  with Cons [of "a + f x"] show ?case by (simp add: algebra_simps)
qed simp

lemma sum_list_zero_iff_nonneg:
  fixes f :: "'a \<Rightarrow> int"
  assumes "\<And>x. x \<in> set xs \<Longrightarrow> 0 \<le> f x"
  shows "0 \<le> (\<Sum>x\<leftarrow>xs. f x)"
  using assms by (induction xs) auto

end
