(* ===== verification/Usage.thy ===== *)
theory Usage
  imports Ints Strings
begin

text \<open>
  crates/core/src/usage.rs: usage snapshots, the filters and totals over them, and which of their
  costs a budget consumes. A total folds optional columns, so it carries the number of rows that
  had each of them; \<open>from_coverage\<close> decides from the two counts whether a sum may stand as a total.
  Amounts are micro-dollars in 64 bits. The text of an amount (\<open>format_micros\<close>, which divides
  doubles) and decimal amounts of providers are parameters.
\<close>

section \<open>Snapshots\<close>

datatype usage_attribution = UsedExactCredential | UsedProviderKey | UsedProviderProject | UsedProviderAccount
  | UsedLocalProject | UsedLocalProcess | UsedUnknown

fun usage_attribution_str :: "usage_attribution \<Rightarrow> string" where
  "usage_attribution_str UsedExactCredential = ''exact_credential''"
| "usage_attribution_str UsedProviderKey = ''provider_key''"
| "usage_attribution_str UsedProviderProject = ''provider_project''"
| "usage_attribution_str UsedProviderAccount = ''provider_account''"
| "usage_attribution_str UsedLocalProject = ''local_project''"
| "usage_attribution_str UsedLocalProcess = ''local_process''"
| "usage_attribution_str UsedUnknown = ''unknown''"

fun usage_attribution_label :: "usage_attribution \<Rightarrow> string" where
  "usage_attribution_label UsedExactCredential = ''exact credential''"
| "usage_attribution_label UsedProviderKey = ''exact provider key (not linked to a local credential)''"
| "usage_attribution_label UsedProviderProject = ''provider-project level (not per key)''"
| "usage_attribution_label UsedProviderAccount = ''provider-account level (not per key)''"
| "usage_attribution_label UsedLocalProject = ''local project only''"
| "usage_attribution_label UsedLocalProcess = ''local process session''"
| "usage_attribution_label UsedUnknown = ''unknown precision''"

definition attribution_is_exact :: "usage_attribution \<Rightarrow> bool" where
  "attribution_is_exact a \<longleftrightarrow> a = UsedExactCredential"

definition parse_usage_attribution :: "string \<Rightarrow> usage_attribution" where
  "parse_usage_attribution s =
     (if s = ''exact_credential'' then UsedExactCredential
      else if s = ''provider_key'' then UsedProviderKey
      else if s = ''provider_project'' then UsedProviderProject
      else if s = ''provider_account'' then UsedProviderAccount
      else if s = ''local_project'' then UsedLocalProject
      else if s = ''local_process'' then UsedLocalProcess
      else UsedUnknown)"

text \<open>The columns a new and a stored snapshot share; a decimal quantity is its text.\<close>

record usage_data =
  ud_credential_id :: "string option"
  ud_project_id :: "string option"
  ud_provider :: string
  ud_model :: "string option"
  ud_window_start :: string
  ud_window_end :: string
  ud_request_count :: "int option"
  ud_input_tokens :: "int option"
  ud_output_tokens :: "int option"
  ud_total_tokens :: "int option"
  ud_credits :: "string option"
  ud_reported_cost_micros :: "int option"
  ud_estimated_cost_micros :: "int option"
  ud_currency :: string
  ud_source :: string
  ud_provider_account_id :: "string option"
  ud_provider_project_id :: "string option"
  ud_provider_api_key_id :: "string option"
  ud_line_item :: "string option"
  ud_quantity :: "string option"
  ud_unit :: "string option"

record new_usage_snapshot = usage_data +
  nu_attribution :: usage_attribution

record usage_snapshot = usage_data +
  sn_attribution :: string
  sn_id :: string
  sn_collected_at :: string

definition new_snapshot :: "string \<Rightarrow> string \<Rightarrow> string \<Rightarrow> new_usage_snapshot" where
  "new_snapshot provider window_start window_end =
     \<lparr>ud_credential_id = None, ud_project_id = None, ud_provider = provider, ud_model = None,
      ud_window_start = window_start, ud_window_end = window_end, ud_request_count = None,
      ud_input_tokens = None, ud_output_tokens = None, ud_total_tokens = None, ud_credits = None,
      ud_reported_cost_micros = None, ud_estimated_cost_micros = None, ud_currency = ''USD'',
      ud_source = ''provider_sync'', ud_provider_account_id = None, ud_provider_project_id = None,
      ud_provider_api_key_id = None, ud_line_item = None, ud_quantity = None, ud_unit = None,
      nu_attribution = UsedUnknown\<rparr>"

text \<open>Windows whose bounds parse and are in order; the parser of time stamps is the clock's.\<close>

definition window_valid :: "(string \<Rightarrow> int res) \<Rightarrow> new_usage_snapshot \<Rightarrow> bool" where
  "window_valid parse_rfc3339 s \<longleftrightarrow>
     (case (parse_rfc3339 (ud_window_start s), parse_rfc3339 (ud_window_end s)) of
        (Inr start, Inr end') \<Rightarrow> start \<le> end'
      | _ \<Rightarrow> False)"

definition retain_valid_windows ::
    "(string \<Rightarrow> int res) \<Rightarrow> new_usage_snapshot list \<Rightarrow> new_usage_snapshot list \<times> nat" where
  "retain_valid_windows parse_rfc3339 rows =
     (let kept = filter (window_valid parse_rfc3339) rows in (kept, length rows - length kept))"

definition snapshot_row :: "string \<Rightarrow> string \<Rightarrow> new_usage_snapshot \<Rightarrow> usage_snapshot" where
  "snapshot_row i now s = usage_data.extend (usage_data.truncate s)
     \<lparr>sn_attribution = usage_attribution_str (nu_attribution s), sn_id = i, sn_collected_at = now\<rparr>"

text \<open>\<open>record\<close>: the row is inserted under a fresh id, stamped with the time of the call.\<close>

definition record_snapshot ::
    "string \<Rightarrow> string \<Rightarrow> new_usage_snapshot \<Rightarrow> usage_snapshot list \<Rightarrow> string \<times> usage_snapshot list" where
  "record_snapshot i now s rows = (i, rows @ [snapshot_row i now s])"

section \<open>Queries\<close>

datatype source_filter = AllSources | ProviderSources | ManualSources

record usage_filter =
  uf_since :: "string option"
  uf_until :: "string option"
  uf_credential_id :: "string option"
  uf_project_id :: "string option"
  uf_provider :: "string option"
  uf_source :: source_filter

text \<open>The clauses of \<open>filter_sql\<close>; a comparison with a missing column is not true.\<close>

definition passes_filter :: "usage_filter \<Rightarrow> usage_snapshot \<Rightarrow> bool" where
  "passes_filter f s \<longleftrightarrow>
     (case uf_since f of None \<Rightarrow> True | Some t \<Rightarrow> t \<le> ud_window_start s)
   \<and> (case uf_until f of None \<Rightarrow> True | Some t \<Rightarrow> ud_window_start s < t)
   \<and> (case uf_credential_id f of None \<Rightarrow> True | Some c \<Rightarrow> ud_credential_id s = Some c)
   \<and> (case uf_project_id f of None \<Rightarrow> True | Some p \<Rightarrow> ud_project_id s = Some p)
   \<and> (case uf_provider f of None \<Rightarrow> True | Some p \<Rightarrow> ud_provider s = p)
   \<and> (case uf_source f of AllSources \<Rightarrow> True
      | ProviderSources \<Rightarrow> ud_source s \<noteq> ''manual''
      | ManualSources \<Rightarrow> ud_source s = ''manual'')"

text \<open>Newest window first; of rows with one window start the later row is first, as the index gives them.\<close>

definition list_usage :: "usage_filter \<Rightarrow> usage_snapshot list \<Rightarrow> usage_snapshot list" where
  "list_usage f rows = rev (sort_key ud_window_start (filter (passes_filter f) rows))"

definition scope_filter :: "string \<Rightarrow> string option \<Rightarrow> string option \<Rightarrow> usage_filter" where
  "scope_filter since credential_id project_id =
     \<lparr>uf_since = Some since, uf_until = None, uf_credential_id = credential_id,
      uf_project_id = project_id, uf_provider = None, uf_source = AllSources\<rparr>"

definition list_since ::
    "string \<Rightarrow> string option \<Rightarrow> string option \<Rightarrow> usage_snapshot list \<Rightarrow> usage_snapshot list" where
  "list_since since credential_id project_id = list_usage (scope_filter since credential_id project_id)"

section \<open>Availability\<close>

datatype availability =
    Known (av_covered: int) (av_total: int)
  | Partial (av_covered: int) (av_total: int)
  | UnknownFigure (av_total: int)
  | UnsupportedFigure (av_detail: string)

definition from_coverage :: "int \<Rightarrow> int \<Rightarrow> availability" where
  "from_coverage covered all =
     (if all \<le> 0 then UnknownFigure 0
      else if covered \<le> 0 then UnknownFigure all
      else if covered < all then Partial covered all
      else Known covered all)"

fun has_value :: "availability \<Rightarrow> bool" where
  "has_value (Known _ _) = True"
| "has_value (Partial _ _) = True"
| "has_value _ = False"

fun is_complete :: "availability \<Rightarrow> bool" where
  "is_complete (Known _ _) = True"
| "is_complete _ = False"

fun covered_rows :: "availability \<Rightarrow> int" where
  "covered_rows (Known c _) = c"
| "covered_rows (Partial c _) = c"
| "covered_rows _ = 0"

fun total_rows :: "availability \<Rightarrow> int" where
  "total_rows (Known _ t) = t"
| "total_rows (Partial _ t) = t"
| "total_rows (UnknownFigure t) = t"
| "total_rows (UnsupportedFigure _) = 0"

fun availability_str :: "availability \<Rightarrow> string" where
  "availability_str (Known _ _) = ''known''"
| "availability_str (Partial _ _) = ''partial''"
| "availability_str (UnknownFigure _) = ''unknown''"
| "availability_str (UnsupportedFigure _) = ''unsupported''"

record usage_subject =
  su_name :: string
  su_partial_label :: string
  su_carrier :: string
  su_unit :: string
  su_absent_detail :: "string option"

fun sentence_body :: "availability \<Rightarrow> usage_subject \<Rightarrow> string" where
  "sentence_body (UnsupportedFigure detail) s = ''not reported by this source '' @ em_dash @ '' '' @ detail"
| "sentence_body (UnknownFigure all) s =
     (let reason = (if 0 < all then ''none of the '' @ dec_of_int all @ '' '' @ su_unit s @ '' carried '' @ su_carrier s
                    else ''no '' @ su_unit s @ '' in this window'')
      in case su_absent_detail s of
           Some d \<Rightarrow> ''not reported '' @ em_dash @ '' '' @ reason @ '' ('' @ d @ '')''
         | None \<Rightarrow> ''not reported '' @ em_dash @ '' '' @ reason)"
| "sentence_body _ s = ''not reported '' @ em_dash @ '' the value was missing where the source said it was known''"

definition sentence :: "availability \<Rightarrow> usage_subject \<Rightarrow> string" where
  "sentence a s = su_name s @ '' '' @ sentence_body a s"

fun availability_note :: "availability \<Rightarrow> usage_subject \<Rightarrow> string option" where
  "availability_note (Partial covered all) s =
     Some (su_partial_label s @ '': '' @ dec_of_int covered @ '' of '' @ dec_of_int all @ '' '' @ su_unit s
       @ '' carried '' @ su_carrier s @ '', and the rest are NOT counted as zero'')"
| "availability_note _ s = None"

definition SUBJECT_REQUESTS :: usage_subject where
  "SUBJECT_REQUESTS = \<lparr>su_name = ''Requests'', su_partial_label = ''Partial request data'',
     su_carrier = ''a request count'', su_unit = ''usage record(s)'',
     su_absent_detail = Some ''many providers report consumption without a request count''\<rparr>"

definition SUBJECT_INPUT_TOKENS :: usage_subject where
  "SUBJECT_INPUT_TOKENS = \<lparr>su_name = ''Input tokens'', su_partial_label = ''Partial token data'',
     su_carrier = ''an input token count'', su_unit = ''usage record(s)'',
     su_absent_detail = Some ''many providers meter products in units other than tokens''\<rparr>"

definition SUBJECT_OUTPUT_TOKENS :: usage_subject where
  "SUBJECT_OUTPUT_TOKENS = \<lparr>su_name = ''Output tokens'', su_partial_label = ''Partial token data'',
     su_carrier = ''an output token count'', su_unit = ''usage record(s)'',
     su_absent_detail = Some ''many providers meter products in units other than tokens''\<rparr>"

definition SUBJECT_TOTAL_TOKENS :: usage_subject where
  "SUBJECT_TOTAL_TOKENS = \<lparr>su_name = ''Total tokens'', su_partial_label = ''Partial token data'',
     su_carrier = ''a token count'', su_unit = ''usage record(s)'',
     su_absent_detail = Some ''many providers meter products in units other than tokens''\<rparr>"

definition SUBJECT_REPORTED_COST :: usage_subject where
  "SUBJECT_REPORTED_COST = \<lparr>su_name = ''Reported cost'', su_partial_label = ''Partial cost data'',
     su_carrier = ''a USD provider-reported cost'', su_unit = ''usage record(s)'', su_absent_detail = None\<rparr>"

definition SUBJECT_ESTIMATED_COST :: usage_subject where
  "SUBJECT_ESTIMATED_COST = \<lparr>su_name = ''Estimated cost'', su_partial_label = ''Partial cost data'',
     su_carrier = ''a local cost estimate'', su_unit = ''usage record(s)'',
     su_absent_detail = Some ''an estimate exists only where local pricing covers the model''\<rparr>"

definition render_count :: "int \<Rightarrow> availability \<Rightarrow> usage_subject \<Rightarrow> string" where
  "render_count n a s =
     (if \<not> has_value a then sentence_body a s
      else case availability_note a s of
             Some note \<Rightarrow> dec_of_int n @ '' '' @ em_dash @ '' '' @ note
           | None \<Rightarrow> dec_of_int n)"

definition render_micros :: "(int \<Rightarrow> string) \<Rightarrow> int \<Rightarrow> availability \<Rightarrow> usage_subject \<Rightarrow> string" where
  "render_micros format_micros micros a s =
     (if \<not> has_value a then sentence_body a s
      else case availability_note a s of
             Some note \<Rightarrow> format_micros micros @ '' '' @ em_dash @ '' '' @ note
           | None \<Rightarrow> format_micros micros)"

section \<open>Totals\<close>

text \<open>Sums wrap; the counts of rows cannot reach the end of the type.\<close>

record usage_totals =
  ut_snapshots :: int
  ut_request_count :: int
  ut_input_tokens :: int
  ut_output_tokens :: int
  ut_total_tokens :: int
  ut_reported_cost_micros :: int
  ut_estimated_cost_micros :: int
  ut_has_inexact_attribution :: bool
  ut_coarsest_attribution :: "string option"
  ut_reported_currencies :: "string list"
  ut_has_non_usd_reported :: bool
  ut_last_collected_at :: "string option"
  ut_request_rows :: int
  ut_rows_without_requests :: int
  ut_input_token_rows :: int
  ut_rows_without_input_tokens :: int
  ut_output_token_rows :: int
  ut_rows_without_output_tokens :: int
  ut_token_rows :: int
  ut_rows_without_tokens :: int
  ut_reported_cost_rows :: int
  ut_rows_without_reported_cost :: int
  ut_estimated_cost_rows :: int
  ut_rows_without_estimated_cost :: int
  ut_non_token_unit_rows :: int
  ut_non_token_units :: "string list"

definition no_totals :: usage_totals where
  "no_totals =
     \<lparr>ut_snapshots = 0, ut_request_count = 0, ut_input_tokens = 0, ut_output_tokens = 0,
      ut_total_tokens = 0, ut_reported_cost_micros = 0, ut_estimated_cost_micros = 0,
      ut_has_inexact_attribution = False, ut_coarsest_attribution = None, ut_reported_currencies = [],
      ut_has_non_usd_reported = False, ut_last_collected_at = None, ut_request_rows = 0,
      ut_rows_without_requests = 0, ut_input_token_rows = 0, ut_rows_without_input_tokens = 0,
      ut_output_token_rows = 0, ut_rows_without_output_tokens = 0, ut_token_rows = 0,
      ut_rows_without_tokens = 0, ut_reported_cost_rows = 0, ut_rows_without_reported_cost = 0,
      ut_estimated_cost_rows = 0, ut_rows_without_estimated_cost = 0, ut_non_token_unit_rows = 0,
      ut_non_token_units = []\<rparr>"

definition or_zero :: "int option \<Rightarrow> int" where
  "or_zero x = (case x of None \<Rightarrow> 0 | Some n \<Rightarrow> n)"

definition one_if :: "bool \<Rightarrow> int" where
  "one_if b = (if b then 1 else 0)"

definition coarseness :: "string \<Rightarrow> int" where
  "coarseness a =
     (if a = ''exact_credential'' \<or> a = ''local_process'' then 0
      else if a = ''provider_key'' then 1
      else if a = ''provider_project'' \<or> a = ''local_project'' then 2
      else if a = ''provider_account'' then 3
      else 4)"

definition carries_tokens :: "('a usage_data_scheme) \<Rightarrow> bool" where
  "carries_tokens s \<longleftrightarrow> ud_total_tokens s \<noteq> None \<or> ud_input_tokens s \<noteq> None \<or> ud_output_tokens s \<noteq> None"

definition row_tokens :: "('a usage_data_scheme) \<Rightarrow> int" where
  "row_tokens s =
     (case ud_total_tokens s of
        Some n \<Rightarrow> n
      | None \<Rightarrow> add64 (or_zero (ud_input_tokens s)) (or_zero (ud_output_tokens s)))"

definition add_sums :: "usage_snapshot \<Rightarrow> usage_totals \<Rightarrow> usage_totals" where
  "add_sums s t = t
     \<lparr>ut_snapshots := ut_snapshots t + 1,
      ut_request_count := add64 (ut_request_count t) (or_zero (ud_request_count s)),
      ut_input_tokens := add64 (ut_input_tokens t) (or_zero (ud_input_tokens s)),
      ut_output_tokens := add64 (ut_output_tokens t) (or_zero (ud_output_tokens s)),
      ut_total_tokens := add64 (ut_total_tokens t) (row_tokens s)\<rparr>"

definition add_coverage :: "usage_snapshot \<Rightarrow> usage_totals \<Rightarrow> usage_totals" where
  "add_coverage s t = t
     \<lparr>ut_request_rows := ut_request_rows t + one_if (ud_request_count s \<noteq> None),
      ut_input_token_rows := ut_input_token_rows t + one_if (ud_input_tokens s \<noteq> None),
      ut_output_token_rows := ut_output_token_rows t + one_if (ud_output_tokens s \<noteq> None),
      ut_token_rows := ut_token_rows t + one_if (carries_tokens s),
      ut_estimated_cost_rows := ut_estimated_cost_rows t + one_if (ud_estimated_cost_micros s \<noteq> None)\<rparr>"

definition add_unit :: "usage_snapshot \<Rightarrow> usage_totals \<Rightarrow> usage_totals" where
  "add_unit s t =
     (case (carries_tokens s, ud_unit s) of
        (False, Some unit) \<Rightarrow> t
          \<lparr>ut_non_token_unit_rows := ut_non_token_unit_rows t + 1,
           ut_non_token_units := (if list_ex (\<lambda>u. eq_ignore_ascii_case u unit) (ut_non_token_units t)
                                  then ut_non_token_units t else ut_non_token_units t @ [unit])\<rparr>
      | _ \<Rightarrow> t)"

definition is_usd :: "string \<Rightarrow> bool" where
  "is_usd currency \<longleftrightarrow> eq_ignore_ascii_case currency ''USD''"

definition add_reported :: "(string \<Rightarrow> string) \<Rightarrow> usage_snapshot \<Rightarrow> usage_totals \<Rightarrow> usage_totals" where
  "add_reported uppercase s t =
     (case ud_reported_cost_micros s of
        None \<Rightarrow> t
      | Some rep \<Rightarrow>
          (let t = (if is_usd (ud_currency s)
                    then t\<lparr>ut_reported_cost_micros := add64 (ut_reported_cost_micros t) rep,
                           ut_reported_cost_rows := ut_reported_cost_rows t + 1\<rparr>
                    else t\<lparr>ut_has_non_usd_reported := True\<rparr>)
           in if list_ex (\<lambda>c. eq_ignore_ascii_case c (ud_currency s)) (ut_reported_currencies t) then t
              else t\<lparr>ut_reported_currencies := ut_reported_currencies t @ [uppercase (ud_currency s)]\<rparr>))"

definition add_labels :: "usage_snapshot \<Rightarrow> usage_totals \<times> int \<Rightarrow> usage_totals \<times> int" where
  "add_labels s = (\<lambda>(t, worst).
     (let t = t\<lparr>ut_estimated_cost_micros := add64 (ut_estimated_cost_micros t) (or_zero (ud_estimated_cost_micros s))\<rparr>;
          t = (if sn_attribution s \<noteq> ''exact_credential'' then t\<lparr>ut_has_inexact_attribution := True\<rparr> else t);
          r = coarseness (sn_attribution s);
          (t, worst) = (if worst < r then (t\<lparr>ut_coarsest_attribution := Some (sn_attribution s)\<rparr>, r) else (t, worst));
          later = (case ut_last_collected_at t of None \<Rightarrow> True | Some prev \<Rightarrow> prev < sn_collected_at s)
      in (if later then t\<lparr>ut_last_collected_at := Some (sn_collected_at s)\<rparr> else t, worst)))"

definition add_snapshot ::
    "(string \<Rightarrow> string) \<Rightarrow> usage_snapshot \<Rightarrow> usage_totals \<times> int \<Rightarrow> usage_totals \<times> int" where
  "add_snapshot uppercase s = (\<lambda>(t, worst).
     add_labels s (add_reported uppercase s (add_unit s (add_coverage s (add_sums s t))), worst))"

definition close_totals :: "usage_totals \<Rightarrow> usage_totals" where
  "close_totals t = t
     \<lparr>ut_rows_without_requests := ut_snapshots t - ut_request_rows t,
      ut_rows_without_input_tokens := ut_snapshots t - ut_input_token_rows t,
      ut_rows_without_output_tokens := ut_snapshots t - ut_output_token_rows t,
      ut_rows_without_tokens := ut_snapshots t - ut_token_rows t,
      ut_rows_without_reported_cost := ut_snapshots t - ut_reported_cost_rows t,
      ut_rows_without_estimated_cost := ut_snapshots t - ut_estimated_cost_rows t\<rparr>"

definition totals :: "(string \<Rightarrow> string) \<Rightarrow> usage_filter \<Rightarrow> usage_snapshot list \<Rightarrow> usage_totals" where
  "totals uppercase f rows =
     close_totals (fst (fold (add_snapshot uppercase) (list_usage f rows) (no_totals, - 1)))"

definition totals_since ::
    "(string \<Rightarrow> string) \<Rightarrow> string \<Rightarrow> string option \<Rightarrow> string option \<Rightarrow> usage_snapshot list \<Rightarrow> usage_totals" where
  "totals_since uppercase since credential_id project_id =
     totals uppercase (scope_filter since credential_id project_id)"

definition tokens_availability :: "usage_totals \<Rightarrow> int \<Rightarrow> availability" where
  "tokens_availability t covered =
     (if 0 < ut_snapshots t \<and> ut_token_rows t = 0 \<and> ut_non_token_unit_rows t = ut_snapshots t
      then UnsupportedFigure (''these '' @ dec_of_int (ut_snapshots t) @ '' record(s) are metered in ''
             @ join '', '' (ut_non_token_units t) @ '', not tokens'')
      else from_coverage covered (ut_snapshots t))"

definition request_availability :: "usage_totals \<Rightarrow> availability" where
  "request_availability t = from_coverage (ut_request_rows t) (ut_snapshots t)"

definition input_token_availability :: "usage_totals \<Rightarrow> availability" where
  "input_token_availability t = tokens_availability t (ut_input_token_rows t)"

definition output_token_availability :: "usage_totals \<Rightarrow> availability" where
  "output_token_availability t = tokens_availability t (ut_output_token_rows t)"

definition total_token_availability :: "usage_totals \<Rightarrow> availability" where
  "total_token_availability t = tokens_availability t (ut_token_rows t)"

definition reported_cost_availability :: "usage_totals \<Rightarrow> availability" where
  "reported_cost_availability t = from_coverage (ut_reported_cost_rows t) (ut_snapshots t)"

definition estimated_cost_availability :: "usage_totals \<Rightarrow> availability" where
  "estimated_cost_availability t = from_coverage (ut_estimated_cost_rows t) (ut_snapshots t)"

section \<open>The cost a budget consumes\<close>

datatype cost_source = BestAvailable | ProviderReported | Estimated

fun cost_source_str :: "cost_source \<Rightarrow> string" where
  "cost_source_str BestAvailable = ''best_available''"
| "cost_source_str ProviderReported = ''provider_reported''"
| "cost_source_str Estimated = ''estimated''"

definition parse_cost_source :: "string \<Rightarrow> cost_source res" where
  "parse_cost_source s =
     (if s = ''best_available'' then Inr BestAvailable
      else if s = ''provider_reported'' then Inr ProviderReported
      else if s = ''estimated'' then Inr Estimated
      else Inl (InvalidInput (''unknown cost source '' @ quoted s
                  @ '' (use best_available, provider_reported, or estimated)'')))"

definition pick_used_cost :: "usage_totals \<Rightarrow> cost_source \<Rightarrow> int \<times> bool" where
  "pick_used_cost t source =
     (case source of
        ProviderReported \<Rightarrow> (ut_reported_cost_micros t, False)
      | Estimated \<Rightarrow> (ut_estimated_cost_micros t, True)
      | BestAvailable \<Rightarrow>
          if 0 < ut_reported_cost_micros t then (ut_reported_cost_micros t, False)
          else (ut_estimated_cost_micros t, True))"

definition pick_used_cost_availability :: "usage_totals \<Rightarrow> cost_source \<Rightarrow> availability" where
  "pick_used_cost_availability t source =
     (case source of
        ProviderReported \<Rightarrow> reported_cost_availability t
      | Estimated \<Rightarrow> estimated_cost_availability t
      | BestAvailable \<Rightarrow>
          if 0 < ut_reported_cost_micros t then reported_cost_availability t
          else estimated_cost_availability t)"

definition used_cost_between ::
    "(string \<Rightarrow> string) \<Rightarrow> string \<Rightarrow> string \<Rightarrow> string option \<Rightarrow> string option \<Rightarrow> cost_source
       \<Rightarrow> usage_snapshot list \<Rightarrow> int" where
  "used_cost_between uppercase start end' credential_id project_id source rows =
     fst (pick_used_cost
       (totals uppercase ((scope_filter start credential_id project_id)\<lparr>uf_until := Some end'\<rparr>) rows) source)"

end
