(* ===== verification/Clock.thy ===== *)
theory Clock
  imports Ints
begin

text \<open>
  crates/core/src/clock.rs: instants are nanoseconds since the epoch, and the calendar of the
  \<open>time\<close> library's dates. Reading and writing time stamps is the library's work: the parser of
  RFC 3339, the parser of plain dates and the text of an instant are parameters.
\<close>

record stamps =
  st_rfc3339 :: "string \<Rightarrow> int option"
  st_date :: "string \<Rightarrow> int option"
  st_text :: "int \<Rightarrow> string"

definition parse_rfc3339 :: "stamps \<Rightarrow> string \<Rightarrow> int res" where
  "parse_rfc3339 st s =
     (case st_rfc3339 st s of
        Some t \<Rightarrow> Inr t
      | None \<Rightarrow> Inl (InvalidInput (quoted s @ '' is not an RFC 3339 timestamp'')))"

definition parse_user_date :: "stamps \<Rightarrow> string \<Rightarrow> int res" where
  "parse_user_date st s =
     (case st_rfc3339 st s of
        Some t \<Rightarrow> Inr t
      | None \<Rightarrow>
          (case st_date st s of
             Some d \<Rightarrow> Inr d
           | None \<Rightarrow> Inl (InvalidInput (quoted s @ '' is not a date; use YYYY-MM-DD or an RFC 3339 timestamp''))))"

definition rfc3339_minus_seconds :: "stamps \<Rightarrow> string \<Rightarrow> int \<Rightarrow> string" where
  "rfc3339_minus_seconds st at secs =
     (case parse_rfc3339 st at of
        Inr t \<Rightarrow> st_text st (t - secs * 1000000000)
      | Inl _ \<Rightarrow> ''9999-12-31T23:59:59Z'')"

text \<open>The whole days of a duration, truncated.\<close>

definition whole_days :: "int \<Rightarrow> int" where
  "whole_days nanos = nanos sdiv (86400 * 1000000000)"

section \<open>The Gregorian calendar\<close>

record civil =
  cv_year :: int
  cv_month :: nat
  cv_day :: nat

definition leap_year :: "int \<Rightarrow> bool" where
  "leap_year y \<longleftrightarrow> 4 dvd y \<and> (\<not> 100 dvd y \<or> 400 dvd y)"

text \<open>Days since 1 January of the year 0 at the first of a year, and before a month of it.\<close>

definition year_start :: "int \<Rightarrow> int" where
  "year_start y = 365 * y + (y + 3) div 4 - (y + 99) div 100 + (y + 399) div 400"

definition days_before_month :: "int \<Rightarrow> nat \<Rightarrow> int" where
  "days_before_month y m =
     (if m = 0 then 0
      else [0, 31, 59, 90, 120, 151, 181, 212, 243, 273, 304, 334] ! (m - 1)
        + (if 2 < m \<and> leap_year y then 1 else 0))"

definition day_number :: "int \<Rightarrow> nat \<Rightarrow> nat \<Rightarrow> int" where
  "day_number y m d = year_start y + days_before_month y m + int d - 1"

text \<open>A number written with at least the given digits.\<close>

definition padded :: "nat \<Rightarrow> nat \<Rightarrow> string" where
  "padded w n = replicate (w - length (dec_of_nat n)) CHR ''0'' @ dec_of_nat n"

lemma div_next:
  assumes "0 < (k::int)"
  shows "(y + k) div k = (y + (k - 1)) div k + (if k dvd y then 1 else 0)"
proof -
  have "y + (k - 1) = (y mod k + (k - 1)) + (y div k) * k" by (simp add: minus_div_mult_eq_mod [symmetric])
  then have "(y + (k - 1)) div k = y div k + (y mod k + (k - 1)) div k"
    using assms by (simp only: div_mult_self1)
  moreover have "(y mod k + (k - 1)) div k = (if k dvd y then 0 else 1)"
  proof (cases "k dvd y")
    case False
    then have "0 < y mod k" "y mod k < k"
      using assms pos_mod_sign [of k y] pos_mod_bound [of k y] by (auto simp: dvd_eq_mod_eq_0 less_le)
    then show ?thesis using False by (simp add: div_pos_geq)
  qed (use assms in \<open>simp add: dvd_eq_mod_eq_0\<close>)
  moreover have "(y + k) div k = y div k + 1" using assms by (intro div_add_self2) auto
  ultimately show ?thesis by simp
qed

lemma year_length: "year_start (y + 1) - year_start y = (if leap_year y then 366 else 365)"
proof -
  have a: "400 dvd y \<longrightarrow> 100 dvd y" "100 dvd y \<longrightarrow> 4 dvd y"
    using dvd_trans [of "100" 400 y] dvd_trans [of 4 100 y] by auto
  have b: "(y + 4) div 4 = (y + 3) div 4 + (if 4 dvd y then 1 else 0)"
    "(y + 100) div 100 = (y + 99) div 100 + (if 100 dvd y then 1 else 0)"
    "(y + 400) div 400 = (y + 399) div 400 + (if 400 dvd y then 1 else 0)"
    by (simp_all only: div_next [of 4 y, simplified] div_next [of 100 y, simplified] div_next [of 400 y, simplified])
  define q where "q k = (y + (k - 1)) div k" for k
  have now: "year_start y = 365 * y + q 4 - q 100 + q 400" by (simp add: year_start_def q_def)
  have "year_start (y + 1) = 365 * (y + 1) + (y + 4) div 4 - (y + 100) div 100 + (y + 400) div 400"
    by (simp add: year_start_def add.assoc)
  also have "\<dots> = 365 * (y + 1) + (q 4 + (if 4 dvd y then 1 else 0)) - (q 100 + (if 100 dvd y then 1 else 0))
      + (q 400 + (if 400 dvd y then 1 else 0))"
    unfolding b by (simp add: q_def)
  finally have "year_start (y + 1) - year_start y = 365 + (if 4 dvd y then 1 else 0) - (if 100 dvd y then 1 else 0)
      + (if 400 dvd y then 1 else 0)"
    unfolding now by simp
  with a show ?thesis unfolding leap_year_def by (cases "4 dvd y"; cases "100 dvd y"; cases "400 dvd y") simp_all
qed

end
