(* ===== verification/Alerts.thy ===== *)
theory Alerts
  imports Providers VaultDb
begin

text \<open>
  crates/core/src/alerts.rs: the table of alerts, with at most one open alert of a key, and the
  operations that raise, refresh and resolve them. The time of a call is the argument \<open>now\<close>; the
  fresh id of a new row is an argument too.
\<close>

datatype alert_kind = AkExpiringSoon | AkExpired | AkStale | AkUnused | AkReusedAcrossProjects
  | AkProductionInDevelopment | AkPossibleExposure | AkRepoSecretExposure | AkRepoScanCoverageGap
  | AkProviderSyncFailed | AkProviderConnectionInvalid | AkProviderDataStale | AkUnmatchedProviderKey
  | AkUnmappedProviderProject | AkDocumentationChanged | AkOverBudget | AkCostSpike
  | AkUsageAfterDisabled | AkCredentialActivated | AkRotationDue | AkRotationStuck | AkRotationAttention
  | AkRequestSpike | AkRepeatedAuthFailure | AkNewProviderProject | AkNewProviderKey | AkUnusualModel
  | AkUnusualTimePattern | AkDestinationDrift | AkAccessGrantExpired | AkPricingStale
  | AkRuntimeAuthFailures | AkRuntimeForbidden | AkRuntimeRateLimited | AkRuntimeServerErrors
  | AkRuntimeTransportFailures | AkRuntimeTlsFailures | AkRuntimeApiInactive | AkRuntimeNewApi
  | AkRuntimeUnknownApi | AkRuntimeOldCredentialVersion | AkRuntimeRevokedCredentialInUse
  | AkRuntimeSharedCredential

fun alert_kind_str :: "alert_kind \<Rightarrow> string" where
  "alert_kind_str AkExpiringSoon = ''expiring_soon''"
| "alert_kind_str AkExpired = ''expired''"
| "alert_kind_str AkStale = ''stale''"
| "alert_kind_str AkUnused = ''unused''"
| "alert_kind_str AkReusedAcrossProjects = ''reused_across_projects''"
| "alert_kind_str AkProductionInDevelopment = ''production_in_development''"
| "alert_kind_str AkPossibleExposure = ''possible_exposure''"
| "alert_kind_str AkRepoSecretExposure = ''repo_secret_exposure''"
| "alert_kind_str AkRepoScanCoverageGap = ''repo_scan_coverage_gap''"
| "alert_kind_str AkProviderSyncFailed = ''provider_sync_failed''"
| "alert_kind_str AkProviderConnectionInvalid = ''provider_connection_invalid''"
| "alert_kind_str AkProviderDataStale = ''provider_data_stale''"
| "alert_kind_str AkUnmatchedProviderKey = ''unmatched_provider_key''"
| "alert_kind_str AkUnmappedProviderProject = ''unmapped_provider_project''"
| "alert_kind_str AkDocumentationChanged = ''documentation_changed''"
| "alert_kind_str AkOverBudget = ''over_budget''"
| "alert_kind_str AkCostSpike = ''cost_spike''"
| "alert_kind_str AkUsageAfterDisabled = ''usage_after_disabled''"
| "alert_kind_str AkCredentialActivated = ''credential_activated''"
| "alert_kind_str AkRotationDue = ''rotation_due''"
| "alert_kind_str AkRotationStuck = ''rotation_stuck''"
| "alert_kind_str AkRotationAttention = ''rotation_attention''"
| "alert_kind_str AkRequestSpike = ''request_spike''"
| "alert_kind_str AkRepeatedAuthFailure = ''repeated_auth_failure''"
| "alert_kind_str AkNewProviderProject = ''new_provider_project''"
| "alert_kind_str AkNewProviderKey = ''new_provider_key''"
| "alert_kind_str AkUnusualModel = ''unusual_model''"
| "alert_kind_str AkUnusualTimePattern = ''unusual_time_pattern''"
| "alert_kind_str AkDestinationDrift = ''destination_drift''"
| "alert_kind_str AkAccessGrantExpired = ''access_grant_expired''"
| "alert_kind_str AkPricingStale = ''pricing_stale''"
| "alert_kind_str AkRuntimeAuthFailures = ''runtime_auth_failures''"
| "alert_kind_str AkRuntimeForbidden = ''runtime_forbidden''"
| "alert_kind_str AkRuntimeRateLimited = ''runtime_rate_limited''"
| "alert_kind_str AkRuntimeServerErrors = ''runtime_server_errors''"
| "alert_kind_str AkRuntimeTransportFailures = ''runtime_transport_failures''"
| "alert_kind_str AkRuntimeTlsFailures = ''runtime_tls_failures''"
| "alert_kind_str AkRuntimeApiInactive = ''runtime_api_inactive''"
| "alert_kind_str AkRuntimeNewApi = ''runtime_new_api''"
| "alert_kind_str AkRuntimeUnknownApi = ''runtime_unknown_api''"
| "alert_kind_str AkRuntimeOldCredentialVersion = ''runtime_old_credential_version''"
| "alert_kind_str AkRuntimeRevokedCredentialInUse = ''runtime_revoked_credential_in_use''"
| "alert_kind_str AkRuntimeSharedCredential = ''runtime_shared_credential''"

datatype severity = SevInfo | SevLow | SevMedium | SevHigh | SevCritical

fun severity_str :: "severity \<Rightarrow> string" where
  "severity_str SevInfo = ''info''"
| "severity_str SevLow = ''low''"
| "severity_str SevMedium = ''medium''"
| "severity_str SevHigh = ''high''"
| "severity_str SevCritical = ''critical''"

record new_alert =
  na_kind :: alert_kind
  na_severity :: severity
  na_dedup_key :: string
  na_title :: string
  na_detail :: string
  na_evidence :: string
  na_confidence :: confidence
  na_recommended_action :: string
  na_project_id :: "string option"
  na_credential_id :: "string option"
  na_observed_at :: string

record alert =
  al_id :: string
  al_kind :: string
  al_severity :: string
  al_dedup_key :: string
  al_title :: string
  al_detail :: string
  al_evidence :: string
  al_confidence :: string
  al_recommended_action :: string
  al_project_id :: "string option"
  al_credential_id :: "string option"
  al_created_at :: string
  al_observed_at :: string
  al_acknowledged_at :: "string option"
  al_resolved_at :: "string option"

definition is_open :: "alert \<Rightarrow> bool" where
  "is_open a \<longleftrightarrow> al_resolved_at a = None"

definition alert_row :: "string \<Rightarrow> string \<Rightarrow> new_alert \<Rightarrow> alert" where
  "alert_row i now a =
     \<lparr>al_id = i, al_kind = alert_kind_str (na_kind a), al_severity = severity_str (na_severity a),
      al_dedup_key = na_dedup_key a, al_title = na_title a, al_detail = na_detail a,
      al_evidence = na_evidence a, al_confidence = confidence_label (na_confidence a),
      al_recommended_action = na_recommended_action a, al_project_id = na_project_id a,
      al_credential_id = na_credential_id a, al_created_at = now, al_observed_at = na_observed_at a,
      al_acknowledged_at = None, al_resolved_at = None\<rparr>"

definition refresh :: "new_alert \<Rightarrow> alert \<Rightarrow> alert" where
  "refresh a r = r
     \<lparr>al_severity := severity_str (na_severity a), al_title := na_title a, al_detail := na_detail a,
      al_evidence := na_evidence a, al_confidence := confidence_label (na_confidence a),
      al_recommended_action := na_recommended_action a, al_observed_at := na_observed_at a\<rparr>"

text \<open>The open alert of the key is refreshed; without one a new row is inserted.\<close>

definition upsert_alert :: "string \<Rightarrow> string \<Rightarrow> new_alert \<Rightarrow> alert list \<Rightarrow> bool \<times> alert list" where
  "upsert_alert i now a rows =
     (case find (\<lambda>r. al_dedup_key r = na_dedup_key a \<and> is_open r) rows of
        Some existing \<Rightarrow> (False, map (\<lambda>r. if al_id r = al_id existing then refresh a r else r) rows)
      | None \<Rightarrow> (True, rows @ [alert_row i now a]))"

definition resolve_row :: "string \<Rightarrow> string \<Rightarrow> alert list \<Rightarrow> alert list" where
  "resolve_row now i rows = map (\<lambda>r. if al_id r = i then r\<lparr>al_resolved_at := Some now\<rparr> else r) rows"

definition auto_resolve_stale ::
    "string \<Rightarrow> alert_kind list \<Rightarrow> string list \<Rightarrow> alert list \<Rightarrow> nat \<times> alert list" where
  "auto_resolve_stale now kinds active_keys rows =
     (if kinds = [] then (0, rows)
      else
        (let open' = filter (\<lambda>r. is_open r \<and> al_kind r \<in> set (map alert_kind_str kinds)) rows;
             gone = filter (\<lambda>r. al_dedup_key r \<notin> set active_keys) open'
         in (length gone, fold (\<lambda>r. resolve_row now (al_id r)) gone rows)))"

definition resolve_by_dedup :: "string \<Rightarrow> string \<Rightarrow> alert list \<Rightarrow> nat \<times> alert list" where
  "resolve_by_dedup now key rows =
     (let hit = (\<lambda>r. al_dedup_key r = key \<and> is_open r)
      in (length (filter hit rows), map (\<lambda>r. if hit r then r\<lparr>al_resolved_at := Some now\<rparr> else r) rows))"

definition list_alerts :: "bool \<Rightarrow> alert list \<Rightarrow> alert list" where
  "list_alerts include_resolved rows =
     sort_desc al_created_at (if include_resolved then rows else filter is_open rows)"

text \<open>
  \<open>LIKE\<close> with the identifier and a percent sign appended: percent signs and underscores in the
  identifier are wildcards, and letters match in either case.
\<close>

fun like :: "string \<Rightarrow> string \<Rightarrow> bool" where
  "like [] s = (s = [])"
| "like (p # ps) s =
     (if p = CHR ''%'' then like ps s \<or> (case s of [] \<Rightarrow> False | _ # t \<Rightarrow> like (p # ps) t)
      else (case s of
          [] \<Rightarrow> False
        | c # t \<Rightarrow> (p = CHR ''_'' \<or> to_ascii_lower_char p = to_ascii_lower_char c) \<and> like ps t))"

definition resolve_alert_id :: "string \<Rightarrow> alert list \<Rightarrow> string res" where
  "resolve_alert_id ident rows =
     (if list_ex (\<lambda>r. al_id r = ident) rows then Inr ident
      else case filter (\<lambda>r. like (ident @ ''%'') (al_id r)) rows of
          [] \<Rightarrow> Inl (NotFound ''alert'' ident)
        | [r] \<Rightarrow> Inr (al_id r)
        | _ \<Rightarrow> Inl (Ambiguous ''alert'' ident))"

definition get_alert :: "string \<Rightarrow> alert list \<Rightarrow> alert res" where
  "get_alert i rows =
     (case find (\<lambda>r. al_id r = i) rows of Some r \<Rightarrow> Inr r | None \<Rightarrow> Inl (NotFound ''alert'' i))"

definition coalesce :: "'a option \<Rightarrow> 'a \<Rightarrow> 'a option" where
  "coalesce x y = (case x of Some v \<Rightarrow> Some v | None \<Rightarrow> Some y)"

definition acknowledge :: "string \<Rightarrow> string \<Rightarrow> alert list \<Rightarrow> alert res \<times> alert list" where
  "acknowledge now ident rows =
     (case resolve_alert_id ident rows of
        Inl e \<Rightarrow> (Inl e, rows)
      | Inr i \<Rightarrow>
          (let rows = map (\<lambda>r. if al_id r = i
                 then r\<lparr>al_acknowledged_at := coalesce (al_acknowledged_at r) now\<rparr> else r) rows
           in (get_alert i rows, rows)))"

definition resolve_alert :: "string \<Rightarrow> string \<Rightarrow> alert list \<Rightarrow> alert res \<times> alert list" where
  "resolve_alert now ident rows =
     (case resolve_alert_id ident rows of
        Inl e \<Rightarrow> (Inl e, rows)
      | Inr i \<Rightarrow>
          (let rows = map (\<lambda>r. if al_id r = i
                 then r\<lparr>al_resolved_at := coalesce (al_resolved_at r) now\<rparr> else r) rows
           in (get_alert i rows, rows)))"

definition open_count :: "alert list \<Rightarrow> nat" where
  "open_count rows = length (filter is_open rows)"

end
