(* ===== verification/Budget.thy ===== *)
theory Budget
  imports Usage Clock Alerts
begin

text \<open>
  crates/core/src/budget.rs: monthly budgets of projects and credentials. What a budget is compared
  with is a sum over the usage records that carried a cost, a floor of what was spent; the verdict
  keeps apart what the floor proves from what it leaves open. Budgets and names of projects and
  credentials are looked up in their own small tables.
\<close>

text \<open>Years have four digits, as every date the \<open>time\<close> library can print.\<close>

definition period_start :: "civil \<Rightarrow> string" where
  "period_start now =
     padded 4 (nat (cv_year now)) @ ''-'' @ padded 2 (cv_month now) @ ''-01T00:00:00Z''"

definition days_in_month :: "civil \<Rightarrow> int" where
  "days_in_month now =
     (let next = (if cv_month now = 12 then day_number (cv_year now + 1) 1 1
                  else day_number (cv_year now) (cv_month now + 1) 1)
      in next - day_number (cv_year now) (cv_month now) 1)"

datatype budget_status = NoBudget | Under | Over | Indeterminate

fun budget_status_str :: "budget_status \<Rightarrow> string" where
  "budget_status_str NoBudget = ''no_budget''"
| "budget_status_str Under = ''under''"
| "budget_status_str Over = ''over''"
| "budget_status_str Indeterminate = ''indeterminate''"

record budget_report =
  bu_scope :: string
  bu_budget_micros :: "int option"
  bu_period_start :: string
  bu_reported_cost_micros :: int
  bu_estimated_cost_micros :: int
  bu_used_micros :: int
  bu_used_is_estimated :: bool
  bu_cost_source :: string
  bu_remaining_micros :: "int option"
  bu_projected_period_end_micros :: int
  bu_over_budget :: bool
  bu_attribution_note :: "string option"
  bu_status :: budget_status
  bu_used_is_complete :: bool
  bu_used_availability :: availability
  bu_costed_rows :: int
  bu_usage_rows :: int
  bu_completeness_note :: "string option"

definition projected_cost :: "civil \<Rightarrow> int \<Rightarrow> int" where
  "projected_cost now used =
     (let elapsed = max (int (cv_day now)) 1
      in if 0 < elapsed then saturating_mul used (days_in_month now) sdiv elapsed else used)"

definition budget_verdict :: "int option \<Rightarrow> int \<Rightarrow> bool \<Rightarrow> budget_status" where
  "budget_verdict budget used used_is_complete =
     (case budget of
        None \<Rightarrow> NoBudget
      | Some b \<Rightarrow> if b < used then Over else if used_is_complete then Under else Indeterminate)"

definition completeness_note ::
    "(int \<Rightarrow> string) \<Rightarrow> budget_status \<Rightarrow> int \<Rightarrow> bool \<Rightarrow> int \<Rightarrow> int \<Rightarrow> string option" where
  "completeness_note format_micros status used used_is_estimated costed_rows usage_rows =
     (if status = Indeterminate
      then Some (if usage_rows = 0
        then ''cannot evaluate '' @ em_dash @ '' no usage records exist for this period, so spend is unknown ''
             @ ''rather than nothing; sync the provider or record usage to establish a total''
        else ''cannot evaluate '' @ em_dash @ '' only '' @ dec_of_int costed_rows @ '' of '' @ dec_of_int usage_rows
             @ '' usage record(s) carried a '' @ (if used_is_estimated then ''locally estimated'' else ''provider-reported'')
             @ '' cost, so '' @ format_micros used @ '' is a floor on spend, not a total; the remaining ''
             @ dec_of_int (usage_rows - costed_rows) @ '' record(s) are NOT counted as zero'')
      else None)"

definition build_report ::
    "(int \<Rightarrow> string) \<Rightarrow> string \<Rightarrow> int option \<Rightarrow> usage_totals \<Rightarrow> civil \<Rightarrow> cost_source \<Rightarrow> budget_report" where
  "build_report format_micros scope budget t now cost_source =
     (let (used, used_is_estimated) = pick_used_cost t cost_source;
          availability = pick_used_cost_availability t cost_source;
          used_is_complete = is_complete availability;
          costed_rows = covered_rows availability;
          usage_rows = ut_snapshots t;
          status = budget_verdict budget used used_is_complete
      in \<lparr>bu_scope = scope, bu_budget_micros = budget, bu_period_start = period_start now,
          bu_reported_cost_micros = ut_reported_cost_micros t,
          bu_estimated_cost_micros = ut_estimated_cost_micros t,
          bu_used_micros = used, bu_used_is_estimated = used_is_estimated,
          bu_cost_source = cost_source_str cost_source,
          bu_remaining_micros = map_option (\<lambda>b. sub64 b used) budget,
          bu_projected_period_end_micros = projected_cost now used,
          bu_over_budget = (case budget of None \<Rightarrow> False | Some b \<Rightarrow> b < used),
          bu_attribution_note = map_option (\<lambda>a. ''based on usage attributed at: '' @ a) (ut_coarsest_attribution t),
          bu_status = status, bu_used_is_complete = used_is_complete,
          bu_used_availability = availability, bu_costed_rows = costed_rows, bu_usage_rows = usage_rows,
          bu_completeness_note =
            completeness_note format_micros status used used_is_estimated costed_rows usage_rows\<rparr>)"

section \<open>Reports and budgets of projects and credentials\<close>

record budget_row =
  br_id :: string
  br_name :: string
  br_monthly_budget_micros :: "int option"
  br_updated_at :: string

record budget_env =
  be_now :: civil
  be_now_text :: string
  be_format_micros :: "int \<Rightarrow> string"
  be_uppercase :: "string \<Rightarrow> string"

text \<open>A query for a row that does not exist is an error of the database.\<close>

definition budget_row_of :: "string \<Rightarrow> budget_row list \<Rightarrow> budget_row res" where
  "budget_row_of i rows =
     (case find (\<lambda>r. br_id r = i) rows of Some r \<Rightarrow> Inr r | None \<Rightarrow> Inl (DbErr ''Query returned no rows''))"

definition project_report ::
    "budget_env \<Rightarrow> string \<Rightarrow> cost_source \<Rightarrow> budget_row list \<Rightarrow> usage_snapshot list \<Rightarrow> budget_report res" where
  "project_report be project_id cost_source projects usage =
     (case budget_row_of project_id projects of
        Inl e \<Rightarrow> Inl e
      | Inr p \<Rightarrow> Inr (build_report (be_format_micros be) (''project:'' @ br_name p) (br_monthly_budget_micros p)
          (totals_since (be_uppercase be) (period_start (be_now be)) None (Some project_id) usage)
          (be_now be) cost_source))"

definition credential_report ::
    "budget_env \<Rightarrow> string \<Rightarrow> string \<Rightarrow> cost_source \<Rightarrow> budget_row list \<Rightarrow> usage_snapshot list \<Rightarrow> budget_report res" where
  "credential_report be credential_id label cost_source credentials usage =
     (case budget_row_of credential_id credentials of
        Inl e \<Rightarrow> Inl e
      | Inr c \<Rightarrow> Inr (build_report (be_format_micros be) (''credential:'' @ label) (br_monthly_budget_micros c)
          (totals_since (be_uppercase be) (period_start (be_now be)) (Some credential_id) None usage)
          (be_now be) cost_source))"

text \<open>\<open>set_project_budget\<close> and \<open>set_credential_budget\<close>, on their tables.\<close>

definition set_budget :: "string \<Rightarrow> string \<Rightarrow> int option \<Rightarrow> budget_row list \<Rightarrow> budget_row list" where
  "set_budget now i micros rows =
     map (\<lambda>r. if br_id r = i then r\<lparr>br_monthly_budget_micros := micros, br_updated_at := now\<rparr> else r) rows"

section \<open>The alert of a report\<close>

abbreviation (input) middle_dot :: string where "middle_dot \<equiv> [CHR 0xC2, CHR 0xB7]"

definition or_empty :: "string option \<Rightarrow> string" where
  "or_empty x = (case x of None \<Rightarrow> [] | Some s \<Rightarrow> s)"

definition over_budget_alert ::
    "(int \<Rightarrow> string) \<Rightarrow> string \<Rightarrow> budget_report \<Rightarrow> string option \<Rightarrow> new_alert option" where
  "over_budget_alert format_micros now r credential_id =
     (if bu_status r = Indeterminate then
        (if bu_usage_rows r = 0 then None
         else Some
           \<lparr>na_kind = AkOverBudget, na_severity = SevMedium,
            na_dedup_key = ''budget_incomplete:'' @ bu_scope r,
            na_title = bu_scope r @ '' budget cannot be evaluated '' @ em_dash @ '' usage is incomplete'',
            na_detail = format_micros (bu_used_micros r) @ '' of a '' @ format_micros (or_zero (bu_budget_micros r))
              @ '' monthly budget is accounted for, but '' @ or_empty (bu_completeness_note r),
            na_evidence = dec_of_int (bu_costed_rows r) @ '' of '' @ dec_of_int (bu_usage_rows r)
              @ '' usage record(s) carried a '' @ bu_cost_source r @ '' cost '' @ middle_dot @ '' ''
              @ or_empty (bu_attribution_note r),
            na_confidence = CLow,
            na_recommended_action = ''sync the provider's usage/cost data, or add local pricing for the models in ''
              @ ''use, so the budget can be evaluated against a complete total'',
            na_project_id = None, na_credential_id = credential_id, na_observed_at = now\<rparr>)
      else if \<not> bu_over_budget r then None
      else Some
        \<lparr>na_kind = AkOverBudget, na_severity = SevHigh,
         na_dedup_key = ''over_budget:'' @ bu_scope r,
         na_title = bu_scope r @ '' is over budget'',
         na_detail = ''used '' @ (if bu_used_is_complete r then [] else ''at least '') @ format_micros (bu_used_micros r)
           @ '' of a '' @ format_micros (or_zero (bu_budget_micros r)) @ '' monthly budget (''
           @ (if bu_used_is_estimated r then ''estimated'' else ''provider-reported'') @ '' cost)'',
         na_evidence = ''projected month-end '' @ format_micros (bu_projected_period_end_micros r) @ '' ''
           @ middle_dot @ '' '' @ or_empty (bu_attribution_note r),
         na_confidence = (if bu_used_is_estimated r then CMedium else CHigh),
         na_recommended_action = ''review usage, raise the budget, or rotate/limit the credential'',
         na_project_id = None, na_credential_id = credential_id, na_observed_at = now\<rparr>)"

end
