(* ===== verification/Pricing.thy ===== *)
theory Pricing
  imports Usage Clock Providers "HOL-Library.Product_Lexorder" Complex_Main
begin

text \<open>
  crates/core/src/pricing.rs: the pricing records, which of them prices a model on a date, and
  the estimates made from it. The table \<open>pricing_records\<close> is a list of rows, unique by provider,
  model, origin and effective date. What the code takes from elsewhere is the record \<open>pricing_env\<close>:
  Unicode case conversion, the provider manifests, the clock, parsing and printing of decimal
  amounts as doubles, and JSON.
\<close>

definition STALE_AFTER_DAYS :: int where "STALE_AFTER_DAYS = 45"
definition BUNDLED_REVISION :: int where "BUNDLED_REVISION = 2"

section \<open>Records\<close>

datatype pricing_unit = Tokens | Requests | Credits

fun unit_str :: "pricing_unit \<Rightarrow> string" where
  "unit_str Tokens = ''tokens''"
| "unit_str Requests = ''requests''"
| "unit_str Credits = ''credits''"

definition parse_unit :: "string \<Rightarrow> pricing_unit res" where
  "parse_unit s =
     (if s = ''tokens'' then Inr Tokens
      else if s = ''requests'' then Inr Requests
      else if s = ''credits'' then Inr Credits
      else Inl (InvalidInput (''unknown pricing unit '' @ quoted s @ '' (expected tokens, requests, or credits)'')))"

datatype origin = Bundled | Imported | Override

fun origin_str :: "origin \<Rightarrow> string" where
  "origin_str Bundled = ''bundled''"
| "origin_str Imported = ''imported''"
| "origin_str Override = ''override''"

definition parse_origin :: "string \<Rightarrow> origin" where
  "parse_origin s = (if s = ''override'' then Override else if s = ''imported'' then Imported else Bundled)"

fun origin_rank :: "origin \<Rightarrow> int" where
  "origin_rank Override = 2"
| "origin_rank Imported = 1"
| "origin_rank Bundled = 0"

record pricing_cols =
  pc_provider :: string
  pc_model :: string
  pc_input :: "int option"
  pc_cached_input :: "int option"
  pc_output :: "int option"
  pc_batch_input :: "int option"
  pc_batch_output :: "int option"
  pc_per_request :: "int option"
  pc_currency :: string
  pc_source :: string
  pc_effective_from :: string
  pc_last_verified :: string
  pc_version :: int
  pc_note :: string

record pricing_record = pricing_cols +
  pr_unit :: pricing_unit
  pr_origin :: origin
  pr_stale :: bool

record pricing_row = pricing_cols +
  pw_unit :: string
  pw_origin :: string
  pw_id :: string
  pw_created_at :: string

text \<open>A double is a rational or not finite; \<open>px_double\<close> rounds to the nearest one.\<close>

record pricing_env =
  px_lowercase :: "string \<Rightarrow> string"
  px_uppercase :: "string \<Rightarrow> string"
  px_manifests :: "provider_manifest list"
  px_stamps :: stamps
  px_now :: string
  px_parse_double :: "string \<Rightarrow> rat option option"
  px_double :: "rat \<Rightarrow> rat"
  px_fixed :: "nat \<Rightarrow> rat \<Rightarrow> string"

definition is_stale :: "stamps \<Rightarrow> string \<Rightarrow> pricing_record \<Rightarrow> bool" where
  "is_stale st now r =
     (case parse_user_date st (pc_last_verified r) of
        Inl _ \<Rightarrow> True
      | Inr verified \<Rightarrow>
          (case parse_rfc3339 st now of
             Inl _ \<Rightarrow> False
           | Inr now_t \<Rightarrow> STALE_AFTER_DAYS < whole_days (now_t - verified)))"

section \<open>The bundled table\<close>

definition VERIFIED :: string where "VERIFIED = ''2026-07-18''"
definition OPENAI_SRC :: string where "OPENAI_SRC = ''https://developers.openai.com/api/docs/pricing''"
definition ANTHROPIC_SRC :: string where
  "ANTHROPIC_SRC = ''https://platform.claude.com/docs/en/about-claude/pricing''"

definition bundled_entry ::
    "string \<Rightarrow> string \<Rightarrow> string \<Rightarrow> int \<Rightarrow> int option \<Rightarrow> int \<Rightarrow> string \<Rightarrow> pricing_record" where
  "bundled_entry provider model effective input cached output source =
     \<lparr>pc_provider = provider, pc_model = model, pc_input = Some input, pc_cached_input = cached,
      pc_output = Some output, pc_batch_input = Some (input sdiv 2), pc_batch_output = Some (output sdiv 2),
      pc_per_request = None, pc_currency = ''USD'', pc_source = source, pc_effective_from = effective,
      pc_last_verified = VERIFIED, pc_version = BUNDLED_REVISION,
      pc_note = (if model = ''claude-sonnet'' \<or> model = ''claude-haiku''
                 then ''family-level fallback rate for model ids without a specific entry'' else []),
      pr_unit = Tokens, pr_origin = Bundled, pr_stale = False\<rparr>"

definition bundled_openai :: "pricing_record list" where
  "bundled_openai = [
     bundled_entry ''openai'' ''gpt-5.6-sol'' ''2026-07-18'' 5000000 (Some 500000) 30000000 OPENAI_SRC,
     bundled_entry ''openai'' ''gpt-5.6-terra'' ''2026-07-18'' 2500000 (Some 250000) 15000000 OPENAI_SRC,
     bundled_entry ''openai'' ''gpt-5.6-luna'' ''2026-07-18'' 1000000 (Some 100000) 6000000 OPENAI_SRC,
     bundled_entry ''openai'' ''gpt-5.5-pro'' ''2026-07-18'' 30000000 None 180000000 OPENAI_SRC,
     bundled_entry ''openai'' ''gpt-5.5'' ''2026-07-18'' 5000000 (Some 500000) 30000000 OPENAI_SRC,
     bundled_entry ''openai'' ''gpt-5.4-mini'' ''2026-07-18'' 750000 (Some 75000) 4500000 OPENAI_SRC,
     bundled_entry ''openai'' ''gpt-5.4-nano'' ''2026-07-18'' 200000 (Some 20000) 1250000 OPENAI_SRC,
     bundled_entry ''openai'' ''gpt-5.4-pro'' ''2026-07-18'' 30000000 None 180000000 OPENAI_SRC,
     bundled_entry ''openai'' ''gpt-5.4'' ''2026-07-18'' 2500000 (Some 250000) 15000000 OPENAI_SRC,
     bundled_entry ''openai'' ''gpt-5.3-codex'' ''2026-07-18'' 1750000 (Some 175000) 14000000 OPENAI_SRC,
     bundled_entry ''openai'' ''gpt-4o-mini'' ''2026-07-18'' 150000 None 600000 OPENAI_SRC,
     bundled_entry ''openai'' ''gpt-4o'' ''2026-07-18'' 2500000 None 10000000 OPENAI_SRC,
     bundled_entry ''openai'' ''o4-mini'' ''2026-07-18'' 1100000 None 4400000 OPENAI_SRC]"

definition bundled_anthropic :: "pricing_record list" where
  "bundled_anthropic = [
     bundled_entry ''anthropic'' ''claude-fable-5'' ''2026-07-18'' 10000000 (Some 1000000) 50000000 ANTHROPIC_SRC,
     bundled_entry ''anthropic'' ''claude-opus-4-8'' ''2026-07-18'' 5000000 (Some 500000) 25000000 ANTHROPIC_SRC,
     bundled_entry ''anthropic'' ''claude-opus-4-7'' ''2026-07-18'' 5000000 (Some 500000) 25000000 ANTHROPIC_SRC,
     bundled_entry ''anthropic'' ''claude-opus-4-6'' ''2026-07-18'' 5000000 (Some 500000) 25000000 ANTHROPIC_SRC,
     bundled_entry ''anthropic'' ''claude-opus-4-5'' ''2026-07-18'' 5000000 (Some 500000) 25000000 ANTHROPIC_SRC,
     bundled_entry ''anthropic'' ''claude-opus-4-1'' ''2026-07-18'' 15000000 (Some 1500000) 75000000 ANTHROPIC_SRC,
     bundled_entry ''anthropic'' ''claude-opus-4-2025'' ''2026-07-18'' 15000000 (Some 1500000) 75000000 ANTHROPIC_SRC,
     bundled_entry ''anthropic'' ''claude-sonnet-5'' ''2026-07-18'' 2000000 (Some 200000) 10000000 ANTHROPIC_SRC,
     bundled_entry ''anthropic'' ''claude-sonnet-5'' ''2026-09-01'' 3000000 (Some 300000) 15000000 ANTHROPIC_SRC,
     bundled_entry ''anthropic'' ''claude-sonnet-4-6'' ''2026-07-18'' 3000000 (Some 300000) 15000000 ANTHROPIC_SRC,
     bundled_entry ''anthropic'' ''claude-sonnet-4-5'' ''2026-07-18'' 3000000 (Some 300000) 15000000 ANTHROPIC_SRC,
     bundled_entry ''anthropic'' ''claude-sonnet-4-2025'' ''2026-07-18'' 3000000 (Some 300000) 15000000 ANTHROPIC_SRC,
     bundled_entry ''anthropic'' ''claude-haiku-4-5'' ''2026-07-18'' 1000000 (Some 100000) 5000000 ANTHROPIC_SRC,
     bundled_entry ''anthropic'' ''claude-3-5-haiku'' ''2026-07-18'' 800000 (Some 80000) 4000000 ANTHROPIC_SRC,
     bundled_entry ''anthropic'' ''claude-sonnet'' ''2026-07-18'' 3000000 (Some 300000) 15000000 ANTHROPIC_SRC,
     bundled_entry ''anthropic'' ''claude-haiku'' ''2026-07-18'' 800000 (Some 80000) 4000000 ANTHROPIC_SRC]"

definition bundled :: "pricing_record list" where
  "bundled = bundled_openai @ bundled_anthropic"

section \<open>Which record applies\<close>

definition load_price_row :: "pricing_row \<Rightarrow> pricing_record" where
  "load_price_row r = pricing_cols.extend (pricing_cols.truncate r)
     \<lparr>pr_unit = (case parse_unit (pw_unit r) of Inr u \<Rightarrow> u | Inl _ \<Rightarrow> Tokens),
      pr_origin = parse_origin (pw_origin r), pr_stale = False\<rparr>"

definition load_db_records :: "string option \<Rightarrow> pricing_row list \<Rightarrow> pricing_record list" where
  "load_db_records provider rows =
     map load_price_row (sort_key (\<lambda>r. (pc_provider r, pc_model r, pc_effective_from r))
       (filter (\<lambda>r. case provider of None \<Rightarrow> True | Some p \<Rightarrow> pc_provider r = p) rows))"

definition date_prefix :: "string \<Rightarrow> string" where
  "date_prefix s = (if 10 \<le> length s then take 10 s else s)"

definition candidates_for :: "pricing_env \<Rightarrow> string \<Rightarrow> pricing_row list \<Rightarrow> pricing_record list" where
  "candidates_for px provider rows =
     (let provider = normalize_provider (px_lowercase px) (px_manifests px) provider
      in load_db_records (Some provider) rows @ filter (\<lambda>r. pc_provider r = provider) bundled)"

text \<open>\<open>Iterator::max_by_key\<close> returns the last of the greatest, \<open>min_by_key\<close> the first of the least.\<close>

fun max_by_key :: "('a \<Rightarrow> 'b::linorder) \<Rightarrow> 'a list \<Rightarrow> 'a option" where
  "max_by_key key [] = None"
| "max_by_key key (x # xs) = Some (fold (\<lambda>y best. if key best \<le> key y then y else best) xs x)"

fun min_by_key :: "('a \<Rightarrow> 'b::linorder) \<Rightarrow> 'a list \<Rightarrow> 'a option" where
  "min_by_key key [] = None"
| "min_by_key key (x # xs) = Some (fold (\<lambda>y best. if key y < key best then y else best) xs x)"

definition model_matches :: "string \<Rightarrow> pricing_record \<Rightarrow> bool" where
  "model_matches model_l r \<longleftrightarrow> model_l = pc_model r \<or> contains_str (pc_model r) model_l"

definition most_specific :: "pricing_record list \<Rightarrow> pricing_record list" where
  "most_specific matching =
     (let best_len = Max (set (map (\<lambda>r. length (pc_model r)) matching))
      in filter (\<lambda>r. length (pc_model r) = best_len) matching)"

definition extrapolated :: "pricing_record \<Rightarrow> pricing_record" where
  "extrapolated r = r\<lparr>pc_note := ''price effective '' @ pc_effective_from r @ '' applied to earlier usage''
     @ (if pc_note r = [] then [] else ''; '' @ pc_note r)\<rparr>"

definition choose_as_of ::
    "pricing_env \<Rightarrow> pricing_record list \<Rightarrow> string \<Rightarrow> string \<Rightarrow> pricing_record option" where
  "choose_as_of px candidates model as_of =
     (let model_l = px_lowercase px model;
          as_of_date = date_prefix as_of;
          matching = filter (model_matches model_l) candidates
      in if matching = [] then None
         else
           (let specific = most_specific matching;
                effective = max_by_key (\<lambda>r. (origin_rank (pr_origin r), pc_effective_from r))
                  (filter (\<lambda>r. pc_effective_from r \<le> as_of_date) specific);
                chosen = (case effective of
                    Some r \<Rightarrow> Some r
                  | None \<Rightarrow> map_option extrapolated
                      (min_by_key (\<lambda>r. (- origin_rank (pr_origin r), pc_effective_from r)) specific))
            in map_option (\<lambda>r. r\<lparr>pr_stale := is_stale (px_stamps px) (px_now px) r\<rparr>) chosen))"

definition lookup_as_of ::
    "pricing_env \<Rightarrow> string \<Rightarrow> string \<Rightarrow> string \<Rightarrow> pricing_row list \<Rightarrow> pricing_record option" where
  "lookup_as_of px provider model as_of rows = choose_as_of px (candidates_for px provider rows) model as_of"

end
