(* ===== verification/PricingOps.thy ===== *)
theory PricingOps
  imports Pricing
begin

text \<open>
  The operations of crates/core/src/pricing.rs on the table: overrides, imports, exports and
  proposals, and cost estimates. An insert that meets the unique key updates the row in place, so
  the table never holds two rows of one key.
\<close>

section \<open>Writing records\<close>

record override_spec =
  os_unit :: "pricing_unit option"
  os_input :: "int option"
  os_cached_input :: "int option"
  os_output :: "int option"
  os_batch_input :: "int option"
  os_batch_output :: "int option"
  os_per_request :: "int option"
  os_effective_from :: "string option"
  os_note :: string

definition validate_price :: "string \<Rightarrow> int option \<Rightarrow> unit res" where
  "validate_price name v =
     (case v of
        Some n \<Rightarrow> if n < 0 then Inl (InvalidInput (name @ '' must not be negative'')) else Inr ()
      | None \<Rightarrow> Inr ())"

definition validate_date :: "stamps \<Rightarrow> string \<Rightarrow> string \<Rightarrow> unit res" where
  "validate_date st name v =
     (case parse_user_date st v of
        Inr _ \<Rightarrow> Inr ()
      | Inl _ \<Rightarrow> Inl (InvalidInput (name @ '' '' @ quoted v @ '' is not a YYYY-MM-DD date'')))"

definition next_version :: "string \<Rightarrow> string \<Rightarrow> pricing_row list \<Rightarrow> int" where
  "next_version provider model rows =
     fold max (map pc_version (filter (\<lambda>r. pc_provider r = provider \<and> pc_model r = model) rows)) 0 + 1"

definition row_key :: "pricing_row \<Rightarrow> string \<times> string \<times> string \<times> string" where
  "row_key r = (pc_provider r, pc_model r, pw_origin r, pc_effective_from r)"

definition record_key :: "pricing_record \<Rightarrow> string \<times> string \<times> string \<times> string" where
  "record_key r = (pc_provider r, pc_model r, origin_str (pr_origin r), pc_effective_from r)"

definition row_of :: "string \<Rightarrow> string \<Rightarrow> pricing_record \<Rightarrow> pricing_row" where
  "row_of i now r = pricing_cols.extend (pricing_cols.truncate r)
     \<lparr>pw_unit = unit_str (pr_unit r), pw_origin = origin_str (pr_origin r), pw_id = i, pw_created_at = now\<rparr>"

definition upsert_record ::
    "string \<Rightarrow> string \<Rightarrow> pricing_record \<Rightarrow> pricing_row list \<Rightarrow> bool \<times> pricing_row list" where
  "upsert_record i now rec rows =
     (if list_ex (\<lambda>r. row_key r = record_key rec) rows
      then (True, map (\<lambda>r. if row_key r = record_key rec then (row_of (pw_id r) now rec) else r) rows)
      else (False, rows @ [row_of i now rec]))"

fun first_error :: "unit res list \<Rightarrow> unit res" where
  "first_error [] = Inr ()"
| "first_error (Inl e # rs) = Inl e"
| "first_error (Inr _ # rs) = first_error rs"

definition override_record ::
    "pricing_env \<Rightarrow> string \<Rightarrow> string \<Rightarrow> override_spec \<Rightarrow> pricing_unit \<Rightarrow> string \<Rightarrow> int \<Rightarrow> pricing_record" where
  "override_record px provider model spec unit effective_from version =
     \<lparr>pc_provider = provider, pc_model = model, pc_input = os_input spec,
      pc_cached_input = os_cached_input spec, pc_output = os_output spec,
      pc_batch_input = os_batch_input spec, pc_batch_output = os_batch_output spec,
      pc_per_request = os_per_request spec, pc_currency = ''USD'',
      pc_source = ''manual override'' @ (if os_note spec = [] then [] else '' ('' @ os_note spec @ '')''),
      pc_effective_from = effective_from, pc_last_verified = date_prefix (px_now px),
      pc_version = version, pc_note = os_note spec,
      pr_unit = unit, pr_origin = Override, pr_stale = False\<rparr>"

definition validate_spec :: "override_spec \<Rightarrow> unit res" where
  "validate_spec spec = first_error
     [validate_price ''input price'' (os_input spec),
      validate_price ''cached input price'' (os_cached_input spec),
      validate_price ''output price'' (os_output spec),
      validate_price ''batch input price'' (os_batch_input spec),
      validate_price ''batch output price'' (os_batch_output spec),
      validate_price ''per-request price'' (os_per_request spec)]"

definition set_override ::
    "pricing_env \<Rightarrow> string \<Rightarrow> string \<Rightarrow> string \<Rightarrow> override_spec \<Rightarrow> pricing_row list \<Rightarrow> pricing_row list res" where
  "set_override px i provider model spec rows =
     (let provider = px_lowercase px (trim provider);
          model = px_lowercase px (trim model);
          unit = (case os_unit spec of Some u \<Rightarrow> u | None \<Rightarrow> Tokens);
          effective_from = (case os_effective_from spec of Some d \<Rightarrow> d | None \<Rightarrow> ''1970-01-01'')
      in if provider = [] \<or> model = []
         then Inl (InvalidInput ''provider and model must not be empty'')
         else case validate_spec spec of
           Inl e \<Rightarrow> Inl e
         | Inr _ \<Rightarrow>
             if unit = Tokens \<and> os_input spec = None \<and> os_output spec = None
             then Inl (InvalidInput ''a token override needs an input and/or output price'')
             else if unit = Requests \<and> os_per_request spec = None
             then Inl (InvalidInput ''a request override needs a per-request price'')
             else case (if effective_from \<noteq> ''1970-01-01''
                        then validate_date (px_stamps px) ''effective date'' effective_from else Inr ()) of
               Inl e \<Rightarrow> Inl e
             | Inr _ \<Rightarrow> Inr (snd (upsert_record i (px_now px)
                 (override_record px provider model spec unit effective_from (next_version provider model rows)) rows)))"

definition remove_override ::
    "pricing_env \<Rightarrow> string \<Rightarrow> string \<Rightarrow> pricing_row list \<Rightarrow> nat \<times> pricing_row list" where
  "remove_override px provider model rows =
     (let gone = (\<lambda>r. pc_provider r = px_lowercase px provider \<and> pc_model r = px_lowercase px model
                        \<and> pw_origin r = ''override'')
      in (length (filter gone rows), filter (\<lambda>r. \<not> gone r) rows))"

section \<open>Import and export\<close>

record interchange_record =
  ir_provider :: string
  ir_model :: string
  ir_unit :: pricing_unit
  ir_input_per_m :: "string option"
  ir_cached_input_per_m :: "string option"
  ir_output_per_m :: "string option"
  ir_batch_input_per_m :: "string option"
  ir_batch_output_per_m :: "string option"
  ir_per_request :: "string option"
  ir_currency :: string
  ir_source :: string
  ir_effective_from :: string
  ir_last_verified :: string
  ir_note :: string
  ir_origin :: "origin option"

text \<open>\<open>f64::round\<close> of a number that is not negative: halves go up.\<close>

definition round_half_up :: "rat \<Rightarrow> int" where
  "round_half_up x = \<lfloor>x + 1 / 2\<rfloor>"

definition dollars_to_micros :: "pricing_env \<Rightarrow> string \<Rightarrow> int res" where
  "dollars_to_micros px dollars =
     (case px_parse_double px (dropWhile (\<lambda>c. c = CHR ''$'') (trim dollars)) of
        None \<Rightarrow> Inl (InvalidInput (quoted dollars @ '' is not a dollar amount''))
      | Some None \<Rightarrow> Inl (InvalidInput (quoted dollars @ '' is not a valid amount''))
      | Some (Some x) \<Rightarrow>
          if x < 0 then Inl (InvalidInput (quoted dollars @ '' is not a valid amount''))
          else if 1000000000000 < x then Inl (InvalidInput ''amount is unreasonably large'')
          else Inr (round_half_up (px_double px (x * 1000000))))"

definition micros_to_dollars :: "pricing_env \<Rightarrow> int option \<Rightarrow> string option" where
  "micros_to_dollars px m =
     map_option (\<lambda>m. px_fixed px 6 (px_double px (px_double px (rat_of_int m) / 1000000))) m"

definition parse_price :: "pricing_env \<Rightarrow> string \<Rightarrow> string option \<Rightarrow> int option res" where
  "parse_price px name v =
     (case v of
        None \<Rightarrow> Inr None
      | Some s \<Rightarrow> (case dollars_to_micros px s of
            Inr n \<Rightarrow> Inr (Some n)
          | Inl e \<Rightarrow> Inl (InvalidInput (name @ '': '' @ display_error e))))"

text \<open>The context of an error names the record by its number and key.\<close>

definition import_record :: "pricing_env \<Rightarrow> nat \<Rightarrow> interchange_record \<Rightarrow> pricing_record res" where
  "import_record px i r =
     (let ctx = ''record '' @ dec_of_nat (i + 1) @ '' ('' @ ir_provider r @ ''/'' @ ir_model r @ '')'';
          provider = px_lowercase px (trim (ir_provider r));
          model = px_lowercase px (trim (ir_model r))
      in if provider = [] \<or> model = []
         then Inl (InvalidInput (ctx @ '': provider and model must not be empty''))
         else if length (trim (ir_currency r)) \<noteq> 3
         then Inl (InvalidInput (ctx @ '': currency must be a 3-letter code''))
         else case first_error
             [validate_date (px_stamps px) (ctx @ '': effective_from'') (ir_effective_from r),
              validate_date (px_stamps px) (ctx @ '': last_verified'') (ir_last_verified r)] of
           Inl e \<Rightarrow> Inl e
         | Inr _ \<Rightarrow>
        (case parse_price px (ctx @ '': input_per_m'') (ir_input_per_m r) of Inl e \<Rightarrow> Inl e | Inr input \<Rightarrow>
        (case parse_price px (ctx @ '': cached_input_per_m'') (ir_cached_input_per_m r) of Inl e \<Rightarrow> Inl e | Inr cached \<Rightarrow>
        (case parse_price px (ctx @ '': output_per_m'') (ir_output_per_m r) of Inl e \<Rightarrow> Inl e | Inr output \<Rightarrow>
        (case parse_price px (ctx @ '': batch_input_per_m'') (ir_batch_input_per_m r) of Inl e \<Rightarrow> Inl e | Inr batch_in \<Rightarrow>
        (case parse_price px (ctx @ '': batch_output_per_m'') (ir_batch_output_per_m r) of Inl e \<Rightarrow> Inl e | Inr batch_out \<Rightarrow>
        (case parse_price px (ctx @ '': per_request'') (ir_per_request r) of Inl e \<Rightarrow> Inl e | Inr per_req \<Rightarrow>
           if ir_unit r = Tokens \<and> input = None \<and> output = None
           then Inl (InvalidInput (ctx @ '': a token record needs an input and/or output price''))
           else if ir_unit r = Requests \<and> per_req = None
           then Inl (InvalidInput (ctx @ '': a request record needs per_request''))
           else Inr
             \<lparr>pc_provider = provider, pc_model = model, pc_input = input, pc_cached_input = cached,
              pc_output = output, pc_batch_input = batch_in, pc_batch_output = batch_out,
              pc_per_request = per_req, pc_currency = px_uppercase px (trim (ir_currency r)),
              pc_source = ir_source r, pc_effective_from = ir_effective_from r,
              pc_last_verified = ir_last_verified r, pc_version = 0, pc_note = ir_note r,
              pr_unit = ir_unit r, pr_origin = Imported, pr_stale = False\<rparr>)))))))"

fun import_all :: "pricing_env \<Rightarrow> nat \<Rightarrow> interchange_record list \<Rightarrow> pricing_record list res" where
  "import_all px i [] = Inr []"
| "import_all px i (r # rs) =
     (case import_record px i r of
        Inl e \<Rightarrow> Inl e
      | Inr rec \<Rightarrow> map_sum id ((#) rec) (import_all px (Suc i) rs))"

text \<open>Inserts the records in order and counts those that were new and those that replaced a row.\<close>

fun insert_imported ::
    "string list \<Rightarrow> string \<Rightarrow> pricing_record list \<Rightarrow> pricing_row list \<Rightarrow> (nat \<times> nat) \<times> pricing_row list" where
  "insert_imported ids now (rec # recs) rows =
     (let (replaced, rows) = upsert_record (hd ids) now
            (rec\<lparr>pc_version := next_version (pc_provider rec) (pc_model rec) rows\<rparr>) rows;
          ((a, r), rows) = insert_imported (tl ids) now recs rows
      in (if replaced then (a, r + 1) else (a + 1, r), rows))"
| "insert_imported ids now [] rows = ((0, 0), rows)"

definition MAX_IMPORT_BYTES :: nat where "MAX_IMPORT_BYTES = 4 * 1024 * 1024"

definition import_records ::
    "pricing_env \<Rightarrow> (string \<Rightarrow> string + interchange_record list) \<Rightarrow> string list \<Rightarrow> string \<Rightarrow> pricing_row list
       \<Rightarrow> ((nat \<times> nat) \<times> pricing_row list) res" where
  "import_records px from_json ids json rows =
     (if MAX_IMPORT_BYTES < length json
      then Inl (InvalidInput ''the pricing file exceeds 4 MiB; that is not a pricing dataset'')
      else case from_json json of
        Inl e \<Rightarrow> Inl (InvalidInput (''pricing JSON did not parse: '' @ e))
      | Inr [] \<Rightarrow> Inl (InvalidInput ''the pricing file contains no records'')
      | Inr parsed \<Rightarrow>
          (case import_all px 0 parsed of
             Inl e \<Rightarrow> Inl e
           | Inr recs \<Rightarrow> Inr (insert_imported ids (px_now px) recs rows)))"

definition interchange_of :: "pricing_env \<Rightarrow> pricing_record \<Rightarrow> interchange_record" where
  "interchange_of px r =
     \<lparr>ir_provider = pc_provider r, ir_model = pc_model r, ir_unit = pr_unit r,
      ir_input_per_m = micros_to_dollars px (pc_input r),
      ir_cached_input_per_m = micros_to_dollars px (pc_cached_input r),
      ir_output_per_m = micros_to_dollars px (pc_output r),
      ir_batch_input_per_m = micros_to_dollars px (pc_batch_input r),
      ir_batch_output_per_m = micros_to_dollars px (pc_batch_output r),
      ir_per_request = micros_to_dollars px (pc_per_request r),
      ir_currency = pc_currency r, ir_source = pc_source r, ir_effective_from = pc_effective_from r,
      ir_last_verified = pc_last_verified r, ir_note = pc_note r, ir_origin = Some (pr_origin r)\<rparr>"

text \<open>What is written out as JSON.\<close>

definition export_records :: "pricing_env \<Rightarrow> string option \<Rightarrow> pricing_row list \<Rightarrow> interchange_record list" where
  "export_records px provider rows =
     map (interchange_of px)
       (sort_key (\<lambda>r. (pc_provider r, pc_model r, pc_effective_from r))
         (load_db_records provider rows
          @ filter (\<lambda>r. case provider of None \<Rightarrow> True | Some p \<Rightarrow> pc_provider r = p) bundled))"

definition catalog :: "pricing_env \<Rightarrow> pricing_row list \<Rightarrow> pricing_record list" where
  "catalog px rows =
     sort_key (\<lambda>r. (pc_provider r, pc_model r, pc_effective_from r, origin_rank (pr_origin r)))
       (map (\<lambda>r. r\<lparr>pr_stale := is_stale (px_stamps px) (px_now px) r\<rparr>) (load_db_records None rows @ bundled))"

definition effective_catalog :: "pricing_env \<Rightarrow> string \<Rightarrow> pricing_row list \<Rightarrow> pricing_record list" where
  "effective_catalog px as_of rows =
     concat (map (\<lambda>(provider, model).
         (case lookup_as_of px provider model as_of rows of
            Some rec \<Rightarrow> if pc_model rec = model then [rec] else []
          | None \<Rightarrow> []))
       (remdups_adj (sort (map (\<lambda>r. (pc_provider r, pc_model r)) (catalog px rows)))))"

definition proposal_template :: "pricing_env \<Rightarrow> string \<Rightarrow> pricing_row list \<Rightarrow> interchange_record list res" where
  "proposal_template px provider rows =
     (let today = date_prefix (px_now px);
          out = map (\<lambda>r. (interchange_of px r)
                  \<lparr>ir_effective_from := today, ir_last_verified := today,
                   ir_note := ''review against the source before importing'', ir_origin := None\<rparr>)
                (filter (\<lambda>r. pc_provider r = px_lowercase px provider) (effective_catalog px today rows))
      in if out = [] then Inl (InvalidInput (''no pricing records exist for provider '' @ quoted provider))
         else Inr out)"

section \<open>Estimates\<close>

record cost_estimate =
  ce_micros :: int
  ce_pricing_source :: string
  ce_effective_from :: string
  ce_last_verified :: string
  ce_is_override :: bool
  ce_stale :: bool
  ce_note :: string
  ce_currency :: string
  ce_matched_model :: string
  ce_matched_provider :: string
  ce_complete :: bool
  ce_unpriced_dimensions :: "string list"

definition micros_if_complete :: "cost_estimate \<Rightarrow> int option" where
  "micros_if_complete e = (if ce_complete e then Some (ce_micros e) else None)"

definition incompleteness_note :: "cost_estimate \<Rightarrow> string option" where
  "incompleteness_note e =
     (if ce_complete e then None
      else Some (''partial estimate '' @ em_dash @ '' this pricing record has no price for ''
             @ join '' or '' (ce_unpriced_dimensions e)
             @ '', so that usage contributed nothing; the amount is a floor, not a total''))"

definition estimate_from :: "pricing_record \<Rightarrow> int \<Rightarrow> string list \<Rightarrow> cost_estimate" where
  "estimate_from rec micros unpriced =
     \<lparr>ce_micros = micros, ce_pricing_source = pc_source rec, ce_effective_from = pc_effective_from rec,
      ce_last_verified = pc_last_verified rec, ce_is_override = (pr_origin rec = Override),
      ce_stale = pr_stale rec, ce_note = pc_note rec, ce_currency = pc_currency rec,
      ce_matched_model = pc_model rec, ce_matched_provider = pc_provider rec,
      ce_complete = (unpriced = []), ce_unpriced_dimensions = unpriced\<rparr>"

definition estimate_token_cost_from :: "pricing_record \<Rightarrow> int \<Rightarrow> int \<Rightarrow> cost_estimate option" where
  "estimate_token_cost_from rec input_tokens output_tokens =
     (if pr_unit rec \<noteq> Tokens then None
      else if pc_input rec = None \<and> pc_output rec = None then None
      else
        (let unpriced = (if 0 < input_tokens \<and> pc_input rec = None then [''input tokens''] else [])
               @ (if 0 < output_tokens \<and> pc_output rec = None then [''output tokens''] else []);
             micros = add64 (saturating_mul input_tokens (or_zero (pc_input rec)) sdiv 1000000)
               (saturating_mul output_tokens (or_zero (pc_output rec)) sdiv 1000000)
         in Some (estimate_from rec micros unpriced)))"

definition estimate_token_cost_as_of ::
    "pricing_env \<Rightarrow> string \<Rightarrow> string \<Rightarrow> string \<Rightarrow> int \<Rightarrow> int \<Rightarrow> pricing_row list \<Rightarrow> cost_estimate option" where
  "estimate_token_cost_as_of px provider model as_of input_tokens output_tokens rows =
     (case lookup_as_of px provider model as_of rows of
        None \<Rightarrow> None
      | Some rec \<Rightarrow> estimate_token_cost_from rec input_tokens output_tokens)"

definition estimate_request_cost_as_of ::
    "pricing_env \<Rightarrow> string \<Rightarrow> string \<Rightarrow> string \<Rightarrow> int \<Rightarrow> pricing_row list \<Rightarrow> cost_estimate option" where
  "estimate_request_cost_as_of px provider service as_of requests rows =
     (case lookup_as_of px provider service as_of rows of
        None \<Rightarrow> None
      | Some rec \<Rightarrow>
          (case (pr_unit rec, pc_per_request rec) of
             (Requests, Some per) \<Rightarrow> Some (estimate_from rec (saturating_mul requests per) [])
           | _ \<Rightarrow> None))"

end
