(* ===== verification/ProjectCost.thy ===== *)
theory ProjectCost
  imports PricingOps
begin

text \<open>
  crates/core/src/projectcost.rs: the locally estimated cost of a project's observed usage with
  what it does not cover. Rows of \<open>gateway_usage_events\<close> are grouped by provider, model and day;
  every group is priced by the record effective on its day, and accumulated per model. The filter
  of the activity view is a predicate on rows; a coverage ratio is its numerator and denominator
  (the source divides them as doubles). Sums of columns are those of SQLite, which stop with an
  error when they leave the 64 bits; the sums of the fold are those of the release build, which
  wrap.
\<close>

definition ESTIMATE_CURRENCY :: string where "ESTIMATE_CURRENCY = ''USD''"
definition MAX_GROUPS :: nat where "MAX_GROUPS = 2000"

datatype unpriced_reason = NoPricingRecord | ModelNotDetected | UsageNotExtracted | NonTokenUnit
  | UnsupportedCurrency

fun unpriced_sentence :: "unpriced_reason \<Rightarrow> string" where
  "unpriced_sentence NoPricingRecord = ''no local pricing record covers this model''"
| "unpriced_sentence ModelNotDetected = ''the response did not report a model''"
| "unpriced_sentence UsageNotExtracted = ''token usage was not reported for these requests''"
| "unpriced_sentence NonTokenUnit = ''this model's pricing record is not token-based''"
| "unpriced_sentence UnsupportedCurrency = ''this model's pricing record is in another currency''"

record priced_usage =
  pu_provider :: string
  pu_model :: string
  pu_matched_model :: string
  pu_requests :: int
  pu_input_tokens :: int
  pu_output_tokens :: int
  pu_micros :: int
  pu_currency :: string
  pu_pricing_source :: string
  pu_effective_from :: string
  pu_last_verified :: string
  pu_stale :: bool
  pu_is_override :: bool
  pu_note :: string
  pu_complete :: bool
  pu_unpriced_dimensions :: "string list"

record unpriced_usage =
  uu_provider :: string
  uu_model :: "string option"
  uu_requests :: int
  uu_input_tokens :: "int option"
  uu_output_tokens :: "int option"
  uu_reason :: unpriced_reason

record cost_coverage =
  cc_estimated_micros :: int
  cc_currency :: string
  cc_priced_requests :: int
  cc_priced_input_tokens :: int
  cc_priced_output_tokens :: int
  cc_known_input_tokens :: int
  cc_known_output_tokens :: int
  cc_unpriced_requests :: int
  cc_unpriced_tokens :: int
  cc_requests_with_unknown_usage :: int
  cc_token_coverage :: "(int \<times> int) option"
  cc_complete :: bool
  cc_any_stale_pricing :: bool
  cc_truncated :: bool
  cc_priced :: "priced_usage list"
  cc_unpriced :: "unpriced_usage list"

definition coverage_if_complete :: "cost_coverage \<Rightarrow> int option" where
  "coverage_if_complete c = (if cc_complete c then Some (cc_estimated_micros c) else None)"

definition coverage_is_empty :: "cost_coverage \<Rightarrow> bool" where
  "coverage_is_empty c \<longleftrightarrow>
     cc_priced_requests c = 0 \<and> cc_unpriced_requests c = 0 \<and> cc_requests_with_unknown_usage c = 0"

definition unpriced_model_variants :: "cost_coverage \<Rightarrow> nat" where
  "unpriced_model_variants c = length (remdups (map (\<lambda>u. (uu_provider u, uu_model u)) (cc_unpriced c)))"

definition coverage_note :: "cost_coverage \<Rightarrow> string option" where
  "coverage_note c =
     (if cc_complete c then None
      else
        (let variants = unpriced_model_variants c;
             partial = length (filter (\<lambda>p. \<not> pu_complete p) (cc_priced c));
             parts = (if 0 < variants
                      then [''cost unavailable for '' @ dec_of_nat variants @ '' model variant'' @ (if variants = 1 then [] else ''s'')]
                      else [])
               @ (if 0 < cc_requests_with_unknown_usage c
                  then [dec_of_int (cc_requests_with_unknown_usage c) @ '' request(s) reported no token usage''] else [])
               @ (if 0 < partial then [dec_of_nat partial @ '' priced group(s) are a floor, not a total''] else [])
         in Some (join ''; '' (if parts = [] then [''the window was truncated''] else parts))))"

section \<open>Groups\<close>

record usage_event =
  ue_project_id :: "string option"
  ue_at :: string
  ue_provider_id :: string
  ue_model :: "string option"
  ue_input_tokens :: "int option"
  ue_output_tokens :: "int option"
  ue_cached_input_tokens :: "int option"

record usage_group =
  ug_provider :: string
  ug_model :: "string option"
  ug_day :: string
  ug_requests :: int
  ug_with_usage :: int
  ug_input_tokens :: "int option"
  ug_output_tokens :: "int option"
  ug_cached_input_tokens :: "int option"

text \<open>
  \<open>SUM\<close> of a column: \<open>NULL\<close> when no row has it, and an error as soon as the running sum is not
  a 64 bit integer.
\<close>

fun running_sum :: "int \<Rightarrow> int list \<Rightarrow> int res" where
  "running_sum acc [] = Inr acc"
| "running_sum acc (n # ns) =
     (if i64_range (acc + n) then running_sum (acc + n) ns else Inl (DbErr ''integer overflow''))"

definition sum_column :: "('a \<Rightarrow> int option) \<Rightarrow> 'a list \<Rightarrow> int option res" where
  "sum_column f rows =
     (case List.map_filter f rows of
        [] \<Rightarrow> Inr None
      | ns \<Rightarrow> (case running_sum 0 ns of Inl e \<Rightarrow> Inl e | Inr s \<Rightarrow> Inr (Some s)))"

definition event_key :: "usage_event \<Rightarrow> string \<times> string \<times> string option" where
  "event_key e = (take 10 (ue_at e), ue_provider_id e, ue_model e)"

definition reports_usage :: "usage_event \<Rightarrow> bool" where
  "reports_usage e \<longleftrightarrow> ue_input_tokens e \<noteq> None \<or> ue_output_tokens e \<noteq> None"

definition group_of :: "usage_event list \<Rightarrow> string \<times> string \<times> string option \<Rightarrow> usage_group res" where
  "group_of events key =
     (let rows = filter (\<lambda>e. event_key e = key) events in
      case sum_column ue_input_tokens rows of
        Inl e \<Rightarrow> Inl e
      | Inr input \<Rightarrow>
        (case sum_column ue_output_tokens rows of
           Inl e \<Rightarrow> Inl e
         | Inr output \<Rightarrow>
           (case sum_column ue_cached_input_tokens rows of
              Inl e \<Rightarrow> Inl e
            | Inr cached \<Rightarrow> Inr
                \<lparr>ug_provider = fst (snd key), ug_model = snd (snd key), ug_day = fst key,
                 ug_requests = int (length rows), ug_with_usage = int (length (filter reports_usage rows)),
                 ug_input_tokens = input, ug_output_tokens = output, ug_cached_input_tokens = cached\<rparr>)))"

definition in_scope :: "string \<Rightarrow> string \<Rightarrow> string option \<Rightarrow> (usage_event \<Rightarrow> bool) \<Rightarrow> usage_event \<Rightarrow> bool" where
  "in_scope project_id since until passes e \<longleftrightarrow>
     ue_project_id e = Some project_id \<and> since \<le> ue_at e
     \<and> (case until of None \<Rightarrow> True | Some u \<Rightarrow> ue_at e < u) \<and> passes e"

text \<open>
  Missing models sort first; one group more than the cap is loaded. The first row that is an
  error ends the collection.
\<close>

fun collect_rows :: "'a res list \<Rightarrow> 'a list res" where
  "collect_rows [] = Inr []"
| "collect_rows (r # rs) =
     (case r of
        Inl e \<Rightarrow> Inl e
      | Inr x \<Rightarrow> (case collect_rows rs of Inl e \<Rightarrow> Inl e | Inr xs \<Rightarrow> Inr (x # xs)))"

definition load_groups ::
    "string \<Rightarrow> string \<Rightarrow> string option \<Rightarrow> (usage_event \<Rightarrow> bool) \<Rightarrow> usage_event list
       \<Rightarrow> usage_group list res" where
  "load_groups project_id since until passes events =
     (let rows = filter (in_scope project_id since until passes) events;
          key_order = (\<lambda>(day, provider, model). (day, provider, case model of None \<Rightarrow> [] | Some m \<Rightarrow> [m]))
      in collect_rows
           (take (MAX_GROUPS + 1) (map (group_of rows) (sort_key key_order (remdups (map event_key rows))))))"

section \<open>Pricing the groups\<close>

definition merge_optional :: "int option \<Rightarrow> int option \<Rightarrow> int option" where
  "merge_optional acc next =
     (case (acc, next) of
        (None, v) \<Rightarrow> v
      | (Some a, Some b) \<Rightarrow> Some (add64 a b)
      | (Some _, None) \<Rightarrow> None)"

text \<open>Hash maps are association lists by key, in the order of first insertion.\<close>

type_synonym unpriced_key = "string \<times> string option \<times> unpriced_reason"
type_synonym unpriced_acc = "(unpriced_key \<times> unpriced_usage) list"
type_synonym priced_acc = "((string \<times> string) \<times> priced_usage) list"

definition entry_or :: "'k \<Rightarrow> 'v \<Rightarrow> ('k \<times> 'v) list \<Rightarrow> ('k \<times> 'v) list" where
  "entry_or k v m = (case map_of m k of None \<Rightarrow> m @ [(k, v)] | Some _ \<Rightarrow> m)"

definition change_entry :: "'k \<Rightarrow> ('v \<Rightarrow> 'v) \<Rightarrow> ('k \<times> 'v) list \<Rightarrow> ('k \<times> 'v) list" where
  "change_entry k f m = map (\<lambda>(k', v). (k', if k' = k then f v else v)) m"

definition add_unpriced ::
    "string \<Rightarrow> string option \<Rightarrow> int \<Rightarrow> int option \<Rightarrow> int option \<Rightarrow> unpriced_reason \<Rightarrow> unpriced_acc \<Rightarrow> unpriced_acc" where
  "add_unpriced provider model requests input_tokens output_tokens reason acc =
     (let key = (provider, model, reason) in
      change_entry key (\<lambda>e. e
          \<lparr>uu_requests := add64 (uu_requests e) requests,
           uu_input_tokens := merge_optional (uu_input_tokens e) input_tokens,
           uu_output_tokens := merge_optional (uu_output_tokens e) output_tokens\<rparr>)
        (entry_or key \<lparr>uu_provider = provider, uu_model = model, uu_requests = 0,
            uu_input_tokens = None, uu_output_tokens = None, uu_reason = reason\<rparr> acc))"

definition merge_dimensions :: "string list \<Rightarrow> string list \<Rightarrow> string list" where
  "merge_dimensions known dims = fold (\<lambda>d acc. if d \<in> set acc then acc else acc @ [d]) dims known"

definition add_priced ::
    "string \<Rightarrow> string \<Rightarrow> int \<Rightarrow> int \<Rightarrow> int \<Rightarrow> cost_estimate \<Rightarrow> priced_acc \<Rightarrow> priced_acc" where
  "add_priced provider model requests billable_input output est acc =
     (let key = (provider, model) in
      change_entry key (\<lambda>e. e
          \<lparr>pu_requests := add64 (pu_requests e) requests,
           pu_input_tokens := add64 (pu_input_tokens e) billable_input,
           pu_output_tokens := add64 (pu_output_tokens e) output,
           pu_micros := saturating_add (pu_micros e) (ce_micros est),
           pu_stale := pu_stale e \<or> ce_stale est,
           pu_complete := pu_complete e \<and> ce_complete est,
           pu_unpriced_dimensions := (if ce_complete est then pu_unpriced_dimensions e
              else merge_dimensions (pu_unpriced_dimensions e) (ce_unpriced_dimensions est))\<rparr>)
        (entry_or key
          \<lparr>pu_provider = provider, pu_model = model, pu_matched_model = ce_matched_model est,
           pu_requests = 0, pu_input_tokens = 0, pu_output_tokens = 0, pu_micros = 0,
           pu_currency = ce_currency est, pu_pricing_source = ce_pricing_source est,
           pu_effective_from = ce_effective_from est, pu_last_verified = ce_last_verified est,
           pu_stale = ce_stale est, pu_is_override = ce_is_override est, pu_note = ce_note est,
           pu_complete = True, pu_unpriced_dimensions = []\<rparr> acc))"

type_synonym cost_state = "cost_coverage \<times> priced_acc \<times> unpriced_acc"

text \<open>The requests of a group that reported no usage are counted and enter no token figure.\<close>

definition note_unknown :: "usage_group \<Rightarrow> cost_state \<Rightarrow> cost_state" where
  "note_unknown g = (\<lambda>(out, priced, unpriced).
     (let without_usage = max (sub64 (ug_requests g) (ug_with_usage g)) 0 in
      if 0 < without_usage
      then (out\<lparr>cc_requests_with_unknown_usage := add64 (cc_requests_with_unknown_usage out) without_usage,
                cc_complete := False\<rparr>, priced,
            add_unpriced (ug_provider g) (ug_model g) without_usage None None UsageNotExtracted unpriced)
      else (out, priced, unpriced)))"

definition note_unpriced ::
    "usage_group \<Rightarrow> int \<Rightarrow> int \<Rightarrow> string option \<Rightarrow> unpriced_reason \<Rightarrow> cost_state \<Rightarrow> cost_state" where
  "note_unpriced g input output model reason = (\<lambda>(out, priced, unpriced).
     (out\<lparr>cc_unpriced_requests := add64 (cc_unpriced_requests out) (ug_with_usage g),
          cc_unpriced_tokens := add64 (cc_unpriced_tokens out) (add64 input output),
          cc_complete := False\<rparr>, priced,
      add_unpriced (ug_provider g) model (ug_with_usage g) (Some input) (Some output) reason unpriced))"

definition note_known :: "int \<Rightarrow> int \<Rightarrow> cost_state \<Rightarrow> cost_state" where
  "note_known input output = (\<lambda>(out, priced, unpriced).
     (out\<lparr>cc_known_input_tokens := add64 (cc_known_input_tokens out) input,
          cc_known_output_tokens := add64 (cc_known_output_tokens out) output\<rparr>, priced, unpriced))"

definition note_priced :: "usage_group \<Rightarrow> string \<Rightarrow> int \<Rightarrow> int \<Rightarrow> cost_estimate \<Rightarrow> cost_state \<Rightarrow> cost_state" where
  "note_priced g model billable_input output est = (\<lambda>(out, priced, unpriced).
     (let input_unpriced = (''input tokens'' \<in> set (ce_unpriced_dimensions est));
          output_unpriced = (''output tokens'' \<in> set (ce_unpriced_dimensions est));
          out = out\<lparr>cc_estimated_micros := saturating_add (cc_estimated_micros out) (ce_micros est),
                    cc_priced_requests := add64 (cc_priced_requests out) (ug_with_usage g)\<rparr>;
          out = (if input_unpriced then out\<lparr>cc_unpriced_tokens := add64 (cc_unpriced_tokens out) billable_input\<rparr>
                 else out\<lparr>cc_priced_input_tokens := add64 (cc_priced_input_tokens out) billable_input\<rparr>);
          out = (if output_unpriced then out\<lparr>cc_unpriced_tokens := add64 (cc_unpriced_tokens out) output\<rparr>
                 else out\<lparr>cc_priced_output_tokens := add64 (cc_priced_output_tokens out) output\<rparr>);
          out = out\<lparr>cc_complete := cc_complete out \<and> ce_complete est,
                    cc_any_stale_pricing := cc_any_stale_pricing out \<or> ce_stale est\<rparr>
      in (out, add_priced (ug_provider g) model (ug_with_usage g) billable_input output est priced, unpriced)))"

text \<open>
  Counts are stored from 0 on (writer.rs), so \<open>input\<close> is not negative; below 0 the clamp of the source
  would panic.
\<close>

definition billable_input :: "usage_group \<Rightarrow> int \<Rightarrow> int" where
  "billable_input g input = sub64 input (max 0 (min input (or_zero (ug_cached_input_tokens g))))"

definition price_group :: "pricing_env \<Rightarrow> pricing_row list \<Rightarrow> usage_group \<Rightarrow> cost_state \<Rightarrow> cost_state" where
  "price_group px rows g s =
     (let s = note_unknown g s in
      if ug_with_usage g = 0 then s
      else
        (let input = or_zero (ug_input_tokens g); output = or_zero (ug_output_tokens g);
             s = note_known input output s
         in case ug_model g of
              None \<Rightarrow> note_unpriced g input output None ModelNotDetected s
            | Some model \<Rightarrow>
                (case choose_as_of px (candidates_for px (ug_provider g) rows) model (ug_day g) of
                   None \<Rightarrow> note_unpriced g input output (Some model) NoPricingRecord s
                 | Some rec \<Rightarrow>
                     if pc_currency rec \<noteq> ESTIMATE_CURRENCY
                     then note_unpriced g input output (Some model) UnsupportedCurrency s
                     else (case estimate_token_cost_from rec (billable_input g input) output of
                         None \<Rightarrow> note_unpriced g input output (Some model) NonTokenUnit s
                       | Some est \<Rightarrow> note_priced g model (billable_input g input) output est s))))"

definition no_coverage :: "bool \<Rightarrow> cost_coverage" where
  "no_coverage truncated =
     \<lparr>cc_estimated_micros = 0, cc_currency = ESTIMATE_CURRENCY, cc_priced_requests = 0,
      cc_priced_input_tokens = 0, cc_priced_output_tokens = 0, cc_known_input_tokens = 0,
      cc_known_output_tokens = 0, cc_unpriced_requests = 0, cc_unpriced_tokens = 0,
      cc_requests_with_unknown_usage = 0, cc_token_coverage = None, cc_complete = (\<not> truncated),
      cc_any_stale_pricing = False, cc_truncated = truncated, cc_priced = [], cc_unpriced = []\<rparr>"

text \<open>Entries with equal sort keys keep the order of the map.\<close>

definition close_coverage :: "cost_state \<Rightarrow> cost_coverage" where
  "close_coverage = (\<lambda>(out, priced, unpriced).
     (let priced_tokens = add64 (cc_priced_input_tokens out) (cc_priced_output_tokens out);
          known_tokens = add64 priced_tokens (cc_unpriced_tokens out)
      in out\<lparr>cc_token_coverage := (if 0 < known_tokens then Some (priced_tokens, known_tokens) else None),
             cc_priced := sort_key (\<lambda>p. (- pu_micros p, pu_model p)) (map snd priced),
             cc_unpriced := sort_key (\<lambda>u. (- uu_requests u, uu_provider u,
                 case uu_model u of None \<Rightarrow> [] | Some m \<Rightarrow> [m])) (map snd unpriced)\<rparr>))"

definition cover_groups :: "pricing_env \<Rightarrow> pricing_row list \<Rightarrow> usage_group list \<Rightarrow> cost_coverage" where
  "cover_groups px rows groups =
     close_coverage (fold (price_group px rows) (take MAX_GROUPS groups)
       (no_coverage (MAX_GROUPS < length groups), [], []))"

definition project_cost_coverage ::
    "pricing_env \<Rightarrow> string \<Rightarrow> string \<Rightarrow> string option \<Rightarrow> (usage_event \<Rightarrow> bool) \<Rightarrow> pricing_row list
       \<Rightarrow> usage_event list \<Rightarrow> cost_coverage res" where
  "project_cost_coverage px project_id since until passes rows events =
     (case load_groups project_id since until passes events of
        Inl e \<Rightarrow> Inl e
      | Inr groups \<Rightarrow> Inr (cover_groups px rows groups))"

end
