(* ===== verification/CostProps.thy ===== *)
theory CostProps
  imports Budget ProjectCost
begin

text \<open>
  What the figures of usage, pricing and budgets mean. Totals are folded sums with the number of
  rows behind each; a budget verdict is compared with every way the missing costs could have been;
  the record that prices a model is the best of those that match; and the coverage of a project's
  estimate accounts for every request and token it saw.
\<close>

section \<open>Totals\<close>

text \<open>The cost of a row that a total of reported costs folds.\<close>

definition reported_usd :: "usage_snapshot \<Rightarrow> int option" where
  "reported_usd s = (if is_usd (ud_currency s) then ud_reported_cost_micros s else None)"

definition counted :: "('a \<Rightarrow> 'b option) \<Rightarrow> 'a list \<Rightarrow> int" where
  "counted f xs = int (length (filter (\<lambda>x. f x \<noteq> None) xs))"

definition summed :: "('a \<Rightarrow> int option) \<Rightarrow> 'a list \<Rightarrow> int" where
  "summed f xs = (\<Sum>x\<leftarrow>xs. or_zero (f x))"

lemma summed_simps [simp]: "summed f [] = 0" "summed f (x # xs) = or_zero (f x) + summed f xs"
  by (simp_all add: summed_def)

lemma counted_simps [simp]: "counted f [] = 0" "counted f (x # xs) = one_if (f x \<noteq> None) + counted f xs"
  by (simp_all add: counted_def one_if_def)

lemma or_zero_simps [simp]: "or_zero None = 0" "or_zero (Some n) = n"
  by (simp_all add: or_zero_def)

lemma counted_nonneg: "0 \<le> counted f xs"
  by (simp add: counted_def)

lemma counted_all: "counted f xs \<le> int (length xs)"
  by (simp add: counted_def)

lemma counted_full: "counted f xs = int (length xs) \<longleftrightarrow> (\<forall>x \<in> set xs. f x \<noteq> None)"
proof (induction xs)
  case (Cons x xs)
  then show ?case using counted_all [of f xs] by (cases "f x") (auto simp: one_if_def)
qed simp

text \<open>The steps on the fields that budgets read.\<close>

lemma add_sums_fields:
  "ut_snapshots (add_sums s t) = ut_snapshots t + 1"
  "ut_reported_cost_micros (add_sums s t) = ut_reported_cost_micros t"
  "ut_reported_cost_rows (add_sums s t) = ut_reported_cost_rows t"
  "ut_estimated_cost_micros (add_sums s t) = ut_estimated_cost_micros t"
  "ut_estimated_cost_rows (add_sums s t) = ut_estimated_cost_rows t"
  by (simp_all add: add_sums_def)

lemma add_coverage_fields:
  "ut_snapshots (add_coverage s t) = ut_snapshots t"
  "ut_reported_cost_micros (add_coverage s t) = ut_reported_cost_micros t"
  "ut_reported_cost_rows (add_coverage s t) = ut_reported_cost_rows t"
  "ut_estimated_cost_micros (add_coverage s t) = ut_estimated_cost_micros t"
  "ut_estimated_cost_rows (add_coverage s t) = ut_estimated_cost_rows t + one_if (ud_estimated_cost_micros s \<noteq> None)"
  by (simp_all add: add_coverage_def)

lemma add_unit_fields:
  "ut_snapshots (add_unit s t) = ut_snapshots t"
  "ut_reported_cost_micros (add_unit s t) = ut_reported_cost_micros t"
  "ut_reported_cost_rows (add_unit s t) = ut_reported_cost_rows t"
  "ut_estimated_cost_micros (add_unit s t) = ut_estimated_cost_micros t"
  "ut_estimated_cost_rows (add_unit s t) = ut_estimated_cost_rows t"
  by (simp_all add: add_unit_def split: option.split bool.split)

lemma add_reported_fields:
  "ut_snapshots (add_reported uc s t) = ut_snapshots t"
  "ut_reported_cost_micros (add_reported uc s t) =
     (case reported_usd s of None \<Rightarrow> ut_reported_cost_micros t | Some n \<Rightarrow> add64 (ut_reported_cost_micros t) n)"
  "ut_reported_cost_rows (add_reported uc s t) = ut_reported_cost_rows t + one_if (reported_usd s \<noteq> None)"
  "ut_estimated_cost_micros (add_reported uc s t) = ut_estimated_cost_micros t"
  "ut_estimated_cost_rows (add_reported uc s t) = ut_estimated_cost_rows t"
  by (simp_all add: add_reported_def reported_usd_def one_if_def Let_def split: option.split)

lemma add_labels_fields:
  "ut_snapshots (fst (add_labels s (t, w))) = ut_snapshots t"
  "ut_reported_cost_micros (fst (add_labels s (t, w))) = ut_reported_cost_micros t"
  "ut_reported_cost_rows (fst (add_labels s (t, w))) = ut_reported_cost_rows t"
  "ut_estimated_cost_micros (fst (add_labels s (t, w))) =
     add64 (ut_estimated_cost_micros t) (or_zero (ud_estimated_cost_micros s))"
  "ut_estimated_cost_rows (fst (add_labels s (t, w))) = ut_estimated_cost_rows t"
  by (simp_all add: add_labels_def Let_def)

lemmas step_fields = add_sums_fields add_coverage_fields add_unit_fields add_reported_fields add_labels_fields

text \<open>What the fold has after some rows, given what it had before.\<close>

definition folded :: "usage_totals \<Rightarrow> int \<Rightarrow> int \<Rightarrow> int \<Rightarrow> int \<Rightarrow> int \<Rightarrow> bool" where
  "folded t n r rc e ec \<longleftrightarrow> ut_snapshots t = n
     \<and> ut_reported_cost_micros t = wrap64 r \<and> ut_reported_cost_rows t = rc
     \<and> ut_estimated_cost_micros t = wrap64 e \<and> ut_estimated_cost_rows t = ec"

lemma folded_step:
  assumes "folded t n r rc e ec"
  shows "folded (fst (add_snapshot uc s (t, w))) (n + 1) (r + or_zero (reported_usd s))
    (rc + one_if (reported_usd s \<noteq> None)) (e + or_zero (ud_estimated_cost_micros s))
    (ec + one_if (ud_estimated_cost_micros s \<noteq> None))"
  using assms by (simp add: folded_def add_snapshot_def step_fields add64_def split: option.split)

lemma folded_all:
  "folded t n r rc e ec \<Longrightarrow> folded (fst (fold (add_snapshot uc) xs (t, w))) (n + int (length xs))
     (r + summed reported_usd xs) (rc + counted reported_usd xs)
     (e + summed ud_estimated_cost_micros xs) (ec + counted ud_estimated_cost_micros xs)"
proof (induction xs arbitrary: t w n r rc e ec)
  case (Cons s xs)
  obtain t' w' where step: "add_snapshot uc s (t, w) = (t', w')" by fastforce
  have len: "int (length (s # xs)) = int (length xs) + 1" by simp
  from folded_step [OF Cons(2), of uc s w] step have "folded t' (n + 1) (r + or_zero (reported_usd s))
    (rc + one_if (reported_usd s \<noteq> None)) (e + or_zero (ud_estimated_cost_micros s))
    (ec + one_if (ud_estimated_cost_micros s \<noteq> None))" by simp
  from Cons(1) [OF this, of w'] show ?case
    by (simp only: fold_simps step summed_simps counted_simps o_apply len) (simp only: ac_simps)
qed simp

lemma close_totals_fields:
  "ut_snapshots (close_totals t) = ut_snapshots t"
  "ut_reported_cost_micros (close_totals t) = ut_reported_cost_micros t"
  "ut_reported_cost_rows (close_totals t) = ut_reported_cost_rows t"
  "ut_estimated_cost_micros (close_totals t) = ut_estimated_cost_micros t"
  "ut_estimated_cost_rows (close_totals t) = ut_estimated_cost_rows t"
  by (simp_all add: close_totals_def)

lemma totals_fields:
  "folded (totals uc f rows) (int (length (list_usage f rows)))
     (summed reported_usd (list_usage f rows)) (counted reported_usd (list_usage f rows))
     (summed ud_estimated_cost_micros (list_usage f rows)) (counted ud_estimated_cost_micros (list_usage f rows))"
proof -
  have "folded no_totals 0 0 0 0 0" by (simp add: folded_def no_totals_def wrap64_def)
  from folded_all [OF this, of uc "list_usage f rows" "- 1"] show ?thesis
    by (simp add: totals_def folded_def close_totals_fields)
qed

lemma set_list_usage: "set (list_usage f rows) = {s \<in> set rows. passes_filter f s}"
  by (auto simp: list_usage_def)

section \<open>Budget verdicts\<close>

text \<open>
  The cost of a row that the configured source consumes, and every spend the rows allow: rows with
  a cost have spent it, the others may have spent any amount.
\<close>

definition consumes_reported :: "cost_source \<Rightarrow> usage_totals \<Rightarrow> bool" where
  "consumes_reported source t \<longleftrightarrow>
     source = ProviderReported \<or> (source = BestAvailable \<and> 0 < ut_reported_cost_micros t)"

definition consumed_cost :: "cost_source \<Rightarrow> usage_totals \<Rightarrow> usage_snapshot \<Rightarrow> int option" where
  "consumed_cost source t s =
     (if consumes_reported source t then reported_usd s else ud_estimated_cost_micros s)"

definition possible_spend :: "('a \<Rightarrow> int option) \<Rightarrow> 'a list \<Rightarrow> int set" where
  "possible_spend cost xs = {\<Sum>x\<leftarrow>xs. g x | g. \<forall>x \<in> set xs.
     (case cost x of Some c \<Rightarrow> g x = c | None \<Rightarrow> 0 \<le> g x)}"

lemma spend_above_floor: "x \<in> possible_spend cost xs \<Longrightarrow> summed cost xs \<le> x"
proof -
  have "summed cost xs \<le> (\<Sum>x\<leftarrow>xs. g x)"
    if "\<forall>x \<in> set xs. (case cost x of Some c \<Rightarrow> g x = c | None \<Rightarrow> 0 \<le> g x)" for g
    using that by (induction xs) (auto simp: or_zero_def split: option.splits)
  then show "x \<in> possible_spend cost xs \<Longrightarrow> summed cost xs \<le> x" by (auto simp: possible_spend_def)
qed

lemma floor_possible: "summed cost xs \<in> possible_spend cost xs"
  unfolding possible_spend_def summed_def
  by (rule CollectI, rule exI [of _ "\<lambda>x. or_zero (cost x)"]) (auto simp: or_zero_def split: option.split)

lemma all_costed_spend: "\<forall>x \<in> set xs. cost x \<noteq> None \<Longrightarrow> x \<in> possible_spend cost xs \<Longrightarrow> x = summed cost xs"
proof -
  assume all: "\<forall>x \<in> set xs. cost x \<noteq> None"
  have "(\<Sum>x\<leftarrow>xs. g x) = summed cost xs"
    if "\<forall>x \<in> set xs. (case cost x of Some c \<Rightarrow> g x = c | None \<Rightarrow> 0 \<le> g x)" for g
    using that all by (induction xs) (auto split: option.splits)
  then show "x \<in> possible_spend cost xs \<Longrightarrow> x = summed cost xs" by (auto simp: possible_spend_def)
qed

lemma uncosted_spend:
  assumes "y \<in> set xs" "cost y = None"
  shows "\<exists>x \<in> possible_spend cost xs. n \<le> x"
proof -
  let ?g = "\<lambda>x. case cost x of Some c \<Rightarrow> c | None \<Rightarrow> \<bar>n - summed cost xs\<bar>"
  have "(\<Sum>x\<leftarrow>xs. ?g x) \<in> possible_spend cost xs"
    unfolding possible_spend_def by (rule CollectI, rule exI [of _ ?g]) (auto split: option.split)
  moreover have "summed cost ys + (if y \<in> set ys then m else 0)
      \<le> (\<Sum>x\<leftarrow>ys. case cost x of Some c \<Rightarrow> c | None \<Rightarrow> m)" if "0 \<le> m" for ys m
    using assms(2) that by (induction ys) (auto simp: or_zero_def split: option.splits if_splits)
  from this [of "\<bar>n - summed cost xs\<bar>" xs] have "n \<le> (\<Sum>x\<leftarrow>xs. ?g x)" using assms(1) by simp
  ultimately show ?thesis by blast
qed

lemma complete_coverage:
  "c \<le> n \<Longrightarrow> is_complete (from_coverage c n) \<longleftrightarrow> 0 < n \<and> c = n"
  by (auto simp: from_coverage_def)

lemma picked_cost:
  fixes uc f rows source
  defines "xs \<equiv> list_usage f rows" and "t \<equiv> totals uc f rows"
  defines "cost \<equiv> consumed_cost source t"
  assumes "\<forall>s \<in> set xs. 0 \<le> or_zero (cost s)" and "summed cost xs < 2 ^ 63"
  shows "pick_used_cost t source = (summed cost xs, \<not> consumes_reported source t)"
    "pick_used_cost_availability t source = from_coverage (counted cost xs) (int (length xs))"
proof -
  have "0 \<le> summed cost xs"
    unfolding summed_def by (rule sum_list_zero_iff_nonneg) (use assms(4) in blast)
  with assms(5) have fits: "wrap64 (summed cost xs) = summed cost xs"
    by (intro wrap64_id) (simp add: i64_range_def)
  from totals_fields [of uc f rows, folded xs_def t_def]
  have t: "ut_reported_cost_micros t = wrap64 (summed reported_usd xs)"
    "ut_estimated_cost_micros t = wrap64 (summed ud_estimated_cost_micros xs)"
    "ut_snapshots t = int (length xs)" "ut_reported_cost_rows t = counted reported_usd xs"
    "ut_estimated_cost_rows t = counted ud_estimated_cost_micros xs"
    by (simp_all add: folded_def)
  have "cost = (if consumes_reported source t then reported_usd else ud_estimated_cost_micros)"
    by (auto simp: cost_def consumed_cost_def)
  with fits t show "pick_used_cost t source = (summed cost xs, \<not> consumes_reported source t)"
    "pick_used_cost_availability t source = from_coverage (counted cost xs) (int (length xs))"
    by (cases source; auto simp: pick_used_cost_def pick_used_cost_availability_def consumes_reported_def
        reported_cost_availability_def estimated_cost_availability_def)+
qed

text \<open>
  C10. The verdict on a budget says exactly what the records prove. It is "over" when every spend
  the records allow exceeds the budget, "under" when there are records and none of the spends they
  allow does, and indeterminate otherwise; and no alert is raised only when the spend is proven to be
  within the budget or there is no record at all. The costs the verdict consumes are not negative
  and their sum is a 64 bit integer.
\<close>

theorem budget_verdict_sound:
  fixes uc f rows source b and format_micros :: "int \<Rightarrow> string" and scope :: string and now :: civil
  defines "xs \<equiv> list_usage f rows" and "t \<equiv> totals uc f rows"
  defines "cost \<equiv> consumed_cost source t"
  defines "r \<equiv> build_report format_micros scope (Some b) t now source"
  assumes nonneg: "\<forall>s \<in> set xs. 0 \<le> or_zero (cost s)" and fits: "summed cost xs < 2 ^ 63"
  shows "(bu_status r = Over \<longleftrightarrow> (\<forall>x \<in> possible_spend cost xs. b < x))
    \<and> (bu_status r = Under \<longleftrightarrow> xs \<noteq> [] \<and> (\<forall>x \<in> possible_spend cost xs. x \<le> b))
    \<and> (over_budget_alert format_micros stamp r credential = None \<longleftrightarrow>
         bu_status r = Under \<or> (xs = [] \<and> bu_status r = Indeterminate))"
proof -
  note picked = picked_cost [of f rows source uc, folded xs_def t_def, folded cost_def, OF nonneg fits]
  let ?floor = "summed cost xs"
  have rows: "bu_usage_rows r = int (length xs)" and over: "bu_over_budget r = (b < ?floor)"
    and status: "bu_status r = (if b < ?floor then Over
      else if 0 < int (length xs) \<and> counted cost xs = int (length xs) then Under else Indeterminate)"
    using totals_fields [of uc f rows, folded xs_def t_def]
    by (simp_all add: r_def build_report_def picked budget_verdict_def folded_def Let_def
        complete_coverage [OF counted_all])
  have O: "b < ?floor \<longleftrightarrow> (\<forall>x \<in> possible_spend cost xs. b < x)"
    using floor_possible spend_above_floor by fastforce
  have U: "\<not> b < ?floor \<and> counted cost xs = int (length xs) \<longleftrightarrow> (\<forall>x \<in> possible_spend cost xs. x \<le> b)"
  proof (cases "\<forall>x \<in> set xs. cost x \<noteq> None")
    case True
    then show ?thesis using all_costed_spend [OF True] floor_possible counted_full [of cost xs] by force
  next
    case False
    then obtain y where "y \<in> set xs" "cost y = None" by blast
    from uncosted_spend [of y xs cost "b + 1", OF this] False counted_full [of cost xs] show ?thesis by fastforce
  qed
  have "xs \<noteq> [] \<longleftrightarrow> 0 < int (length xs)" by simp
  then show ?thesis using O U rows over by (auto simp: status over_budget_alert_def)
qed

definition demo_usage :: "int option \<Rightarrow> usage_snapshot" where
  "demo_usage reported = snapshot_row ''u1'' ''2026-07-02T00:00:00Z''
     ((new_snapshot ''openai'' ''2026-07-01T00:00:00Z'' ''2026-07-02T00:00:00Z'')
       \<lparr>ud_project_id := Some ''p1'', ud_reported_cost_micros := reported\<rparr>)"

definition demo_month :: usage_filter where
  "demo_month = scope_filter ''2026-07-01T00:00:00Z'' None (Some ''p1'')"

text \<open>One row of two has a cost of two dollars: over a budget of one, indeterminate for three.\<close>

definition demo_report :: "int \<Rightarrow> budget_report" where
  "demo_report b = build_report dec_of_int ''project:p1'' (Some b)
     (totals to_ascii_lowercase demo_month [demo_usage (Some 2000000), demo_usage None])
     \<lparr>cv_year = 2026, cv_month = 7, cv_day = 15\<rparr> ProviderReported"

theorem budget_verdict_sound_witness:
  "bu_status (demo_report 1000000) = Over
   \<and> over_budget_alert dec_of_int ''now'' (demo_report 1000000) None \<noteq> None
   \<and> bu_status (demo_report 3000000) \<noteq> Over \<and> bu_status (demo_report 3000000) \<noteq> Under"
proof -
  let ?rows = "[demo_usage (Some 2000000), demo_usage None]" and ?xs = "[demo_usage None, demo_usage (Some 2000000)]"
  have rows: "list_usage demo_month ?rows = ?xs" by code_simp
  have cost: "consumed_cost ProviderReported t = reported_usd" for t
    by (simp add: consumed_cost_def consumes_reported_def fun_eq_iff)
  have ok: "\<forall>s \<in> set ?xs. 0 \<le> or_zero (reported_usd s)" "summed reported_usd ?xs < 2 ^ 63"
    and floor: "summed reported_usd ?xs = 2000000" and open_row: "reported_usd (demo_usage None) = None"
    by code_simp+
  note sound = budget_verdict_sound [where f = demo_month and rows = ?rows and source = ProviderReported
      and uc = to_ascii_lowercase and format_micros = dec_of_int and scope = "''project:p1''"
      and now = "\<lparr>cv_year = 2026, cv_month = 7, cv_day = 15\<rparr>", unfolded rows cost, OF ok, folded demo_report_def]
  have "\<forall>x \<in> possible_spend reported_usd ?xs. 1000000 < x"
    using spend_above_floor [of _ reported_usd ?xs, unfolded floor] by fastforce
  with sound [where b = 1000000] have over: "bu_status (demo_report 1000000) = Over" by blast
  with sound [where b = 1000000] have "over_budget_alert dec_of_int ''now'' (demo_report 1000000) None \<noteq> None"
    by (metis budget_status.distinct(7) budget_status.distinct(11))
  moreover have "2000000 \<in> possible_spend reported_usd ?xs"
    using floor_possible [of reported_usd ?xs] by (simp only: floor)
  then have "\<not> (\<forall>x \<in> possible_spend reported_usd ?xs. 3000000 < x)" by (intro notI) (drule bspec, assumption, simp)
  with sound [where b = 3000000] have "bu_status (demo_report 3000000) \<noteq> Over" by blast
  moreover have "\<exists>x \<in> possible_spend reported_usd ?xs. 3000001 \<le> x"
    by (rule uncosted_spend [of "demo_usage None"]) (simp_all add: open_row)
  then have "\<not> (\<forall>x \<in> possible_spend reported_usd ?xs. x \<le> 3000000)" by (elim bexE, intro notI) (drule bspec, assumption, simp)
  with sound [where b = 3000000] have "bu_status (demo_report 3000000) \<noteq> Under" by blast
  ultimately show ?thesis using over by blast
qed

end
