(* ===== verification/PricingProps.thy ===== *)
theory PricingProps
  imports PricingOps
begin

text \<open>
  Which record prices a model, that the table of records stays well formed under every operation,
  and how close a token estimate is to the exact product of tokens and prices.
\<close>

section \<open>The choice of a record\<close>

lemma fold_max_key:
  "x \<in> insert a (set xs) \<and> (\<forall>y \<in> insert a (set xs). key y \<le> key x)"
  if "x = fold (\<lambda>y best. if key best \<le> key y then y else best) xs a" for key :: "'a \<Rightarrow> 'b::linorder"
  using that
proof (induction xs arbitrary: a)
  case (Cons b xs)
  let ?a = "if key a \<le> key b then b else a"
  from Cons(1) [of ?a] Cons(2) have "x \<in> insert ?a (set xs)" "\<forall>y \<in> insert ?a (set xs). key y \<le> key x" by simp_all
  then show ?case by (auto split: if_splits intro: order_trans)
qed simp

lemma fold_min_key:
  "x \<in> insert a (set xs) \<and> (\<forall>y \<in> insert a (set xs). key x \<le> key y)"
  if "x = fold (\<lambda>y best. if key y < key best then y else best) xs a" for key :: "'a \<Rightarrow> 'b::linorder"
  using that
proof (induction xs arbitrary: a)
  case (Cons b xs)
  let ?a = "if key b < key a then b else a"
  from Cons(1) [of ?a] Cons(2) have "x \<in> insert ?a (set xs)" "\<forall>y \<in> insert ?a (set xs). key x \<le> key y" by simp_all
  then show ?case by (auto split: if_splits intro: order_trans)
qed simp

lemma max_by_key_Some: "max_by_key key xs = Some x \<Longrightarrow> x \<in> set xs \<and> (\<forall>y \<in> set xs. key y \<le> key x)"
  by (cases xs) (use fold_max_key [of x key] in auto)

lemma min_by_key_Some: "min_by_key key xs = Some x \<Longrightarrow> x \<in> set xs \<and> (\<forall>y \<in> set xs. key x \<le> key y)"
  by (cases xs) (use fold_min_key [of x key] in auto)

lemma max_by_key_None [simp]: "max_by_key key xs = None \<longleftrightarrow> xs = []"
  by (cases xs) auto

lemma min_by_key_None [simp]: "min_by_key key xs = None \<longleftrightarrow> xs = []"
  by (cases xs) auto

text \<open>
  What it means that a record prices a day, without the keys the code sorts by. A record is in
  force from its effective date on, compared as text. The price is a record of the longest model
  among those that match. When it is in force, no other record of that length in force comes from
  a higher source, or from the same source with a later date; when it is not, none of that
  length is in force, none comes from a higher source, and none of its source has an earlier date.
\<close>

fun source_above :: "origin \<Rightarrow> origin \<Rightarrow> bool" where
  "source_above Override b \<longleftrightarrow> b \<noteq> Override"
| "source_above Imported b \<longleftrightarrow> b = Bundled"
| "source_above Bundled b \<longleftrightarrow> False"

definition in_force :: "string \<Rightarrow> pricing_record \<Rightarrow> bool" where
  "in_force day r \<longleftrightarrow> pc_effective_from r \<le> day"

definition best_price :: "string \<Rightarrow> pricing_record list \<Rightarrow> pricing_record \<Rightarrow> bool" where
  "best_price day rs c \<longleftrightarrow> c \<in> set rs
     \<and> (\<forall>r \<in> set rs. length (pc_model r) \<le> length (pc_model c))
     \<and> (\<forall>r \<in> set rs. length (pc_model r) = length (pc_model c) \<longrightarrow>
          (if in_force day c
           then in_force day r \<longrightarrow> \<not> source_above (pr_origin r) (pr_origin c)
             \<and> (pr_origin r = pr_origin c \<longrightarrow> pc_effective_from r \<le> pc_effective_from c)
           else \<not> in_force day r \<and> \<not> source_above (pr_origin r) (pr_origin c)
             \<and> (pr_origin r = pr_origin c \<longrightarrow> pc_effective_from c \<le> pc_effective_from r)))"

lemma rank_of_source: "origin_rank a < origin_rank b \<longleftrightarrow> source_above b a"
  "origin_rank a = origin_rank b \<longleftrightarrow> a = b"
  by (cases a; cases b; simp)+

lemma best_key:
  "(origin_rank a, d) \<le> (origin_rank b, e) \<longleftrightarrow> \<not> source_above a b \<and> (a = b \<longrightarrow> d \<le> e)"
  "(- origin_rank b, e) \<le> (- origin_rank a, d) \<longleftrightarrow> \<not> source_above a b \<and> (a = b \<longrightarrow> e \<le> d)"
  using rank_of_source [of b a] rank_of_source [of a b] by (auto simp: less_eq_prod_simp)

lemma best_price_keys:
  "best_price day rs c \<longleftrightarrow> c \<in> set rs
     \<and> (\<forall>r \<in> set rs. length (pc_model r) \<le> length (pc_model c))
     \<and> (\<forall>r \<in> set rs. length (pc_model r) = length (pc_model c) \<longrightarrow>
          (if pc_effective_from c \<le> day
           then pc_effective_from r \<le> day \<longrightarrow>
             (origin_rank (pr_origin r), pc_effective_from r) \<le> (origin_rank (pr_origin c), pc_effective_from c)
           else day < pc_effective_from r
             \<and> (- origin_rank (pr_origin c), pc_effective_from c) \<le> (- origin_rank (pr_origin r), pc_effective_from r)))"
  unfolding best_price_def in_force_def best_key not_le ..

definition marked :: "pricing_env \<Rightarrow> string \<Rightarrow> pricing_record \<Rightarrow> pricing_record" where
  "marked px day c =
     (let r = (if pc_effective_from c \<le> day then c else extrapolated c)
      in r\<lparr>pr_stale := is_stale (px_stamps px) (px_now px) r\<rparr>)"

lemma most_specific_set:
  assumes "ms \<noteq> []"
  shows "most_specific ms \<noteq> []"
    "r \<in> set (most_specific ms) \<longleftrightarrow> r \<in> set ms \<and> (\<forall>x \<in> set ms. length (pc_model x) \<le> length (pc_model r))"
proof -
  let ?L = "set (map (\<lambda>r. length (pc_model r)) ms)"
  have fin: "finite ?L" "?L \<noteq> {}" using assms by auto
  from Max_in [OF fin] obtain x where "x \<in> set ms" "length (pc_model x) = Max ?L"
    by (metis (no_types, lifting) imageE set_map)
  then have "x \<in> set (most_specific ms)" by (simp add: most_specific_def)
  then show "most_specific ms \<noteq> []" by auto
  have "length (pc_model r) = Max ?L \<longleftrightarrow> (\<forall>x \<in> set ms. length (pc_model x) \<le> length (pc_model r))" if "r \<in> set ms"
  proof
    show "\<forall>x \<in> set ms. length (pc_model x) \<le> length (pc_model r)" if "length (pc_model r) = Max ?L"
      using that Max_ge [OF fin(1)] by auto
    show "length (pc_model r) = Max ?L" if "\<forall>x \<in> set ms. length (pc_model x) \<le> length (pc_model r)"
      using that \<open>r \<in> set ms\<close> by (intro Max_eqI [symmetric]) auto
  qed
  then show "r \<in> set (most_specific ms) \<longleftrightarrow> r \<in> set ms \<and> (\<forall>x \<in> set ms. length (pc_model x) \<le> length (pc_model r))"
    by (auto simp: most_specific_def Let_def)
qed

lemma best_of_effective:
  assumes "ms \<noteq> []"
    and "max_by_key (\<lambda>r. (origin_rank (pr_origin r), pc_effective_from r))
      (filter (\<lambda>r. pc_effective_from r \<le> day) (most_specific ms)) = Some c"
  shows "best_price day ms c" "pc_effective_from c \<le> day"
proof -
  note best = max_by_key_Some [OF assms(2)]
  then have c: "c \<in> set ms" "\<forall>r \<in> set ms. length (pc_model r) \<le> length (pc_model c)"
    and day: "pc_effective_from c \<le> day" by (simp_all add: most_specific_set [OF assms(1)])
  have "(origin_rank (pr_origin r), pc_effective_from r) \<le> (origin_rank (pr_origin c), pc_effective_from c)"
    if "r \<in> set ms" "length (pc_model r) = length (pc_model c)" "pc_effective_from r \<le> day" for r
    using best that c(2) most_specific_set(2) [OF assms(1), of r] by simp
  with c day show "best_price day ms c" "pc_effective_from c \<le> day" unfolding best_price_keys by simp_all
qed

lemma best_of_earliest:
  assumes "ms \<noteq> []" "\<forall>r \<in> set (most_specific ms). day < pc_effective_from r"
    and "min_by_key (\<lambda>r. (- origin_rank (pr_origin r), pc_effective_from r)) (most_specific ms) = Some c"
  shows "best_price day ms c" "\<not> pc_effective_from c \<le> day"
proof -
  note best = min_by_key_Some [OF assms(3)]
  then have c: "c \<in> set ms" "\<forall>r \<in> set ms. length (pc_model r) \<le> length (pc_model c)"
    by (simp_all add: most_specific_set [OF assms(1)])
  have "day < pc_effective_from r
      \<and> (- origin_rank (pr_origin c), pc_effective_from c) \<le> (- origin_rank (pr_origin r), pc_effective_from r)"
    if "r \<in> set ms" "length (pc_model r) = length (pc_model c)" for r
    using best assms(2) that c(2) most_specific_set(2) [OF assms(1), of r] by simp
  moreover show late: "\<not> pc_effective_from c \<le> day" using best assms(2) by (simp add: not_le)
  ultimately show "best_price day ms c" unfolding best_price_keys if_not_P [OF late] using c by blast
qed

text \<open>
  C19. A model is priced exactly when some record matches it, and then by the best of the records
  that match: of the longest model; among those in force on the day one of the highest source
  (override, then import, then bundled) and the latest date within it; when none is in force one
  of the highest source, and the earliest date within it, marked as applied to earlier usage.
  Effective dates are compared as text with the ten bytes of the day, so a record whose date is
  a full time stamp is not in force on its own first day.
\<close>

theorem price_is_best:
  "case choose_as_of px candidates model as_of of
     None \<Rightarrow> filter (model_matches (px_lowercase px model)) candidates = []
   | Some r \<Rightarrow> \<exists>c. best_price (date_prefix as_of) (filter (model_matches (px_lowercase px model)) candidates) c
       \<and> r = marked px (date_prefix as_of) c"
proof -
  define ms where "ms = filter (model_matches (px_lowercase px model)) candidates"
  define day where "day = date_prefix as_of"
  let ?key = "\<lambda>r. (origin_rank (pr_origin r), pc_effective_from r)"
  let ?unmark = "\<lambda>r. (- origin_rank (pr_origin r), pc_effective_from r)"
  let ?eff = "filter (\<lambda>r. pc_effective_from r \<le> day) (most_specific ms)"
  have choice: "choose_as_of px candidates model as_of = (if ms = [] then None
      else map_option (\<lambda>r. r\<lparr>pr_stale := is_stale (px_stamps px) (px_now px) r\<rparr>)
        (case max_by_key ?key ?eff of Some r \<Rightarrow> Some r
         | None \<Rightarrow> map_option extrapolated (min_by_key ?unmark (most_specific ms))))"
    unfolding choose_as_of_def Let_def ms_def day_def by simp
  consider "ms = []" | c where "ms \<noteq> []" "max_by_key ?key ?eff = Some c"
    | c where "ms \<noteq> []" "?eff = []" "min_by_key ?unmark (most_specific ms) = Some c"
    using most_specific_set(1) [of ms] max_by_key_None [of ?key ?eff] min_by_key_None [of ?unmark "most_specific ms"]
    by (cases "ms = []"; cases "max_by_key ?key ?eff"; cases "min_by_key ?unmark (most_specific ms)") blast+
  then show ?thesis unfolding ms_def [symmetric] day_def [symmetric]
  proof cases
    case (2 c)
    from best_of_effective [OF this] 2 show "case choose_as_of px candidates model as_of of None \<Rightarrow> ms = []
        | Some r \<Rightarrow> \<exists>c. best_price day ms c \<and> r = marked px day c" by (auto simp: choice marked_def Let_def)
  next
    case (3 c)
    then have "\<forall>r \<in> set (most_specific ms). day < pc_effective_from r" by (auto simp: filter_empty_conv not_le)
    from best_of_earliest [OF 3(1) this 3(3)] 3 show "case choose_as_of px candidates model as_of of None \<Rightarrow> ms = []
        | Some r \<Rightarrow> \<exists>c. best_price day ms c \<and> r = marked px day c" by (auto simp: choice marked_def Let_def)
  qed (simp add: choice)
qed

section \<open>The table of records\<close>

fun price_ok :: "int option \<Rightarrow> bool" where
  "price_ok None = True"
| "price_ok (Some n) = (0 \<le> n)"

fun priced_for :: "pricing_unit \<Rightarrow> 'a pricing_cols_scheme \<Rightarrow> bool" where
  "priced_for Tokens r = (pc_input r \<noteq> None \<or> pc_output r \<noteq> None)"
| "priced_for Requests r = (pc_per_request r \<noteq> None)"
| "priced_for Credits r = True"

definition cols_ok :: "pricing_env \<Rightarrow> 'a pricing_cols_scheme \<Rightarrow> bool" where
  "cols_ok px r \<longleftrightarrow> pc_provider r \<noteq> [] \<and> pc_model r \<noteq> []
     \<and> price_ok (pc_input r) \<and> price_ok (pc_cached_input r) \<and> price_ok (pc_output r)
     \<and> price_ok (pc_batch_input r) \<and> price_ok (pc_batch_output r) \<and> price_ok (pc_per_request r)
     \<and> (pc_effective_from r = ''1970-01-01'' \<or> (\<exists>t. parse_user_date (px_stamps px) (pc_effective_from r) = Inr t))"

definition row_ok :: "pricing_env \<Rightarrow> pricing_row \<Rightarrow> bool" where
  "row_ok px r \<longleftrightarrow> cols_ok px r \<and> 1 \<le> pc_version r
     \<and> (\<exists>u. pw_unit r = unit_str u \<and> priced_for u r) \<and> pw_origin r \<in> {''override'', ''imported''}"

definition table_ok :: "pricing_env \<Rightarrow> pricing_row list \<Rightarrow> bool" where
  "table_ok px rows \<longleftrightarrow> distinct (map row_key rows) \<and> (\<forall>r \<in> set rows. row_ok px r)"

definition storable :: "pricing_env \<Rightarrow> pricing_record \<Rightarrow> bool" where
  "storable px r \<longleftrightarrow> cols_ok px r \<and> priced_for (pr_unit r) r \<and> pr_origin r \<noteq> Bundled"

lemma row_of_cols [simp]:
  "pc_provider (row_of i now r) = pc_provider r" "pc_model (row_of i now r) = pc_model r"
  "pc_input (row_of i now r) = pc_input r" "pc_cached_input (row_of i now r) = pc_cached_input r"
  "pc_output (row_of i now r) = pc_output r" "pc_batch_input (row_of i now r) = pc_batch_input r"
  "pc_batch_output (row_of i now r) = pc_batch_output r" "pc_per_request (row_of i now r) = pc_per_request r"
  "pc_effective_from (row_of i now r) = pc_effective_from r" "pc_version (row_of i now r) = pc_version r"
  "pw_unit (row_of i now r) = unit_str (pr_unit r)" "pw_origin (row_of i now r) = origin_str (pr_origin r)"
  by (simp_all add: row_of_def pricing_cols.defs)

lemma row_key_of [simp]: "row_key (row_of i now r) = record_key r"
  by (simp add: row_key_def record_key_def)

lemma stored_row_ok: "storable px r \<Longrightarrow> 1 \<le> pc_version r \<Longrightarrow> row_ok px (row_of i now r)"
proof -
  assume r: "storable px r" "1 \<le> pc_version r"
  have "priced_for u (row_of i now r) = priced_for u r" for u by (cases u) simp_all
  moreover have "origin_str (pr_origin r) \<in> {''override'', ''imported''}"
    using r by (cases "pr_origin r") (simp_all add: storable_def)
  ultimately show ?thesis using r by (auto simp: row_ok_def storable_def cols_ok_def)
qed

lemma table_ok_upsert:
  assumes "table_ok px rows" "storable px r" "1 \<le> pc_version r"
  shows "table_ok px (snd (upsert_record i now r rows))"
proof -
  have "map row_key (map (\<lambda>x. if row_key x = record_key r then row_of (pw_id x) now r else x) rows) = map row_key rows"
    by simp
  then show ?thesis
    using assms stored_row_ok [OF assms(2,3)]
    by (auto simp: upsert_record_def table_ok_def list_ex_iff simp del: map_map)
qed

lemma next_version_pos: "1 \<le> next_version provider model rows"
proof -
  have "a \<le> fold max ns a" for ns and a :: int 
    by (induction ns arbitrary: a) (simp_all, meson max.cobounded2 order_trans)
  from this [of 0] show ?thesis by (simp add: next_version_def)
qed

lemma storable_version: "storable px r \<Longrightarrow> storable px (r\<lparr>pc_version := n\<rparr>)"
  by (cases "pr_unit r") (simp_all add: storable_def cols_ok_def)

lemma first_error_Inr: "first_error rs = Inr u \<Longrightarrow> r \<in> set rs \<Longrightarrow> \<exists>v. r = Inr v"
  by (induction rs rule: first_error.induct) auto

lemma validate_price_ok: "validate_price name v = Inr u \<Longrightarrow> price_ok v"
  by (cases v) (auto simp: validate_price_def split: if_splits)

lemma validate_date_ok: "validate_date st name v = Inr u \<Longrightarrow> \<exists>t. parse_user_date st v = Inr t"
  by (simp add: validate_date_def split: sum.splits)

lemma spec_prices:
  assumes "validate_spec spec = Inr u"
  shows "price_ok (os_input spec)" "price_ok (os_cached_input spec)" "price_ok (os_output spec)"
    "price_ok (os_batch_input spec)" "price_ok (os_batch_output spec)" "price_ok (os_per_request spec)"
  using first_error_Inr [of _ u, OF assms [unfolded validate_spec_def]] by (auto dest!: validate_price_ok)

lemma override_storable:
  assumes "provider \<noteq> []" "model \<noteq> []" "validate_spec spec = Inr u"
    and "\<not> (unit = Tokens \<and> os_input spec = None \<and> os_output spec = None)"
    and "\<not> (unit = Requests \<and> os_per_request spec = None)"
    and "effective_from = ''1970-01-01'' \<or> (\<exists>t. parse_user_date (px_stamps px) effective_from = Inr t)"
  shows "storable px (override_record px provider model spec unit effective_from n)"
  using assms spec_prices [OF assms(3)] by (cases unit) (simp_all add: storable_def cols_ok_def override_record_def)

lemma table_ok_override:
  assumes "table_ok px rows" "set_override px i provider model spec rows = Inr rows'"
  shows "table_ok px rows'"
proof -
  let ?p = "px_lowercase px (trim provider)" and ?m = "px_lowercase px (trim model)"
  let ?u = "case os_unit spec of Some u \<Rightarrow> u | None \<Rightarrow> Tokens"
  let ?d = "case os_effective_from spec of Some d \<Rightarrow> d | None \<Rightarrow> ''1970-01-01''"
  let ?r = "override_record px ?p ?m spec ?u ?d (next_version ?p ?m rows)"
  from assms(2) have rows': "rows' = snd (upsert_record i (px_now px) ?r rows)" and "storable px ?r"
    unfolding set_override_def Let_def
    by (auto split: if_splits sum.splits intro!: override_storable dest!: validate_date_ok)
  with assms(1) show ?thesis
    using next_version_pos by (auto intro!: table_ok_upsert simp: override_record_def)
qed

lemma table_ok_remove: "table_ok px rows \<Longrightarrow> table_ok px (snd (remove_override px provider model rows))"
  by (auto simp: table_ok_def remove_override_def Let_def distinct_map intro: inj_on_subset)

text \<open>Rounding an amount that is not negative to the nearest double does not make it negative.\<close>

definition doubles_ok :: "pricing_env \<Rightarrow> bool" where
  "doubles_ok px \<longleftrightarrow> (\<forall>x. 0 \<le> x \<longrightarrow> 0 \<le> px_double px x)"

lemma round_nonneg: "0 \<le> x \<Longrightarrow> 0 \<le> round_half_up x"
proof -
  assume "0 \<le> x"
  then have "0 \<le> x + 1 / 2" by (rule add_nonneg_nonneg) simp
  then show ?thesis by (simp only: round_half_up_def zero_le_floor)
qed

lemma dollars_nonneg:
  assumes "doubles_ok px" "dollars_to_micros px s = Inr n"
  shows "0 \<le> n"
proof -
  from assms(2) obtain x where "\<not> x < 0" and n: "n = round_half_up (px_double px (x * 1000000))"
    unfolding dollars_to_micros_def by (auto split: option.splits if_splits)
  then have "0 \<le> x * 1000000" by simp
  with assms(1) show ?thesis unfolding n by (intro round_nonneg) (simp only: doubles_ok_def)
qed

lemma parsed_price_ok: "doubles_ok px \<Longrightarrow> parse_price px name v = Inr p \<Longrightarrow> price_ok p"
  by (cases p) (auto simp: parse_price_def dest: dollars_nonneg split: option.splits sum.splits)

lemma import_record_storable:
  assumes "doubles_ok px" "import_record px i r = Inr rec"
  shows "storable px rec"
proof -
  from assms(2) obtain u where "first_error
       [validate_date (px_stamps px) (''record '' @ dec_of_nat (i + 1) @ '' ('' @ ir_provider r @ ''/'' @ ir_model r @ '')'' @ '': effective_from'') (ir_effective_from r),
        validate_date (px_stamps px) (''record '' @ dec_of_nat (i + 1) @ '' ('' @ ir_provider r @ ''/'' @ ir_model r @ '')'' @ '': last_verified'') (ir_last_verified r)] = Inr u"
    by (auto simp: import_record_def Let_def simp del: first_error.simps split: if_splits sum.splits)
  from first_error_Inr [OF this] have date: "\<exists>t. parse_user_date (px_stamps px) (ir_effective_from r) = Inr t"
    by (auto dest: validate_date_ok)
  have unit: "priced_for (ir_unit r) rec" if "\<not> (ir_unit r = Tokens \<and> pc_input rec = None \<and> pc_output rec = None)"
    "\<not> (ir_unit r = Requests \<and> pc_per_request rec = None)" using that by (cases "ir_unit r") auto
  show ?thesis
    using assms(2) date unit
    by (auto simp: import_record_def Let_def storable_def cols_ok_def simp del: first_error.simps
        intro: parsed_price_ok [OF assms(1)] split: if_splits sum.splits)
qed

lemma import_all_storable:
  "doubles_ok px \<Longrightarrow> import_all px i rs = Inr recs \<Longrightarrow> rec \<in> set recs \<Longrightarrow> storable px rec"
proof (induction rs arbitrary: i recs)
  case (Cons r rs)
  then obtain c cs where "import_record px i r = Inr c" "import_all px (Suc i) rs = Inr cs" "recs = c # cs"
    by (cases "import_all px (Suc i) rs") (auto split: sum.splits)
  with Cons show ?case by (auto dest: import_record_storable)
qed simp

lemma table_ok_imported:
  "table_ok px rows \<Longrightarrow> \<forall>rec \<in> set recs. storable px rec \<Longrightarrow> table_ok px (snd (insert_imported ids now recs rows))"
proof (induction ids now recs rows rule: insert_imported.induct)
  case (1 ids now rec recs rows)
  let ?rec = "rec\<lparr>pc_version := next_version (pc_provider rec) (pc_model rec) rows\<rparr>"
  obtain b rows' where up: "upsert_record (hd ids) now ?rec rows = (b, rows')" by fastforce
  have "table_ok px (snd (upsert_record (hd ids) now ?rec rows))"
    using 1(2,3) next_version_pos by (intro table_ok_upsert) (auto intro: storable_version)
  with 1(1) [OF up [symmetric] refl] 1(3) up show ?case
    by (cases "insert_imported (tl ids) now recs rows'") (auto split: prod.splits)
qed simp

lemma table_ok_import:
  assumes "doubles_ok px" "table_ok px rows" "import_records px from_json ids json rows = Inr (n, rows')"
  shows "table_ok px rows'"
proof -
  from assms(3) obtain recs parsed where "import_all px 0 parsed = Inr recs"
    and "rows' = snd (insert_imported ids (px_now px) recs rows)"
    by (auto simp: import_records_def simp del: import_all.simps split: if_splits sum.splits list.splits)
  with assms(1,2) show ?thesis using import_all_storable table_ok_imported by metis
qed

datatype pricing_op =
    SetOverride string string string override_spec
  | RemoveOverride string string
  | ImportRecords "string list" string

fun run_op :: "pricing_env \<Rightarrow> (string \<Rightarrow> string + interchange_record list) \<Rightarrow> pricing_op \<Rightarrow> pricing_row list \<Rightarrow> pricing_row list" where
  "run_op px from_json (SetOverride i provider model spec) rows =
     (case set_override px i provider model spec rows of Inl _ \<Rightarrow> rows | Inr rows' \<Rightarrow> rows')"
| "run_op px from_json (RemoveOverride provider model) rows = snd (remove_override px provider model rows)"
| "run_op px from_json (ImportRecords ids json) rows =
     (case import_records px from_json ids json rows of Inl _ \<Rightarrow> rows | Inr (_, rows') \<Rightarrow> rows')"

lemma table_ok_op: "doubles_ok px \<Longrightarrow> table_ok px rows \<Longrightarrow> table_ok px (run_op px from_json op rows)"
  by (cases op) (auto intro: table_ok_override table_ok_import table_ok_remove split: sum.split)

text \<open>
  C28. Every record of the table is well typed after any overrides, removals and imports, whatever
  files are imported: its key is its own, its unit is known and has the price the unit needs, no
  price is negative, its origin is never the bundled one and its effective date is a date; and
  what is loaded back from a stored record is the record.
\<close>

theorem pricing_table_typed:
  assumes "doubles_ok px"
  shows "table_ok px (fold (run_op px from_json) ops [])
    \<and> load_price_row (row_of i now rec) = rec\<lparr>pr_stale := False\<rparr>"
proof -
  have "table_ok px rows \<Longrightarrow> table_ok px (fold (run_op px from_json) ops rows)" for rows
    by (induction ops arbitrary: rows) (auto intro: table_ok_op assms)
  moreover have "load_price_row (row_of i now rec) = rec\<lparr>pr_stale := False\<rparr>"
    by (cases rec; cases "pr_unit rec"; cases "pr_origin rec")
      (auto simp: load_price_row_def row_of_def pricing_cols.defs parse_unit_def parse_origin_def)
  moreover have "table_ok px []" by (simp add: table_ok_def)
  ultimately show ?thesis by blast
qed

definition demo_prices :: pricing_env where
  "demo_prices = \<lparr>px_lowercase = to_ascii_lowercase, px_uppercase = id, px_manifests = [],
     px_stamps = \<lparr>st_rfc3339 = (\<lambda>_. None), st_date = (\<lambda>_. Some 0), st_text = dec_of_int\<rparr>,
     px_now = ''2026-07-20T00:00:00Z'', px_parse_double = (\<lambda>_. None), px_double = id, px_fixed = (\<lambda>_ _. [])\<rparr>"

definition demo_spec :: override_spec where
  "demo_spec = \<lparr>os_unit = None, os_input = Some 5, os_cached_input = None, os_output = None,
     os_batch_input = None, os_batch_output = None, os_per_request = None, os_effective_from = None, os_note = []\<rparr>"

theorem pricing_table_typed_witness:
  "table_ok demo_prices (fold (run_op demo_prices (\<lambda>_. Inl [])) [SetOverride ''r1'' ''OpenAI'' ''gpt-5'' demo_spec] [])
   \<and> length (fold (run_op demo_prices (\<lambda>_. Inl [])) [SetOverride ''r1'' ''OpenAI'' ''gpt-5'' demo_spec] []) = 1"
proof -
  have "doubles_ok demo_prices" by (simp add: doubles_ok_def demo_prices_def)
  note typed = pricing_table_typed [OF this, of "\<lambda>_. Inl []" "[SetOverride ''r1'' ''OpenAI'' ''gpt-5'' demo_spec]"]
  have "length (fold (run_op demo_prices (\<lambda>_. Inl [])) [SetOverride ''r1'' ''OpenAI'' ''gpt-5'' demo_spec] []) = 1"
    by code_simp
  with typed show ?thesis by blast
qed

text \<open>
  When no record is in force the source still comes first: usage of 2024 is priced by an override
  of 2026 and not by the earliest record, the bundled one of 2025.
\<close>

definition dated_record :: "origin \<Rightarrow> string \<Rightarrow> pricing_record" where
  "dated_record src day = \<lparr>pc_provider = ''openai'', pc_model = ''gpt-5'', pc_input = Some 1, pc_cached_input = None,
     pc_output = Some 2, pc_batch_input = None, pc_batch_output = None, pc_per_request = None, pc_currency = ''usd'',
     pc_source = [], pc_effective_from = day, pc_last_verified = day, pc_version = 1, pc_note = [],
     pr_unit = Tokens, pr_origin = src, pr_stale = False\<rparr>"

lemma earliest_record_passed_over:
  "map_option (\<lambda>r. (pr_origin r, pc_effective_from r))
     (choose_as_of demo_prices [dated_record Bundled ''2025-01-01'', dated_record Override ''2026-01-01'']
        ''gpt-5'' ''2024-06-01'') = Some (Override, ''2026-01-01'')"
proof -
  let ?rs = "[dated_record Bundled ''2025-01-01'', dated_record Override ''2026-01-01'']"
  have m: "filter (model_matches ''gpt-5'') ?rs = ?rs" by code_simp
  have "to_ascii_lowercase ''gpt-5'' = ''gpt-5''" by code_simp
  then have l: "px_lowercase demo_prices ''gpt-5'' = ''gpt-5''" by (simp add: demo_prices_def)
  have s: "most_specific ?rs = ?rs" by code_simp
  have f: "filter (\<lambda>r. pc_effective_from r \<le> date_prefix ''2024-06-01'') ?rs = []" by code_simp
  have "map_option (\<lambda>r. (pr_origin r, pc_effective_from r))
      (min_by_key (\<lambda>r. (- origin_rank (pr_origin r), pc_effective_from r)) ?rs) = Some (Override, ''2026-01-01'')"
    by code_simp
  then show ?thesis
    unfolding choose_as_of_def Let_def l m s f
    by (simp add: extrapolated_def Let_def option.map_comp comp_def)
qed

section \<open>Estimates\<close>

text \<open>
  An estimate of tokens at prices that are not negative is a floor of the exact product, and less
  than two micro-dollars below it unless a product leaves the 64 bits; it is complete exactly when
  every dimension with usage has a price.
\<close>

lemma div_million:
  "(c::int) div 1000000 * 1000000 \<le> c" "c < (c div 1000000 + 1) * 1000000"
  "c \<le> 9223372036854775807 \<Longrightarrow> c div 1000000 < 4611686018427387904"
proof -
  define q r where "q = c div 1000000" and "r = c mod 1000000"
  have c: "c = q * 1000000 + r" and r: "0 \<le> r" "r < 1000000" unfolding q_def r_def by simp_all
  show "c div 1000000 * 1000000 \<le> c" "c < (c div 1000000 + 1) * 1000000"
    unfolding q_def [symmetric] distrib_right using c r by linarith+
  show "c \<le> 9223372036854775807 \<Longrightarrow> c div 1000000 < 4611686018427387904"
    unfolding q_def [symmetric] using c r by linarith
qed

lemma token_part_floor:
  assumes "0 \<le> n" "0 \<le> p"
  defines "q \<equiv> saturating_mul n p sdiv 1000000"
  shows "0 \<le> q" "q * 1000000 \<le> n * p" "q < 2 ^ 62" "n * p < 2 ^ 63 \<longrightarrow> n * p < (q + 1) * 1000000"
proof -
  have np: "0 \<le> n * p" using assms by simp
  note sat = clamp64_nonneg [OF np]
  have q: "q = clamp64 (n * p) div 1000000"
    using sat by (simp add: q_def saturating_mul_def trunc_div_nonneg)
  have "clamp64 (n * p) \<le> 9223372036854775807" by (simp add: clamp64_def)
  from div_million(3) [OF this] show "q < 2 ^ 62" by (simp add: q)
  show "0 \<le> q" using sat by (simp add: q pos_imp_zdiv_nonneg_iff)
  show "q * 1000000 \<le> n * p" using sat div_million(1) [of "clamp64 (n * p)"] unfolding q by linarith
  have "n * p < (q + 1) * 1000000" if "n * p < 2 ^ 63"
  proof -
    have "clamp64 (n * p) = n * p" using np that by (intro clamp64_id) (simp add: i64_range_def)
    then show ?thesis unfolding q using div_million(2) [of "n * p"] by (simp only:)
  qed
  then show "n * p < 2 ^ 63 \<longrightarrow> n * p < (q + 1) * 1000000" by blast
qed

lemma estimate_is_floor:
  assumes "estimate_token_cost_from r inp out = Some e" "0 \<le> inp" "0 \<le> out"
    and "price_ok (pc_input r)" "price_ok (pc_output r)"
  defines "exact \<equiv> inp * or_zero (pc_input r) + out * or_zero (pc_output r)"
  shows "0 \<le> ce_micros e \<and> ce_micros e * 1000000 \<le> exact
    \<and> (exact < 2 ^ 63 \<longrightarrow> exact < (ce_micros e + 2) * 1000000)
    \<and> (ce_complete e \<longleftrightarrow> (0 < inp \<longrightarrow> pc_input r \<noteq> None) \<and> (0 < out \<longrightarrow> pc_output r \<noteq> None))"
proof -
  let ?a = "saturating_mul inp (or_zero (pc_input r)) sdiv 1000000"
  let ?b = "saturating_mul out (or_zero (pc_output r)) sdiv 1000000"
  have p: "0 \<le> or_zero (pc_input r)" "0 \<le> or_zero (pc_output r)"
    using assms(4,5) by (cases "pc_input r"; cases "pc_output r"; simp add: or_zero_def)+
  note a = token_part_floor [OF assms(2) p(1)] and b = token_part_floor [OF assms(3) p(2)]
  have "wrap64 (?a + ?b) = ?a + ?b"
    by (rule wrap64_id) (use a(1,3) b(1,3) in \<open>simp add: i64_range_def\<close>)
  with assms(1) have micros: "ce_micros e = ?a + ?b"
    by (auto simp: estimate_token_cost_from_def estimate_from_def add64_def Let_def split: if_splits)
  have complete: "ce_complete e \<longleftrightarrow> (0 < inp \<longrightarrow> pc_input r \<noteq> None) \<and> (0 < out \<longrightarrow> pc_output r \<noteq> None)"
    using assms(1) by (auto simp: estimate_token_cost_from_def estimate_from_def Let_def split: if_splits)
  have parts: "0 \<le> inp * or_zero (pc_input r)" "0 \<le> out * or_zero (pc_output r)" using assms(2,3) p by simp_all
  show ?thesis unfolding micros exact_def
    using a(1,2,4) b(1,2,4) parts complete by (auto simp: algebra_simps)
qed

end
