(* ===== verification/Settings.thy ===== *)
theory Settings
  imports Clock
begin

text \<open>
  crates/core/src/settings.rs: the settings of a vault, kept as text in the rows of
  \<open>vault_meta\<close> (a table by key, here an association list), and the rule that locks an idle vault.
\<close>

type_synonym vault_meta = "(string \<times> string) list"

record vault_settings =
  vs_auto_lock_minutes :: "32 word"
  vs_expiring_soon_days :: "32 word"
  vs_unused_days :: "32 word"
  vs_stale_days :: "32 word"
  vs_clipboard_clear_seconds :: "32 word"
  vs_provider_stale_days :: "32 word"
  vs_rollback_window_days :: "32 word"
  vs_docwatch_interval_hours :: "32 word"
  vs_monitor_interval_minutes :: "32 word"

definition default_settings :: vault_settings where
  "default_settings =
     \<lparr>vs_auto_lock_minutes = 15, vs_expiring_soon_days = 14, vs_unused_days = 30, vs_stale_days = 90,
      vs_clipboard_clear_seconds = 30, vs_provider_stale_days = 3, vs_rollback_window_days = 30,
      vs_docwatch_interval_hours = 24, vs_monitor_interval_minutes = 30\<rparr>"

definition SETTING_KEYS :: "string list" where
  "SETTING_KEYS = [''auto_lock_minutes'', ''expiring_soon_days'', ''unused_days'', ''stale_days'',
     ''clipboard_clear_seconds'', ''provider_stale_days'', ''rollback_window_days'',
     ''docwatch_interval_hours'', ''monitor_interval_minutes'']"

definition unknown_setting :: "string \<Rightarrow> core_error" where
  "unknown_setting key = InvalidInput (''unknown setting '' @ quoted key)"

definition get_setting :: "string \<Rightarrow> vault_settings \<Rightarrow> 32 word res" where
  "get_setting key s =
     (if key = ''auto_lock_minutes'' then Inr (vs_auto_lock_minutes s)
      else if key = ''expiring_soon_days'' then Inr (vs_expiring_soon_days s)
      else if key = ''unused_days'' then Inr (vs_unused_days s)
      else if key = ''stale_days'' then Inr (vs_stale_days s)
      else if key = ''clipboard_clear_seconds'' then Inr (vs_clipboard_clear_seconds s)
      else if key = ''provider_stale_days'' then Inr (vs_provider_stale_days s)
      else if key = ''rollback_window_days'' then Inr (vs_rollback_window_days s)
      else if key = ''docwatch_interval_hours'' then Inr (vs_docwatch_interval_hours s)
      else if key = ''monitor_interval_minutes'' then Inr (vs_monitor_interval_minutes s)
      else Inl (unknown_setting key))"

definition set_setting :: "string \<Rightarrow> 32 word \<Rightarrow> vault_settings \<Rightarrow> vault_settings res" where
  "set_setting key v s =
     (if key = ''auto_lock_minutes'' then Inr (s\<lparr>vs_auto_lock_minutes := v\<rparr>)
      else if key = ''expiring_soon_days'' then Inr (s\<lparr>vs_expiring_soon_days := v\<rparr>)
      else if key = ''unused_days'' then Inr (s\<lparr>vs_unused_days := v\<rparr>)
      else if key = ''stale_days'' then Inr (s\<lparr>vs_stale_days := v\<rparr>)
      else if key = ''clipboard_clear_seconds'' then Inr (s\<lparr>vs_clipboard_clear_seconds := v\<rparr>)
      else if key = ''provider_stale_days'' then Inr (s\<lparr>vs_provider_stale_days := v\<rparr>)
      else if key = ''rollback_window_days'' then Inr (s\<lparr>vs_rollback_window_days := v\<rparr>)
      else if key = ''docwatch_interval_hours'' then Inr (s\<lparr>vs_docwatch_interval_hours := v\<rparr>)
      else if key = ''monitor_interval_minutes'' then Inr (s\<lparr>vs_monitor_interval_minutes := v\<rparr>)
      else Inl (unknown_setting key))"

fun load_keys :: "vault_meta \<Rightarrow> string list \<Rightarrow> vault_settings \<Rightarrow> vault_settings res" where
  "load_keys meta [] s = Inr s"
| "load_keys meta (key # keys) s =
     (case map_of meta key of
        None \<Rightarrow> load_keys meta keys s
      | Some v \<Rightarrow>
          (case parse_unsigned 32 10 v of
             None \<Rightarrow> Inl (InvalidInput (''stored setting '' @ quoted key @ '' is not a number''))
           | Some n \<Rightarrow>
               (case set_setting key (of_nat n) s of
                  Inl e \<Rightarrow> Inl e
                | Inr s' \<Rightarrow> load_keys meta keys s')))"

definition load_settings :: "vault_meta \<Rightarrow> vault_settings res" where
  "load_settings meta = load_keys meta SETTING_KEYS default_settings"

fun save_keys :: "vault_settings \<Rightarrow> string list \<Rightarrow> vault_meta \<Rightarrow> unit res \<times> vault_meta" where
  "save_keys s [] meta = (Inr (), meta)"
| "save_keys s (key # keys) meta =
     (case get_setting key s of
        Inl e \<Rightarrow> (Inl e, meta)
      | Inr v \<Rightarrow> save_keys s keys (put_assoc key (dec_of_nat (unat v)) meta))"

definition save_settings :: "vault_settings \<Rightarrow> vault_meta \<Rightarrow> unit res \<times> vault_meta" where
  "save_settings s meta = save_keys s SETTING_KEYS meta"

definition days :: "int \<Rightarrow> int" where
  "days n = n * (86400 * 1000000000)"

definition should_auto_lock :: "int \<Rightarrow> int \<Rightarrow> 32 word \<Rightarrow> bool" where
  "should_auto_lock last_activity now auto_lock_minutes \<longleftrightarrow>
     auto_lock_minutes \<noteq> 0 \<and> uint auto_lock_minutes * (60 * 1000000000) \<le> now - last_activity"

section \<open>What is saved is what is loaded\<close>

lemma load_keys_other:
  "key \<notin> set keys \<Longrightarrow> load_keys (put_assoc key v meta) keys s = load_keys meta keys s"
  by (induction keys arbitrary: s) (auto split: option.split sum.split)

lemma dec_word [simp]: "parse_unsigned 32 10 (dec_of_nat (unat (v :: 32 word))) = Some (unat v)"
  by (rule parse_unsigned_dec) (use unsigned_less [of v] in simp)

lemma saved_meta:
  "key \<notin> set SETTING_KEYS \<Longrightarrow> map_of (snd (save_settings s meta)) key = map_of meta key"
  by (simp add: save_settings_def SETTING_KEYS_def get_setting_def)

text \<open>Whatever the table held before, saved settings load back, and other rows are kept.\<close>

lemma settings_read_back:
  "fst (save_settings s meta) = Inr ()" (is ?saved)
  "load_settings (snd (save_settings s meta)) = Inr s" (is ?loaded)
proof -
  show ?saved by (simp add: save_settings_def SETTING_KEYS_def get_setting_def)
  show ?loaded
    by (simp add: save_settings_def load_settings_def SETTING_KEYS_def get_setting_def set_setting_def
        default_settings_def)
qed

end
