(* ===== verification/Status.thy ===== *)
theory Status
  imports Settings Reuse
begin

text \<open>
  crates/core/src/status.rs: what is known about a credential. Each piece of evidence is a finding
  with its reason and source; the most severe finding is the status. Instants are nanoseconds.
\<close>

datatype status = StUnknown | StActive | StInvalid | StExpired | StExpiringSoon | StUnused | StStale
  | StSharedAcrossProjects | StPossiblyExposed | StManuallyDisabled | StRevoked

fun status_str :: "status \<Rightarrow> string" where
  "status_str StUnknown = ''unknown''"
| "status_str StActive = ''active''"
| "status_str StInvalid = ''invalid''"
| "status_str StExpired = ''expired''"
| "status_str StExpiringSoon = ''expiring soon''"
| "status_str StUnused = ''unused''"
| "status_str StStale = ''stale''"
| "status_str StSharedAcrossProjects = ''shared across projects''"
| "status_str StPossiblyExposed = ''possibly exposed''"
| "status_str StManuallyDisabled = ''manually disabled''"
| "status_str StRevoked = ''revoked''"

datatype status_confidence = ScHigh | ScMedium | ScLow

record finding =
  fi_status :: status
  fi_reason :: string
  fi_source :: string
  fi_observed_at :: string
  fi_confidence :: status_confidence
  fi_recommended_action :: string

record status_report =
  sr_primary :: status
  sr_findings :: "finding list"

record status_inputs =
  si_created_at :: int
  si_expires_at :: "int option"
  si_provider_expires_at :: "int option"
  si_last_validated_at :: "int option"
  si_last_used_at :: "int option"
  si_expiration_unparseable :: bool
  si_manually_disabled :: bool
  si_revoked :: bool
  si_marked_invalid :: bool
  si_possibly_exposed :: bool
  si_exposure_note :: string
  si_shared_with_projects :: "string list"
  si_sharing_is_reference :: bool
  si_environment :: environment

definition PRECEDENCE :: "status list" where
  "PRECEDENCE = [StRevoked, StManuallyDisabled, StExpired, StInvalid, StPossiblyExposed, StExpiringSoon,
     StSharedAcrossProjects, StStale, StUnused, StActive, StUnknown]"

definition manual_source :: string where
  "manual_source = ''manual flag set by the user''"

definition timestamp_source :: string where
  "timestamp_source = ''vault timestamps (manually recorded in this milestone)''"

definition when_finding :: "bool \<Rightarrow> finding \<Rightarrow> finding list" where
  "when_finding c f = (if c then [f] else [])"

section \<open>The findings, in the order of the source\<close>

definition flag_findings :: "string \<Rightarrow> status_inputs \<Rightarrow> finding list" where
  "flag_findings observed i =
     when_finding (si_revoked i)
       \<lparr>fi_status = StRevoked, fi_reason = ''the credential was marked as revoked'', fi_source = manual_source,
        fi_observed_at = observed, fi_confidence = ScHigh,
        fi_recommended_action = ''remove this record once no project needs its history''\<rparr>
     @ when_finding (si_manually_disabled i)
       \<lparr>fi_status = StManuallyDisabled, fi_reason = ''the credential was manually disabled in Tethra'',
        fi_source = manual_source, fi_observed_at = observed, fi_confidence = ScHigh,
        fi_recommended_action = ''re-enable it when it is needed again, or revoke it at the provider''\<rparr>"

definition expiry_finding ::
    "(int \<Rightarrow> string) \<Rightarrow> vault_settings \<Rightarrow> int \<Rightarrow> string \<Rightarrow> int option \<Rightarrow> finding list" where
  "expiry_finding to_rfc3339 settings now source expires =
     (case expires of
        None \<Rightarrow> []
      | Some expires \<Rightarrow>
          if expires \<le> now then
            [\<lparr>fi_status = StExpired,
              fi_reason = ''the expiration date '' @ to_rfc3339 expires @ '' has passed'', fi_source = source,
              fi_observed_at = to_rfc3339 now, fi_confidence = ScHigh,
              fi_recommended_action = ''create a replacement credential at the provider and rotate''\<rparr>]
          else if expires - now \<le> days (uint (vs_expiring_soon_days settings)) then
            [\<lparr>fi_status = StExpiringSoon,
              fi_reason = ''the expiration date is about '' @ dec_of_int (max (whole_days (expires - now)) 0)
                @ '' day(s) away (threshold: '' @ dec_of_nat (unat (vs_expiring_soon_days settings)) @ '' days)'',
              fi_source = source, fi_observed_at = to_rfc3339 now, fi_confidence = ScHigh,
              fi_recommended_action = ''rotate the credential before it expires''\<rparr>]
          else [])"

definition expiry_findings :: "(int \<Rightarrow> string) \<Rightarrow> vault_settings \<Rightarrow> int \<Rightarrow> status_inputs \<Rightarrow> finding list" where
  "expiry_findings to_rfc3339 settings now i =
     expiry_finding to_rfc3339 settings now ''user-entered expiration date'' (si_expires_at i)
     @ expiry_finding to_rfc3339 settings now ''provider-reported expiration (recorded during validation)''
         (si_provider_expires_at i)"

definition doubt_findings :: "string \<Rightarrow> status_inputs \<Rightarrow> finding list" where
  "doubt_findings observed i =
     when_finding (si_expiration_unparseable i)
       \<lparr>fi_status = StUnknown,
        fi_reason = ''a stored expiration value could not be parsed as a date; the credential's expiry ''
          @ ''is unknown and was not used for status'',
        fi_source = ''provider-reported expiration (recorded during validation)'', fi_observed_at = observed,
        fi_confidence = ScLow,
        fi_recommended_action = ''re-validate the credential to refresh its expiration, or set the ''
          @ ''expiration manually''\<rparr>
     @ when_finding (si_marked_invalid i)
       \<lparr>fi_status = StInvalid,
        fi_reason = ''the last recorded validation marked this credential as not working'',
        fi_source = manual_source, fi_observed_at = observed, fi_confidence = ScMedium,
        fi_recommended_action = ''verify at the provider; replace the stored value if it was rotated''\<rparr>
     @ when_finding (si_possibly_exposed i)
       \<lparr>fi_status = StPossiblyExposed,
        fi_reason = ''the credential was flagged as possibly exposed''
          @ (if si_exposure_note i = [] then [] else '' ('' @ si_exposure_note i @ '')''),
        fi_source = manual_source, fi_observed_at = observed, fi_confidence = ScMedium,
        fi_recommended_action = ''rotate the credential at the provider as soon as possible''\<rparr>"

definition sharing_findings :: "string \<Rightarrow> status_inputs \<Rightarrow> finding list" where
  "sharing_findings observed i =
     when_finding (si_shared_with_projects i \<noteq> [])
       \<lparr>fi_status = StSharedAcrossProjects,
        fi_reason = (if si_sharing_is_reference i
            then ''the same secret value is intentionally referenced by project(s): ''
            else ''an identical secret value is stored separately in project(s): '')
          @ join '', '' (si_shared_with_projects i),
        fi_source = ''keyed fingerprint comparison inside this vault'', fi_observed_at = observed,
        fi_confidence = ScHigh,
        fi_recommended_action = (if si_sharing_is_reference i
          then ''intentional sharing; consider separate provider credentials if these projects have different ''
            @ ''risk levels''
          else ''create separate provider credentials per project, or keep one entry and reference it'')\<rparr>"

text \<open>A validation that failed is recorded too; it is not a sign of use.\<close>

definition validation_activity :: "status_inputs \<Rightarrow> int option" where
  "validation_activity i = (if si_marked_invalid i then None else si_last_validated_at i)"

definition freshest_activity :: "status_inputs \<Rightarrow> int option" where
  "freshest_activity i =
     (case (si_last_used_at i, validation_activity i) of
        (Some u, Some v) \<Rightarrow> Some (max u v)
      | (Some u, None) \<Rightarrow> Some u
      | (None, Some v) \<Rightarrow> Some v
      | (None, None) \<Rightarrow> None)"

definition use_findings :: "(int \<Rightarrow> string) \<Rightarrow> vault_settings \<Rightarrow> int \<Rightarrow> status_inputs \<Rightarrow> finding list" where
  "use_findings to_rfc3339 settings now i =
     (case freshest_activity i of
        Some fresh \<Rightarrow>
          if days (uint (vs_stale_days settings)) \<le> now - fresh then
            [\<lparr>fi_status = StStale,
              fi_reason = ''the last recorded use or validation was on '' @ to_rfc3339 fresh @ '' (threshold: ''
                @ dec_of_nat (unat (vs_stale_days settings)) @ '' days)'',
              fi_source = timestamp_source, fi_observed_at = to_rfc3339 now, fi_confidence = ScLow,
              fi_recommended_action =
                ''confirm the credential is still needed; revoke it at the provider if not''\<rparr>]
          else
            [\<lparr>fi_status = StActive, fi_reason = ''use or validation was recorded on '' @ to_rfc3339 fresh,
              fi_source = timestamp_source, fi_observed_at = to_rfc3339 now, fi_confidence = ScMedium,
              fi_recommended_action = ''no action needed''\<rparr>]
      | None \<Rightarrow>
          when_finding (days (uint (vs_unused_days settings)) \<le> now - si_created_at i)
            \<lparr>fi_status = StUnused,
             fi_reason = ''no use or validation has been recorded in the ''
               @ dec_of_nat (unat (vs_unused_days settings)) @ '' day(s) since this record was added'',
             fi_source = timestamp_source, fi_observed_at = to_rfc3339 now, fi_confidence = ScLow,
             fi_recommended_action = ''if the credential is genuinely unused, revoke it at the provider''\<rparr>)"

definition no_evidence :: "string \<Rightarrow> finding" where
  "no_evidence observed =
     \<lparr>fi_status = StUnknown,
      fi_reason = ''no validation, usage, expiration, or exposure evidence has been recorded'',
      fi_source = ''absence of local evidence'', fi_observed_at = observed, fi_confidence = ScHigh,
      fi_recommended_action =
        ''record a validation or usage event, or add expiration metadata, to improve tracking''\<rparr>"

definition evaluate_status ::
    "(int \<Rightarrow> string) \<Rightarrow> status_inputs \<Rightarrow> vault_settings \<Rightarrow> int \<Rightarrow> status_report" where
  "evaluate_status to_rfc3339 i settings now =
     (let observed = to_rfc3339 now;
          findings = flag_findings observed i @ expiry_findings to_rfc3339 settings now i
            @ doubt_findings observed i @ sharing_findings observed i @ use_findings to_rfc3339 settings now i;
          primary = (case find (\<lambda>s. list_ex (\<lambda>f. fi_status f = s) findings) PRECEDENCE of
              Some s \<Rightarrow> s | None \<Rightarrow> StUnknown)
      in \<lparr>sr_primary = primary,
          sr_findings = (if findings = [] then [no_evidence observed] else findings)\<rparr>)"

end
