(* ===== verification/Monitor.thy ===== *)
theory Monitor
  imports Status Budget CredValues
begin

text \<open>
  The rules that turn what the vault knows into alerts: the model of a credential with its status
  (crates/core/src/vault.rs), the rules on credentials (crates/core/src/monitor.rs) and on recorded
  activity (crates/core/src/activity.rs). The columns of the credentials table that values and
  rotations do not use are kept beside it, by credential. A pass happens at one instant.
\<close>

section \<open>Tables and environment\<close>

record credential_details =
  cd_credential_type :: string
  cd_created_at :: string
  cd_key_created_at :: "string option"
  cd_expires_at :: "string option"
  cd_last_validated_at :: "string option"
  cd_last_used_at :: "string option"
  cd_docs_url :: string
  cd_notes :: string
  cd_manually_disabled :: bool
  cd_revoked :: bool
  cd_marked_invalid :: bool
  cd_possibly_exposed :: bool
  cd_exposure_note :: string

record activity_event =
  ae_id :: nat
  ae_at :: string
  ae_source :: string
  ae_kind :: string
  ae_credential_id :: "string option"
  ae_project_id :: "string option"
  ae_detail :: string
  ae_measurements :: string

record monitor_db =
  mo_vault :: vault_db
  mo_details :: "string \<Rightarrow> credential_details"
  mo_archived :: "string \<Rightarrow> bool"
  mo_project_budgets :: "budget_row list"
  mo_credential_budgets :: "budget_row list"
  mo_usage :: "usage_snapshot list"
  mo_activity :: "activity_event list"
  mo_settings :: vault_settings
  mo_meta :: vault_meta
  mo_alerts :: "alert list"

text \<open>\<open>me_ratio\<close> prints a quotient with one decimal, \<open>me_new_id\<close> draws the id of a new row.\<close>

record monitor_env =
  me_now :: int
  me_stamps :: stamps
  me_budget :: budget_env
  me_ratio :: "int \<Rightarrow> int \<Rightarrow> string"
  me_admin :: "string \<Rightarrow> bool"
  me_new_id :: "nat \<Rightarrow> string"

definition now_text :: "monitor_env \<Rightarrow> string" where
  "now_text env = st_text (me_stamps env) (me_now env)"

definition res_then :: "'a res \<Rightarrow> ('a \<Rightarrow> 'b res) \<Rightarrow> 'b res" where
  "res_then r f = (case r of Inl e \<Rightarrow> Inl e | Inr a \<Rightarrow> f a)"

fun res_list :: "('a \<Rightarrow> 'b res) \<Rightarrow> 'a list \<Rightarrow> 'b list res" where
  "res_list f [] = Inr []"
| "res_list f (x # xs) = res_then (f x) (\<lambda>y. map_sum id ((#) y) (res_list f xs))"

section \<open>A credential and its status\<close>

record credential =
  cm_id :: string
  cm_project_id :: string
  cm_project_name :: string
  cm_provider :: string
  cm_name :: string
  cm_environment :: environment
  cm_credential_type :: string
  cm_masked_value :: string
  cm_is_reference :: bool
  cm_linked_credential_id :: "string option"
  cm_linked_target :: "string option"
  cm_created_at :: string
  cm_updated_at :: string
  cm_key_created_at :: "string option"
  cm_expires_at :: "string option"
  cm_expires_at_invalid :: bool
  cm_provider_expires_at :: "string option"
  cm_provider_expires_at_invalid :: bool
  cm_last_validated_at :: "string option"
  cm_last_used_at :: "string option"
  cm_docs_url :: string
  cm_notes :: string
  cm_manually_disabled :: bool
  cm_revoked :: bool
  cm_marked_invalid :: bool
  cm_possibly_exposed :: bool
  cm_exposure_note :: string
  cm_status :: status_report

text \<open>A value that is not a time stamp gives no date, and is marked as such.\<close>

definition parse_optional_ts_lenient :: "stamps \<Rightarrow> string option \<Rightarrow> int option \<times> bool" where
  "parse_optional_ts_lenient st v =
     (case v of
        None \<Rightarrow> (None, False)
      | Some s \<Rightarrow>
          if trim s = [] then (None, False)
          else (case parse_rfc3339 st s of Inr ts \<Rightarrow> (Some ts, False) | Inl _ \<Rightarrow> (None, True)))"

fun first_names :: "string \<Rightarrow> string list \<Rightarrow> reuse_match list \<Rightarrow> string list" where
  "first_names own seen [] = []"
| "first_names own seen (m # ms) =
     (if rm_project_id m \<noteq> own \<and> rm_project_id m \<notin> set seen
      then rm_project_name m # first_names own (rm_project_id m # seen) ms
      else first_names own seen ms)"

definition sharing_info :: "credential_row \<Rightarrow> vault_db \<Rightarrow> (string list \<times> bool) res" where
  "sharing_info row db =
     res_then (find_reuse_matches (cr_fingerprint row) (Some (cr_id row)) db) (\<lambda>matches.
     Inr (first_names (cr_project_id row) [] matches,
          cr_linked_credential_id row \<noteq> None \<or> list_ex rm_is_reference matches))"

definition linked_target :: "credential_row \<Rightarrow> vault_db \<Rightarrow> string option res" where
  "linked_target row db =
     (case cr_linked_credential_id row of
        None \<Rightarrow> Inr None
      | Some target_id \<Rightarrow>
          (case credential_row_by_id target_id db of
             None \<Rightarrow> Inl (VaultCorrupted ''reference target is missing'')
           | Some target \<Rightarrow>
               res_then (project_name_of (cr_project_id target) db) (\<lambda>p.
               Inr (Some (p @ ''/'' @ cr_name target)))))"

definition status_inputs_of ::
    "stamps \<Rightarrow> credential_row \<Rightarrow> credential_details \<Rightarrow> string list \<Rightarrow> bool \<Rightarrow> environment \<Rightarrow> int \<Rightarrow> status_inputs" where
  "status_inputs_of st row cd shared_with sharing_is_reference environment created =
     (let (expires, expires_invalid) = parse_optional_ts_lenient st (cd_expires_at cd);
          (provider_expires, provider_invalid) = parse_optional_ts_lenient st (cr_provider_expires_at row)
      in \<lparr>si_created_at = created, si_expires_at = expires, si_provider_expires_at = provider_expires,
          si_last_validated_at = fst (parse_optional_ts_lenient st (cd_last_validated_at cd)),
          si_last_used_at = fst (parse_optional_ts_lenient st (cd_last_used_at cd)),
          si_expiration_unparseable = (expires_invalid \<or> provider_invalid),
          si_manually_disabled = cd_manually_disabled cd, si_revoked = cd_revoked cd,
          si_marked_invalid = cd_marked_invalid cd, si_possibly_exposed = cd_possibly_exposed cd,
          si_exposure_note = cd_exposure_note cd, si_shared_with_projects = shared_with,
          si_sharing_is_reference = sharing_is_reference, si_environment = environment\<rparr>)"

definition credential_model :: "monitor_env \<Rightarrow> monitor_db \<Rightarrow> credential_row \<Rightarrow> credential res" where
  "credential_model env w row =
     (let db = mo_vault w; cd = mo_details w (cr_id row); st = me_stamps env in
      res_then (project_name_of (cr_project_id row) db) (\<lambda>project_name.
      res_then (sharing_info row db) (\<lambda>(shared_with, sharing_is_reference).
      res_then (parse_environment (cr_environment row)) (\<lambda>environment.
      res_then (linked_target row db) (\<lambda>target.
      res_then (parse_rfc3339 st (cd_created_at cd)) (\<lambda>created.
      Inr \<lparr>cm_id = cr_id row, cm_project_id = cr_project_id row, cm_project_name = project_name,
           cm_provider = cr_provider row, cm_name = cr_name row, cm_environment = environment,
           cm_credential_type = cd_credential_type cd, cm_masked_value = cr_masked_value row,
           cm_is_reference = (cr_linked_credential_id row \<noteq> None),
           cm_linked_credential_id = cr_linked_credential_id row, cm_linked_target = target,
           cm_created_at = cd_created_at cd, cm_updated_at = cr_updated_at row,
           cm_key_created_at = cd_key_created_at cd, cm_expires_at = cd_expires_at cd,
           cm_expires_at_invalid = snd (parse_optional_ts_lenient st (cd_expires_at cd)),
           cm_provider_expires_at = cr_provider_expires_at row,
           cm_provider_expires_at_invalid = snd (parse_optional_ts_lenient st (cr_provider_expires_at row)),
           cm_last_validated_at = cd_last_validated_at cd, cm_last_used_at = cd_last_used_at cd,
           cm_docs_url = cd_docs_url cd, cm_notes = cd_notes cd,
           cm_manually_disabled = cd_manually_disabled cd, cm_revoked = cd_revoked cd,
           cm_marked_invalid = cd_marked_invalid cd, cm_possibly_exposed = cd_possibly_exposed cd,
           cm_exposure_note = cd_exposure_note cd,
           cm_status = evaluate_status (st_text st)
             (status_inputs_of st row cd shared_with sharing_is_reference environment created)
             (mo_settings w) (me_now env)\<rparr>))))))"

text \<open>All credentials, by project and name; names collate without case.\<close>

definition list_credentials :: "monitor_env \<Rightarrow> monitor_db \<Rightarrow> credential list res" where
  "list_credentials env w =
     res_list (credential_model env w)
       (sort_key cr_project_id (sort_key (\<lambda>c. to_ascii_lowercase (cr_name c)) (vd_credentials (mo_vault w))))"

section \<open>Rules on a credential\<close>

definition dedup :: "string \<Rightarrow> string \<Rightarrow> string" where
  "dedup kind credential_id = kind @ '':'' @ credential_id"

definition credential_label :: "credential \<Rightarrow> string" where
  "credential_label c = cm_project_name c @ ''/'' @ cm_name c"

fun finding_confidence :: "status_confidence \<Rightarrow> confidence" where
  "finding_confidence ScHigh = CHigh"
| "finding_confidence ScMedium = CMedium"
| "finding_confidence ScLow = CLow"

definition finding_kind :: "string \<Rightarrow> status \<Rightarrow> (alert_kind \<times> severity \<times> string) option" where
  "finding_kind name s =
     (case s of
        StExpired \<Rightarrow> Some (AkExpired, SevHigh, ''Credential '' @ quoted name @ '' has expired'')
      | StExpiringSoon \<Rightarrow> Some (AkExpiringSoon, SevMedium, ''Credential '' @ quoted name @ '' is expiring soon'')
      | StStale \<Rightarrow> Some (AkStale, SevLow, ''Credential '' @ quoted name @ '' looks stale'')
      | StUnused \<Rightarrow> Some (AkUnused, SevLow, ''Credential '' @ quoted name @ '' appears unused'')
      | StPossiblyExposed \<Rightarrow> Some (AkPossibleExposure, SevCritical, ''Credential '' @ quoted name @ '' may be exposed'')
      | _ \<Rightarrow> None)"

definition finding_alert :: "credential \<Rightarrow> string \<Rightarrow> finding \<Rightarrow> new_alert option" where
  "finding_alert c observed_at f =
     map_option (\<lambda>(kind, severity, title).
       \<lparr>na_kind = kind, na_severity = severity, na_dedup_key = dedup (alert_kind_str kind) (cm_id c),
        na_title = title, na_detail = fi_reason f,
        na_evidence = ''source: '' @ fi_source f @ ''; observed: '' @ fi_observed_at f,
        na_confidence = finding_confidence (fi_confidence f),
        na_recommended_action = fi_recommended_action f, na_project_id = Some (cm_project_id c),
        na_credential_id = Some (cm_id c), na_observed_at = observed_at\<rparr>)
       (finding_kind (credential_label c) (fi_status f))"

definition credential_alerts :: "credential \<Rightarrow> string \<Rightarrow> new_alert list" where
  "credential_alerts c observed_at = List.map_filter (finding_alert c observed_at) (sr_findings (cm_status c))"

definition reuse_alerts :: "credential \<Rightarrow> reuse_warning list \<Rightarrow> string \<Rightarrow> new_alert list" where
  "reuse_alerts c warnings observed_at =
     (case find (\<lambda>w. rw_kind w = ProductionSharedWithDevelopment) warnings of
        Some w \<Rightarrow>
          [\<lparr>na_kind = AkProductionInDevelopment, na_severity = SevHigh,
            na_dedup_key = dedup ''production_in_development'' (cm_id c),
            na_title = ''Production credential '' @ quoted (credential_label c) @ '' is shared with development'',
            na_detail = rw_message w, na_evidence = ''reuse type: '' @ reuse_kind_text (rw_kind w),
            na_confidence = CHigh, na_recommended_action = rw_recommendation w,
            na_project_id = Some (cm_project_id c), na_credential_id = Some (cm_id c),
            na_observed_at = observed_at\<rparr>]
      | None \<Rightarrow>
          (let others = filter (\<lambda>w. rw_kind w = AcrossProjects) warnings in
           if others = [] then []
           else
             [\<lparr>na_kind = AkReusedAcrossProjects, na_severity = SevMedium,
               na_dedup_key = dedup ''reused_across_projects'' (cm_id c),
               na_title = ''Credential '' @ quoted (credential_label c) @ '' is reused across projects'',
               na_detail = ''the same secret is stored in: ''
                 @ join '', '' (map (\<lambda>w. rm_project_name (rw_other w)) others),
               na_evidence = ''keyed fingerprint comparison inside this vault'', na_confidence = CHigh,
               na_recommended_action =
                 ''create a separate provider credential per project, or reference one entry'',
               na_project_id = Some (cm_project_id c), na_credential_id = Some (cm_id c),
               na_observed_at = observed_at\<rparr>]))"

definition managed_credential_kinds :: "alert_kind list" where
  "managed_credential_kinds = [AkExpired, AkExpiringSoon, AkStale, AkUnused, AkPossibleExposure,
     AkProductionInDevelopment, AkReusedAcrossProjects]"

section \<open>Rules on activity\<close>

definition record_activity ::
    "string \<Rightarrow> string \<Rightarrow> string \<Rightarrow> string option \<Rightarrow> string option \<Rightarrow> string \<Rightarrow> string
       \<Rightarrow> activity_event list \<Rightarrow> activity_event list" where
  "record_activity now source kind credential_id project_id detail measurements rows =
     rows @ [\<lparr>ae_id = Suc (fold max (map ae_id rows) 0), ae_at = now, ae_source = source, ae_kind = kind,
              ae_credential_id = credential_id, ae_project_id = project_id, ae_detail = detail,
              ae_measurements = measurements\<rparr>]"

definition newest_first :: "nat \<Rightarrow> activity_event list \<Rightarrow> activity_event list" where
  "newest_first limit rows = take limit (rev (sort_key ae_id rows))"

definition list_activity :: "nat \<Rightarrow> string option \<Rightarrow> activity_event list \<Rightarrow> activity_event list" where
  "list_activity limit credential_id rows =
     newest_first limit (case credential_id of
        Some c \<Rightarrow> filter (\<lambda>e. ae_credential_id e = Some c) rows | None \<Rightarrow> rows)"

definition list_by_kind :: "string \<Rightarrow> nat \<Rightarrow> activity_event list \<Rightarrow> activity_event list" where
  "list_by_kind kind limit rows = newest_first limit (filter (\<lambda>e. ae_kind e = kind) rows)"

definition month_start_text :: "stamps \<Rightarrow> int \<Rightarrow> nat \<Rightarrow> string" where
  "month_start_text st y m = st_text st (days (day_number y m 1 - day_number 1970 1 1))"

definition month_bounds :: "stamps \<Rightarrow> civil \<Rightarrow> string \<times> string" where
  "month_bounds st now =
     (let prev = (if cv_month now = 1 then (cv_year now - 1, 12) else (cv_year now, cv_month now - 1))
      in (month_start_text st (fst prev) (snd prev), month_start_text st (cv_year now) (cv_month now)))"

definition ABS_FLOOR :: int where "ABS_FLOOR = 1000000"

definition cost_spike_alert :: "monitor_env \<Rightarrow> usage_snapshot list \<Rightarrow> string \<Rightarrow> string \<Rightarrow> new_alert option" where
  "cost_spike_alert env usage credential_id label =
     (let be = me_budget env; money = be_format_micros be;
          (prev_start, this_start) = month_bounds (me_stamps env) (be_now be);
          previous = used_cost_between (be_uppercase be) prev_start this_start (Some credential_id) None BestAvailable usage;
          current = used_cost_between (be_uppercase be) this_start (now_text env) (Some credential_id) None BestAvailable usage
      in if 0 < previous \<and> saturating_mul previous 2 \<le> current \<and> ABS_FLOOR \<le> current - previous
         then Some
           \<lparr>na_kind = AkCostSpike, na_severity = SevMedium, na_dedup_key = ''cost_spike:'' @ credential_id,
            na_title = ''Cost for '' @ quoted label @ '' jumped this period'',
            na_detail = ''this month's attributable cost is '' @ money current @ '' vs '' @ money previous
              @ '' last month ('' @ me_ratio env current previous @ ''x)'',
            na_evidence = ''comparison period: last full month '' @ [CHR 0xE2, CHR 0x86, CHR 0x92]
              @ '' this month; source: local usage snapshots'',
            na_confidence = CMedium,
            na_recommended_action = ''confirm the increase is expected; check for a leaked or misused key'',
            na_project_id = None, na_credential_id = Some credential_id, na_observed_at = now_text env\<rparr>
         else None)"

definition last_disabled_at :: "string \<Rightarrow> activity_event list \<Rightarrow> string option" where
  "last_disabled_at credential_id rows =
     (case newest_first 1 (filter (\<lambda>e. ae_credential_id e = Some credential_id
              \<and> ae_kind e = ''credential_disabled'') rows) of
        [] \<Rightarrow> None | e # _ \<Rightarrow> Some (ae_at e))"

definition usage_after_disabled_alert ::
    "monitor_env \<Rightarrow> usage_snapshot list \<Rightarrow> string \<Rightarrow> string \<Rightarrow> bool \<Rightarrow> string option \<Rightarrow> new_alert option" where
  "usage_after_disabled_alert env usage credential_id label disabled disabled_since =
     (if \<not> disabled then None
      else case disabled_since of
        None \<Rightarrow> None
      | Some since \<Rightarrow>
          (let count = length (filter (\<lambda>s. ud_credential_id s = Some credential_id
                 \<and> since \<le> ud_window_start s) usage)
           in if count = 0 then None
              else Some
                \<lparr>na_kind = AkUsageAfterDisabled, na_severity = SevHigh,
                 na_dedup_key = ''usage_after_disabled:'' @ credential_id,
                 na_title = quoted label @ '' shows usage after being disabled'',
                 na_detail = dec_of_nat count
                   @ '' usage snapshot(s) fall after this credential was marked disabled'',
                 na_evidence = ''comparison: usage window_start >= disabled time ('' @ since @ '')'',
                 na_confidence = CHigh,
                 na_recommended_action =
                   ''revoke the credential at the provider; it appears to still be in use'',
                 na_project_id = None, na_credential_id = Some credential_id, na_observed_at = now_text env\<rparr>))"

definition managed_activity_kinds :: "alert_kind list" where
  "managed_activity_kinds = [AkCostSpike, AkUsageAfterDisabled, AkOverBudget]"

end
