(* ===== verification/MonitorRun.thy ===== *)
theory MonitorRun
  imports Monitor RotationStore
begin

text \<open>
  One monitor pass (\<open>run_monitor\<close> of crates/core/src/vault.rs): every rule is evaluated, what it
  finds is raised, and open alerts of the managed kinds that were not raised again are resolved.
  The passes over provider connections, repositories, observed activity and runtime traffic are
  arguments: what they find in a state of the vault, or their failure.
\<close>

section \<open>Schedules that are due and rotations that are stuck\<close>

definition proven_mode :: "string \<Rightarrow> vault_db \<Rightarrow> string option" where
  "proven_mode credential_id db =
     (case sort_desc rn_created_at (filter (\<lambda>r. rn_credential_id r = credential_id
              \<and> rn_state r = COMPLETED) (vd_rotations db)) of
        [] \<Rightarrow> None | r # _ \<Rightarrow> Some (rn_mode r))"

definition preflight_problems :: "monitor_env \<Rightarrow> credential_row \<Rightarrow> monitor_db \<Rightarrow> string list" where
  "preflight_problems env c w =
     (if proven_mode (cr_id c) (mo_vault w) = Some MODE_API \<and> \<not> me_admin env (cr_provider c)
      then [''the administrative connection is gone''] else [])
     @ (if cd_revoked (mo_details w (cr_id c)) then [''the credential is marked revoked''] else [])"

definition has_rotation_in_flight :: "string \<Rightarrow> vault_db \<Rightarrow> bool" where
  "has_rotation_in_flight credential_id db \<longleftrightarrow>
     list_ex (\<lambda>r. rn_credential_id r = credential_id \<and> in_flight r) (vd_rotations db)"

definition due_alert :: "string \<Rightarrow> rotation_schedule \<Rightarrow> credential_row \<Rightarrow> string \<Rightarrow> string list \<Rightarrow> new_alert" where
  "due_alert now s c label problems =
     \<lparr>na_kind = AkRotationDue, na_severity = SevHigh, na_dedup_key = ''rotation_due:'' @ cr_id c,
      na_title = (if problems = [] then ''scheduled rotation due: '' else ''scheduled rotation PAUSED: '') @ label,
      na_detail = (if problems = []
        then ''the rotation schedule (every '' @ dec_of_int (sc_interval_days s) @ '' day(s)) is due since ''
          @ sc_next_due_at s @ ''. Nothing runs automatically: start it with `rotation plan '' @ label
          @ ''` and approve it.''
        else ''the schedule came due but preflight failed: '' @ join ''; '' problems
          @ ''. The schedule is paused; fix the problem and re-enable it with `rotation schedule`.''),
      na_evidence = (if problems = [] then ''next_due_at='' @ sc_next_due_at s else join ''; '' problems),
      na_confidence = CHigh,
      na_recommended_action = (if problems = [] then ''plan, review, and approve the rotation''
        else ''fix the preflight problem, then re-enable the schedule''),
      na_project_id = Some (cr_project_id c), na_credential_id = Some (cr_id c), na_observed_at = now\<rparr>"

definition on_vault :: "(vault_db, 'a) op \<Rightarrow> (monitor_db, 'a) op" where
  "on_vault m w = (case m (mo_vault w) of (r, db) \<Rightarrow> (r, w\<lparr>mo_vault := db\<rparr>))"

definition check_schedule ::
    "monitor_env \<Rightarrow> string \<Rightarrow> rotation_schedule \<Rightarrow> (monitor_db, new_alert list) op" where
  "check_schedule env now s =
     (\<lambda>w. if \<not> sc_enabled s \<or> now < sc_next_due_at s then ret [] w
      else case credential_row_by_id (sc_credential_id s) (mo_vault w) of
        None \<Rightarrow> ret [] w
      | Some c \<Rightarrow>
          if has_rotation_in_flight (cr_id c) (mo_vault w) then ret [] w
          else andthen (inspect (\<lambda>w. project_name_of (cr_project_id c) (mo_vault w))) (\<lambda>p.
               let problems = preflight_problems env c w; label = p @ ''/'' @ cr_name c in
               if problems = [] then ret [due_alert now s c label []]
               else andthen (on_vault (schedule_pause (cr_id c) (join ''; '' problems))) (\<lambda>_.
                    ret [due_alert now s c label problems])) w)"

fun check_schedules ::
    "monitor_env \<Rightarrow> string \<Rightarrow> rotation_schedule list \<Rightarrow> (monitor_db, new_alert list) op" where
  "check_schedules env now [] = ret []"
| "check_schedules env now (s # ss) =
     andthen (check_schedule env now s) (\<lambda>found.
     andthen (check_schedules env now ss) (\<lambda>more. ret (found @ more)))"

definition stuck_alert :: "string \<Rightarrow> vault_db \<Rightarrow> rotation \<Rightarrow> new_alert" where
  "stuck_alert now db r =
     \<lparr>na_kind = AkRotationStuck, na_severity = SevMedium, na_dedup_key = ''rotation_stuck:'' @ rn_id r,
      na_title = ''rotation stuck: '' @ (case credential_row_by_id (rn_credential_id r) db of
          Some c \<Rightarrow> cr_name c | None \<Rightarrow> rn_credential_id r),
      na_detail = ''rotation '' @ rn_id r @ '' has been '' @ quoted (rn_state r) @ '' since '' @ rn_updated_at r
        @ (if rn_last_error r = [] then [] else '' (last error: '' @ rn_last_error r @ '')'')
        @ ''. Resume it with `rotation advance`, or roll it back.'',
      na_evidence = ''state='' @ rn_state r @ '' updated_at='' @ rn_updated_at r, na_confidence = CHigh,
      na_recommended_action = ''advance, roll back, or cancel the rotation'',
      na_project_id = None, na_credential_id = Some (rn_credential_id r), na_observed_at = now\<rparr>"

definition rotation_monitor_alerts :: "monitor_env \<Rightarrow> string \<Rightarrow> (monitor_db, new_alert list) op" where
  "rotation_monitor_alerts env now =
     (\<lambda>w. andthen (check_schedules env now (rotation_schedules (mo_vault w))) (\<lambda>due.
      let day_ago = st_text (me_stamps env) (me_now env - days 1) in
      inspect (\<lambda>w. Inr (due @ map (stuck_alert now (mo_vault w))
        (filter (\<lambda>r. rn_updated_at r < day_ago) (active_rotations (mo_vault w)))))) w)"

section \<open>Raising what a pass finds\<close>

text \<open>The keys raised so far, how many alerts were created, what was scanned, and the vault.\<close>

record pass_state =
  ps_active_keys :: "string list"
  ps_created :: nat
  ps_repos_scanned :: nat
  ps_repo_findings :: nat
  ps_world :: monitor_db

definition start_pass :: "monitor_db \<Rightarrow> pass_state" where
  "start_pass w = \<lparr>ps_active_keys = [], ps_created = 0, ps_repos_scanned = 0, ps_repo_findings = 0, ps_world = w\<rparr>"

definition raise_alert :: "monitor_env \<Rightarrow> bool \<Rightarrow> new_alert \<Rightarrow> pass_state \<Rightarrow> pass_state" where
  "raise_alert env keyed a p =
     (let w = ps_world p;
          (new, rows) = upsert_alert (me_new_id env (length (mo_alerts w))) (now_text env) a (mo_alerts w)
      in p\<lparr>ps_active_keys := ps_active_keys p @ (if keyed then [na_dedup_key a] else []),
           ps_created := ps_created p + (if new then 1 else 0), ps_world := w\<lparr>mo_alerts := rows\<rparr>\<rparr>)"

definition raise_all :: "monitor_env \<Rightarrow> new_alert list \<Rightarrow> pass_state \<Rightarrow> pass_state" where
  "raise_all env as p = fold (raise_alert env True) as p"

definition option_list :: "'a option \<Rightarrow> 'a list" where
  "option_list x = (case x of None \<Rightarrow> [] | Some a \<Rightarrow> [a])"

definition reuse_rule :: "monitor_env \<Rightarrow> monitor_db \<Rightarrow> credential \<Rightarrow> new_alert list res" where
  "reuse_rule env w c =
     (if cm_is_reference c then Inr []
      else case credential_row_by_id (cm_id c) (mo_vault w) of
        None \<Rightarrow> Inr []
      | Some row \<Rightarrow>
          res_then (find_reuse_matches (cr_fingerprint row) (Some (cm_id c)) (mo_vault w)) (\<lambda>matches.
          Inr (reuse_alerts c (classify_reuse (cm_project_id c) (cm_environment c) matches) (now_text env))))"

definition credential_rules :: "monitor_env \<Rightarrow> cost_source \<Rightarrow> monitor_db \<Rightarrow> credential \<Rightarrow> new_alert list res" where
  "credential_rules env source w c =
     (let label = credential_label c; be = me_budget env in
      res_then (reuse_rule env w c) (\<lambda>reuse.
      res_then (credential_report be (cm_id c) label source (mo_credential_budgets w) (mo_usage w)) (\<lambda>report.
      Inr (credential_alerts c (now_text env) @ reuse
        @ option_list (cost_spike_alert env (mo_usage w) (cm_id c) label)
        @ option_list (usage_after_disabled_alert env (mo_usage w) (cm_id c) label (cm_manually_disabled c)
            (last_disabled_at (cm_id c) (mo_activity w)))
        @ option_list (over_budget_alert (be_format_micros be) (now_text env) report (Some (cm_id c)))))))"

definition project_rules :: "monitor_env \<Rightarrow> cost_source \<Rightarrow> monitor_db \<Rightarrow> project_row \<Rightarrow> new_alert list res" where
  "project_rules env source w p =
     (let be = me_budget env in
      res_then (project_report be (pj_id p) source (mo_project_budgets w) (mo_usage w)) (\<lambda>report.
      Inr (option_list (over_budget_alert (be_format_micros be) (now_text env) report None))))"

definition open_projects :: "monitor_db \<Rightarrow> project_row list" where
  "open_projects w = sort_key (\<lambda>p. to_ascii_lowercase (pj_name p))
     (filter (\<lambda>p. \<not> mo_archived w (pj_id p)) (vd_projects (mo_vault w)))"

text \<open>A rule that fails ends the pass; what was raised before stays.\<close>

fun each_rule ::
    "monitor_env \<Rightarrow> (monitor_db \<Rightarrow> 'a \<Rightarrow> new_alert list res) \<Rightarrow> 'a list \<Rightarrow> (pass_state, unit) op" where
  "each_rule env rule [] p = (Inr (), p)"
| "each_rule env rule (x # xs) p =
     (case rule (ps_world p) x of
        Inl e \<Rightarrow> (Inl e, p)
      | Inr found \<Rightarrow> each_rule env rule xs (raise_all env found p))"

definition on_world :: "(monitor_db, 'a) op \<Rightarrow> (pass_state, 'a) op" where
  "on_world m p = (case m (ps_world p) of (r, w) \<Rightarrow> (r, p\<lparr>ps_world := w\<rparr>))"

definition raise_found :: "monitor_env \<Rightarrow> (monitor_db, new_alert list) op \<Rightarrow> (pass_state, unit) op" where
  "raise_found env m = andthen (on_world m) (\<lambda>found. change (raise_all env found))"

section \<open>The passes that are arguments\<close>

record repo_report =
  rp_repo_path :: string
  rp_findings :: nat
  rp_head_commit :: string
  rp_baseline_only :: bool

record other_passes =
  op_connections :: "monitor_db \<Rightarrow> new_alert list res"
  op_repositories :: "monitor_db \<Rightarrow> repo_report list res"
  op_observed :: "monitor_db \<Rightarrow> new_alert list res"
  op_runtime :: "monitor_db \<Rightarrow> new_alert list res"

definition exposure_alert :: "string \<Rightarrow> repo_report \<Rightarrow> new_alert" where
  "exposure_alert now r =
     \<lparr>na_kind = AkRepoSecretExposure, na_severity = SevHigh,
      na_dedup_key = ''repo_scan_exposure:'' @ rp_repo_path r,
      na_title = ''likely secret(s) in new commits: '' @ rp_repo_path r,
      na_detail = dec_of_nat (rp_findings r) @ '' finding(s) in commits up to '' @ rp_head_commit r
        @ '' (background incremental                              scan). Run `tethra scan '' @ rp_repo_path r
        @ ''` for details; detection is                              best-effort, never perfect. This alert ''
        @ ''stays open until an                              explicit remediation or a clean full re-scan.'',
      na_evidence = ''repo='' @ rp_repo_path r @ '' head='' @ rp_head_commit r @ '' findings=''
        @ dec_of_nat (rp_findings r),
      na_confidence = CMedium,
      na_recommended_action = ''inspect the findings; rotate anything real and scrub history, ''
        @ ''then re-scan to confirm'',
      na_project_id = None, na_credential_id = None, na_observed_at = now\<rparr>"

definition raise_exposures :: "monitor_env \<Rightarrow> other_passes \<Rightarrow> pass_state \<Rightarrow> pass_state" where
  "raise_exposures env passes p =
     (case op_repositories passes (ps_world p) of
        Inl _ \<Rightarrow> p
      | Inr reports \<Rightarrow>
          (fold (raise_alert env False)
            (map (exposure_alert (now_text env)) (filter (\<lambda>r. 0 < rp_findings r) reports)) p)
          \<lparr>ps_repos_scanned := length reports, ps_repo_findings := sum_list (map rp_findings reports)\<rparr>)"

text \<open>A failed pass over runtime traffic is only written to the audit log.\<close>

definition raise_runtime :: "monitor_env \<Rightarrow> clock \<Rightarrow> other_passes \<Rightarrow> pass_state \<Rightarrow> pass_state" where
  "raise_runtime env clk passes p =
     (case op_runtime passes (ps_world p) of
        Inr found \<Rightarrow> raise_all env found p
      | Inl e \<Rightarrow> p\<lparr>ps_world := (ps_world p)\<lparr>mo_vault := audit_add clk ''runtime_alerts_error'' None None
          (''runtime observability alert pass failed: '' @ display_error e) (mo_vault (ps_world p))\<rparr>\<rparr>)"

definition managed_observe_kinds :: "alert_kind list" where
  "managed_observe_kinds = [AkRequestSpike, AkCredentialActivated, AkRepeatedAuthFailure, AkNewProviderProject,
     AkNewProviderKey, AkUnusualModel, AkUnusualTimePattern, AkDestinationDrift, AkRotationAttention,
     AkAccessGrantExpired, AkPricingStale]"

definition managed_runtime_kinds :: "alert_kind list" where
  "managed_runtime_kinds = [AkRuntimeAuthFailures, AkRuntimeForbidden, AkRuntimeRateLimited,
     AkRuntimeServerErrors, AkRuntimeTransportFailures, AkRuntimeTlsFailures, AkRuntimeApiInactive,
     AkRuntimeNewApi, AkRuntimeUnknownApi, AkRuntimeOldCredentialVersion, AkRuntimeRevokedCredentialInUse,
     AkRuntimeSharedCredential]"

definition managed_kinds :: "alert_kind list" where
  "managed_kinds = managed_credential_kinds @ managed_activity_kinds
     @ [AkProviderDataStale, AkUnmatchedProviderKey, AkUnmappedProviderProject, AkRotationDue, AkRotationStuck]
     @ managed_observe_kinds @ managed_runtime_kinds"

section \<open>The pass\<close>

record monitor_summary =
  ms_repos_scanned :: nat
  ms_repo_findings :: nat
  ms_checked :: nat
  ms_alerts_created :: nat
  ms_alerts_resolved :: nat
  ms_open_alerts :: nat

definition budget_cost_source :: "vault_meta \<Rightarrow> cost_source res" where
  "budget_cost_source meta =
     (case map_of meta ''budget_cost_source'' of None \<Rightarrow> Inr BestAvailable | Some s \<Rightarrow> parse_cost_source s)"

definition evaluate_rules ::
    "monitor_env \<Rightarrow> clock \<Rightarrow> other_passes \<Rightarrow> cost_source \<Rightarrow> credential list \<Rightarrow> (pass_state, unit) op" where
  "evaluate_rules env clk passes source credentials =
     andthen (each_rule env (credential_rules env source) credentials) (\<lambda>_.
     andthen (inspect (\<lambda>p. Inr (open_projects (ps_world p)))) (\<lambda>projects.
     andthen (each_rule env (project_rules env source) projects) (\<lambda>_.
     andthen (raise_found env (inspect (op_connections passes))) (\<lambda>_.
     andthen (raise_found env (rotation_monitor_alerts env (now_text env))) (\<lambda>_.
     andthen (change (raise_exposures env passes)) (\<lambda>_.
     andthen (raise_found env (inspect (op_observed passes))) (\<lambda>_.
     change (raise_runtime env clk passes))))))))"

definition run_monitor :: "monitor_env \<Rightarrow> clock \<Rightarrow> other_passes \<Rightarrow> (monitor_db, monitor_summary) op" where
  "run_monitor env clk passes =
     andthen (inspect (\<lambda>w. budget_cost_source (mo_meta w))) (\<lambda>source.
     andthen (inspect (list_credentials env)) (\<lambda>credentials. \<lambda>w.
     (case evaluate_rules env clk passes source credentials
             (start_pass w) of
        (Inl e, p) \<Rightarrow> (Inl e, ps_world p)
      | (Inr _, p) \<Rightarrow>
          (let (resolved, rows) = auto_resolve_stale (now_text env) managed_kinds (ps_active_keys p)
                 (mo_alerts (ps_world p))
           in (Inr \<lparr>ms_repos_scanned = ps_repos_scanned p, ms_repo_findings = ps_repo_findings p,
                    ms_checked = length credentials, ms_alerts_created = ps_created p,
                    ms_alerts_resolved = resolved, ms_open_alerts = open_count rows\<rparr>,
               (ps_world p)\<lparr>mo_alerts := rows\<rparr>)))))"

end
