(* ===== verification/AlertTable.thy ===== *)
theory AlertTable
  imports Alerts
begin

text \<open>
  The table of alerts as its operations keep it: ids are unique, a key has at most one open alert,
  rows keep their identity, and a resolved alert stays as it is.
\<close>

definition alert_table :: "alert list \<Rightarrow> bool" where
  "alert_table rows \<longleftrightarrow> distinct (map al_id rows) \<and> distinct (map al_dedup_key (filter is_open rows))"

definition open_keys :: "alert list \<Rightarrow> string set" where
  "open_keys rows = al_dedup_key ` {r \<in> set rows. is_open r}"

lemma open_keys_simps [simp]:
  "open_keys [] = {}"
  "open_keys (r # rows) = (if is_open r then insert (al_dedup_key r) (open_keys rows) else open_keys rows)"
  "open_keys (rows @ rows') = open_keys rows \<union> open_keys rows'"
  by (auto simp: open_keys_def)

lemma alert_row_simps [simp]:
  "al_id (alert_row i now a) = i" "al_dedup_key (alert_row i now a) = na_dedup_key a"
  "is_open (alert_row i now a)" "al_kind (alert_row i now a) = alert_kind_str (na_kind a)"
  by (simp_all add: alert_row_def is_open_def)

text \<open>What an operation may do to a row: nothing once it is resolved, and never change what it is.\<close>

definition same_alert :: "alert \<Rightarrow> alert \<Rightarrow> bool" where
  "same_alert r r' \<longleftrightarrow> al_id r' = al_id r \<and> al_kind r' = al_kind r \<and> al_dedup_key r' = al_dedup_key r
     \<and> al_project_id r' = al_project_id r \<and> al_credential_id r' = al_credential_id r
     \<and> al_created_at r' = al_created_at r \<and> al_acknowledged_at r' = al_acknowledged_at r
     \<and> (\<not> is_open r \<longrightarrow> r' = r)"

definition rows_evolve :: "alert list \<Rightarrow> alert list \<Rightarrow> bool" where
  "rows_evolve rows rows' \<longleftrightarrow> (\<exists>old new. rows' = old @ new \<and> list_all2 same_alert rows old)"

definition stay_open :: "alert list \<Rightarrow> alert list \<Rightarrow> bool" where
  "stay_open rows rows' \<longleftrightarrow> (\<forall>r\<in>set rows. is_open r \<longrightarrow> (\<exists>r'\<in>set rows'. is_open r' \<and> same_alert r r'))"

text \<open>A row of the alert that opened it.\<close>

definition born :: "new_alert \<Rightarrow> alert \<Rightarrow> bool" where
  "born a r \<longleftrightarrow> al_kind r = alert_kind_str (na_kind a) \<and> al_dedup_key r = na_dedup_key a"

definition accounted_rows :: "alert list \<Rightarrow> new_alert set \<Rightarrow> alert list \<Rightarrow> bool" where
  "accounted_rows rows A rows' \<longleftrightarrow>
     (\<forall>r'\<in>set rows'. (\<exists>r\<in>set rows. same_alert r r') \<or> (\<exists>a\<in>A. born a r'))"

lemma same_alert_refl [simp]: "same_alert r r"
  by (simp add: same_alert_def)

lemma same_alert_trans: "same_alert r r' \<Longrightarrow> same_alert r' r'' \<Longrightarrow> same_alert r r''"
  by (auto simp: same_alert_def)

lemma rows_evolve_refl [simp]: "rows_evolve rows rows"
  unfolding rows_evolve_def by (rule exI [of _ rows]) (simp add: list_all2_same)

lemma rows_evolve_trans:
  assumes "rows_evolve a b" "rows_evolve b c"
  shows "rows_evolve a c"
proof -
  obtain a' n where b: "b = a' @ n" "list_all2 same_alert a a'"
    using assms(1) unfolding rows_evolve_def by blast
  obtain b' m where c: "c = b' @ m" "list_all2 same_alert b b'"
    using assms(2) unfolding rows_evolve_def by blast
  obtain a'' n' where b': "b' = a'' @ n'" "list_all2 same_alert a' a''"
    using c(2) unfolding b(1) by (auto simp: list_all2_append1)
  have "list_all2 same_alert a a''"
    using list_all2_trans [of same_alert same_alert same_alert, OF _ b(2) b'(2)] same_alert_trans by blast
  then show ?thesis unfolding rows_evolve_def c(1) b'(1) by auto
qed

lemma rows_evolve_map: "(\<And>r. r \<in> set rows \<Longrightarrow> same_alert r (f r)) \<Longrightarrow> rows_evolve rows (map f rows)"
  unfolding rows_evolve_def by (rule exI [of _ "map f rows"]) (simp add: list_all2_map2 list_all2_same)

lemma rows_evolve_add [simp]: "rows_evolve rows (rows @ new)"
  unfolding rows_evolve_def by (rule exI [of _ rows]) (simp add: list_all2_same)

lemma stay_open_refl [simp]: "stay_open rows rows"
  unfolding stay_open_def using same_alert_refl by blast

lemma stay_open_trans: "stay_open a b \<Longrightarrow> stay_open b c \<Longrightarrow> stay_open a c"
  unfolding stay_open_def by (meson same_alert_trans)

lemma accounted_refl [simp]: "accounted_rows rows A rows"
  unfolding accounted_rows_def using same_alert_refl by blast

lemma accounted_more: "accounted_rows rows A rows' \<Longrightarrow> A \<subseteq> B \<Longrightarrow> accounted_rows rows B rows'"
  unfolding accounted_rows_def by blast

lemma accounted_trans:
  assumes "accounted_rows a A b" "accounted_rows b B c"
  shows "accounted_rows a (A \<union> B) c"
  unfolding accounted_rows_def
proof
  fix r
  assume "r \<in> set c"
  then consider s where "s \<in> set b" "same_alert s r" | a where "a \<in> B" "born a r"
    using assms(2) unfolding accounted_rows_def by blast
  then show "(\<exists>s\<in>set a. same_alert s r) \<or> (\<exists>x\<in>A \<union> B. born x r)"
  proof cases
    case 1
    then consider t where "t \<in> set a" "same_alert t s" | x where "x \<in> A" "born x s"
      using assms(1) unfolding accounted_rows_def by blast
    then show ?thesis using 1(2) by cases (use same_alert_trans in blast, auto simp: born_def same_alert_def)
  qed blast
qed

section \<open>Tables and updates of their rows\<close>

lemma open_row_unique:
  assumes "alert_table rows" "r \<in> set rows" "s \<in> set rows" "is_open r" "is_open s"
    "al_dedup_key r = al_dedup_key s"
  shows "r = s"
proof -
  have "inj_on al_dedup_key (set (filter is_open rows))"
    using assms(1) by (simp add: alert_table_def distinct_map)
  then show ?thesis using assms by (auto dest: inj_onD)
qed

lemma same_id: "alert_table rows \<Longrightarrow> r \<in> set rows \<Longrightarrow> s \<in> set rows \<Longrightarrow> al_id r = al_id s \<longleftrightarrow> r = s"
  unfolding alert_table_def by (metis distinct_map inj_onD)

text \<open>An update that keeps ids and keys and opens nothing keeps the table in order.\<close>

lemma alert_table_map:
  assumes "alert_table rows"
    and f: "\<And>r. r \<in> set rows \<Longrightarrow> al_id (f r) = al_id r \<and> al_dedup_key (f r) = al_dedup_key r
      \<and> (is_open (f r) \<longrightarrow> is_open r)"
  shows "alert_table (map f rows)"
proof -
  have ids: "map al_id (map f rows) = map al_id rows" using f by simp
  have "distinct (map al_dedup_key (filter is_open rows))" using assms(1) by (simp add: alert_table_def)
  then have "distinct (map al_dedup_key (filter is_open (map f rows)))" using f
  proof (induction rows)
    case (Cons r rows)
    have f': "\<And>s. s \<in> set rows \<Longrightarrow> al_id (f s) = al_id s \<and> al_dedup_key (f s) = al_dedup_key s
      \<and> (is_open (f s) \<longrightarrow> is_open s)" using Cons.prems(2) by simp
    have d: "distinct (map al_dedup_key (filter is_open (map f rows)))"
      using Cons.prems(1) by (intro Cons.IH f') (simp split: if_splits)
    show ?case
    proof (cases "is_open (f r)")
      case True
      then have "is_open r" "al_dedup_key (f r) = al_dedup_key r" using Cons.prems(2) [of r] by simp_all
      with Cons.prems(1) have "al_dedup_key (f r) \<notin> al_dedup_key ` {s \<in> set rows. is_open s}" by simp
      then have "al_dedup_key (f r) \<notin> al_dedup_key ` {s \<in> f ` set rows. is_open s}" using f' by fastforce
      with d True show ?thesis by simp
    qed (use d in simp)
  qed simp
  then show ?thesis using assms(1) unfolding alert_table_def ids by blast
qed

lemma find_key_Some:
  "find (\<lambda>r. al_dedup_key r = k \<and> is_open r) rows = Some e \<Longrightarrow> e \<in> set rows \<and> al_dedup_key e = k \<and> is_open e"
  by (induction rows) (auto split: if_splits)

lemma find_key_None:
  "find (\<lambda>r. al_dedup_key r = k \<and> is_open r) rows = None \<longleftrightarrow> k \<notin> open_keys rows"
  by (induction rows) (auto simp: open_keys_def)

lemma open_count_keys: "alert_table rows \<Longrightarrow> open_count rows = card (open_keys rows)"
  unfolding open_count_def open_keys_def alert_table_def using distinct_card [of "map al_dedup_key (filter is_open rows)"] by simp

section \<open>Raising\<close>

lemma upsert_alert_table:
  assumes "alert_table rows" "i \<notin> al_id ` set rows" "upsert_alert i now a rows = (new, rows')"
  shows "alert_table rows'" "rows_evolve rows rows'" "open_keys rows' = insert (na_dedup_key a) (open_keys rows)"
    "al_id ` set rows' = al_id ` set rows \<union> (if new then {i} else {})"
    "length rows' = length rows + (if new then 1 else 0)"
    "new \<longleftrightarrow> na_dedup_key a \<notin> open_keys rows" "stay_open rows rows'"
    "accounted_rows rows {a} rows'"
proof -
  consider (old) e where "find (\<lambda>r. al_dedup_key r = na_dedup_key a \<and> is_open r) rows = Some e"
    | (new) "find (\<lambda>r. al_dedup_key r = na_dedup_key a \<and> is_open r) rows = None" by fastforce
  then have "alert_table rows' \<and> rows_evolve rows rows' \<and> open_keys rows' = insert (na_dedup_key a) (open_keys rows)
    \<and> al_id ` set rows' = al_id ` set rows \<union> (if new then {i} else {}) \<and> length rows' = length rows + (if new then 1 else 0)
    \<and> (new \<longleftrightarrow> na_dedup_key a \<notin> open_keys rows) \<and> stay_open rows rows'
    \<and> accounted_rows rows {a} rows'"
  proof cases
    case old
    define f where "f = (\<lambda>r. if al_id r = al_id e then refresh a r else r)"
    have rows': "rows' = map f rows" "\<not> new" using assms(3) old by (simp_all add: upsert_alert_def f_def)
    note e = find_key_Some [OF old]
    have f: "al_id (f r) = al_id r \<and> al_dedup_key (f r) = al_dedup_key r \<and> is_open (f r) = is_open r" for r
      by (simp add: f_def refresh_def is_open_def)
    have same: "same_alert r (f r)" if "r \<in> set rows" for r
      using that e same_id [OF assms(1) that, of e]
      by (cases "al_id r = al_id e") (simp_all add: f_def same_alert_def refresh_def)
    have "open_keys (map f rows) = open_keys rows"
      unfolding open_keys_def using f by (auto simp: image_iff) metis+
    moreover have "stay_open rows (map f rows)" unfolding stay_open_def using same f by auto
    moreover have "accounted_rows rows {a} (map f rows)" unfolding accounted_rows_def using same by auto
    moreover have "na_dedup_key a \<in> open_keys rows" using e by (force simp: open_keys_def)
    ultimately show ?thesis unfolding rows'(1)
      using rows'(2) alert_table_map [OF assms(1), of f] rows_evolve_map [of rows f] same f by (auto simp: image_iff)
  next
    case new
    have rows': "rows' = rows @ [alert_row i now a]" "new" using assms(3) new by (simp_all add: upsert_alert_def)
    have k: "na_dedup_key a \<notin> open_keys rows" using new by (simp add: find_key_None)
    have "alert_table (rows @ [alert_row i now a])"
      using assms(1,2) k by (auto simp: alert_table_def open_keys_def)
    moreover have "open_keys (rows @ [alert_row i now a]) = insert (na_dedup_key a) (open_keys rows)"
      by simp
    moreover have "stay_open rows (rows @ [alert_row i now a])"
      unfolding stay_open_def using same_alert_refl by auto
    moreover have "accounted_rows rows {a} (rows @ [alert_row i now a])"
      using accounted_refl [of rows "{a}"] unfolding accounted_rows_def by (auto simp: born_def)
    ultimately show ?thesis unfolding rows'(1) using k rows'(2) by simp
  qed
  then show "alert_table rows'" "rows_evolve rows rows'"
    "open_keys rows' = insert (na_dedup_key a) (open_keys rows)"
    "al_id ` set rows' = al_id ` set rows \<union> (if new then {i} else {})"
    "length rows' = length rows + (if new then 1 else 0)" "new \<longleftrightarrow> na_dedup_key a \<notin> open_keys rows"
    "stay_open rows rows'" "accounted_rows rows {a} rows'"
    by blast+
qed

section \<open>Resolving\<close>

lemma resolved_rows:
  "fold (\<lambda>r. resolve_row now (al_id r)) gone rows
     = map (\<lambda>r. if al_id r \<in> al_id ` set gone then r\<lparr>al_resolved_at := Some now\<rparr> else r) rows"
  by (induction gone arbitrary: rows) (auto simp: resolve_row_def)

definition is_gone :: "alert_kind list \<Rightarrow> string list \<Rightarrow> alert \<Rightarrow> bool" where
  "is_gone kinds active_keys r \<longleftrightarrow> is_open r \<and> al_kind r \<in> alert_kind_str ` set kinds
     \<and> al_dedup_key r \<notin> set active_keys"

text \<open>Exactly the open alerts of the given kinds whose key is not active are resolved.\<close>

lemma auto_resolved:
  assumes "alert_table rows" "kinds \<noteq> []"
  shows "snd (auto_resolve_stale now kinds active_keys rows)
    = map (\<lambda>r. if is_gone kinds active_keys r then r\<lparr>al_resolved_at := Some now\<rparr> else r) rows"
proof -
  let ?gone = "filter (is_gone kinds active_keys) rows"
  have "snd (auto_resolve_stale now kinds active_keys rows) = fold (\<lambda>r. resolve_row now (al_id r)) ?gone rows"
    using assms(2) by (simp add: auto_resolve_stale_def Let_def is_gone_def [abs_def] conj_commute conj_left_commute)
  moreover have "al_id r \<in> al_id ` set ?gone \<longleftrightarrow> is_gone kinds active_keys r" if "r \<in> set rows" for r
    using that same_id [OF assms(1)] by auto
  ultimately show ?thesis by (simp add: resolved_rows)
qed

lemma auto_resolve_table:
  assumes "alert_table rows" "kinds \<noteq> []" "set active_keys \<subseteq> open_keys rows"
    and rows': "rows' = snd (auto_resolve_stale now kinds active_keys rows)"
  shows "alert_table rows'" "rows_evolve rows rows'" "set active_keys \<subseteq> open_keys rows'"
    "accounted_rows rows {} rows'"
    "\<forall>r\<in>set rows'. is_open r \<and> al_kind r \<in> alert_kind_str ` set kinds \<longrightarrow> al_dedup_key r \<in> set active_keys"
    "\<forall>r\<in>set rows. is_open r \<and> al_kind r \<notin> alert_kind_str ` set kinds \<longrightarrow> r \<in> set rows'"
proof -
  define f where "f r = (if is_gone kinds active_keys r then r\<lparr>al_resolved_at := Some now\<rparr> else r)" for r
  have map: "rows' = map f rows" unfolding rows' f_def using assms(1,2) by (simp add: auto_resolved)
  have f: "al_id (f r) = al_id r \<and> al_dedup_key (f r) = al_dedup_key r \<and> (is_open (f r) \<longrightarrow> is_open r)" for r
    by (simp add: f_def is_gone_def is_open_def)
  show "alert_table rows'" unfolding map using assms(1) f by (blast intro: alert_table_map)
  show "rows_evolve rows rows'" unfolding map
    by (rule rows_evolve_map) (auto simp: f_def same_alert_def is_gone_def)
  show "accounted_rows rows {} rows'" unfolding map accounted_rows_def
    by (auto simp: f_def same_alert_def is_gone_def)
  show "set active_keys \<subseteq> open_keys rows'"
  proof
    fix k
    assume k: "k \<in> set active_keys"
    then obtain r where r: "r \<in> set rows" "is_open r" "al_dedup_key r = k"
      using assms(3) unfolding open_keys_def by blast
    then have "f r = r" using k by (simp add: f_def is_gone_def)
    then have "r \<in> set rows'" unfolding map using r(1) by force
    with r show "k \<in> open_keys rows'" by (auto simp: open_keys_def)
  qed
  show "\<forall>r\<in>set rows'. is_open r \<and> al_kind r \<in> alert_kind_str ` set kinds \<longrightarrow> al_dedup_key r \<in> set active_keys"
    unfolding map by (auto simp: f_def is_gone_def is_open_def split: if_splits)
  show "\<forall>r\<in>set rows. is_open r \<and> al_kind r \<notin> alert_kind_str ` set kinds \<longrightarrow> r \<in> set rows'"
    unfolding map by (force simp: f_def is_gone_def)
qed

end
