(* ===== verification/MonitorProps.thy ===== *)
theory MonitorProps
  imports MonitorRun AlertTable
begin

text \<open>
  What a monitor pass leaves of the table of alerts, and what the alerts on a credential say about
  it: the rules are evaluated on a vault that raising alerts does not change, so a pass is one list
  of findings raised in order and one resolution of what was not among them.
\<close>

section \<open>Raising a list of findings\<close>

text \<open>The vault without its alerts, and the state of a pass that raised the findings \<open>A\<close>.\<close>

definition rest :: "monitor_db \<Rightarrow> monitor_db" where
  "rest w = w\<lparr>mo_alerts := []\<rparr>"

definition fresh_ids :: "monitor_env \<Rightarrow> alert list \<Rightarrow> bool" where
  "fresh_ids env rows \<longleftrightarrow> inj (me_new_id env) \<and> (\<forall>n \<ge> length rows. me_new_id env n \<notin> al_id ` set rows)"

definition pass_ok :: "monitor_env \<Rightarrow> alert list \<Rightarrow> new_alert set \<Rightarrow> pass_state \<Rightarrow> bool" where
  "pass_ok env rows A p \<longleftrightarrow> alert_table (mo_alerts (ps_world p)) \<and> fresh_ids env (mo_alerts (ps_world p))
     \<and> rows_evolve rows (mo_alerts (ps_world p)) \<and> set (ps_active_keys p) = na_dedup_key ` A
     \<and> accounted_rows rows (A \<union> range (exposure_alert (now_text env))) (mo_alerts (ps_world p))
     \<and> na_dedup_key ` A \<subseteq> open_keys (mo_alerts (ps_world p)) \<and> stay_open rows (mo_alerts (ps_world p))"

lemma rest_alerts [simp]: "rest (w\<lparr>mo_alerts := rows\<rparr>) = rest w"
  by (simp add: rest_def)

lemma raise_alert_ok:
  assumes "pass_ok env rows A p" and keyed: "keyed \<or> a \<in> range (exposure_alert (now_text env))"
  shows "pass_ok env rows (if keyed then insert a A else A) (raise_alert env keyed a p)"
proof -
  let ?rows = "mo_alerts (ps_world p)"
  let ?i = "me_new_id env (length ?rows)"
  obtain new rows' where u: "upsert_alert ?i (now_text env) a ?rows = (new, rows')" by fastforce
  have i: "?i \<notin> al_id ` set ?rows" using assms by (simp add: pass_ok_def fresh_ids_def)
  have table: "alert_table ?rows" using assms by (simp add: pass_ok_def)
  note up = upsert_alert_table [OF table i u]
  have "fresh_ids env rows'"
    unfolding fresh_ids_def
  proof (intro conjI allI impI)
    show "inj (me_new_id env)" using assms by (simp add: pass_ok_def fresh_ids_def)
    fix n
    assume n: "length rows' \<le> n"
    show "me_new_id env n \<notin> al_id ` set rows'"
    proof (cases new)
      case True
      then have "n \<noteq> length ?rows" "length ?rows \<le> n" using n up(5) by simp_all
      then show ?thesis using assms up(4) by (auto simp: pass_ok_def fresh_ids_def dest: injD)
    next
      case False
      then show ?thesis using assms n up(4,5) by (simp add: pass_ok_def fresh_ids_def)
    qed
  qed
  moreover have "accounted_rows rows ((if keyed then insert a A else A) \<union> range (exposure_alert (now_text env))) rows'"
    by (rule accounted_more [OF accounted_trans [OF _ up(8)]]) (use assms in \<open>auto simp: pass_ok_def\<close>)
  ultimately show ?thesis using assms(1) up(1,2,3,7) u
    by (auto simp: pass_ok_def raise_alert_def intro: rows_evolve_trans stay_open_trans)
qed

lemma raise_alert_rest [simp]: "rest (ps_world (raise_alert env keyed a p)) = rest (ps_world p)"
  by (simp add: raise_alert_def case_prod_beta Let_def)

lemma raise_all_rest [simp]: "rest (ps_world (raise_all env as p)) = rest (ps_world p)"
  unfolding raise_all_def by (induction as arbitrary: p) simp_all

lemma raise_all_ok:
  "pass_ok env rows A p \<Longrightarrow> pass_ok env rows (A \<union> set as) (raise_all env as p)"
  unfolding raise_all_def
proof (induction as arbitrary: A p)
  case (Cons a as)
  show ?case using Cons.IH [OF raise_alert_ok [OF Cons.prems, of True a]] by simp
qed simp

lemma raise_exposed_ok:
  "pass_ok env rows A p \<Longrightarrow> set as \<subseteq> range (exposure_alert (now_text env))
     \<Longrightarrow> pass_ok env rows A (fold (raise_alert env False) as p)"
proof (induction as arbitrary: p)
  case (Cons a as)
  have "pass_ok env rows A (raise_alert env False a p)"
    using raise_alert_ok [OF Cons.prems(1), of False a] Cons.prems(2) by simp
  with Cons show ?case by simp
qed simp

lemma fold_raise_rest: "rest (ps_world (fold (raise_alert env keyed) as p)) = rest (ps_world p)"
  by (induction as arbitrary: p) simp_all

lemma raise_all_append: "raise_all env (as @ bs) p = raise_all env bs (raise_all env as p)"
  by (simp add: raise_all_def)

section \<open>The rules do not look at the alerts\<close>

lemma credential_model_rest [simp]: "credential_model env (rest w) = credential_model env w"
  by (simp add: credential_model_def rest_def fun_eq_iff)

lemma list_credentials_rest [simp]: "list_credentials env (rest w) = list_credentials env w"
  by (simp add: list_credentials_def) (simp add: rest_def)

lemma credential_rules_rest [simp]: "credential_rules env source (rest w) = credential_rules env source w"
  by (simp add: credential_rules_def reuse_rule_def rest_def fun_eq_iff cong: option.case_cong)

lemma project_rules_rest [simp]: "project_rules env source (rest w) = project_rules env source w"
  by (simp add: project_rules_def rest_def fun_eq_iff)

lemma open_projects_rest [simp]: "open_projects (rest w) = open_projects w"
  by (simp add: open_projects_def rest_def)

lemma each_rule_raises:
  assumes "\<And>w. rule (rest w) = rule w"
  shows "each_rule env rule xs p = (Inr (), p') \<Longrightarrow>
    \<exists>found. res_list (rule (ps_world p)) xs = Inr found \<and> p' = raise_all env (concat found) p"
proof (induction xs arbitrary: p)
  case (Cons x xs)
  obtain f where f: "rule (ps_world p) x = Inr f" using Cons.prems by (cases "rule (ps_world p) x") auto
  then have run: "each_rule env rule xs (raise_all env f p) = (Inr (), p')" using Cons.prems by simp
  have "rule (ps_world (raise_all env f p)) = rule (ps_world p)"
    using assms [of "ps_world (raise_all env f p)"] assms [of "ps_world p"] by simp
  with Cons.IH [OF run] obtain found where
    "res_list (rule (ps_world p)) xs = Inr found" "p' = raise_all env (concat found) (raise_all env f p)" by auto
  with f show ?case by (auto simp: res_then_def raise_all_append)
qed (simp add: raise_all_def)

text \<open>The rules on schedules change schedules only, and find the same with any alerts.\<close>

definition only_vault :: "(monitor_db, 'a) op \<Rightarrow> bool" where
  "only_vault m \<longleftrightarrow> (\<forall>w rows. m (w\<lparr>mo_alerts := rows\<rparr>) = map_prod id (\<lambda>w. w\<lparr>mo_alerts := rows\<rparr>) (m w)
     \<and> mo_alerts (snd (m w)) = mo_alerts w)"

named_theorems vault_rules \<open>operations that leave the alerts alone\<close>

lemma only_vault_ret [vault_rules]: "only_vault (ret a)"
  by (simp add: only_vault_def ret_def)

lemma only_vault_inspect [vault_rules]: "(\<And>w rows. f (w\<lparr>mo_alerts := rows\<rparr>) = f w) \<Longrightarrow> only_vault (inspect f)"
  by (simp add: only_vault_def inspect_def)

lemma only_vault_on_vault [vault_rules]: "only_vault (on_vault m)"
  by (simp add: only_vault_def on_vault_def split: prod.split)

lemma only_vault_andthen [vault_rules]:
  assumes "only_vault m" "\<And>a. only_vault (f a)"
  shows "only_vault (andthen m f)"
  unfolding only_vault_def
proof (intro allI)
  fix w rows
  obtain r w1 where m: "m w = (r, w1)" by fastforce
  with assms(1) have "m (w\<lparr>mo_alerts := rows\<rparr>) = (r, w1\<lparr>mo_alerts := rows\<rparr>)" "mo_alerts w1 = mo_alerts w"
    by (simp_all add: only_vault_def) (metis snd_conv)
  with m assms(2) show "andthen m f (w\<lparr>mo_alerts := rows\<rparr>)
      = map_prod id (\<lambda>w. w\<lparr>mo_alerts := rows\<rparr>) (andthen m f w)
    \<and> mo_alerts (snd (andthen m f w)) = mo_alerts w"
    by (cases r) (simp_all add: andthen_def only_vault_def)
qed

lemma only_vault_read:
  assumes "\<And>w rows. g (w\<lparr>mo_alerts := rows\<rparr>) = g w" "\<And>x. only_vault (m x)"
  shows "only_vault (\<lambda>w. m (g w) w)"
  using assms by (simp add: only_vault_def)

lemma only_vault_check_schedule [vault_rules]: "only_vault (check_schedule env now s)"
proof -
  have read: "preflight_problems env c (w\<lparr>mo_alerts := rows\<rparr>) = preflight_problems env c w" for c w rows
    by (simp add: preflight_problems_def)
  show ?thesis
    unfolding only_vault_def check_schedule_def
    by (auto simp: op_defs on_vault_def schedule_pause_def read Let_def split: option.split sum.split)
qed

lemma only_vault_check_schedules [vault_rules]: "only_vault (check_schedules env now ss)"
  by (induction ss) (simp_all add: vault_rules)

lemma only_vault_rotation_alerts: "only_vault (rotation_monitor_alerts env now)"
  unfolding rotation_monitor_alerts_def Let_def
  by (rule only_vault_read [where g = "\<lambda>w. rotation_schedules (mo_vault w)"]) (auto intro!: vault_rules)

section \<open>A whole pass\<close>

text \<open>What the rules find in a vault, evaluated at once, and the keys only other passes may raise.\<close>

definition pass_findings :: "monitor_env \<Rightarrow> monitor_db \<Rightarrow> new_alert list res" where
  "pass_findings env w =
     res_then (budget_cost_source (mo_meta w)) (\<lambda>source.
     res_then (list_credentials env w) (\<lambda>credentials.
     res_then (res_list (credential_rules env source w) credentials) (\<lambda>a.
     res_then (res_list (project_rules env source w) (open_projects w)) (\<lambda>b.
     res_then (fst (rotation_monitor_alerts env (now_text env) w)) (\<lambda>due.
     Inr (concat a @ concat b @ due))))))"

definition foreign_finding :: "other_passes \<Rightarrow> new_alert \<Rightarrow> bool" where
  "foreign_finding passes a \<longleftrightarrow> (\<exists>w found. (op_connections passes w = Inr found \<or> op_observed passes w = Inr found
     \<or> op_runtime passes w = Inr found) \<and> a \<in> set found)"

lemma rest_eq: "rest u = rest v \<Longrightarrow> u = v\<lparr>mo_alerts := mo_alerts u\<rparr>"
  by (cases u; cases v) (simp add: rest_def)

lemma pass_ok_world:
  "pass_ok env rows A p \<Longrightarrow> mo_alerts w = mo_alerts (ps_world p) \<Longrightarrow> pass_ok env rows A (p\<lparr>ps_world := w\<rparr>)"
  by (simp add: pass_ok_def)

lemma raise_found_ok:
  assumes "raise_found env m p = (Inr (), p')" "pass_ok env rows A p"
    and keeps: "mo_alerts (snd (m (ps_world p))) = mo_alerts (ps_world p)"
  shows "\<exists>found. fst (m (ps_world p)) = Inr found \<and> pass_ok env rows (A \<union> set found) p'"
proof -
  obtain r v where m: "m (ps_world p) = (r, v)" by fastforce
  from assms(1) m obtain found where found: "r = Inr found" and p': "p' = raise_all env found (p\<lparr>ps_world := v\<rparr>)"
    by (cases r) (auto simp: raise_found_def on_world_def andthen_def change_def)
  have "pass_ok env rows A (p\<lparr>ps_world := v\<rparr>)" using pass_ok_world [OF assms(2), of v] keeps m by simp
  with m found p' show ?thesis using raise_all_ok by fastforce
qed

lemma raise_runtime_ok:
  assumes "pass_ok env rows A p"
  shows "\<exists>F. pass_ok env rows (A \<union> F) (raise_runtime env clk passes p) \<and> (\<forall>a\<in>F. foreign_finding passes a)"
proof (cases "op_runtime passes (ps_world p)")
  case (Inl e)
  then have "pass_ok env rows (A \<union> {}) (raise_runtime env clk passes p)"
    using pass_ok_world [OF assms] by (simp add: raise_runtime_def)
  then show ?thesis by blast
next
  case (Inr found)
  then have "pass_ok env rows (A \<union> set found) (raise_runtime env clk passes p)"
    using raise_all_ok [OF assms] by (simp add: raise_runtime_def)
  with Inr show ?thesis unfolding foreign_finding_def by blast
qed

lemma pass_ok_counts [simp]:
  "pass_ok env rows A (p\<lparr>ps_repos_scanned := n, ps_repo_findings := m\<rparr>) = pass_ok env rows A p"
  by (simp add: pass_ok_def)

lemma raise_exposures_ok: "pass_ok env rows A p \<Longrightarrow> pass_ok env rows A (raise_exposures env passes p)"
  by (auto simp: raise_exposures_def intro!: raise_exposed_ok split: sum.split)

lemma own_rules_ok:
  assumes "each_rule env (credential_rules env source) credentials p = (Inr (), p1)"
    "each_rule env (project_rules env source) (open_projects (ps_world p1)) p1 = (Inr (), p2)"
    and ok: "pass_ok env rows {} p"
  obtains a b where "res_list (credential_rules env source (ps_world p)) credentials = Inr a"
    "res_list (project_rules env source (ps_world p)) (open_projects (ps_world p)) = Inr b"
    "pass_ok env rows (set (concat a @ concat b)) p2" "rest (ps_world p2) = rest (ps_world p)"
proof -
  obtain a where a: "res_list (credential_rules env source (ps_world p)) credentials = Inr a"
    and p1: "p1 = raise_all env (concat a) p" using each_rule_raises [OF _ assms(1)] by auto
  have w1: "rest (ps_world p1) = rest (ps_world p)" by (simp add: p1)
  then have "open_projects (ps_world p1) = open_projects (ps_world p)"
    "project_rules env source (ps_world p1) = project_rules env source (ps_world p)"
    by (metis open_projects_rest) (metis w1 project_rules_rest)
  then obtain b where b: "res_list (project_rules env source (ps_world p)) (open_projects (ps_world p)) = Inr b"
    and p2: "p2 = raise_all env (concat b) p1" using each_rule_raises [OF _ assms(2)] by auto
  have "p2 = raise_all env (concat a @ concat b) p" by (simp add: p1 p2 raise_all_append)
  then have "pass_ok env rows (set (concat a @ concat b)) p2"
    "rest (ps_world p2) = rest (ps_world p)"
    using raise_all_ok [OF ok, of "concat a @ concat b"] by simp_all
  with a b show thesis by (rule that)
qed

lemma evaluate_rules_ok:
  assumes run: "evaluate_rules env clk passes source credentials p = (Inr (), p')"
    and ok: "pass_ok env rows {} p"
  shows "\<exists>a b due F. res_list (credential_rules env source (ps_world p)) credentials = Inr a
    \<and> res_list (project_rules env source (ps_world p)) (open_projects (ps_world p)) = Inr b
    \<and> fst (rotation_monitor_alerts env (now_text env) (ps_world p)) = Inr due
    \<and> pass_ok env rows (set (concat a @ concat b @ due) \<union> F) p' \<and> (\<forall>a\<in>F. foreign_finding passes a)"
proof -
  let ?rotation = "rotation_monitor_alerts env (now_text env)"
  from run obtain p1 p2 p3 p4 p5 where
    p1: "each_rule env (credential_rules env source) credentials p = (Inr (), p1)"
    and p2: "each_rule env (project_rules env source) (open_projects (ps_world p1)) p1 = (Inr (), p2)"
    and p3: "raise_found env (inspect (op_connections passes)) p2 = (Inr (), p3)"
    and p4: "raise_found env ?rotation p3 = (Inr (), p4)"
    and p5: "raise_found env (inspect (op_observed passes)) (raise_exposures env passes p4) = (Inr (), p5)"
    and p': "p' = raise_runtime env clk passes p5"
    unfolding evaluate_rules_def by (auto simp: inspect_def change_def elim!: andthen_InrE)
  obtain a b where a: "res_list (credential_rules env source (ps_world p)) credentials = Inr a"
    and b: "res_list (project_rules env source (ps_world p)) (open_projects (ps_world p)) = Inr b"
    and ok2: "pass_ok env rows (set (concat a @ concat b)) p2"
    and w2: "rest (ps_world p2) = rest (ps_world p)" by (rule own_rules_ok [OF p1 p2 ok])
  obtain f1 where f1: "op_connections passes (ps_world p2) = Inr f1"
    and ok3: "pass_ok env rows (set (concat a @ concat b) \<union> set f1) p3"
    using raise_found_ok [OF p3 ok2] by (auto simp: inspect_def)
  have "rest (ps_world p3) = rest (ps_world p)"
    using p3 w2 by (auto simp: raise_found_def on_world_def inspect_def change_def elim!: andthen_InrE)
  then have rot: "fst (?rotation (ps_world p3)) = fst (?rotation (ps_world p))"
    "mo_alerts (snd (?rotation (ps_world p3))) = mo_alerts (ps_world p3)"
    using only_vault_rotation_alerts [of env "now_text env"] rest_eq
    unfolding only_vault_def by (metis fst_map_prod id_apply, blast)
  obtain due where due: "fst (?rotation (ps_world p)) = Inr due"
    and ok4: "pass_ok env rows (set (concat a @ concat b @ due) \<union> set f1) p4"
    using raise_found_ok [OF p4 ok3 rot(2)] unfolding rot(1) by (auto simp: image_Un Un_ac)
  obtain f2 where f2: "op_observed passes (ps_world (raise_exposures env passes p4)) = Inr f2"
    and ok5: "pass_ok env rows (set (concat a @ concat b @ due) \<union> set f1
      \<union> set f2) p5"
    using raise_found_ok [OF p5 raise_exposures_ok [OF ok4]] by (auto simp: inspect_def)
  obtain F where F: "pass_ok env rows (set (concat a @ concat b @ due) \<union> set f1
      \<union> set f2 \<union> F) p'" "\<forall>a\<in>F. foreign_finding passes a"
    using raise_runtime_ok [OF ok5] unfolding p' by blast
  have "\<forall>a\<in>set f1 \<union> set f2 \<union> F. foreign_finding passes a"
    using F(2) f1 f2 unfolding foreign_finding_def by blast
  with a b due F(1) show ?thesis by (metis (no_types, lifting) Un_assoc)
qed

lemma raised_key:
  "k \<in> na_dedup_key ` (A \<union> F) \<Longrightarrow> \<forall>a\<in>F. Q a \<Longrightarrow> \<exists>a. (a \<in> A \<or> Q a) \<and> na_dedup_key a = k"
  by blast

lemma run_monitor_InrE:
  assumes "run_monitor env clk passes w = (Inr summary, w')"
  obtains source credentials p where "budget_cost_source (mo_meta w) = Inr source"
    "list_credentials env w = Inr credentials"
    "evaluate_rules env clk passes source credentials
       (start_pass w) = (Inr (), p)"
    "mo_alerts w' = snd (auto_resolve_stale (now_text env) managed_kinds (ps_active_keys p) (mo_alerts (ps_world p)))"
    "ms_open_alerts summary = open_count (mo_alerts w')"
proof -
  from assms obtain source credentials where source: "budget_cost_source (mo_meta w) = Inr source"
    and credentials: "list_credentials env w = Inr credentials"
    and run: "(case evaluate_rules env clk passes source credentials
             (start_pass w) of
        (Inl e, p) \<Rightarrow> (Inl e, ps_world p)
      | (Inr _, p) \<Rightarrow>
          (let (resolved, rows) = auto_resolve_stale (now_text env) managed_kinds (ps_active_keys p)
                 (mo_alerts (ps_world p))
           in (Inr \<lparr>ms_repos_scanned = ps_repos_scanned p, ms_repo_findings = ps_repo_findings p,
                    ms_checked = length credentials, ms_alerts_created = ps_created p,
                    ms_alerts_resolved = resolved, ms_open_alerts = open_count rows\<rparr>,
               (ps_world p)\<lparr>mo_alerts := rows\<rparr>))) = (Inr summary, w')"
    unfolding run_monitor_def by (auto simp: inspect_def elim!: andthen_InrE)
  obtain r p where rules: "evaluate_rules env clk passes source credentials
    (start_pass w) = (r, p)" by fastforce
  with run have "r = Inr ()" by (cases r) auto
  with run rules that [OF source credentials, of p] show thesis
    by (auto simp: Let_def case_prod_beta)
qed

lemma pass_reconciles:
  assumes run: "run_monitor env clk passes w = (Inr summary, w')"
    and table: "alert_table (mo_alerts w)" and ids: "fresh_ids env (mo_alerts w)"
  shows "alert_table (mo_alerts w') \<and> rows_evolve (mo_alerts w) (mo_alerts w')
    \<and> ms_open_alerts summary = card (open_keys (mo_alerts w'))
    \<and> (\<exists>found. pass_findings env w = Inr found
      \<and> na_dedup_key ` set found \<subseteq> open_keys (mo_alerts w')
      \<and> (\<forall>r\<in>set (mo_alerts w'). is_open r \<and> al_kind r \<in> alert_kind_str ` set managed_kinds \<longrightarrow>
            (\<exists>a. (a \<in> set found \<or> foreign_finding passes a) \<and> na_dedup_key a = al_dedup_key r))
      \<and> (\<forall>r\<in>set (mo_alerts w'). (\<exists>old\<in>set (mo_alerts w). same_alert old r)
          \<or> (\<exists>a. (a \<in> set found \<or> foreign_finding passes a \<or> (\<exists>rp. a = exposure_alert (now_text env) rp)) \<and> born a r)))
    \<and> (\<forall>r\<in>set (mo_alerts w). is_open r \<and> al_kind r \<notin> alert_kind_str ` set managed_kinds \<longrightarrow>
          (\<exists>r'\<in>set (mo_alerts w'). is_open r' \<and> same_alert r r'))"
proof -
  let ?start = "(start_pass w)"
  obtain source credentials p where source: "budget_cost_source (mo_meta w) = Inr source"
    and credentials: "list_credentials env w = Inr credentials"
    and rules: "evaluate_rules env clk passes source credentials ?start = (Inr (), p)"
    and rows: "mo_alerts w' = snd (auto_resolve_stale (now_text env) managed_kinds (ps_active_keys p)
        (mo_alerts (ps_world p)))"
    and count: "ms_open_alerts summary = open_count (mo_alerts w')"
    by (rule run_monitor_InrE [OF run])
  have "pass_ok env (mo_alerts w) {} ?start" using table ids by (simp add: pass_ok_def start_pass_def)
  from evaluate_rules_ok [OF rules this] obtain a b due F where
    own: "res_list (credential_rules env source w) credentials = Inr a"
      "res_list (project_rules env source w) (open_projects w) = Inr b"
      "fst (rotation_monitor_alerts env (now_text env) w) = Inr due"
    and ok: "pass_ok env (mo_alerts w) (set (concat a @ concat b @ due) \<union> F) p"
    and F: "\<forall>a\<in>F. foreign_finding passes a" by (auto simp: start_pass_def)
  let ?found = "concat a @ concat b @ due"
  have found: "pass_findings env w = Inr ?found"
    using source credentials own by (simp add: pass_findings_def res_then_def)
  have keys: "set (ps_active_keys p) = na_dedup_key ` (set ?found \<union> F)" using ok unfolding pass_ok_def by blast
  have "managed_kinds \<noteq> []" by (simp add: managed_kinds_def managed_credential_kinds_def)
  moreover have "alert_table (mo_alerts (ps_world p))" "set (ps_active_keys p) \<subseteq> open_keys (mo_alerts (ps_world p))"
    and evolved: "rows_evolve (mo_alerts w) (mo_alerts (ps_world p))"
    and stay: "stay_open (mo_alerts w) (mo_alerts (ps_world p))"
    and accounted: "accounted_rows (mo_alerts w) (set ?found \<union> F \<union> range (exposure_alert (now_text env)))
      (mo_alerts (ps_world p))"
    using ok unfolding pass_ok_def keys [symmetric] by blast+
  ultimately have left: "alert_table (mo_alerts w')" "rows_evolve (mo_alerts (ps_world p)) (mo_alerts w')"
    "set (ps_active_keys p) \<subseteq> open_keys (mo_alerts w')"
    "accounted_rows (mo_alerts (ps_world p)) {} (mo_alerts w')"
    "\<forall>r\<in>set (mo_alerts w'). is_open r \<and> al_kind r \<in> alert_kind_str ` set managed_kinds \<longrightarrow>
        al_dedup_key r \<in> set (ps_active_keys p)"
    "\<forall>r\<in>set (mo_alerts (ps_world p)). is_open r \<and> al_kind r \<notin> alert_kind_str ` set managed_kinds \<longrightarrow>
        r \<in> set (mo_alerts w')"
    using auto_resolve_table [OF _ _ _ rows] by blast+
  have "\<forall>r\<in>set (mo_alerts w). is_open r \<and> al_kind r \<notin> alert_kind_str ` set managed_kinds \<longrightarrow>
      (\<exists>r'\<in>set (mo_alerts w'). is_open r' \<and> same_alert r r')"
    using stay left(6) unfolding stay_open_def same_alert_def by metis
  moreover have "na_dedup_key ` set ?found \<subseteq> open_keys (mo_alerts w')" using left(3) keys by blast
  moreover have "\<forall>r\<in>set (mo_alerts w'). is_open r \<and> al_kind r \<in> alert_kind_str ` set managed_kinds \<longrightarrow>
      (\<exists>a. (a \<in> set ?found \<or> foreign_finding passes a) \<and> na_dedup_key a = al_dedup_key r)"
    using left(5) raised_key [OF _ F] unfolding keys by blast
  moreover have "\<forall>r\<in>set (mo_alerts w'). (\<exists>old\<in>set (mo_alerts w). same_alert old r)
      \<or> (\<exists>a. (a \<in> set ?found \<or> foreign_finding passes a \<or> (\<exists>rp. a = exposure_alert (now_text env) rp)) \<and> born a r)"
  proof -
    have "a \<in> set ?found \<or> foreign_finding passes a \<or> (\<exists>rp. a = exposure_alert (now_text env) rp)"
      if "a \<in> set ?found \<union> F \<union> range (exposure_alert (now_text env))" for a using that F by blast
    then show ?thesis using accounted_trans [OF accounted left(4)] unfolding accounted_rows_def by (metis Un_empty_right)
  qed
  moreover have "ms_open_alerts summary = card (open_keys (mo_alerts w'))"
    using open_count_keys [OF left(1)] count by simp
  ultimately show ?thesis using found left(1) rows_evolve_trans [OF evolved left(2)]
    by (intro conjI exI [of _ ?found])
qed

end
