(* ===== verification/MonitorDemo.thy ===== *)
theory MonitorDemo
  imports MonitorRun AlertTable
begin

text \<open>
  A concrete vault the theorems about passes are applied to: one credential that has expired, a
  schedule that is due for a revoked one, and alerts left from before.
\<close>

definition demo_stamps :: stamps where
  "demo_stamps = \<lparr>st_rfc3339 = (\<lambda>s. map_option int (parse_unsigned 64 10 s)),
     st_date = (\<lambda>_. None), st_text = (\<lambda>t. if 0 \<le> t \<and> t < 1000 then dec_of_int t else ''other'')\<rparr>"

definition demo_monitor :: monitor_env where
  "demo_monitor = \<lparr>me_now = 100, me_stamps = demo_stamps,
     me_budget = \<lparr>be_now = \<lparr>cv_year = 2026, cv_month = 1, cv_day = 2\<rparr>, be_now_text = ''100'',
       be_format_micros = dec_of_int, be_uppercase = id\<rparr>,
     me_ratio = (\<lambda>_ _. ''2.0''), me_admin = (\<lambda>_. True), me_new_id = (\<lambda>n. ''id'' @ dec_of_nat n)\<rparr>"

definition demo_key :: credential_row where
  "demo_key = \<lparr>cr_id = ''c'', cr_project_id = ''j'', cr_name = ''key'', cr_environment = ''dev'', cr_provider = ''p'',
     cr_linked_credential_id = None, cr_value = Some ''old'', cr_value_version = 1, cr_fingerprint = [],
     cr_masked_value = [], cr_updated_at = [], cr_provider_expires_at = Some ''99''\<rparr>"

definition demo_details :: credential_details where
  "demo_details = \<lparr>cd_credential_type = [], cd_created_at = ''1'', cd_key_created_at = None,
     cd_expires_at = None, cd_last_validated_at = None, cd_last_used_at = Some ''98'', cd_docs_url = [],
     cd_notes = [], cd_manually_disabled = False, cd_revoked = True, cd_marked_invalid = False,
     cd_possibly_exposed = False, cd_exposure_note = []\<rparr>"

definition demo_schedule :: rotation_schedule where
  "demo_schedule = \<lparr>sc_credential_id = ''c'', sc_interval_days = 30, sc_next_due_at = ''1'', sc_enabled = True,
     sc_paused_reason = [], sc_created_at = ''1'', sc_last_completed_rotation_id = None\<rparr>"

definition demo_alert :: "string \<Rightarrow> alert_kind \<Rightarrow> string \<Rightarrow> alert" where
  "demo_alert i k key = alert_row i ''1'' \<lparr>na_kind = k, na_severity = SevLow, na_dedup_key = key, na_title = [],
     na_detail = [], na_evidence = [], na_confidence = CLow, na_recommended_action = [], na_project_id = None,
     na_credential_id = None, na_observed_at = ''1''\<rparr>"

definition demo_tables :: monitor_db where
  "demo_tables =
     \<lparr>mo_vault = \<lparr>vd_rotations = [], vd_events = [], vd_schedules = [demo_schedule],
        vd_credentials = [demo_key], vd_versions = [], vd_projects = [\<lparr>pj_id = ''j'', pj_name = ''proj''\<rparr>],
        vd_key_links = [], vd_side_keys = [], vd_usage = [], vd_audit = [], vd_tick = 0\<rparr>,
      mo_details = (\<lambda>_. demo_details), mo_archived = (\<lambda>_. False),
      mo_project_budgets = [\<lparr>br_id = ''j'', br_name = ''proj'', br_monthly_budget_micros = None, br_updated_at = []\<rparr>],
      mo_credential_budgets = [\<lparr>br_id = ''c'', br_name = ''key'', br_monthly_budget_micros = None, br_updated_at = []\<rparr>],
      mo_usage = [], mo_activity = [], mo_settings = default_settings, mo_meta = [],
      mo_alerts = [demo_alert ''a'' AkStale ''stale:c'', demo_alert ''b'' AkProviderSyncFailed ''provider_sync_failed:p'']\<rparr>"

definition demo_passes :: other_passes where
  "demo_passes = \<lparr>op_connections = (\<lambda>_. Inr []), op_repositories = (\<lambda>_. Inr []), op_observed = (\<lambda>_. Inr []),
     op_runtime = (\<lambda>_. Inl (NetworkErr ''lost''))\<rparr>"

definition demo_ticks :: clock where
  "demo_ticks = \<lparr>ck_at = int, ck_text = dec_of_int, ck_parse = (\<lambda>_. Inr 0), ck_date = id\<rparr>"

definition demo_pass :: "monitor_db \<Rightarrow> monitor_summary res \<times> monitor_db" where
  "demo_pass w = run_monitor demo_monitor demo_ticks demo_passes w"

text \<open>After one pass; the stale alert is resolved, and the schedule is paused and reported.\<close>

lemma demo_pass_facts:
  "map_sum id ms_open_alerts (fst (demo_pass demo_tables)) = (Inr 3 :: nat res)
   \<and> map (\<lambda>r. (al_dedup_key r, is_open r)) (mo_alerts (snd (demo_pass demo_tables)))
      = [(''stale:c'', False), (''provider_sync_failed:p'', True), (''expired:c'', True), (''rotation_due:c'', True)]
   \<and> map sc_enabled (vd_schedules (mo_vault (snd (demo_pass demo_tables)))) = [False]"
  by code_simp

end
