(* ===== verification/StatusProps.thy ===== *)
theory StatusProps
  imports Status
begin

text \<open>
  The findings on a credential against what counts as evidence, stated without the order or the texts
  of the code: which flags are set, which dates lie where, and what use was seen.
\<close>

definition expiry_dates :: "status_inputs \<Rightarrow> int set" where
  "expiry_dates i = set_option (si_expires_at i) \<union> set_option (si_provider_expires_at i)"

text \<open>Signs of use: recorded uses, and validations unless the last one failed.\<close>

definition signs_of_use :: "status_inputs \<Rightarrow> int set" where
  "signs_of_use i = {t. si_last_used_at i = Some t \<or> \<not> si_marked_invalid i \<and> si_last_validated_at i = Some t}"

fun has_evidence :: "status_inputs \<Rightarrow> vault_settings \<Rightarrow> int \<Rightarrow> status \<Rightarrow> bool" where
  "has_evidence i settings now StRevoked = si_revoked i"
| "has_evidence i settings now StManuallyDisabled = si_manually_disabled i"
| "has_evidence i settings now StExpired = (\<exists>t\<in>expiry_dates i. t \<le> now)"
| "has_evidence i settings now StInvalid = si_marked_invalid i"
| "has_evidence i settings now StPossiblyExposed = si_possibly_exposed i"
| "has_evidence i settings now StExpiringSoon =
     (\<exists>t\<in>expiry_dates i. now < t \<and> t \<le> now + days (uint (vs_expiring_soon_days settings)))"
| "has_evidence i settings now StSharedAcrossProjects = (si_shared_with_projects i \<noteq> [])"
| "has_evidence i settings now StStale =
     (signs_of_use i \<noteq> {} \<and> (\<forall>t\<in>signs_of_use i. t \<le> now - days (uint (vs_stale_days settings))))"
| "has_evidence i settings now StActive = (\<exists>t\<in>signs_of_use i. now - days (uint (vs_stale_days settings)) < t)"
| "has_evidence i settings now StUnused =
     (signs_of_use i = {} \<and> si_created_at i \<le> now - days (uint (vs_unused_days settings)))"
| "has_evidence i settings now StUnknown = si_expiration_unparseable i"

definition found_status :: "finding list \<Rightarrow> status set" where
  "found_status fs = fi_status ` set fs"

lemma found_simps [simp]:
  "found_status [] = {}" "found_status (f # fs) = insert (fi_status f) (found_status fs)"
  "found_status (fs @ gs) = found_status fs \<union> found_status gs"
  "found_status (when_finding c f) = (if c then {fi_status f} else {})"
  by (auto simp: found_status_def when_finding_def)

lemma found_expiry:
  "s \<in> found_status (expiry_findings to_text settings now i) \<longleftrightarrow>
     s \<in> {StExpired, StExpiringSoon} \<and> has_evidence i settings now s"
  by (cases "si_expires_at i"; cases "si_provider_expires_at i")
    (auto simp: expiry_findings_def expiry_finding_def expiry_dates_def split: if_splits)

lemma freshest:
  "freshest_activity i = None \<longleftrightarrow> signs_of_use i = {}"
  "freshest_activity i = Some t \<Longrightarrow> t \<in> signs_of_use i \<and> (\<forall>u\<in>signs_of_use i. u \<le> t)"
  by (auto simp: freshest_activity_def validation_activity_def signs_of_use_def max_def
      split: option.splits if_splits)

lemma found_use:
  "s \<in> found_status (use_findings to_text settings now i) \<longleftrightarrow>
     s \<in> {StStale, StActive, StUnused} \<and> has_evidence i settings now s"
proof (cases "freshest_activity i")
  case None
  then have "signs_of_use i = {}" by (simp add: freshest)
  with None show ?thesis by (auto simp: use_findings_def)
next
  case (Some t)
  note t = freshest(2) [OF Some]
  let ?stale = "days (uint (vs_stale_days settings)) \<le> now - t"
  have "has_evidence i settings now StStale \<longleftrightarrow> ?stale" "has_evidence i settings now StActive \<longleftrightarrow> \<not> ?stale"
    "\<not> has_evidence i settings now StUnused"
    using t by force+
  with Some show ?thesis by (auto simp del: has_evidence.simps simp: use_findings_def)
qed

lemma found_status_iff:
  "s \<in> found_status (flag_findings observed i @ expiry_findings to_text settings now i
      @ doubt_findings observed i @ sharing_findings observed i @ use_findings to_text settings now i)
    \<longleftrightarrow> has_evidence i settings now s"
  by (cases s) (simp_all add: found_expiry found_use flag_findings_def doubt_findings_def sharing_findings_def)

lemma evaluate_findings:
  obtains fs where "\<And>s. (\<exists>f\<in>set fs. fi_status f = s) \<longleftrightarrow> has_evidence i settings now s"
    "sr_primary (evaluate_status to_text i settings now) =
      (case find (\<lambda>s. list_ex (\<lambda>f. fi_status f = s) fs) PRECEDENCE of Some s \<Rightarrow> s | None \<Rightarrow> StUnknown)"
    "sr_findings (evaluate_status to_text i settings now) = (if fs = [] then [no_evidence (to_text now)] else fs)"
proof
  let ?fs = "flag_findings (to_text now) i @ expiry_findings to_text settings now i
    @ doubt_findings (to_text now) i @ sharing_findings (to_text now) i @ use_findings to_text settings now i"
  show "(\<exists>f\<in>set ?fs. fi_status f = s) \<longleftrightarrow> has_evidence i settings now s" for s
    using found_status_iff [of s "to_text now" i to_text settings now] unfolding found_status_def by blast
qed (simp_all add: evaluate_status_def Let_def)

lemma finding_iff:
  "(\<exists>f\<in>set (sr_findings (evaluate_status to_text i settings now)). fi_status f = s) \<longleftrightarrow>
     has_evidence i settings now s \<or> s = StUnknown \<and> (\<nexists>s. has_evidence i settings now s)"
proof (rule evaluate_findings [of i settings now to_text])
  fix fs
  assume iff: "\<And>s. (\<exists>f\<in>set fs. fi_status f = s) \<longleftrightarrow> has_evidence i settings now s"
    and fs: "sr_findings (evaluate_status to_text i settings now) = (if fs = [] then [no_evidence (to_text now)] else fs)"
  have "(\<nexists>s. has_evidence i settings now s) \<longleftrightarrow> fs = []" using iff by (cases fs) auto
  then show ?thesis using iff fs by (auto simp: no_evidence_def)
qed

text \<open>
  The status of a credential is its most severe evidence: a status is among the findings
  exactly when there is evidence of it (or nothing at all is known), and the primary status is the
  first in the order of severity that has evidence.
\<close>

theorem status_is_worst_evidence:
  "(\<forall>s. (\<exists>f\<in>set (sr_findings (evaluate_status to_text i settings now)). fi_status f = s) \<longleftrightarrow>
      has_evidence i settings now s \<or> s = StUnknown \<and> (\<nexists>s. has_evidence i settings now s))
   \<and> sr_primary (evaluate_status to_text i settings now) =
      (case find (has_evidence i settings now) PRECEDENCE of Some s \<Rightarrow> s | None \<Rightarrow> StUnknown)"
proof -
  have "sr_primary (evaluate_status to_text i settings now) =
      (case find (has_evidence i settings now) PRECEDENCE of Some s \<Rightarrow> s | None \<Rightarrow> StUnknown)"
    by (rule evaluate_findings [of i settings now to_text]) (simp add: list_ex_iff)
  then show ?thesis by (simp add: finding_iff)
qed

end
