(* ===== verification/MonitorKeys.thy ===== *)
theory MonitorKeys
  imports MonitorProps MonitorDemo StatusProps
begin

text \<open>
  Which rule raises which key, and what an open alert therefore says: the alerts on a credential
  follow from its status, and a paused schedule is reported by one pass only.
\<close>

section \<open>The keys of the rules\<close>

lemma res_list_Inr: "res_list f xs = Inr ys \<Longrightarrow> list_all2 (\<lambda>x y. f x = Inr y) xs ys"
proof (induction xs arbitrary: ys)
  case (Cons x xs)
  then show ?case by (cases "f x"; cases "res_list f xs") (auto simp: res_then_def)
qed simp

lemma res_list_mem:
  assumes "res_list f xs = Inr ys"
  shows "y \<in> set ys \<longleftrightarrow> (\<exists>x\<in>set xs. f x = Inr y)"
  using res_list_Inr [OF assms]
  by (induction xs ys rule: list_all2_induct) auto

lemma res_list_at:
  assumes "res_list f xs = Inr ys" "x \<in> set xs"
  shows "\<exists>y\<in>set ys. f x = Inr y"
  using res_list_Inr [OF assms(1)] assms(2)
  by (induction xs ys rule: list_all2_induct) auto

lemma res_then_Inr: "res_then r f = Inr b \<longleftrightarrow> (\<exists>a. r = Inr a \<and> f a = Inr b)"
  by (cases r) (simp_all add: res_then_def)

definition local_rules :: "string list" where
  "local_rules = [''production_in_development:'', ''reused_across_projects:'', ''cost_spike:'',
     ''usage_after_disabled:'', ''over_budget:'', ''budget_incomplete:'']"

definition rotation_rules :: "string list" where
  "rotation_rules = [''rotation_due:'', ''rotation_stuck:'']"

definition has_key :: "string list \<Rightarrow> string \<Rightarrow> bool" where
  "has_key ps k \<longleftrightarrow> (\<exists>p\<in>set ps. \<exists>r. k = p @ r)"

lemmas rule_key_defs = has_key_def local_rules_def rotation_rules_def

lemma has_key_append: "has_key (ps @ qs) k \<longleftrightarrow> has_key ps k \<or> has_key qs k"
  by (auto simp: has_key_def)

lemma reuse_key: "a \<in> set (reuse_alerts c ws t) \<Longrightarrow> has_key local_rules (na_dedup_key a)"
  by (auto simp: reuse_alerts_def dedup_def Let_def rule_key_defs
      split: option.splits if_splits)

lemma spike_key: "cost_spike_alert env us i l = Some a \<Longrightarrow> has_key local_rules (na_dedup_key a)"
  by (auto simp: cost_spike_alert_def Let_def case_prod_beta rule_key_defs split: if_splits)

lemma disabled_key: "usage_after_disabled_alert env us i l d s = Some a \<Longrightarrow> has_key local_rules (na_dedup_key a)"
  by (auto simp: usage_after_disabled_alert_def Let_def rule_key_defs
      split: option.splits if_splits)

lemma budget_key: "over_budget_alert fm t r i = Some a \<Longrightarrow> has_key local_rules (na_dedup_key a)"
  by (auto simp: over_budget_alert_def rule_key_defs split: if_splits)

lemma due_key: "na_dedup_key (due_alert t s c l ps) = ''rotation_due:'' @ cr_id c"
  by (simp add: due_alert_def)

lemma option_list_mem [simp]: "a \<in> set (option_list x) \<longleftrightarrow> x = Some a"
  by (auto simp: option_list_def split: option.splits)

text \<open>A schedule that is found due is enabled, and names its credential.\<close>

lemma check_schedule_due:
  assumes "check_schedule env now s w = (Inr found, w')" "a \<in> set found"
  shows "sc_enabled s \<and> na_dedup_key a = ''rotation_due:'' @ sc_credential_id s"
proof -
  have "cr_id c = sc_credential_id s" if "credential_row_by_id (sc_credential_id s) db = Some c" for c db
    using that by (auto simp: credential_row_by_id_def find_Some_iff)
  with assms show ?thesis
    by (auto simp: check_schedule_def op_defs on_vault_def schedule_pause_def due_key Let_def
        split: if_splits option.splits sum.splits)
qed

lemma check_schedules_due:
  "check_schedules env now ss w = (Inr found, w') \<Longrightarrow> a \<in> set found \<Longrightarrow>
     \<exists>s\<in>set ss. sc_enabled s \<and> na_dedup_key a = ''rotation_due:'' @ sc_credential_id s"
proof (induction ss arbitrary: w found)
  case (Cons s ss)
  from Cons.prems(1) obtain f1 w1 f2 where one: "check_schedule env now s w = (Inr f1, w1)"
    and more: "check_schedules env now ss w1 = (Inr f2, w')" and found: "found = f1 @ f2"
    by (auto simp: ret_def elim!: andthen_InrE)
  from Cons.prems(2) found consider "a \<in> set f1" | "a \<in> set f2" by auto
  then show ?case
    by cases (use check_schedule_due [OF one] Cons.IH [OF more] in auto)
qed (simp add: ret_def)

lemma rotation_found:
  assumes "fst (rotation_monitor_alerts env now w) = Inr due" "a \<in> set due"
  shows "(\<exists>s\<in>set (rotation_schedules (mo_vault w)). sc_enabled s \<and> na_dedup_key a = ''rotation_due:'' @ sc_credential_id s)
    \<or> (\<exists>i. na_dedup_key a = ''rotation_stuck:'' @ i)"
proof -
  obtain w' where "rotation_monitor_alerts env now w = (Inr due, w')"
    using assms(1) by (cases "rotation_monitor_alerts env now w") auto
  then obtain f1 w1 where f1: "check_schedules env now (rotation_schedules (mo_vault w)) w = (Inr f1, w1)"
    and due: "due = f1 @ map (stuck_alert now (mo_vault w1))
        (filter (\<lambda>r. rn_updated_at r < st_text (me_stamps env) (me_now env - days 1)) (active_rotations (mo_vault w1)))"
    unfolding rotation_monitor_alerts_def by (auto simp: inspect_def Let_def elim!: andthen_InrE)
  from assms(2) due consider "a \<in> set f1" | r where "a = stuck_alert now (mo_vault w1) r" by auto
  then show ?thesis
    by cases (use check_schedules_due [OF f1] in \<open>auto simp: stuck_alert_def\<close>)
qed

section \<open>Alerts on credentials\<close>

lemma credential_rules_mem:
  assumes "credential_rules env source w c = Inr found" "a \<in> set found"
  shows "a \<in> set (credential_alerts c (now_text env)) \<or> has_key local_rules (na_dedup_key a)"
  using assms reuse_key spike_key disabled_key budget_key
  by (fastforce simp: credential_rules_def reuse_rule_def res_then_Inr Let_def split: if_splits option.splits)

lemma credential_rules_alerts:
  "credential_rules env source w c = Inr found \<Longrightarrow> set (credential_alerts c (now_text env)) \<subseteq> set found"
  by (auto simp: credential_rules_def res_then_Inr Let_def)

lemma project_rules_mem:
  "project_rules env source w p = Inr found \<Longrightarrow> a \<in> set found \<Longrightarrow> has_key local_rules (na_dedup_key a)"
  using budget_key by (auto simp: project_rules_def res_then_Inr Let_def)

lemma list_credentials_mem:
  assumes "list_credentials env w = Inr cs"
  shows "c \<in> set cs \<longleftrightarrow> (\<exists>row\<in>set (vd_credentials (mo_vault w)). credential_model env w row = Inr c)"
  using res_list_mem [OF assms [unfolded list_credentials_def]] by simp

lemma pass_findings_mem:
  assumes found: "pass_findings env w = Inr found"
  shows "a \<in> set found \<Longrightarrow> has_key (local_rules @ rotation_rules) (na_dedup_key a)
      \<or> (\<exists>row\<in>set (vd_credentials (mo_vault w)). \<exists>c. credential_model env w row = Inr c
            \<and> a \<in> set (credential_alerts c (now_text env)))"
    and "row \<in> set (vd_credentials (mo_vault w)) \<Longrightarrow>
      \<exists>c. credential_model env w row = Inr c \<and> set (credential_alerts c (now_text env)) \<subseteq> set found"
proof -
  from found obtain source cs as bs due where cs: "list_credentials env w = Inr cs"
    and as: "res_list (credential_rules env source w) cs = Inr as"
    and bs: "res_list (project_rules env source w) (open_projects w) = Inr bs"
    and due: "fst (rotation_monitor_alerts env (now_text env) w) = Inr due"
    and found': "found = concat as @ concat bs @ due"
    by (auto simp: pass_findings_def res_then_Inr)
  {
    assume "a \<in> set found"
    with found' consider x where "x \<in> set as" "a \<in> set x" | x where "x \<in> set bs" "a \<in> set x" | "a \<in> set due"
      by auto
    then show "has_key (local_rules @ rotation_rules) (na_dedup_key a)
      \<or> (\<exists>row\<in>set (vd_credentials (mo_vault w)). \<exists>c. credential_model env w row = Inr c
            \<and> a \<in> set (credential_alerts c (now_text env)))"
    proof cases
      case 1
      then show ?thesis using res_list_mem [OF as] list_credentials_mem [OF cs] credential_rules_mem has_key_append by blast
    next
      case 2
      then show ?thesis using res_list_mem [OF bs] project_rules_mem has_key_append by blast
    next
      case 3
      from rotation_found [OF due this] show ?thesis
        by (auto simp: rule_key_defs)
    qed
  next
    assume "row \<in> set (vd_credentials (mo_vault w))"
    then obtain c where c: "credential_model env w row = Inr c" "c \<in> set cs"
      using res_list_at [OF cs [unfolded list_credentials_def], of row] by auto
    then obtain x where "x \<in> set as" "credential_rules env source w c = Inr x"
      using res_list_at [OF as] by blast
    then show "\<exists>c. credential_model env w row = Inr c \<and> set (credential_alerts c (now_text env)) \<subseteq> set found"
      using c credential_rules_alerts found' by fastforce
  }
qed

lemma credential_alerts_mem:
  "a \<in> set (credential_alerts c t) \<longleftrightarrow> (\<exists>f\<in>set (sr_findings (cm_status c)). finding_alert c t f = Some a)"
  by (force simp: credential_alerts_def List.map_filter_def)

text \<open>Five statuses are reported, each under a kind and a key of its own.\<close>

lemma status_alert_of:
  assumes "finding_alert c t f = Some a" "na_dedup_key a = dedup (alert_kind_str kind) i"
    "finding_kind n s = Some (kind, severity, title)"
  shows "cm_id c = i \<and> fi_status f = s \<and> na_kind a = kind"
  using assms
  by (cases s; cases "fi_status f") (auto simp: finding_alert_def finding_kind_def dedup_def)

lemma alert_of_status:
  assumes kind: "finding_kind n s = Some (kind, severity, title)" and f: "fi_status f = s"
  shows "\<exists>a. finding_alert c t f = Some a \<and> na_dedup_key a = dedup (alert_kind_str kind) (cm_id c)"
  using assms by (cases s) (simp_all add: finding_alert_def finding_kind_def)

lemma status_alerts:
  assumes kind: "finding_kind n s = Some (kind, severity, title)"
  shows "(\<exists>a\<in>set (credential_alerts c t). na_dedup_key a = dedup (alert_kind_str kind) i) \<longleftrightarrow>
     cm_id c = i \<and> (\<exists>f\<in>set (sr_findings (cm_status c)). fi_status f = s)"
  unfolding credential_alerts_mem Bex_def
  using status_alert_of [OF _ _ kind] alert_of_status [OF kind] by blast

lemma status_key_own:
  assumes "finding_kind n s = Some (kind, severity, title)"
  shows "\<not> has_key (local_rules @ rotation_rules) (dedup (alert_kind_str kind) i)"
    "na_dedup_key (exposure_alert t rp) \<noteq> dedup (alert_kind_str kind) i"
    "kind \<in> set managed_kinds"
  using assms
  by (cases s; simp add: finding_kind_def rule_key_defs dedup_def exposure_alert_def
      managed_kinds_def managed_credential_kinds_def; fastforce)+

text \<open>The evidence on a row: its status inputs are what its columns say at the time of the pass.\<close>

definition credential_evidence :: "monitor_env \<Rightarrow> monitor_db \<Rightarrow> credential_row \<Rightarrow> status \<Rightarrow> bool" where
  "credential_evidence env w row s \<longleftrightarrow>
     (\<exists>shared_with is_reference e created.
        sharing_info row (mo_vault w) = Inr (shared_with, is_reference)
      \<and> parse_environment (cr_environment row) = Inr e
      \<and> parse_rfc3339 (me_stamps env) (cd_created_at (mo_details w (cr_id row))) = Inr created
      \<and> has_evidence (status_inputs_of (me_stamps env) row (mo_details w (cr_id row)) shared_with is_reference e created)
          (mo_settings w) (me_now env) s)"

lemma credential_findings:
  assumes "credential_model env w row = Inr c"
  shows "cm_id c = cr_id row"
    and "s \<noteq> StUnknown \<Longrightarrow>
      (\<exists>f\<in>set (sr_findings (cm_status c)). fi_status f = s) \<longleftrightarrow> credential_evidence env w row s"
proof -
  from assms obtain sw sr e created where c: "cm_id c = cr_id row"
    "cm_status c = evaluate_status (st_text (me_stamps env))
       (status_inputs_of (me_stamps env) row (mo_details w (cr_id row)) sw sr e created) (mo_settings w) (me_now env)"
    and inputs: "sharing_info row (mo_vault w) = Inr (sw, sr)" "parse_environment (cr_environment row) = Inr e"
      "parse_rfc3339 (me_stamps env) (cd_created_at (mo_details w (cr_id row))) = Inr created"
    by (auto simp: credential_model_def Let_def res_then_Inr)
  show "cm_id c = cr_id row" by (rule c(1))
  assume "s \<noteq> StUnknown"
  then show "(\<exists>f\<in>set (sr_findings (cm_status c)). fi_status f = s) \<longleftrightarrow> credential_evidence env w row s"
    unfolding c(2) by (simp add: finding_iff credential_evidence_def inputs)
qed

text \<open>
  C33. After a monitor pass a credential has an open alert of a kind that reports a status (expired,
  expiring soon, stale, unused, possibly exposed) exactly when its columns are evidence of that
  status at the time of the pass, provided no other pass uses the key of that alert.
\<close>

theorem credential_alert_iff_evidence:
  assumes run: "run_monitor env clk passes w = (Inr summary, w')"
    and table: "alert_table (mo_alerts w)" "fresh_ids env (mo_alerts w)"
    and row: "row \<in> set (vd_credentials (mo_vault w))" "distinct (map cr_id (vd_credentials (mo_vault w)))"
    and kind: "finding_kind n s = Some (kind, severity, title)"
    and kinds: "\<forall>r\<in>set (mo_alerts w). al_dedup_key r = dedup (alert_kind_str kind) (cr_id row)
      \<longrightarrow> al_kind r = alert_kind_str kind"
    and foreign: "\<And>a. foreign_finding passes a \<Longrightarrow> na_dedup_key a \<noteq> dedup (alert_kind_str kind) (cr_id row)"
  shows "(\<exists>r\<in>set (mo_alerts w'). is_open r \<and> al_dedup_key r = dedup (alert_kind_str kind) (cr_id row)
        \<and> al_kind r = alert_kind_str kind)
    \<longleftrightarrow> credential_evidence env w row s"
proof -
  let ?k = "dedup (alert_kind_str kind) (cr_id row)"
  from pass_reconciles [OF run table] obtain found where
    found: "pass_findings env w = Inr found" and keys: "na_dedup_key ` set found \<subseteq> open_keys (mo_alerts w')"
    and managed: "\<forall>r\<in>set (mo_alerts w'). is_open r \<and> al_kind r \<in> alert_kind_str ` set managed_kinds \<longrightarrow>
            (\<exists>a. (a \<in> set found \<or> foreign_finding passes a) \<and> na_dedup_key a = al_dedup_key r)"
    and born: "\<forall>r\<in>set (mo_alerts w'). (\<exists>old\<in>set (mo_alerts w). same_alert old r)
          \<or> (\<exists>a. (a \<in> set found \<or> foreign_finding passes a \<or> (\<exists>rp. a = exposure_alert (now_text env) rp)) \<and> born a r)"
    by blast
  obtain c where c: "credential_model env w row = Inr c" and alerts: "set (credential_alerts c (now_text env)) \<subseteq> set found"
    using pass_findings_mem(2) [OF found row(1)] by blast
  have own: "na_kind a = kind \<and> a \<in> set (credential_alerts c (now_text env))"
    if "a \<in> set found" "na_dedup_key a = ?k" for a
  proof -
    from pass_findings_mem(1) [OF found that(1)] that(2) status_key_own(1) [OF kind] obtain row' c' where
      c': "row' \<in> set (vd_credentials (mo_vault w))" "credential_model env w row' = Inr c'"
        "a \<in> set (credential_alerts c' (now_text env))" by auto
    then have "na_kind a = kind" "cm_id c' = cr_id row"
      using status_alert_of [OF _ _ kind] that(2) by (auto simp: credential_alerts_mem)
    with c' row c show ?thesis using credential_findings(1) [OF c'(2)] by (metis distinct_map inj_onD sum.inject(2))
  qed
  have "?k \<in> na_dedup_key ` set found \<longleftrightarrow> (\<exists>f\<in>set (sr_findings (cm_status c)). fi_status f = s)"
    using own alerts status_alerts [OF kind, of c "now_text env" "cr_id row"] credential_findings(1) [OF c]
    by (force simp: image_iff)
  moreover have "s \<noteq> StUnknown" using kind by (auto simp: finding_kind_def)
  ultimately have raised: "?k \<in> na_dedup_key ` set found \<longleftrightarrow> credential_evidence env w row s"
    using credential_findings(2) [OF c] by blast
  have row_kind: "al_kind r = alert_kind_str kind" if r: "r \<in> set (mo_alerts w')" "al_dedup_key r = ?k" for r
  proof -
    consider old where "old \<in> set (mo_alerts w)" "same_alert old r" | a where "a \<in> set found" "born a r"
      using born r foreign status_key_own(2) [OF kind] by (metis born_def)
    then show ?thesis by cases (use r kinds own in \<open>auto simp: same_alert_def born_def\<close>)
  qed
  have "(\<exists>r\<in>set (mo_alerts w'). is_open r \<and> al_dedup_key r = ?k \<and> al_kind r = alert_kind_str kind)
    \<longleftrightarrow> ?k \<in> na_dedup_key ` set found"
  proof (intro iffI)
    assume "\<exists>r\<in>set (mo_alerts w'). is_open r \<and> al_dedup_key r = ?k \<and> al_kind r = alert_kind_str kind"
    then show "?k \<in> na_dedup_key ` set found"
      using managed foreign status_key_own(3) [OF kind] by (metis imageI)
  next
    assume "?k \<in> na_dedup_key ` set found"
    then have "?k \<in> open_keys (mo_alerts w')" using keys by blast
    then obtain r where "r \<in> set (mo_alerts w')" "is_open r" "al_dedup_key r = ?k" unfolding open_keys_def by auto
    then show "\<exists>r\<in>set (mo_alerts w'). is_open r \<and> al_dedup_key r = ?k \<and> al_kind r = alert_kind_str kind"
      using row_kind by blast
  qed
  then show ?thesis using raised by blast
qed

lemma demo_fresh: "alert_table (mo_alerts demo_tables)" "fresh_ids demo_monitor (mo_alerts demo_tables)"
proof -
  show "alert_table (mo_alerts demo_tables)"
    by (simp add: alert_table_def demo_tables_def demo_alert_def)
  have "inj (\<lambda>n. ''id'' @ dec_of_nat n)"
    by (rule injI) (metis digits_value_dec option.inject same_append_eq)
  then show "fresh_ids demo_monitor (mo_alerts demo_tables)"
    by (simp add: fresh_ids_def demo_monitor_def demo_tables_def demo_alert_def)
qed

lemma demo_run:
  obtains summary w where "run_monitor demo_monitor demo_ticks demo_passes demo_tables = (Inr summary, w)"
    "map (\<lambda>r. (al_dedup_key r, is_open r)) (mo_alerts w)
      = [(''stale:c'', False), (''provider_sync_failed:p'', True), (''expired:c'', True), (''rotation_due:c'', True)]"
proof -
  obtain r w where run: "run_monitor demo_monitor demo_ticks demo_passes demo_tables = (r, w)" by fastforce
  with demo_pass_facts that [of _ w] show thesis by (cases r) (simp_all add: demo_pass_def)
qed

theorem credential_alert_iff_evidence_witness:
  "\<exists>summary w. run_monitor demo_monitor demo_ticks demo_passes demo_tables = (Inr summary, w)
    \<and> ((\<exists>r\<in>set (mo_alerts w). is_open r \<and> al_dedup_key r = ''expired:c'' \<and> al_kind r = ''expired'')
        \<longleftrightarrow> credential_evidence demo_monitor demo_tables demo_key StExpired)"
proof (rule demo_run)
  fix summary w
  assume run: "run_monitor demo_monitor demo_ticks demo_passes demo_tables = (Inr summary, w)"
  obtain title where "finding_kind [] StExpired = Some (AkExpired, SevHigh, title)"
    by (simp add: finding_kind_def)
  note iff = credential_alert_iff_evidence [OF run demo_fresh, of demo_key, OF _ _ this]
  show ?thesis
    using iff run by (fastforce simp: demo_tables_def demo_alert_def demo_key_def dedup_def foreign_finding_def demo_passes_def)
qed

section \<open>A paused schedule\<close>

lemma due_finding:
  assumes found: "pass_findings env w = Inr found" and a: "a \<in> set found" "na_dedup_key a = ''rotation_due:'' @ i"
  shows "\<exists>s\<in>set (vd_schedules (mo_vault w)). sc_enabled s \<and> sc_credential_id s = i"
proof -
  have own: "\<not> has_key local_rules (na_dedup_key a)" using a(2) by (simp add: rule_key_defs)
  have status: "a \<notin> set (credential_alerts c t)" for c t
    using a(2) by (auto simp: credential_alerts_mem finding_alert_def finding_kind_def dedup_def split: status.splits)
  from found obtain source cs as bs due where
    as: "res_list (credential_rules env source w) cs = Inr as"
    and bs: "res_list (project_rules env source w) (open_projects w) = Inr bs"
    and due: "fst (rotation_monitor_alerts env (now_text env) w) = Inr due"
    and found': "found = concat as @ concat bs @ due"
    by (auto simp: pass_findings_def res_then_Inr)
  from a(1) found' consider x where "x \<in> set as" "a \<in> set x" | x where "x \<in> set bs" "a \<in> set x" | "a \<in> set due"
    by auto
  then show ?thesis
  proof cases
    case 1
    then show ?thesis using res_list_mem [OF as] credential_rules_mem own status by blast
  next
    case 2
    then show ?thesis using res_list_mem [OF bs] project_rules_mem own by blast
  next
    case 3
    from rotation_found [OF due this] a(2) show ?thesis by (auto simp: rotation_schedules_def)
  qed
qed

text \<open>
  A schedule that fails its preflight is paused and reported once: the next pass finds it disabled,
  does not raise the alert again, and so resolves it, although the schedule is still paused.
\<close>

lemma paused_alert_resolved:
  assumes run: "run_monitor env clk passes w = (Inr summary, w')"
    and table: "alert_table (mo_alerts w)" "fresh_ids env (mo_alerts w)"
    and paused: "\<forall>s\<in>set (vd_schedules (mo_vault w)). sc_credential_id s = i \<longrightarrow> \<not> sc_enabled s"
    and foreign: "\<And>a. foreign_finding passes a \<Longrightarrow> na_dedup_key a \<noteq> ''rotation_due:'' @ i"
    and r: "r \<in> set (mo_alerts w')" "al_dedup_key r = ''rotation_due:'' @ i" "al_kind r = ''rotation_due''"
  shows "\<not> is_open r"
proof
  assume "is_open r"
  moreover have "''rotation_due'' \<in> alert_kind_str ` set managed_kinds"
    by (rule image_eqI [of _ _ AkRotationDue]) (simp_all add: managed_kinds_def)
  moreover obtain found where found: "pass_findings env w = Inr found"
    and managed: "\<forall>r\<in>set (mo_alerts w'). is_open r \<and> al_kind r \<in> alert_kind_str ` set managed_kinds \<longrightarrow>
            (\<exists>a. (a \<in> set found \<or> foreign_finding passes a) \<and> na_dedup_key a = al_dedup_key r)"
    using pass_reconciles [OF run table] by blast
  ultimately obtain a where a: "a \<in> set found" "na_dedup_key a = ''rotation_due:'' @ i"
    using r foreign by metis
  with due_finding [OF found] paused show False by blast
qed

text \<open>
  C36. A monitor pass that returns leaves the table of alerts in order: every finding of its rules is
  an open alert, and every open alert of a kind it manages is a finding of this pass; open alerts of
  other kinds stay open, a resolved alert stays as it is, and a key never has two open alerts.
\<close>

theorem monitor_pass_reconciles:
  assumes run: "run_monitor env clk passes w = (Inr summary, w')"
    and table: "alert_table (mo_alerts w)" and ids: "fresh_ids env (mo_alerts w)"
  shows "alert_table (mo_alerts w') \<and> rows_evolve (mo_alerts w) (mo_alerts w')
    \<and> ms_open_alerts summary = card (open_keys (mo_alerts w'))
    \<and> (\<exists>found. pass_findings env w = Inr found
      \<and> na_dedup_key ` set found \<subseteq> open_keys (mo_alerts w')
      \<and> (\<forall>r\<in>set (mo_alerts w'). is_open r \<and> al_kind r \<in> alert_kind_str ` set managed_kinds \<longrightarrow>
            (\<exists>a. (a \<in> set found \<or> foreign_finding passes a) \<and> na_dedup_key a = al_dedup_key r))
      \<and> (\<forall>r\<in>set (mo_alerts w'). (\<exists>old\<in>set (mo_alerts w). same_alert old r)
          \<or> (\<exists>a. (a \<in> set found \<or> foreign_finding passes a \<or> (\<exists>rp. a = exposure_alert (now_text env) rp)) \<and> born a r)))
    \<and> (\<forall>r\<in>set (mo_alerts w). is_open r \<and> al_kind r \<notin> alert_kind_str ` set managed_kinds \<longrightarrow>
          (\<exists>r'\<in>set (mo_alerts w'). is_open r' \<and> same_alert r r'))"
  by (rule pass_reconciles [OF assms])

theorem monitor_pass_reconciles_witness:
  "\<exists>summary w. run_monitor demo_monitor demo_ticks demo_passes demo_tables = (Inr summary, w)
    \<and> alert_table (mo_alerts w) \<and> rows_evolve (mo_alerts demo_tables) (mo_alerts w)
    \<and> map (\<lambda>r. (al_dedup_key r, is_open r)) (mo_alerts w)
      = [(''stale:c'', False), (''provider_sync_failed:p'', True), (''expired:c'', True), (''rotation_due:c'', True)]"
proof (rule demo_run)
  fix summary w
  assume run: "run_monitor demo_monitor demo_ticks demo_passes demo_tables = (Inr summary, w)"
    and rows: "map (\<lambda>r. (al_dedup_key r, is_open r)) (mo_alerts w)
      = [(''stale:c'', False), (''provider_sync_failed:p'', True), (''expired:c'', True), (''rotation_due:c'', True)]"
  note left = monitor_pass_reconciles [OF run demo_fresh]
  show ?thesis
    by (intro exI conjI, rule run, rule conjunct1 [OF left], rule conjunct1 [OF conjunct2 [OF left]], rule rows)
qed

end
