(* ===== verification/Spec2Isabelle.thy ===== *)
theory Spec2Isabelle
  imports HeadProps ChunkProps PolicyProps RouteProps RouteStateProps EnvProps CredProps RotationProps SyncProps
    SanitizeProps ClientHelloProps CostProps PricingProps CoverageProps MonitorKeys
begin

text \<open>
  A verification library for Tethra (API-Tracker): the parts of its Rust crates that carry a
  security argument, translated definition by definition, with the theorems that make them
  correct. This root theory only collects the others; properties C1 to C40 stand in the theories
  named \<open>..Props\<close>, each after a text block with its number.

  \<^bold>\<open>What is modelled.\<close> The program keeps API keys in an encrypted vault, forwards requests of
  local tools to providers through a gateway that adds the key, rotates keys, and writes their
  values to the places that use them. Eight parts:

  \<^item> The gateway's HTTP/1.1 handling (crates/gateway/src/head.rs and stream.rs). \<open>Stream_Model\<close>
    holds readers and sinks as event lists, \<open>HttpHead\<close> the bounded head readers, the framing
    decision and the regenerated heads, \<open>ChunkRelay\<close> the strict chunked relay, the plain relay and
    the deadline reader. \<open>HeadProps\<close> (C1 to C7): a strict recipient of what the gateway writes
    agrees with it about every boundary, no field that must not pass does, reads do not depend on
    segmentation and lose no byte. \<open>ChunkProps\<close> (C8, C9): exactly the grammar is relayed.
  \<^item> Destinations (crates/observe/src/policy.rs, crates/core/src/providers.rs,
    crates/gateway/src/routes.rs). \<open>Policy\<close> classifies addresses and names, \<open>Providers\<close> holds
    manifests, \<open>Routes\<close> the route table, its message authentication and every table operation,
    \<open>RouteState\<close> the snapshot processes forward from. \<open>PolicyProps\<close> (C11 to C14),
    \<open>RouteProps\<close> (C16, C17, C20), \<open>RouteStateProps\<close> (C25 to C27): what may be forwarded to, that a
    consented route cannot be altered, and what the live reload guarantees. The address a name
    denotes is specified from the notation of inet_aton, not from the code's reading of it; C25
    notes beside each run of the route state what every reload read, and says which table it forwards.
  \<^item> Files with keys (crates/core/src/envfile.rs). \<open>EnvFile\<close> parses, edits and renders .env
    documents, \<open>KeyedStore\<close> is the interface a document meets. \<open>EnvProps\<close> (C21 to C23).
  \<^item> Credential values and their rotation (crates/core/src/rotation.rs and the rotation part of
    crates/core/src/vault.rs). \<open>VaultDb\<close> has the tables as lists of rows and the clock,
    \<open>RotationStore\<close> every operation of rotation.rs, \<open>CredValues\<close> finding, replacing and reading
    back values, \<open>RotationFlow\<close> planning and approving, \<open>RotationAdvance\<close> the loop, one definition
    per arm of its match, \<open>RotationFinish\<close> the other ends. \<open>CredProps\<close> (C37, C38) and
    \<open>RotationProps\<close> (C30 to C32, C34, C35). \<open>Reuse\<close> has the fingerprints and warnings of
    crates/core/src/reuse.rs that a replacement reports.
  \<^item> Synchronization (crates/core/src/destinations.rs without its adapters, all of syncplan.rs, and
    the engine in vault.rs). \<open>DestCatalog\<close> has the kinds of destinations, \<open>SyncStore\<close> the
    tables, \<open>SyncEngine\<close> configuration and planning, \<open>SyncRun\<close> execution with verification,
    rollback, rewriting of exported files and the drift check. \<open>SyncSound\<close> and \<open>SyncHistory\<close> carry
    the invariant of stored plans through every operation, \<open>SyncUndo\<close> what a rollback leaves of each
    step; \<open>SyncProps\<close> (C39, C40) has the properties and a concrete run.

  \<^item> Observation of requests (crates/core/src/runtime/sanitize.rs, crates/observe/src/clienthello.rs).
    \<open>Sanitize\<close> turns request targets into templates and redacts command labels, with the vowel
    ratio compared as whole numbers; \<open>SanitizeProps\<close> (C15, C18) shows what a template keeps of
    its target, segment by segment, and what it cannot carry.
    \<open>ClientHello\<close> reads names and protocols from the first bytes of a TLS connection,
    \<open>ClientHelloProps\<close> (C24) has the encoder it inverts. \<open>Strings\<close> has what splitting, joining and
    runs of bytes have in common.
  \<^item> The cost of usage (crates/core/src/clock.rs, usage.rs, pricing.rs, budget.rs,
    projectcost.rs). \<open>Ints\<close> has saturating 64-bit arithmetic and printed amounts, \<open>Clock\<close> dates and time
    stamps, \<open>Usage\<close> the snapshots and their totals, \<open>Pricing\<close> the records, the bundled table and the
    choice of a record, \<open>PricingOps\<close> overrides, imports, exports and estimates, \<open>Budget\<close> the
    three-valued verdict and its alert, \<open>ProjectCost\<close> the estimate of a project with what it could
    not price. \<open>CostProps\<close> (C10): a verdict says exactly what the
    records prove. \<open>PricingProps\<close> (C19, C28): the best record is chosen and the table stays well
    typed. \<open>CoverageProps\<close> (C29): an estimate accounts for all usage.
  \<^item> Monitoring (crates/core/src/settings.rs, status.rs, monitor.rs, activity.rs, alerts.rs and
    \<open>run_monitor\<close> in vault.rs). \<open>Settings\<close> and \<open>Status\<close> hold the settings and the evidence on a
    credential, \<open>Monitor\<close> the rules, \<open>Alerts\<close> the table of alerts, \<open>MonitorRun\<close> one pass.
    \<open>StatusProps\<close> states the evidence without the code's order, \<open>AlertTable\<close> what the operations keep
    of the table, \<open>MonitorProps\<close> what a pass raises and resolves; \<open>MonitorKeys\<close> (C33, C36): a pass
    reconciles the table with what its rules find, and an alert on a credential is open exactly when
    there is evidence. \<open>MonitorDemo\<close> is a concrete vault.

  \<^bold>\<open>How the parts are built.\<close> \<open>Base\<close> has the errors of crates/core/src/error.rs and the string
  functions of the standard library the code uses; strings are byte lists, so a character beyond
  ASCII is its UTF-8 bytes. \<open>Effects\<close> has state passing with errors: an operation returns its
  result and the state it leaves also when it fails, because every statement of the database
  commits on its own; \<open>in_txn\<close> is a transaction an error rolls back. Its locale \<open>evolution\<close> proves,
  once for every reflexive and transitive evolution, how guarantees of operations compose;
  \<open>RotationRefine\<close> interprets it on the evolution of the vault, \<open>SyncSound\<close> on that of the plans.

  \<^bold>\<open>The rotation proof.\<close> \<open>RotationMachine\<close> is the abstract machine a row follows: allowed
  transitions and what must hold of the row when they happen, fields written once or only after
  validation, and the timeline as a path. \<open>RotationRefine\<close> shows that every operation refines it,
  for a row that may have been read arbitrarily long before: all that is assumed of such a row is
  that the stored one is reached from it. \<open>RotationHistory\<close> has the histories: processes load rows
  and act for them at any later time, interleaved at the granularity of the loop of
  \<open>rotation_advance\<close>, while the rest of the vault and the outside world change freely. The two
  statements of a transition count as one step of a history; \<open>claim_unrecorded\<close> in \<open>RotationProps\<close> says
  what a process leaves that dies between them. A call to a provider is recorded with the vault it
  found, so that C31 speaks of what stood in the timeline before a revocation was sent.
  \<open>RotationLoop\<close> shows that an iteration that goes on moves its row strictly closer to the end, so
  the source's bound of twelve (eight are enough) never cuts an advance short. \<open>RotationDemo\<close> is a
  concrete vault the theorems are applied to.

  \<^bold>\<open>Bounds.\<close> Loops over input are recursive over it or bounded by the source's own limits
  (\<open>MAX_HEAD\<close>, \<open>MAX_CHUNK_LINE\<close>, \<open>MAX_TRAILER\<close>, \<open>MAX_STEPS\<close>); there is no other fuel. Addresses
  are 8, 16 and 32 bit words; content lengths and chunk sizes are parsed with the 64 bit limit;
  interval arithmetic of schedules is written out modulo 2 to the 64. Costs saturate or are stated
  with the bounds they need. Sums of token counts wrap as in the release build, and the sums SQLite
  takes of columns are an error outside 64 bits; C29 has the bounds under which neither happens.
  Token counts are stored from 0 on; a negative sum of input tokens, for which the source's clamp
  panics, is outside the model.

  \<^bold>\<open>Parameters.\<close> Code that is not in the repository is an argument of the definitions that use it:
  the status httparse reports on a byte prefix, BLAKE3 keyed hashing, Unicode lower-casing, TOML
  parsing and regular expressions of manifests, JSON and the rounding of doubles in prices, the clock and its texts, random identifiers, the
  provider APIs, administrative secrets and destination adapters (functions on an external
  state; the rotation workflow sees the whole sync engine as one), and whether a password or a project key is at hand. Encryption is transparent: a
  ciphertext stands for its plain text under the key of its row. Every theorem with a hypothesis
  on a parameter is applied to a concrete one.

  \<^bold>\<open>Not modelled.\<close> Failures of the SQL engine other than the constraints named; the attribution written back to usage rows when a key is linked;
  sockets, threads and TLS; the command line and desktop front ends, which call the vault; the
  monitor's passes over provider connections, repositories and traffic (arguments of a pass), the
  control service of the gateway and the tracking crate, which inspect files and processes.
\<close>

end
